(* ===== verification/Prelude.thy ===== *)
theory Prelude
  imports Main "HOL-Library.AList" "HOL-Library.Char_ord" "HOL-Library.List_Lexorder"
    "HOL-Library.Sublist" "HOL-Library.Word"
begin

text \<open>
  Shared vocabulary of the development: results with Go errors, early-return
  loops, Go maps (with the nil map kept apart from the empty one), and the
  functions of the packages \<open>sort\<close>, \<open>strings\<close> and \<open>strconv\<close> that the
  operator calls. Strings are Go strings, that is byte sequences; case mapping
  and trimming are those of ASCII text, the only text the operator compares.
\<close>

named_theorems res_simps "equations and characterisations of results"
named_theorems gomap_simps "lookup in Go maps"

section \<open>Results\<close>

text \<open>
  An error value keeps the format string of the \<open>fmt.Errorf\<close> call that made
  it and its operands; \<open>Wrapf\<close> is a call whose last operand is the wrapped
  error (the verb \<open>%w\<close>). \<open>LibError\<close> is an error a library call returned. A
  run-time panic and a loop that never ends are not errors of the program:
  they are kept as the values \<open>Panic\<close> and \<open>Diverges\<close>, which no caller wraps.
\<close>

datatype gerror =
    Errorf string "string list"
  | Wrapf string "string list" gerror
  | LibError string
  | Panic string
  | Diverges

type_synonym 'a res = "gerror + 'a"

fun wrapf :: "string \<Rightarrow> string list \<Rightarrow> gerror \<Rightarrow> gerror" where
  "wrapf fmt args (Panic m) = Panic m"
| "wrapf fmt args Diverges = Diverges"
| "wrapf fmt args e = Wrapf fmt args e"

fun is_go_error :: "gerror \<Rightarrow> bool" where
  "is_go_error (Panic m) = False"
| "is_go_error Diverges = False"
| "is_go_error (Wrapf fmt args e) = is_go_error e"
| "is_go_error e = True"

lemma is_go_error_wrapf [simp]: "is_go_error (wrapf fmt args e) = is_go_error e"
  by (cases e) simp_all

fun rbind :: "'a res \<Rightarrow> ('a \<Rightarrow> 'b res) \<Rightarrow> 'b res" where
  "rbind (Inl e) f = Inl e"
| "rbind (Inr x) f = f x"

definition rwrap :: "string \<Rightarrow> string list \<Rightarrow> 'a res \<Rightarrow> 'a res" where
  "rwrap fmt args r = (case r of Inl e \<Rightarrow> Inl (wrapf fmt args e) | Inr x \<Rightarrow> Inr x)"

lemma rbind_eq_Inr [res_simps]: "rbind r f = Inr y \<longleftrightarrow> (\<exists>x. r = Inr x \<and> f x = Inr y)"
  by (cases r) auto

lemma rbind_eq_Inl [res_simps]:
  "rbind r f = Inl e \<longleftrightarrow> r = Inl e \<or> (\<exists>x. r = Inr x \<and> f x = Inl e)"
  by (cases r) auto

lemma rwrap_Inr [simp]: "rwrap fmt args (Inr x) = Inr x"
  by (simp add: rwrap_def)

lemma rwrap_Inl [simp]: "rwrap fmt args (Inl e) = Inl (wrapf fmt args e)"
  by (simp add: rwrap_def)

lemma rwrap_eq_Inr [res_simps]: "rwrap fmt args r = Inr x \<longleftrightarrow> r = Inr x"
  by (cases r) (auto simp: rwrap_def)

lemma rwrap_eq_Inl [res_simps]:
  "rwrap fmt args r = Inl e \<longleftrightarrow> (\<exists>e'. r = Inl e' \<and> e = wrapf fmt args e')"
  by (cases r) (auto simp: rwrap_def)

text \<open>A result is safe when it is a value or an ordinary Go error.\<close>

definition safe :: "'a res \<Rightarrow> bool" where
  "safe r \<longleftrightarrow> (\<forall>e. r = Inl e \<longrightarrow> is_go_error e)"

lemma safe_Inr [simp, intro]: "safe (Inr x)"
  by (simp add: safe_def)

lemma safe_Inl [simp]: "safe (Inl e) \<longleftrightarrow> is_go_error e"
  by (simp add: safe_def)

lemma safe_rbind [intro]: "safe r \<Longrightarrow> (\<And>x. r = Inr x \<Longrightarrow> safe (f x)) \<Longrightarrow> safe (rbind r f)"
  by (cases r) auto

lemma safe_rwrap [simp]: "safe (rwrap fmt args r) \<longleftrightarrow> safe r"
  by (cases r) (auto simp: safe_def)

subsection \<open>Loops that append to a slice and return at the first error\<close>

text \<open>
  \<open>for_each body xs\<close> is \<open>for _, x := range xs\<close> around a body that appends some
  values to the output slice (none when it reaches \<open>continue\<close>) or returns an
  error from the enclosing function.
\<close>

fun for_each :: "('a \<Rightarrow> 'b list res) \<Rightarrow> 'a list \<Rightarrow> 'b list res" where
  "for_each body [] = Inr []"
| "for_each body (x # xs) =
     rbind (body x) (\<lambda>ys. rbind (for_each body xs) (\<lambda>zs. Inr (ys @ zs)))"

lemma for_each_append:
  "for_each f (xs @ ys) = rbind (for_each f xs) (\<lambda>us. rbind (for_each f ys) (\<lambda>vs. Inr (us @ vs)))"
proof (induction xs)
  case Nil
  show ?case by (cases "for_each f ys") auto
next
  case (Cons x xs)
  then show ?case
    by (cases "f x"; cases "for_each f xs"; cases "for_each f ys") auto
qed

lemma for_each_Inr_iff:
  "for_each f xs = Inr ys \<longleftrightarrow> (\<exists>yss. list_all2 (\<lambda>x zs. f x = Inr zs) xs yss \<and> ys = concat yss)"
  by (induction xs arbitrary: ys) (force simp: res_simps list_all2_Cons1)+

lemma for_each_set:
  assumes "for_each f xs = Inr ys"
  shows "y \<in> set ys \<longleftrightarrow> (\<exists>x \<in> set xs. \<exists>zs. f x = Inr zs \<and> y \<in> set zs)"
  using assms by (induction xs arbitrary: ys) (auto simp: res_simps)

lemma for_each_body_ok: "for_each f xs = Inr ys \<Longrightarrow> x \<in> set xs \<Longrightarrow> \<exists>zs. f x = Inr zs"
  by (induction xs arbitrary: ys) (auto simp: res_simps)

lemma for_each_total: "(\<And>x. x \<in> set xs \<Longrightarrow> f x = Inr (g x)) \<Longrightarrow> for_each f xs = Inr (concat (map g xs))"
  by (induction xs) auto

lemma for_each_cong [fundef_cong]:
  "xs = ys \<Longrightarrow> (\<And>x. x \<in> set ys \<Longrightarrow> f x = g x) \<Longrightarrow> for_each f xs = for_each g ys"
  by (induction ys arbitrary: xs) auto

text \<open>The error a loop returns is the one of its first failing iteration.\<close>

lemma for_each_first_error:
  "for_each f xs = Inl e \<longleftrightarrow>
     (\<exists>us x vs. xs = us @ x # vs \<and> (\<forall>u \<in> set us. \<exists>zs. f u = Inr zs) \<and> f x = Inl e)"
proof (induction xs)
  case Nil
  then show ?case by simp
next
  case (Cons x xs)
  let ?split = "\<lambda>ys us y vs. ys = us @ y # vs \<and> (\<forall>u \<in> set us. \<exists>zs. f u = Inr zs) \<and> f y = Inl e"
  have split: "(\<exists>us y vs. ?split (x # xs) us y vs) \<longleftrightarrow>
      f x = Inl e \<or> (\<exists>zs. f x = Inr zs) \<and> (\<exists>us y vs. ?split xs us y vs)"
    (is "?L \<longleftrightarrow> ?R")
  proof
    assume ?L
    then obtain us y vs where "?split (x # xs) us y vs" by blast
    then show ?R by (cases us) auto
  next
    assume ?R
    then show ?L
    proof
      assume "f x = Inl e"
      then have "?split (x # xs) [] x xs" by simp
      then show ?L by blast
    next
      assume *: "(\<exists>zs. f x = Inr zs) \<and> (\<exists>us y vs. ?split xs us y vs)"
      then obtain us y vs where "?split xs us y vs" by blast
      with * have "?split (x # xs) (x # us) y vs" by auto
      then show ?L by blast
    qed
  qed
  show ?case unfolding split using Cons.IH by (cases "f x") (auto simp: rbind_eq_Inl)
qed

lemma safe_for_each [intro]: "(\<And>x. x \<in> set xs \<Longrightarrow> safe (f x)) \<Longrightarrow> safe (for_each f xs)"
  by (induction xs) (auto intro!: safe_rbind)

text \<open>The same loop when every iteration appends exactly one value.\<close>

definition rmap :: "('a \<Rightarrow> 'b res) \<Rightarrow> 'a list \<Rightarrow> 'b list res" where
  "rmap f xs = for_each (\<lambda>x. rbind (f x) (\<lambda>y. Inr [y])) xs"

lemma rmap_Nil [simp]: "rmap f [] = Inr []"
  by (simp add: rmap_def)

lemma rmap_Cons [simp]: "rmap f (x # xs) = rbind (f x) (\<lambda>y. rbind (rmap f xs) (\<lambda>ys. Inr (y # ys)))"
  by (cases "f x") (simp_all add: rmap_def)

lemma rmap_Inr_iff: "rmap f xs = Inr ys \<longleftrightarrow> list_all2 (\<lambda>x y. f x = Inr y) xs ys"
  by (induction xs arbitrary: ys) (auto simp: res_simps list_all2_Cons1)

lemma rmap_total: "(\<And>x. x \<in> set xs \<Longrightarrow> f x = Inr (g x)) \<Longrightarrow> rmap f xs = Inr (map g xs)"
  by (induction xs) auto

lemma safe_rmap [intro]: "(\<And>x. x \<in> set xs \<Longrightarrow> safe (f x)) \<Longrightarrow> safe (rmap f xs)"
  unfolding rmap_def by (rule safe_for_each) auto

section \<open>Go maps\<close>

text \<open>
  A Go map is a reference that may be nil. \<open>None\<close> is the nil map and
  \<open>Some kvs\<close> an allocated map holding the pairs \<open>kvs\<close>, one per key
  (\<open>gomap_wf\<close>). Reading a nil map is reading an empty one.
\<close>

type_synonym 'v gomap = "(string \<times> 'v) list option"

definition entries :: "'v gomap \<Rightarrow> (string \<times> 'v) list" where
  "entries m = (case m of None \<Rightarrow> [] | Some kvs \<Rightarrow> kvs)"

definition glookup :: "'v gomap \<Rightarrow> string \<Rightarrow> 'v option" where
  "glookup m k = map_of (entries m) k"

definition glen :: "'v gomap \<Rightarrow> nat" where
  "glen m = length (entries m)"

definition gomap_wf :: "'v gomap \<Rightarrow> bool" where
  "gomap_wf m \<longleftrightarrow> distinct (map fst (entries m))"

text \<open>\<open>m[k] = v\<close>, on a map that the code has allocated.\<close>

definition gput :: "string \<Rightarrow> 'v \<Rightarrow> 'v gomap \<Rightarrow> 'v gomap" where
  "gput k v m = Some (AList.update k v (entries m))"

text \<open>\<open>for k, v := range src { dst[k] = v }\<close>.\<close>

definition copy_into :: "(string \<times> 'v) list \<Rightarrow> (string \<times> 'v) list \<Rightarrow> (string \<times> 'v) list" where
  "copy_into src dst = fold (\<lambda>(k, v). AList.update k v) src dst"

definition sortedKeys :: "'v gomap \<Rightarrow> string list" where
  "sortedKeys m = sort (map fst (entries m))"

lemma entries_simps [simp]: "entries None = []" "entries (Some kvs) = kvs"
  by (simp_all add: entries_def)

lemma glookup_None [simp]: "glookup None k = None"
  by (simp add: glookup_def)

lemma glookup_Some [simp]: "glookup (Some kvs) k = map_of kvs k"
  by (simp add: glookup_def)

lemma glen_simps [simp]: "glen None = 0" "glen (Some kvs) = length kvs"
  by (simp_all add: glen_def)

lemma glen_0_iff: "glen m = 0 \<longleftrightarrow> (\<forall>k. glookup m k = None)"
proof
  assume "glen m = 0"
  then show "\<forall>k. glookup m k = None" by (simp add: glen_def glookup_def)
next
  assume *: "\<forall>k. glookup m k = None"
  show "glen m = 0"
  proof (cases "entries m")
    case (Cons kv kvs)
    then have "glookup m (fst kv) \<noteq> None" by (cases kv) (simp add: glookup_def)
    with * show ?thesis by simp
  qed (simp add: glen_def)
qed

lemma glookup_gput [gomap_simps]: "glookup (gput k v m) j = (if j = k then Some v else glookup m j)"
  by (simp add: gput_def glookup_def update_conv')

lemma gput_not_nil [simp]: "gput k v m \<noteq> None"
  by (simp add: gput_def)

lemma gomap_wf_gput [intro]: "gomap_wf m \<Longrightarrow> gomap_wf (gput k v m)"
  by (simp add: gomap_wf_def gput_def distinct_update)

lemma gomap_wf_None [simp]: "gomap_wf None"
  by (simp add: gomap_wf_def)

lemma map_of_copy_into: "map_of (copy_into src dst) = map_of dst ++ map_of (rev src)"
proof (induction src arbitrary: dst)
  case Nil
  then show ?case by (simp add: copy_into_def)
next
  case (Cons kv src)
  then show ?case
    by (cases kv) (simp add: copy_into_def update_conv' map_add_upd_left fun_eq_iff map_add_def split: option.splits)
qed

lemma map_of_rev: "distinct (map fst kvs) \<Longrightarrow> map_of (rev kvs) = map_of kvs"
  by (rule map_of_inject_set [THEN iffD2]) (simp_all flip: rev_map)

lemma distinct_copy_into: "distinct (map fst dst) \<Longrightarrow> distinct (map fst (copy_into src dst))"
  by (induction src arbitrary: dst) (auto simp: copy_into_def distinct_update)

lemma copy_into_lookup [gomap_simps]:
  "distinct (map fst src) \<Longrightarrow>
     map_of (copy_into src dst) k = (case map_of src k of None \<Rightarrow> map_of dst k | Some v \<Rightarrow> Some v)"
  by (simp add: map_of_copy_into map_of_rev map_add_def)

lemma sorted_sortedKeys [simp]: "sorted (sortedKeys m)"
  by (simp add: sortedKeys_def)

lemma distinct_sortedKeys [simp]: "gomap_wf m \<Longrightarrow> distinct (sortedKeys m)"
  by (simp add: sortedKeys_def gomap_wf_def)

lemma set_sortedKeys: "set (sortedKeys m) = dom (glookup m)"
  by (simp add: sortedKeys_def glookup_def [abs_def] dom_map_of_conv_image_fst)

lemma sortedKeys_lookup: "k \<in> set (sortedKeys m) \<Longrightarrow> \<exists>v. glookup m k = Some v"
  by (auto simp: set_sortedKeys)

text \<open>
  The order of iteration depends on the contents of the map only: two maps
  that agree on every key are traversed alike, however they were built.
\<close>

lemma sortedKeys_deterministic:
  assumes "gomap_wf m" "gomap_wf m'" "glookup m = glookup m'"
  shows "sortedKeys m = sortedKeys m'"
proof (rule sorted_distinct_set_unique)
  show "set (sortedKeys m) = set (sortedKeys m')"
    using assms(3) by (simp add: set_sortedKeys)
qed (use assms in simp_all)

text \<open>
  The loop \<open>for _, k := range sortedKeys(m) { v := m[k]; ... }\<close> around a body that
  appends values or returns an error.
\<close>

definition range_sorted :: "'v gomap \<Rightarrow> (string \<Rightarrow> 'v \<Rightarrow> 'b list res) \<Rightarrow> 'b list res" where
  "range_sorted m body =
     for_each (\<lambda>k. case glookup m k of None \<Rightarrow> Inr [] | Some v \<Rightarrow> body k v) (sortedKeys m)"

lemma safe_range_sorted [intro]:
  "(\<And>k v. glookup m k = Some v \<Longrightarrow> safe (body k v)) \<Longrightarrow> safe (range_sorted m body)"
  by (auto simp: range_sorted_def intro!: safe_for_each split: option.splits)

lemma range_sorted_set:
  assumes "range_sorted m body = Inr out"
  shows "y \<in> set out \<longleftrightarrow> (\<exists>k v zs. glookup m k = Some v \<and> body k v = Inr zs \<and> y \<in> set zs)"
  using for_each_set [OF assms [unfolded range_sorted_def], of y]
  by (force simp: set_sortedKeys split: option.splits)

lemma range_sorted_ok:
  "range_sorted m body = Inr out \<Longrightarrow> glookup m k = Some v \<Longrightarrow> \<exists>zs. body k v = Inr zs"
  unfolding range_sorted_def by (drule for_each_body_ok [of _ _ _ k]) (auto simp: set_sortedKeys)

lemma range_sorted_emits:
  assumes "range_sorted m body = Inr out" "glookup m k = Some v"
  shows "\<exists>zs. body k v = Inr zs \<and> set zs \<subseteq> set out"
proof -
  from range_sorted_ok [OF assms] obtain zs where "body k v = Inr zs" by blast
  moreover from this have "set zs \<subseteq> set out" using range_sorted_set [OF assms(1)] assms(2) by blast
  ultimately show ?thesis by blast
qed

lemma range_sorted_deterministic:
  assumes "gomap_wf m" "gomap_wf m'" "glookup m = glookup m'"
  shows "range_sorted m body = range_sorted m' body"
  using sortedKeys_deterministic [OF assms] assms(3) by (simp add: range_sorted_def)

lemma range_sorted_cong:
  "(\<And>k v. glookup m k = Some v \<Longrightarrow> f k v = g k v) \<Longrightarrow> range_sorted m f = range_sorted m g"
  unfolding range_sorted_def by (rule for_each_cong) (auto split: option.splits)

lemma range_sorted_nil [simp]: "range_sorted None body = Inr []" "range_sorted (Some []) body = Inr []"
  by (simp_all add: range_sorted_def sortedKeys_def)

section \<open>What a loop emits\<close>

text \<open>Every value of the output slice has the property, if the call returns one.\<close>

definition emits :: "('a \<Rightarrow> bool) \<Rightarrow> 'a list res \<Rightarrow> bool" where
  "emits P r \<longleftrightarrow> (\<forall>xs. r = Inr xs \<longrightarrow> list_all P xs)"

lemma emits_Inr [simp]: "emits P (Inr xs) \<longleftrightarrow> list_all P xs"
  by (simp add: emits_def)

lemma emits_Inl [simp]: "emits P (Inl e)"
  by (simp add: emits_def)

lemma emits_rwrap [simp]: "emits P (rwrap fmt args r) \<longleftrightarrow> emits P r"
  by (cases r) simp_all

lemma emitsD: "emits P r \<Longrightarrow> r = Inr xs \<Longrightarrow> x \<in> set xs \<Longrightarrow> P x"
  by (simp add: emits_def list_all_iff)

lemma emits_rbind: "(\<And>x. r = Inr x \<Longrightarrow> emits P (f x)) \<Longrightarrow> emits P (rbind r f)"
  by (cases r) auto

lemma emits_seq: "emits P r \<Longrightarrow> (\<And>xs. list_all P xs \<Longrightarrow> emits P (f xs)) \<Longrightarrow> emits P (rbind r f)"
  by (cases r) auto

lemma emits_for_each: "(\<And>x. x \<in> set xs \<Longrightarrow> emits P (f x)) \<Longrightarrow> emits P (for_each f xs)"
  by (auto simp: emits_def list_all_iff for_each_set)

lemma emits_rmap: "(\<And>x y. x \<in> set xs \<Longrightarrow> f x = Inr y \<Longrightarrow> P y) \<Longrightarrow> emits P (rmap f xs)"
  unfolding rmap_def by (rule emits_for_each) (auto intro: emits_rbind)

lemma emits_range_sorted: "(\<And>k v. glookup m k = Some v \<Longrightarrow> emits P (f k v)) \<Longrightarrow> emits P (range_sorted m f)"
  by (auto simp: range_sorted_def intro!: emits_for_each split: option.splits)

lemma emits_mono: "emits P r \<Longrightarrow> (\<And>x. P x \<Longrightarrow> Q x) \<Longrightarrow> emits Q r"
  by (auto simp: emits_def list_all_iff)

end
