(* ===== verification/Keyed_List.thy ===== *)
theory Keyed_List
  imports Prelude
begin

text \<open>
  Slices used as maps: a list whose elements carry a key, with an operation that replaces the element of a key
  or appends it. The operator keeps owner references and status conditions this way. The interface is a
  locale; what an element becomes when one with its key exists is the parameter \<open>merge\<close>.
\<close>

definition find_key :: "('a \<Rightarrow> 'k) \<Rightarrow> 'k \<Rightarrow> 'a list \<Rightarrow> 'a option" where
  "find_key key k xs = List.find (\<lambda>x. key x = k) xs"

lemma find_key_simps [simp]:
  "find_key key k [] = None" "find_key key k (x # xs) = (if key x = k then Some x else find_key key k xs)"
  by (simp_all add: find_key_def)

lemma find_key_None_iff: "find_key key k xs = None \<longleftrightarrow> k \<notin> key ` set xs"
  by (induction xs) auto

lemma find_key_SomeD: "find_key key k xs = Some x \<Longrightarrow> x \<in> set xs \<and> key x = k"
  by (induction xs) (auto split: if_splits)

lemma find_key_distinct: "distinct (map key xs) \<Longrightarrow> x \<in> set xs \<Longrightarrow> find_key key (key x) xs = Some x"
  by (induction xs) (auto simp: rev_image_eqI)

locale keyed_list =
  fixes key :: "'a \<Rightarrow> 'k"
    and merge :: "'a \<Rightarrow> 'a \<Rightarrow> 'a"
    and upsert :: "'a \<Rightarrow> 'a list \<Rightarrow> 'a list"
  assumes upsert_keys: "map key (upsert x xs) = map key xs @ (if key x \<in> key ` set xs then [] else [key x])"
    and upsert_find: "find_key key k (upsert x xs) =
      (if k = key x then Some (case find_key key k xs of None \<Rightarrow> x | Some e \<Rightarrow> merge e x) else find_key key k xs)"
begin

lemma upsert_distinct: "distinct (map key xs) \<Longrightarrow> distinct (map key (upsert x xs))"
  by (simp add: upsert_keys)

lemma upsert_key_set: "key ` set (upsert x xs) = insert (key x) (key ` set xs)"
  using arg_cong [OF upsert_keys [of x xs], of set] by auto

lemma upsert_length: "length (upsert x xs) = (if key x \<in> key ` set xs then length xs else Suc (length xs))"
  using arg_cong [OF upsert_keys [of x xs], of length] by auto

lemma upsert_commute_find:
  assumes "key x \<noteq> key y"
  shows "find_key key k (upsert x (upsert y xs)) = find_key key k (upsert y (upsert x xs))"
  using assms by (simp add: upsert_find)

end

text \<open>With an operation that drops the element of a key, the list is a map once its keys are distinct.\<close>

locale keyed_list_remove = keyed_list +
  fixes remove :: "'k \<Rightarrow> 'a list \<Rightarrow> 'a list"
  assumes remove_set: "distinct (map key xs) \<Longrightarrow> set (remove k xs) = {x \<in> set xs. key x \<noteq> k}"
    and remove_distinct: "distinct (map key xs) \<Longrightarrow> distinct (map key (remove k xs))"
begin

lemma remove_find:
  assumes "distinct (map key xs)"
  shows "find_key key j (remove k xs) = (if j = k then None else find_key key j xs)"
proof (cases "find_key key j xs")
  case None
  then have "find_key key j (remove k xs) = None"
    using assms unfolding find_key_None_iff by (auto simp: remove_set)
  with None show ?thesis by simp
next
  case (Some x)
  then have x: "x \<in> set xs" "key x = j" by (auto dest: find_key_SomeD)
  show ?thesis
  proof (cases "j = k")
    case False
    then have "x \<in> set (remove k xs)" using x assms by (simp add: remove_set)
    with x False Some find_key_distinct [OF remove_distinct [OF assms]] show ?thesis by fastforce
  qed (use assms in \<open>auto simp: find_key_None_iff remove_set\<close>)
qed

lemma remove_upsert_find:
  assumes "distinct (map key xs)"
  shows "find_key key j (remove k (upsert x xs)) =
    (if j = k then None else find_key key j (upsert x xs))"
  by (rule remove_find) (rule upsert_distinct [OF assms])

end

end
