(* ===== verification/Go_Strings.thy ===== *)
theory Go_Strings
  imports Prelude
begin

text \<open>
  The parts of the packages \<open>strings\<close> and \<open>strconv\<close> the operator uses, with the
  lemmas on first occurrences, splitting and decimal numbers that the key
  parsers rest on.
\<close>

section \<open>Searching and trimming\<close>

fun str_index :: "string \<Rightarrow> string \<Rightarrow> nat option" where
  "str_index [] sub = (if sub = [] then Some 0 else None)"
| "str_index (c # s) sub =
     (if prefix sub (c # s) then Some 0 else map_option Suc (str_index s sub))"

text \<open>\<open>strings.LastIndex\<close> for a one-byte needle.\<close>

fun last_index :: "string \<Rightarrow> char \<Rightarrow> nat option" where
  "last_index [] x = None"
| "last_index (c # s) x =
     (case last_index s x of Some i \<Rightarrow> Some (Suc i) | None \<Rightarrow> if c = x then Some 0 else None)"

definition trim_prefix :: "string \<Rightarrow> string \<Rightarrow> string" where
  "trim_prefix p s = (if prefix p s then drop (length p) s else s)"

definition trim_suffix :: "string \<Rightarrow> string \<Rightarrow> string" where
  "trim_suffix p s = (if suffix p s then take (length s - length p) s else s)"

definition is_space :: "char \<Rightarrow> bool" where
  "is_space c \<longleftrightarrow> c \<in> set [CHR 0x09, CHR 0x0A, CHR 0x0B, CHR 0x0C, CHR 0x0D, CHR 0x20]"

definition trim_right_by :: "(char \<Rightarrow> bool) \<Rightarrow> string \<Rightarrow> string" where
  "trim_right_by p s = rev (dropWhile p (rev s))"

definition trim_space :: "string \<Rightarrow> string" where
  "trim_space s = trim_right_by is_space (dropWhile is_space s)"

fun split_on :: "char \<Rightarrow> string \<Rightarrow> string list" where
  "split_on x [] = [[]]"
| "split_on x (c # s) =
     (if c = x then [] # split_on x s
      else (case split_on x s of [] \<Rightarrow> [[c]] | t # ts \<Rightarrow> (c # t) # ts))"

definition replace_char :: "char \<Rightarrow> char \<Rightarrow> string \<Rightarrow> string" where
  "replace_char a b s = map (\<lambda>c. if c = a then b else c) s"

fun join :: "string \<Rightarrow> string list \<Rightarrow> string" where
  "join sep [] = []"
| "join sep [s] = s"
| "join sep (s # t # ts) = s @ sep @ join sep (t # ts)"

definition upper_char :: "char \<Rightarrow> char" where
  "upper_char c = (if CHR ''a'' \<le> c \<and> c \<le> CHR ''z'' then char_of (of_char c - 32 :: nat) else c)"

definition lower_char :: "char \<Rightarrow> char" where
  "lower_char c = (if CHR ''A'' \<le> c \<and> c \<le> CHR ''Z'' then char_of (of_char c + 32 :: nat) else c)"

definition to_upper :: "string \<Rightarrow> string" where
  "to_upper s = map upper_char s"

definition to_lower :: "string \<Rightarrow> string" where
  "to_lower s = map lower_char s"

lemma str_index_bound: "str_index s sub = Some i \<Longrightarrow> i \<le> length s"
  by (induction s arbitrary: i) (auto split: if_splits)

lemma str_index_prefix: "str_index s sub = Some i \<Longrightarrow> prefix sub (drop i s)"
  by (induction s arbitrary: i) (auto split: if_splits)

lemma str_index_char:
  "str_index s [x] = (if x \<in> set s then Some (length (takeWhile (\<lambda>c. c \<noteq> x) s)) else None)"
  by (induction s) auto

lemma str_index_char_append [simp]: "x \<notin> set a \<Longrightarrow> str_index (a @ x # b) [x] = Some (length a)"
  by (induction a) auto

lemma str_index_char_None [simp]: "x \<notin> set s \<Longrightarrow> str_index s [x] = None"
  by (simp add: str_index_char)

lemma str_index_lead_None: "x \<notin> set s \<Longrightarrow> str_index s (x # sub) = None"
  by (induction s) auto

lemma str_index_lead_append:
  "x \<notin> set a \<Longrightarrow> str_index (a @ b) (x # sub) = map_option (\<lambda>i. length a + i) (str_index b (x # sub))"
  by (induction a) (auto simp: option.map_comp o_def map_option_case split: option.splits)

lemma last_index_None [simp]: "x \<notin> set s \<Longrightarrow> last_index s x = None"
  by (induction s) auto

lemma last_index_append [simp]: "x \<notin> set b \<Longrightarrow> last_index (a @ x # b) x = Some (length a)"
  by (induction a) auto

lemma split_on_not_Nil [simp]: "split_on x s \<noteq> []"
  by (cases s) (auto split: list.splits)

lemma split_on_no_sep: "x \<notin> set s \<Longrightarrow> split_on x s = [s]"
  by (induction s) auto

lemma split_on_append: "x \<notin> set a \<Longrightarrow> split_on x (a @ x # b) = a # split_on x b"
  by (induction a) auto

lemma split_on_join: "ts \<noteq> [] \<Longrightarrow> (\<And>t. t \<in> set ts \<Longrightarrow> x \<notin> set t) \<Longrightarrow> split_on x (join [x] ts) = ts"
  by (induction "[x]" ts rule: join.induct) (auto simp: split_on_no_sep split_on_append)

lemma join_split_on: "join [x] (split_on x s) = s"
proof (induction s)
  case (Cons c s)
  then show ?case by (cases "split_on x s" rule: list.exhaust; cases "tl (split_on x s)") auto
qed simp

lemma trim_right_by_id: "s = [] \<or> \<not> p (last s) \<Longrightarrow> trim_right_by p s = s"
  by (cases s rule: rev_cases) (auto simp: trim_right_by_def)

lemma trim_space_id: "list_all (\<lambda>c. \<not> is_space c) s \<Longrightarrow> trim_space s = s"
proof -
  assume s: "list_all (\<lambda>c. \<not> is_space c) s"
  then have "dropWhile is_space s = s" by (cases s) auto
  moreover from s have "s = [] \<or> \<not> is_space (last s)" by (cases s rule: rev_cases) auto
  ultimately show ?thesis by (simp add: trim_space_def trim_right_by_id)
qed

section \<open>Decimal numbers\<close>

definition is_digit :: "char \<Rightarrow> bool" where
  "is_digit c \<longleftrightarrow> CHR ''0'' \<le> c \<and> c \<le> CHR ''9''"

definition digit_val :: "char \<Rightarrow> nat" where
  "digit_val c = of_char c - 48"

definition digit_char :: "nat \<Rightarrow> char" where
  "digit_char d = char_of (48 + d)"

fun nat_digits :: "nat \<Rightarrow> string" where
  "nat_digits n = (if n < 10 then [digit_char n] else nat_digits (n div 10) @ [digit_char (n mod 10)])"

declare nat_digits.simps [simp del]

definition itoa :: "int \<Rightarrow> string" where
  "itoa i = (if i < 0 then CHR ''-'' # nat_digits (nat (- i)) else nat_digits (nat i))"

definition dec_value :: "string \<Rightarrow> nat" where
  "dec_value s = foldl (\<lambda>a c. 10 * a + digit_val c) 0 s"

definition int_fits :: "nat \<Rightarrow> int \<Rightarrow> bool" where
  "int_fits w i \<longleftrightarrow> - (2 ^ (w - 1)) \<le> i \<and> i < 2 ^ (w - 1)"

text \<open>
  \<open>strconv.ParseInt(s, 10, w)\<close>: an optional sign, then digits, then the range
  check of a \<open>w\<close>-bit integer; \<open>None\<close> is its error. \<open>strconv.Atoi\<close> is the
  64-bit case.
\<close>

definition parse_int :: "nat \<Rightarrow> string \<Rightarrow> int option" where
  "parse_int w s =
     (let (neg, ds) = (case s of
          [] \<Rightarrow> (False, [])
        | c # cs \<Rightarrow> if c = CHR ''-'' then (True, cs) else if c = CHR ''+'' then (False, cs) else (False, s))
      in if ds = [] \<or> \<not> list_all is_digit ds then None
         else (let v = (if neg then - int (dec_value ds) else int (dec_value ds))
               in if int_fits w v then Some v else None))"

definition atoi :: "string \<Rightarrow> int option" where
  "atoi s = parse_int 64 s"

lemma of_char_ge_0 [simp]: "CHR ''0'' \<le> c \<longleftrightarrow> (48::nat) \<le> of_char c"
  by (simp add: less_eq_char_def)

lemma is_digit_code: "is_digit c \<longleftrightarrow> 48 \<le> (of_char c :: nat) \<and> (of_char c :: nat) \<le> 57"
  by (simp add: is_digit_def less_eq_char_def)

lemma digit_char_digit [simp]: "d < 10 \<Longrightarrow> is_digit (digit_char d)"
  by (simp add: is_digit_code digit_char_def)

lemma digit_val_char [simp]: "d < 10 \<Longrightarrow> digit_val (digit_char d) = d"
  by (simp add: digit_val_def digit_char_def)

lemma nat_digits_not_Nil [simp]: "nat_digits n \<noteq> []"
  by (subst nat_digits.simps) simp

lemma nat_digits_all_digit [simp]: "list_all is_digit (nat_digits n)"
proof (induction n rule: nat_digits.induct)
  case (1 n)
  then show ?case by (subst nat_digits.simps) simp
qed

lemma dec_value_snoc: "dec_value (s @ [c]) = 10 * dec_value s + digit_val c"
  by (simp add: dec_value_def)

lemma dec_value_nat_digits [simp]: "dec_value (nat_digits n) = n"
proof (induction n rule: nat_digits.induct)
  case (1 n)
  then show ?case
    by (subst nat_digits.simps) (simp add: dec_value_snoc, simp add: dec_value_def)
qed

lemma digit_not_sign: "is_digit c \<Longrightarrow> c \<noteq> CHR ''-'' \<and> c \<noteq> CHR ''+''"
  by (auto simp: is_digit_code)

lemma parse_int_digits:
  "ds \<noteq> [] \<Longrightarrow> list_all is_digit ds \<Longrightarrow>
     parse_int w ds = (if int_fits w (int (dec_value ds)) then Some (int (dec_value ds)) else None)"
  by (cases ds) (auto simp: parse_int_def dest: digit_not_sign)

lemma parse_int_itoa: "int_fits w i \<Longrightarrow> parse_int w (itoa i) = Some i"
proof (cases "i < 0")
  case True
  assume "int_fits w i"
  with True show ?thesis by (simp add: itoa_def parse_int_def)
next
  case False
  assume "int_fits w i"
  with False show ?thesis by (simp add: itoa_def parse_int_digits)
qed

lemma atoi_itoa: "int_fits 64 i \<Longrightarrow> atoi (itoa i) = Some i"
  by (simp add: atoi_def parse_int_itoa)

lemma parse_int_fits: "parse_int w s = Some i \<Longrightarrow> int_fits w i"
  by (auto simp: parse_int_def Let_def split: if_splits list.splits prod.splits)

lemma nat_digits_inject [simp]: "nat_digits m = nat_digits n \<longleftrightarrow> m = n"
  by (metis dec_value_nat_digits)

lemma digit_not_in [simp]: "\<not> is_digit c \<Longrightarrow> c \<notin> set (nat_digits n)"
  using nat_digits_all_digit [of n] by (auto simp: list_all_iff)

end
