(* ===== verification/Json.thy ===== *)
theory Json
  imports Go_Strings
begin

text \<open>
  The package \<open>encoding/json\<close>. A document the API server stores is valid JSON,
  so a raw document is represented by its value; an
  \<open>apiextensionsv1.JSON\<close> is \<open>None\<close> when its bytes are empty (which is how that
  type holds a JSON null) and \<open>Some\<close> value otherwise. The decoders below are
  \<open>json.Unmarshal\<close> into the Go types the operator declares: unknown fields are
  skipped, field names match without regard to case with the last one winning,
  null leaves the zero value, and a value of the wrong type is an error.
\<close>

datatype json =
    JNull
  | JBool bool
  | JNumber string
  | JString string
  | JArray "json list"
  | JObject "(string \<times> json) list"

type_synonym raw_json = "json option"

definition json_error :: "'a res" where
  "json_error = Inl (LibError ''encoding/json'')"

lemma safe_json_error [simp]: "safe json_error"
  by (simp add: json_error_def)

lemma json_error_neq [simp]: "json_error \<noteq> Inr x" "Inr x \<noteq> json_error"
  by (simp_all add: json_error_def)

lemma rbind_json_error [simp]: "rbind json_error f = json_error"
  by (simp add: json_error_def)

text \<open>\<open>json.Unmarshal\<close> of no bytes at all is an error.\<close>

definition of_raw :: "raw_json \<Rightarrow> json res" where
  "of_raw r = (case r of None \<Rightarrow> json_error | Some j \<Rightarrow> Inr j)"

text \<open>\<open>json.Marshal\<close> of an \<open>apiextensionsv1.JSON\<close>: empty bytes print as null.\<close>

definition marshal_raw :: "raw_json \<Rightarrow> json" where
  "marshal_raw r = (case r of None \<Rightarrow> JNull | Some j \<Rightarrow> j)"

text \<open>\<open>json.Marshal\<close> of a map of such values prints its keys in sorted order.\<close>

definition marshal_raw_map :: "raw_json gomap \<Rightarrow> json" where
  "marshal_raw_map m =
     (case m of None \<Rightarrow> JNull
      | Some kvs \<Rightarrow> JObject (map (\<lambda>k. (k, marshal_raw (case map_of kvs k of None \<Rightarrow> None | Some r \<Rightarrow> r))) (sortedKeys m)))"

section \<open>Decoding\<close>

text \<open>The value the decoder assigns last to the struct field \<open>name\<close>.\<close>

definition jfield :: "string \<Rightarrow> (string \<times> json) list \<Rightarrow> json option" where
  "jfield name kvs = map_of (rev (map (\<lambda>(k, v). (to_lower k, v)) kvs)) (to_lower name)"

definition dec_struct :: "json \<Rightarrow> (string \<times> json) list res" where
  "dec_struct j = (case j of JNull \<Rightarrow> Inr [] | JObject kvs \<Rightarrow> Inr kvs | _ \<Rightarrow> json_error)"

definition dec_bool :: "json option \<Rightarrow> bool res" where
  "dec_bool f = (case f of None \<Rightarrow> Inr False | Some JNull \<Rightarrow> Inr False
     | Some (JBool b) \<Rightarrow> Inr b | Some _ \<Rightarrow> json_error)"

definition dec_bool_ptr :: "json option \<Rightarrow> bool option res" where
  "dec_bool_ptr f = (case f of None \<Rightarrow> Inr None | Some JNull \<Rightarrow> Inr None
     | Some (JBool b) \<Rightarrow> Inr (Some b) | Some _ \<Rightarrow> json_error)"

definition dec_string :: "json option \<Rightarrow> string res" where
  "dec_string f = (case f of None \<Rightarrow> Inr [] | Some JNull \<Rightarrow> Inr []
     | Some (JString s) \<Rightarrow> Inr s | Some _ \<Rightarrow> json_error)"

definition dec_int :: "nat \<Rightarrow> json option \<Rightarrow> int res" where
  "dec_int w f = (case f of None \<Rightarrow> Inr 0 | Some JNull \<Rightarrow> Inr 0
     | Some (JNumber n) \<Rightarrow> (case parse_int w n of None \<Rightarrow> json_error | Some i \<Rightarrow> Inr i)
     | Some _ \<Rightarrow> json_error)"

definition dec_uint :: "nat \<Rightarrow> json option \<Rightarrow> int res" where
  "dec_uint w f = (case f of None \<Rightarrow> Inr 0 | Some JNull \<Rightarrow> Inr 0
     | Some (JNumber n) \<Rightarrow>
         (if n \<noteq> [] \<and> list_all is_digit n \<and> dec_value n < 2 ^ w then Inr (int (dec_value n)) else json_error)
     | Some _ \<Rightarrow> json_error)"

text \<open>A pointer field is nil when absent or null, and allocated otherwise.\<close>

definition dec_ptr :: "(json \<Rightarrow> 'a res) \<Rightarrow> json option \<Rightarrow> 'a option res" where
  "dec_ptr d f = (case f of None \<Rightarrow> Inr None | Some JNull \<Rightarrow> Inr None
     | Some j \<Rightarrow> rbind (d j) (\<lambda>x. Inr (Some x)))"

text \<open>A slice field: nil when absent or null.\<close>

definition dec_slice :: "(json \<Rightarrow> 'a res) \<Rightarrow> json option \<Rightarrow> 'a list option res" where
  "dec_slice d f = (case f of None \<Rightarrow> Inr None | Some JNull \<Rightarrow> Inr None
     | Some (JArray js) \<Rightarrow> rbind (rmap d js) (\<lambda>xs. Inr (Some xs)) | Some _ \<Rightarrow> json_error)"

text \<open>A map field: nil when absent or null; a repeated key keeps its last value.\<close>

definition dec_map :: "(json \<Rightarrow> 'a res) \<Rightarrow> json option \<Rightarrow> 'a gomap res" where
  "dec_map d f = (case f of None \<Rightarrow> Inr None | Some JNull \<Rightarrow> Inr None
     | Some (JObject kvs) \<Rightarrow>
         rbind (rmap (\<lambda>(k, j). rbind (d j) (\<lambda>x. Inr (k, x))) kvs) (\<lambda>xs. Inr (Some (copy_into xs [])))
     | Some _ \<Rightarrow> json_error)"

text \<open>Instances: \<open>[]string\<close>, \<open>map[string]string\<close>, \<open>map[string]interface{}\<close>, \<open>[]apiextensionsv1.JSON\<close>.\<close>

abbreviation dec_strings :: "json option \<Rightarrow> string list option res" where
  "dec_strings \<equiv> dec_slice (\<lambda>j. dec_string (Some j))"

abbreviation dec_string_map :: "json option \<Rightarrow> string gomap res" where
  "dec_string_map \<equiv> dec_map (\<lambda>j. dec_string (Some j))"

abbreviation dec_any_map :: "json option \<Rightarrow> json gomap res" where
  "dec_any_map \<equiv> dec_map (\<lambda>j. Inr j)"

definition to_raw :: "json \<Rightarrow> raw_json" where
  "to_raw j = (if j = JNull then None else Some j)"

lemmas dec_defs = dec_bool_def dec_bool_ptr_def dec_string_def dec_int_def dec_uint_def dec_ptr_def
  dec_slice_def dec_map_def dec_struct_def

lemma dec_map_wf: "dec_map d f = Inr m \<Longrightarrow> gomap_wf m"
  by (auto simp: dec_map_def res_simps gomap_wf_def intro!: distinct_copy_into
      split: option.splits json.splits)

text \<open>No decoder panics, whatever the document.\<close>

lemma safe_dec_scalar [simp]:
  "safe (dec_struct j)" "safe (dec_bool f)" "safe (dec_bool_ptr f)" "safe (dec_string f)"
  "safe (dec_int w f)" "safe (dec_uint w f)" "safe (of_raw r)"
  by (auto simp: dec_struct_def dec_bool_def dec_bool_ptr_def dec_string_def dec_int_def dec_uint_def
      of_raw_def split: option.splits json.splits)

lemma safe_dec_ptr [intro]: "(\<And>j. safe (d j)) \<Longrightarrow> safe (dec_ptr d f)"
  by (auto simp: dec_ptr_def split: option.splits json.splits)

lemma safe_dec_slice [intro]: "(\<And>j. safe (d j)) \<Longrightarrow> safe (dec_slice d f)"
  by (auto simp: dec_slice_def split: option.splits json.splits)

lemma safe_dec_map [intro]: "(\<And>j. safe (d j)) \<Longrightarrow> safe (dec_map d f)"
  by (auto simp: dec_map_def intro!: safe_rbind safe_rmap split: option.splits json.splits)

end
