(* ===== verification/Go_Fmt.thy ===== *)
theory Go_Fmt
  imports Json
begin

text \<open>
  The texts the controller makes: \<open>fmt.Sprintf\<close> with the verbs the operator uses, the message of an error, and the
  bytes of a stored JSON document, which the controller searches. The API server stores documents in compact form.
\<close>

section \<open>Formats and errors\<close>

text \<open>Quoting, for the verb \<open>%q\<close> and for JSON strings; a byte other than a quote, a backslash, a line
  break or a tab prints as itself.\<close>

definition escape_char :: "char \<Rightarrow> string" where
  "escape_char c =
     (if c = CHR 0x22 \<or> c = CHR 0x5C then [CHR 0x5C, c]
      else if c = CHR 0x0A then [CHR 0x5C, CHR ''n'']
      else if c = CHR 0x0D then [CHR 0x5C, CHR ''r'']
      else if c = CHR 0x09 then [CHR 0x5C, CHR ''t'']
      else [c])"

definition quote :: "string \<Rightarrow> string" where
  "quote s = CHR 0x22 # concat (map escape_char s) @ [CHR 0x22]"

fun sprintf :: "string \<Rightarrow> string list \<Rightarrow> string" where
  "sprintf (c # v # fmt) (a # args) =
     (if c = CHR ''%'' then (if v = CHR ''q'' then quote a else a) @ sprintf fmt args else c # sprintf (v # fmt) (a # args))"
| "sprintf fmt args = fmt"

fun error_string :: "gerror \<Rightarrow> string" where
  "error_string (Errorf fmt args) = sprintf fmt args"
| "error_string (Wrapf fmt args e) = sprintf fmt (args @ [error_string e])"
| "error_string (LibError m) = m"
| "error_string (Panic m) = m"
| "error_string Diverges = []"

section \<open>The bytes of a document\<close>

fun json_text :: "json \<Rightarrow> string" where
  "json_text JNull = ''null''"
| "json_text (JBool b) = (if b then ''true'' else ''false'')"
| "json_text (JNumber n) = n"
| "json_text (JString s) = quote s"
| "json_text (JArray js) = ''['' @ join '','' (map json_text js) @ '']''"
| "json_text (JObject kvs) = ''{'' @ join '','' (map (\<lambda>(k, j). quote k @ '':'' @ json_text j) kvs) @ ''}''"

definition raw_text :: "raw_json \<Rightarrow> string" where
  "raw_text r = (case r of None \<Rightarrow> [] | Some j \<Rightarrow> json_text j)"

definition contains :: "string \<Rightarrow> string \<Rightarrow> bool" where
  "contains s sub \<longleftrightarrow> str_index s sub \<noteq> None"

lemma str_index_None_iff: "str_index s sub = None \<longleftrightarrow> \<not> sublist sub s"
  by (induction s sub rule: str_index.induct) (auto simp: sublist_Cons_right)

lemma contains_iff [simp]: "contains s sub \<longleftrightarrow> sublist sub s"
  by (simp add: contains_def str_index_None_iff)

lemma sublist_join: "x \<in> set xs \<Longrightarrow> sublist x (join sep xs)"
proof (induction sep xs rule: join.induct)
  case (3 sep s t ts)
  show ?case
  proof (cases "x = s")
    case True
    then show ?thesis by (simp add: prefix_imp_sublist)
  next
    case False
    with 3 have "sublist x (join sep (t # ts))" by simp
    moreover have "suffix (join sep (t # ts)) (join sep (s # t # ts))" by (simp add: suffix_def)
    ultimately show ?thesis using sublist_order.order.trans suffix_imp_sublist by blast
  qed
qed simp_all

text \<open>A document that occurs inside another one, as a member of an object or an element of an array.\<close>

inductive json_within :: "json \<Rightarrow> json \<Rightarrow> bool" where
  within_refl: "json_within j j"
| within_elem: "j \<in> set js \<Longrightarrow> json_within i j \<Longrightarrow> json_within i (JArray js)"
| within_member: "(k, j) \<in> set kvs \<Longrightarrow> json_within i j \<Longrightarrow> json_within i (JObject kvs)"

lemma sublist_bracket: "sublist x y \<Longrightarrow> sublist x (a # y @ [b])"
  by (metis append_Cons append_Nil sublist_appendI sublist_order.order.trans)

lemma sublist_part: "x \<in> set xs \<Longrightarrow> sublist y x \<Longrightarrow> sublist y (a # join sep xs @ [b])"
  using sublist_bracket sublist_join sublist_order.order.trans by metis

lemma within_text: "json_within i j \<Longrightarrow> sublist (json_text i) (json_text j)"
proof (induction rule: json_within.induct)
  case (within_elem j js i)
  then show ?case using sublist_part [of "json_text j" "map json_text js"] by simp
next
  case (within_member k j kvs i)
  have "sublist (json_text i) (quote k @ '':'' @ json_text j)"
    using within_member.IH by (simp add: sublist_append sublist_Cons_right)
  moreover have "quote k @ '':'' @ json_text j \<in> set (map (\<lambda>(k, j). quote k @ '':'' @ json_text j) kvs)"
    using within_member.hyps(1) by force
  ultimately show ?case using sublist_part by simp
qed simp

lemma key_text: "(k, j) \<in> set kvs \<Longrightarrow> sublist (quote k) (json_text (JObject kvs))"
proof -
  assume "(k, j) \<in> set kvs"
  then have "quote k @ '':'' @ json_text j \<in> set (map (\<lambda>(k, j). quote k @ '':'' @ json_text j) kvs)" by force
  moreover have "sublist (quote k) (quote k @ '':'' @ json_text j)" by (simp add: sublist_append)
  ultimately show ?thesis using sublist_part by simp
qed

end
