(* ===== verification/K8s_Objects.thy ===== *)
theory K8s_Objects
  imports Json
begin

text \<open>
  The Kubernetes and Istio API objects the operator emits, as data: object
  metadata, NetworkPolicy, PeerAuthentication, Sidecar, AuthorizationPolicy,
  VirtualService and ServiceEntry, with the fields the operator writes, and the
  sum of the six kinds, Go's \<open>client.Object\<close>. A spec that is decoded from a
  user's raw JSON by the Istio types' own unmarshaller is kept as that message.
\<close>

section \<open>Metadata\<close>

record gvk =
  gvkGroup :: string
  gvkVersion :: string
  gvkKind :: string

record owner_ref =
  orAPIVersion :: string
  orKind :: string
  orName :: string
  orUID :: string
  orController :: "bool option"
  orBlockOwnerDeletion :: "bool option"

record object_meta =
  omName :: string
  omNamespace :: string
  omLabels :: "string gomap"
  omAnnotations :: "string gomap"
  omOwnerReferences :: "owner_ref list"

definition no_gvk :: gvk where
  "no_gvk = \<lparr>gvkGroup = [], gvkVersion = [], gvkKind = []\<rparr>"

text \<open>\<open>metav1.ObjectMeta{Name: n, Labels: l, Annotations: a}\<close>.\<close>

definition new_meta :: "string \<Rightarrow> string gomap \<Rightarrow> string gomap \<Rightarrow> object_meta" where
  "new_meta n l a = \<lparr>omName = n, omNamespace = [], omLabels = l, omAnnotations = a, omOwnerReferences = []\<rparr>"

record 'spec k8s_object =
  objGVK :: gvk
  objMeta :: object_meta
  objSpec :: 'spec

definition new_object :: "object_meta \<Rightarrow> 'spec \<Rightarrow> 'spec k8s_object" where
  "new_object m s = \<lparr>objGVK = no_gvk, objMeta = m, objSpec = s\<rparr>"

section \<open>Label selectors and ports\<close>

record label_requirement =
  lrKey :: string
  lrOperator :: string
  lrValues :: "string list"

record label_selector =
  lsMatchLabels :: "string gomap"
  lsMatchExpressions :: "label_requirement list"

text \<open>\<open>metav1.LabelSelector{MatchLabels: m}\<close>; the empty selector has a nil map.\<close>

definition selector_of :: "string gomap \<Rightarrow> label_selector" where
  "selector_of m = \<lparr>lsMatchLabels = m, lsMatchExpressions = []\<rparr>"

abbreviation empty_selector :: label_selector where
  "empty_selector \<equiv> selector_of None"

text \<open>\<open>intstr.IntOrString\<close> holds an \<open>int32\<close> or a string; \<open>FromInt\<close> stores an int.\<close>

datatype int_or_string = IntVal "32 word" | StrVal string

definition FromInt :: "int \<Rightarrow> int_or_string" where
  "FromInt i = IntVal (word_of_int i)"

section \<open>NetworkPolicy\<close>

record ip_block =
  ibCIDR :: string
  ibExcept :: "string list option"

record netpol_peer =
  peerIPBlock :: "ip_block option"
  peerNamespaceSelector :: "label_selector option"
  peerPodSelector :: "label_selector option"

record netpol_port =
  portProtocol :: "string option"
  portPort :: "int_or_string option"
  portEndPort :: "32 word option"

text \<open>An egress rule (\<open>To\<close>, \<open>Ports\<close>) or an ingress rule (\<open>From\<close>, \<open>Ports\<close>).\<close>

record netpol_rule =
  rulePeers :: "netpol_peer list"
  rulePorts :: "netpol_port list"

record netpol_spec =
  npsPodSelector :: label_selector
  npsPolicyTypes :: "string list"
  npsEgress :: "netpol_rule list"
  npsIngress :: "netpol_rule list"

definition selector_peer :: "label_selector option \<Rightarrow> label_selector option \<Rightarrow> netpol_peer" where
  "selector_peer ns pod = \<lparr>peerIPBlock = None, peerNamespaceSelector = ns, peerPodSelector = pod\<rparr>"

definition cidr_peer :: "string \<Rightarrow> string list option \<Rightarrow> netpol_peer" where
  "cidr_peer c ex = \<lparr>peerIPBlock = Some \<lparr>ibCIDR = c, ibExcept = ex\<rparr>,
     peerNamespaceSelector = None, peerPodSelector = None\<rparr>"

definition int_port :: "string \<Rightarrow> int \<Rightarrow> netpol_port" where
  "int_port proto p = \<lparr>portProtocol = Some proto, portPort = Some (FromInt p), portEndPort = None\<rparr>"

definition egress_spec :: "label_selector \<Rightarrow> netpol_rule list \<Rightarrow> netpol_spec" where
  "egress_spec sel rules = \<lparr>npsPodSelector = sel, npsPolicyTypes = [''Egress''], npsEgress = rules, npsIngress = []\<rparr>"

definition ingress_spec :: "label_selector \<Rightarrow> netpol_rule list \<Rightarrow> netpol_spec" where
  "ingress_spec sel rules = \<lparr>npsPodSelector = sel, npsPolicyTypes = [''Ingress''], npsEgress = [], npsIngress = rules\<rparr>"

definition empty_netpol_spec :: netpol_spec where
  "empty_netpol_spec = \<lparr>npsPodSelector = empty_selector, npsPolicyTypes = [], npsEgress = [], npsIngress = []\<rparr>"

section \<open>Istio\<close>

datatype mtls_mode = MTLS_UNSET | MTLS_DISABLE | MTLS_PERMISSIVE | MTLS_STRICT

datatype outbound_mode = REGISTRY_ONLY | ALLOW_ANY

record authz_source =
  asPrincipals :: "string list"
  asNamespaces :: "string list"
  asIpBlocks :: "string list"

text \<open>\<open>arTo\<close> holds the \<open>ports\<close> of each operation.\<close>

record authz_rule =
  arFrom :: "authz_source list"
  arTo :: "string list list"

datatype authz_action = AZ_ALLOW | AZ_DENY | AZ_AUDIT | AZ_CUSTOM

record authz_spec =
  azSelector :: "string gomap option"
  azAction :: authz_action
  azRules :: "authz_rule list"

datatype ap_spec = ApTyped authz_spec | ApRaw json

definition empty_authz_spec :: authz_spec where
  "empty_authz_spec = \<lparr>azSelector = None, azAction = AZ_ALLOW, azRules = []\<rparr>"

record destination =
  destHost :: string
  destPort :: "32 word option"

datatype http_route = HttpDefault destination | HttpRaw json

record tls_route =
  tlsPort :: "32 word"
  tlsSniHosts :: "string list"
  tlsDestination :: destination

record virtual_service =
  vsHosts :: "string list"
  vsGateways :: "string list"
  vsHttp :: "http_route list"
  vsTls :: "tls_route list"

datatype se_location = MESH_EXTERNAL | MESH_INTERNAL

datatype se_resolution = RES_NONE | RES_STATIC | RES_DNS | RES_DNS_ROUND_ROBIN

record service_port =
  spNumber :: "32 word"
  spName :: string
  spProtocol :: string

record service_entry =
  seHosts :: "string list"
  seLocation :: se_location
  seResolution :: se_resolution
  sePorts :: "service_port list"

datatype se_spec = SeTyped service_entry | SeRaw json

definition empty_service_entry :: service_entry where
  "empty_service_entry = \<lparr>seHosts = [], seLocation = MESH_EXTERNAL, seResolution = RES_NONE, sePorts = []\<rparr>"

section \<open>client.Object\<close>

datatype client_object =
    NetworkPolicy "netpol_spec k8s_object"
  | PeerAuthentication "mtls_mode k8s_object"
  | Sidecar "outbound_mode k8s_object"
  | AuthorizationPolicy "ap_spec k8s_object"
  | VirtualService "virtual_service k8s_object"
  | ServiceEntry "se_spec k8s_object"

text \<open>The Go type of an object, which is what the scheme is asked about.\<close>

datatype go_kind = KNetworkPolicy | KPeerAuthentication | KSidecar | KAuthorizationPolicy
  | KVirtualService | KServiceEntry

primrec kind_of :: "client_object \<Rightarrow> go_kind" where
  "kind_of (NetworkPolicy x) = KNetworkPolicy"
| "kind_of (PeerAuthentication x) = KPeerAuthentication"
| "kind_of (Sidecar x) = KSidecar"
| "kind_of (AuthorizationPolicy x) = KAuthorizationPolicy"
| "kind_of (VirtualService x) = KVirtualService"
| "kind_of (ServiceEntry x) = KServiceEntry"

primrec meta_of :: "client_object \<Rightarrow> object_meta" where
  "meta_of (NetworkPolicy x) = objMeta x"
| "meta_of (PeerAuthentication x) = objMeta x"
| "meta_of (Sidecar x) = objMeta x"
| "meta_of (AuthorizationPolicy x) = objMeta x"
| "meta_of (VirtualService x) = objMeta x"
| "meta_of (ServiceEntry x) = objMeta x"

primrec set_meta :: "object_meta \<Rightarrow> client_object \<Rightarrow> client_object" where
  "set_meta m (NetworkPolicy x) = NetworkPolicy (x\<lparr>objMeta := m\<rparr>)"
| "set_meta m (PeerAuthentication x) = PeerAuthentication (x\<lparr>objMeta := m\<rparr>)"
| "set_meta m (Sidecar x) = Sidecar (x\<lparr>objMeta := m\<rparr>)"
| "set_meta m (AuthorizationPolicy x) = AuthorizationPolicy (x\<lparr>objMeta := m\<rparr>)"
| "set_meta m (VirtualService x) = VirtualService (x\<lparr>objMeta := m\<rparr>)"
| "set_meta m (ServiceEntry x) = ServiceEntry (x\<lparr>objMeta := m\<rparr>)"

primrec gvk_of :: "client_object \<Rightarrow> gvk" where
  "gvk_of (NetworkPolicy x) = objGVK x"
| "gvk_of (PeerAuthentication x) = objGVK x"
| "gvk_of (Sidecar x) = objGVK x"
| "gvk_of (AuthorizationPolicy x) = objGVK x"
| "gvk_of (VirtualService x) = objGVK x"
| "gvk_of (ServiceEntry x) = objGVK x"

primrec set_gvk :: "gvk \<Rightarrow> client_object \<Rightarrow> client_object" where
  "set_gvk g (NetworkPolicy x) = NetworkPolicy (x\<lparr>objGVK := g\<rparr>)"
| "set_gvk g (PeerAuthentication x) = PeerAuthentication (x\<lparr>objGVK := g\<rparr>)"
| "set_gvk g (Sidecar x) = Sidecar (x\<lparr>objGVK := g\<rparr>)"
| "set_gvk g (AuthorizationPolicy x) = AuthorizationPolicy (x\<lparr>objGVK := g\<rparr>)"
| "set_gvk g (VirtualService x) = VirtualService (x\<lparr>objGVK := g\<rparr>)"
| "set_gvk g (ServiceEntry x) = ServiceEntry (x\<lparr>objGVK := g\<rparr>)"

abbreviation name_of :: "client_object \<Rightarrow> string" where
  "name_of x \<equiv> omName (meta_of x)"

abbreviation namespace_of :: "client_object \<Rightarrow> string" where
  "namespace_of x \<equiv> omNamespace (meta_of x)"

abbreviation labels_of :: "client_object \<Rightarrow> string gomap" where
  "labels_of x \<equiv> omLabels (meta_of x)"

text \<open>
  The interface \<open>metav1.Object\<close>: reading and replacing the metadata of an
  object, without touching the rest of it (\<open>rest_of\<close>). Its clients are the
  passes that stamp or merge metadata.
\<close>

locale metadata_object =
  fixes get_meta :: "'o \<Rightarrow> object_meta"
    and put_meta :: "object_meta \<Rightarrow> 'o \<Rightarrow> 'o"
    and rest_of :: "'o \<Rightarrow> 'r"
  assumes get_put: "get_meta (put_meta m x) = m"
    and put_get: "put_meta (get_meta x) x = x"
    and put_put: "put_meta m (put_meta n x) = put_meta m x"
    and rest_put: "rest_of (put_meta m x) = rest_of x"
begin

lemma put_commute_rest: "rest_of (put_meta (f (get_meta x)) x) = rest_of x"
  by (rule rest_put)

lemma put_twice: "put_meta (g (get_meta (put_meta (f (get_meta x)) x))) (put_meta (f (get_meta x)) x)
    = put_meta (g (f (get_meta x))) x"
  by (simp add: get_put put_put)

lemma put_idempotent:
  assumes "\<And>m. f (f m) = f m"
  shows "put_meta (f (get_meta (put_meta (f (get_meta x)) x))) (put_meta (f (get_meta x)) x)
    = put_meta (f (get_meta x)) x"
  by (simp add: put_twice assms)

end

interpretation client_meta: metadata_object meta_of set_meta "\<lambda>x. set_meta (new_meta [] None None) x"
proof
  fix m n x
  show "meta_of (set_meta m x) = m" by (cases x) simp_all
  show "set_meta (meta_of x) x = x" by (cases x) simp_all
  show "set_meta m (set_meta n x) = set_meta m x" by (cases x) simp_all
  show "set_meta (new_meta [] None None) (set_meta m x) = set_meta (new_meta [] None None) x"
    by (cases x) simp_all
qed

interpretation obj_meta: metadata_object objMeta "\<lambda>m x. x\<lparr>objMeta := m\<rparr>" "\<lambda>x. (objGVK x, objSpec x)"
  by unfold_locales simp_all

lemmas client_object_simps [simp] = client_meta.get_put client_meta.put_get client_meta.put_put

lemma kind_of_set [simp]: "kind_of (set_meta m x) = kind_of x" "kind_of (set_gvk g x) = kind_of x"
  by (cases x; simp)+

lemma gvk_of_set [simp]: "gvk_of (set_meta m x) = gvk_of x" "gvk_of (set_gvk g x) = g"
  by (cases x; simp)+

lemma meta_of_set_gvk [simp]: "meta_of (set_gvk g x) = meta_of x"
  by (cases x) simp_all

lemma new_object_simps [simp]:
  "objMeta (new_object m s) = m" "objSpec (new_object m s) = s" "objGVK (new_object m s) = no_gvk"
  by (simp_all add: new_object_def)

lemma new_meta_simps [simp]:
  "omName (new_meta n l a) = n" "omNamespace (new_meta n l a) = []" "omLabels (new_meta n l a) = l"
  "omAnnotations (new_meta n l a) = a" "omOwnerReferences (new_meta n l a) = []"
  by (simp_all add: new_meta_def)

lemma selector_of_simps [simp]: "lsMatchLabels (selector_of m) = m" "lsMatchExpressions (selector_of m) = []"
  by (simp_all add: selector_of_def)

lemma peer_simps [simp]:
  "peerIPBlock (selector_peer ns pod) = None" "peerNamespaceSelector (selector_peer ns pod) = ns"
  "peerPodSelector (selector_peer ns pod) = pod" "peerNamespaceSelector (cidr_peer c ex) = None"
  "peerPodSelector (cidr_peer c ex) = None"
  "peerIPBlock (cidr_peer c ex) = Some \<lparr>ibCIDR = c, ibExcept = ex\<rparr>"
  by (simp_all add: selector_peer_def cidr_peer_def)

lemma netpol_spec_simps [simp]:
  "npsPodSelector (egress_spec sel rs) = sel" "npsPolicyTypes (egress_spec sel rs) = [''Egress'']"
  "npsEgress (egress_spec sel rs) = rs" "npsIngress (egress_spec sel rs) = []"
  "npsPodSelector (ingress_spec sel rs) = sel" "npsPolicyTypes (ingress_spec sel rs) = [''Ingress'']"
  "npsEgress (ingress_spec sel rs) = []" "npsIngress (ingress_spec sel rs) = rs"
  by (simp_all add: egress_spec_def ingress_spec_def)

end
