(* ===== verification/Api_Types.thy ===== *)
theory Api_Types
  imports K8s_Objects
begin

text \<open>
  The Package custom resource: the Go types of \<open>api/v1alpha1\<close> as records. A Go
  pointer is an option; a slice is an option only where the code tells a nil
  slice from an empty one. Where the generated schema has the same struct
  twice, once per direction, one record stands for both.
\<close>

section \<open>spec.networkPolicies\<close>

record additional_policy =
  aplAnnotations :: "string gomap"
  aplLabels :: "string gomap"
  aplName :: string
  aplSpec :: "raw_json gomap"

text \<open>The one-field structs \<open>{Enabled *bool}\<close> of the schema.\<close>

record toggle =
  tgEnabled :: "bool option"

record egress_defaults =
  edAllowInNamespace :: "toggle option"
  edAllowIstiod :: "toggle option"
  edAllowKubeDNS :: "toggle option"
  edDenyAll :: "toggle option"
  edEnabled :: "bool option"

record ingress_defaults =
  idAllowInNamespace :: "toggle option"
  idAllowPrometheusToIstioSidecar :: "toggle option"
  idDenyAll :: "toggle option"
  idEnabled :: "bool option"

record def_port =
  dpEndPort :: "int option"
  dpPort :: "int_or_string option"
  dpProtocol :: "string option"

record def_ip_block =
  dibCIDR :: "string option"
  dibExcept :: "string list option"

record def_peer =
  dprIPBlock :: "def_ip_block option"
  dprNamespaceSelector :: "raw_json gomap"
  dprPodSelector :: "raw_json gomap"

text \<open>\<open>NetworkPolicies{Egress,Ingress}DefinitionsValue\<close>: \<open>dvPeers\<close> is \<open>to\<close> or \<open>from\<close>.\<close>

record definition_value =
  dvPorts :: "def_port list"
  dvPeers :: "def_peer list"

record netpol_egress =
  neDefaults :: "egress_defaults option"
  neDefinitions :: "definition_value gomap"
  neExcludeCIDRs :: "string list option"
  neFrom :: "raw_json gomap"

record netpol_ingress =
  niDefaults :: "ingress_defaults option"
  niDefinitions :: "definition_value gomap"
  niTo :: "raw_json gomap"

record defaults_as_hooks =
  dhDeletePolicies :: "string list"
  dhEnabled :: "bool option"
  dhHooks :: "string list"
  dhWeight :: int

record network_policies =
  npAdditional :: "additional_policy list"
  npAdditionalPolicies :: "additional_policy list"
  npDefaultsAsHooks :: "defaults_as_hooks option"
  npEgress :: "netpol_egress option"
  npEnabled :: bool
  npHbonePortInjection :: "bool option"
  npIngress :: "netpol_ingress option"
  npPrependReleaseName :: bool

section \<open>spec.istio\<close>

record authz_defaults =
  adAllowInNamespace :: "toggle option"
  adDenyAll :: "toggle option"
  adEnabled :: "bool option"

text \<open>One entry of \<open>authorizationPolicies.custom\<close> or of \<open>serviceEntries.custom\<close>.\<close>

record custom_elem =
  ceAnnotations :: "string gomap"
  ceLabels :: "string gomap"
  ceName :: string
  ceSpec :: "raw_json gomap"

record additional_authz_spec =
  aasAction :: "string option"
  aasRules :: "raw_json gomap list"
  aasSelector :: "raw_json gomap"

record additional_authz =
  aaAnnotations :: "string gomap"
  aaEnabled :: bool
  aaLabels :: "string gomap"
  aaName :: "string option"
  aaNamespace :: "string option"
  aaSpec :: additional_authz_spec

record istio_authz =
  iaAdditionalPolicies :: "additional_authz gomap"
  iaCustom :: "custom_elem list"
  iaDefaults :: "authz_defaults option"
  iaEnabled :: bool
  iaGenerateFromNetpol :: "bool option"

record istio_sidecar =
  isEnabled :: bool
  isOutboundTrafficPolicyMode :: string

text \<open>\<open>istAmbient\<close>, \<open>istMtls\<close> and \<open>istServiceEntries\<close> point at one-field structs.\<close>

record istio =
  istAmbient :: "bool option"
  istAuthorizationPolicies :: "istio_authz option"
  istEnabled :: bool
  istMtls :: "string option"
  istPrependReleaseName :: bool
  istServiceEntries :: "custom_elem list option"
  istSidecar :: "istio_sidecar option"

section \<open>spec.routes\<close>

text \<open>\<open>rdInbound\<close> points at \<open>{Gateways []string}\<close>, whose slice may be nil.\<close>

record route_defaults =
  rdInbound :: "string list option option"

record routes =
  rtDefaults :: "route_defaults option"
  rtInbound :: "raw_json gomap"
  rtOutbound :: "raw_json gomap"
  rtPrependReleaseName :: bool

record route_passthrough =
  ptEnabled :: bool
  ptGatewayPort :: "int option"

record inbound_route =
  irEnabled :: bool
  irGateways :: "string list option"
  irHosts :: "string list"
  irService :: string
  irPort :: "int_or_string option"
  irContainerPort :: "int_or_string option"
  irSelector :: "string gomap"
  irHttp :: "raw_json list"
  irPassthrough :: "route_passthrough option"
  irResolution :: string
  irLabels :: "string gomap"
  irAnnotations :: "string gomap"

record outbound_route_port =
  opNumber :: "32 word"
  opName :: string
  opProtocol :: string

record route_metadata =
  rmLabels :: "string gomap"
  rmAnnotations :: "string gomap"

record outbound_route =
  orEnabled :: bool
  orHosts :: "string list"
  orLocation :: string
  orResolution :: string
  orPorts :: "outbound_route_port list"
  orMetadata :: "route_metadata option"

section \<open>The Package\<close>

record package_spec =
  psIstio :: "istio option"
  psNetworkPolicies :: "network_policies option"
  psRoutes :: "routes option"

record applied_resource =
  arAPIVersion :: string
  arKind :: string
  arName :: string

text \<open>The text of a condition is literal, or the text of an error.\<close>

datatype message = Text string | ErrorText gerror

record status_condition =
  cType :: string
  cStatus :: string
  cReason :: string
  cMessage :: message
  cObservedGeneration :: int
  cLastTransitionTime :: nat

record package_status =
  stObservedGeneration :: int
  stConditions :: "status_condition list"
  stAppliedResources :: "applied_resource list"

record package =
  pkgName :: string
  pkgNamespace :: string
  pkgUID :: string
  pkgGeneration :: int
  pkgDeleting :: bool
  pkgSpec :: package_spec
  pkgStatus :: package_status

end
