(* ===== verification/Regexp.thy ===== *)
theory Regexp
  imports Go_Strings
begin

text \<open>
  The package \<open>regexp\<close>, as far as the key grammars need it: patterns over
  character classes, anchored at both ends, and \<open>MatchString\<close>. The matcher
  works by derivatives, so it evaluates; \<open>lang\<close> is what a pattern means, and
  the interface \<open>regexp_engine\<close> states that the two agree and what follows
  for the pattern shapes the operator writes.
\<close>

datatype re =
    RNone
  | REmpty
  | RCls "char \<Rightarrow> bool"
  | RAlt re re
  | RSeq re re
  | RStar re

abbreviation ropt :: "re \<Rightarrow> re" where
  "ropt r \<equiv> RAlt r REmpty"

abbreviation rplus :: "re \<Rightarrow> re" where
  "rplus r \<equiv> RSeq r (RStar r)"

abbreviation rchar :: "char \<Rightarrow> re" where
  "rchar c \<equiv> RCls (\<lambda>x. x = c)"

fun rlit :: "string \<Rightarrow> re" where
  "rlit [] = REmpty"
| "rlit (c # s) = RSeq (rchar c) (rlit s)"

section \<open>The language of a pattern\<close>

inductive_set star_of :: "string set \<Rightarrow> string set" for A where
  star_Nil: "[] \<in> star_of A"
| star_app: "a \<in> A \<Longrightarrow> b \<in> star_of A \<Longrightarrow> a @ b \<in> star_of A"

fun lang :: "re \<Rightarrow> string set" where
  "lang RNone = {}"
| "lang REmpty = {[]}"
| "lang (RCls p) = {[c] | c. p c}"
| "lang (RAlt r s) = lang r \<union> lang s"
| "lang (RSeq r s) = {a @ b | a b. a \<in> lang r \<and> b \<in> lang s}"
| "lang (RStar r) = star_of (lang r)"

lemma star_of_Cons: "c # s \<in> star_of A \<longleftrightarrow> (\<exists>a b. s = a @ b \<and> c # a \<in> A \<and> b \<in> star_of A)"
proof
  assume "c # s \<in> star_of A"
  then show "\<exists>a b. s = a @ b \<and> c # a \<in> A \<and> b \<in> star_of A"
  proof (induction "c # s" arbitrary: s)
    case (star_app a b)
    then show ?case by (cases a) auto
  qed
next
  assume "\<exists>a b. s = a @ b \<and> c # a \<in> A \<and> b \<in> star_of A"
  then show "c # s \<in> star_of A" by (metis append_Cons star_app)
qed

section \<open>The matcher\<close>

fun nullable :: "re \<Rightarrow> bool" where
  "nullable RNone = False"
| "nullable REmpty = True"
| "nullable (RCls p) = False"
| "nullable (RAlt r s) = (nullable r \<or> nullable s)"
| "nullable (RSeq r s) = (nullable r \<and> nullable s)"
| "nullable (RStar r) = True"

fun mk_alt :: "re \<Rightarrow> re \<Rightarrow> re" where
  "mk_alt RNone s = s"
| "mk_alt r RNone = r"
| "mk_alt r s = RAlt r s"

fun mk_seq :: "re \<Rightarrow> re \<Rightarrow> re" where
  "mk_seq RNone s = RNone"
| "mk_seq REmpty s = s"
| "mk_seq r s = RSeq r s"

fun deriv :: "char \<Rightarrow> re \<Rightarrow> re" where
  "deriv c RNone = RNone"
| "deriv c REmpty = RNone"
| "deriv c (RCls p) = (if p c then REmpty else RNone)"
| "deriv c (RAlt r s) = mk_alt (deriv c r) (deriv c s)"
| "deriv c (RSeq r s) =
     (if nullable r then mk_alt (mk_seq (deriv c r) s) (deriv c s) else mk_seq (deriv c r) s)"
| "deriv c (RStar r) = mk_seq (deriv c r) (RStar r)"

fun MatchString :: "re \<Rightarrow> string \<Rightarrow> bool" where
  "MatchString r [] = nullable r"
| "MatchString r (c # s) = MatchString (deriv c r) s"

lemma lang_mk_alt [simp]: "lang (mk_alt r s) = lang r \<union> lang s"
  by (cases "(r, s)" rule: mk_alt.cases) auto

lemma lang_mk_seq [simp]: "lang (mk_seq r s) = lang (RSeq r s)"
  by (cases "(r, s)" rule: mk_seq.cases) auto

lemma nullable_lang: "nullable r \<longleftrightarrow> [] \<in> lang r"
  by (induction r) (auto intro: star_Nil)

lemma deriv_lang: "s \<in> lang (deriv c r) \<longleftrightarrow> c # s \<in> lang r"
proof (induction r arbitrary: s)
  case (RSeq r t)
  have "c # s \<in> lang (RSeq r t) \<longleftrightarrow>
      (\<exists>a b. s = a @ b \<and> c # a \<in> lang r \<and> b \<in> lang t) \<or> [] \<in> lang r \<and> c # s \<in> lang t"
    by (auto simp: Cons_eq_append_conv)
  then show ?case using RSeq by (auto simp: nullable_lang)
next
  case (RStar r)
  then show ?case by (auto simp: star_of_Cons)
qed auto

lemma MatchString_lang: "MatchString r s \<longleftrightarrow> s \<in> lang r"
  by (induction s arbitrary: r) (auto simp: nullable_lang deriv_lang)

section \<open>The interface the key parsers rely on\<close>

lemma lang_rlit [simp]: "lang (rlit s) = {s}"
  by (induction s) auto

lemma star_of_cls: "s \<in> star_of {[c] | c. p c} \<longleftrightarrow> list_all p s"
proof
  assume "s \<in> star_of {[c] | c. p c}"
  then show "list_all p s" by induction auto
next
  assume "list_all p s"
  then show "s \<in> star_of {[c] | c. p c}"
  proof (induction s)
    case (Cons c s)
    then have "[c] @ s \<in> star_of {[c] | c. p c}" by (intro star_app) auto
    then show ?case by simp
  qed (simp add: star_Nil)
qed

locale regexp_engine =
  fixes match_string :: "re \<Rightarrow> string \<Rightarrow> bool"
  assumes match_lang: "match_string r s \<longleftrightarrow> s \<in> lang r"
begin

lemma match_cls: "match_string (RCls p) s \<longleftrightarrow> (\<exists>c. s = [c] \<and> p c)"
  by (simp add: match_lang)

lemma match_lit: "match_string (rlit l) s \<longleftrightarrow> s = l"
  by (simp add: match_lang)

lemma match_alt: "match_string (RAlt r t) s \<longleftrightarrow> match_string r s \<or> match_string t s"
  by (simp add: match_lang)

lemma match_empty: "match_string REmpty s \<longleftrightarrow> s = []"
  by (simp add: match_lang)

lemma match_seq:
  "match_string (RSeq r t) s \<longleftrightarrow> (\<exists>a b. s = a @ b \<and> match_string r a \<and> match_string t b)"
  by (simp add: match_lang)

lemma match_star_cls: "match_string (RStar (RCls p)) s \<longleftrightarrow> list_all p s"
  by (simp add: match_lang star_of_cls)

lemma match_plus_cls: "match_string (rplus (RCls p)) s \<longleftrightarrow> s \<noteq> [] \<and> list_all p s"
proof
  assume "match_string (rplus (RCls p)) s"
  then obtain a b where "s = a @ b" "match_string (RCls p) a" "list_all p b"
    by (auto simp: match_seq match_star_cls)
  then show "s \<noteq> [] \<and> list_all p s" by (auto simp: match_cls)
next
  assume "s \<noteq> [] \<and> list_all p s"
  then obtain c b where "s = [c] @ b" "match_string (RCls p) [c]" "match_string (RStar (RCls p)) b"
    by (cases s) (auto simp: match_cls match_star_cls)
  then show "match_string (rplus (RCls p)) s" unfolding match_seq by blast
qed

text \<open>A separated repetition \<open>(sep item)*\<close> is the concatenation of its items.\<close>

lemma match_star:
  "match_string (RStar r) s \<longleftrightarrow> (\<exists>ts. s = concat ts \<and> (\<forall>t \<in> set ts. match_string r t))"
proof
  assume "match_string (RStar r) s"
  then have "s \<in> star_of (lang r)" by (simp add: match_lang)
  then show "\<exists>ts. s = concat ts \<and> (\<forall>t \<in> set ts. match_string r t)"
  proof induction
    case star_Nil
    show ?case by (rule exI [of _ "[]"]) simp
  next
    case (star_app a b)
    then obtain ts where "b = concat ts" "\<forall>t \<in> set ts. match_string r t" by blast
    with star_app(1) show ?case by (intro exI [of _ "a # ts"]) (simp add: match_lang)
  qed
next
  assume "\<exists>ts. s = concat ts \<and> (\<forall>t \<in> set ts. match_string r t)"
  then obtain ts where "s = concat ts" "\<forall>t \<in> set ts. match_string r t" by blast
  then show "match_string (RStar r) s"
    by (induction ts arbitrary: s) (auto simp: match_lang intro: star_of.intros)
qed

end

interpretation rx: regexp_engine MatchString
  by unfold_locales (rule MatchString_lang)

lemmas rx_simps = rx.match_cls rx.match_lit rx.match_alt rx.match_empty rx.match_seq
  rx.match_star_cls rx.match_plus_cls

text \<open>The character classes of the key grammars.\<close>

definition is_alnum_dash :: "char \<Rightarrow> bool" where
  "is_alnum_dash c \<longleftrightarrow>
     CHR ''A'' \<le> c \<and> c \<le> CHR ''Z'' \<or> CHR ''a'' \<le> c \<and> c \<le> CHR ''z'' \<or> is_digit c \<or> c = CHR ''-''"

definition is_word_dash :: "char \<Rightarrow> bool" where
  "is_word_dash c \<longleftrightarrow> is_alnum_dash c \<or> c = CHR ''_''"

lemma is_alnum_dash_code:
  "is_alnum_dash c \<longleftrightarrow>
     65 \<le> (of_char c :: nat) \<and> (of_char c :: nat) \<le> 90 \<or> 97 \<le> (of_char c :: nat) \<and> (of_char c :: nat) \<le> 122
     \<or> 48 \<le> (of_char c :: nat) \<and> (of_char c :: nat) \<le> 57 \<or> c = CHR ''-''"
  by (simp add: is_alnum_dash_def is_digit_code less_eq_char_def)

lemma digit_alnum_dash [simp]: "is_digit c \<Longrightarrow> is_alnum_dash c"
  by (simp add: is_alnum_dash_def)

lemma alnum_word_dash [simp]: "is_alnum_dash c \<Longrightarrow> is_word_dash c"
  by (simp add: is_word_dash_def)

lemma word_dash_not_special:
  "is_word_dash c \<Longrightarrow> c \<notin> {CHR '':'', CHR ''/'', CHR ''@'', CHR ''*'', CHR ''['', CHR '']'', CHR '','', CHR ''.''}"
  by (auto simp: is_word_dash_def is_alnum_dash_code)

lemma alnum_dash_not_special:
  "is_alnum_dash c \<Longrightarrow> c \<notin> {CHR '':'', CHR ''/'', CHR ''@'', CHR ''*'', CHR ''['', CHR '']'', CHR '','', CHR ''.''}"
  by (simp add: word_dash_not_special del: insert_iff)

lemma list_all_notin: "list_all p s \<Longrightarrow> \<not> p c \<Longrightarrow> c \<notin> set s"
  by (auto simp: list_all_iff)

end
