(* ===== verification/Names.thy ===== *)
theory Names
  imports Api_Types
begin

text \<open>
  Resource names (\<open>pkg/generator/names.go\<close>). The indexing of
  \<open>namePortSuffix\<close> is written out: a range flag with fewer than two ports is
  the run-time panic it is in Go. The lemmas show that the suffix and the CIDR
  segment determine the ports and the CIDR they were made from.
\<close>

definition cidrAnywhere :: string where
  "cidrAnywhere = ''0.0.0.0/0''"

definition nameAnyPod :: string where
  "nameAnyPod = ''any-pod''"

definition prependName :: "bool \<Rightarrow> string \<Rightarrow> string \<Rightarrow> string" where
  "prependName prepend releaseName name = (if \<not> prepend then name else releaseName @ ''-'' @ name)"

definition cidrNameSegment :: "string \<Rightarrow> string" where
  "cidrNameSegment cidr =
     (let out = replace_char (CHR ''.'') (CHR ''-'') cidr in replace_char (CHR ''/'') (CHR ''-'') out)"

definition namePortSuffix :: "int list \<Rightarrow> bool \<Rightarrow> string res" where
  "namePortSuffix ports hasRange =
     (if ports = [] then Inr ''any-port''
      else if hasRange then
        (case ports of a # b # _ \<Rightarrow> Inr (''ports-'' @ itoa a @ ''-thru-'' @ itoa b)
         | _ \<Rightarrow> Inl (Panic ''index out of range''))
      else
        (let pre = (if length ports > 1 then ''ports'' else ''port'')
         in Inr (pre @ concat (map (\<lambda>p. ''-'' @ itoa p) ports))))"

section \<open>Names determine what they name\<close>

lemma prependName_inject [simp]: "prependName p r a = prependName p r b \<longleftrightarrow> a = b"
  by (simp add: prependName_def)

text \<open>The ports a parser returns: two for a range.\<close>

definition port_shape :: "int list \<Rightarrow> bool \<Rightarrow> bool" where
  "port_shape ports hasRange \<longleftrightarrow> (hasRange \<longrightarrow> length ports = 2)"

lemma port_shape_cases:
  assumes "port_shape ports hasRange"
  obtains "ports = []" "\<not> hasRange"
    | a b where "hasRange" "ports = [a, b]"
    | p ps where "\<not> hasRange" "ports = p # ps"
proof (cases hasRange)
  case True
  with assms obtain a b where "ports = [a, b]"
    by (auto simp: port_shape_def numeral_2_eq_2 length_Suc_conv)
  with True that(2) show thesis by blast
next
  case False
  with that(1,3) show thesis by (cases ports) auto
qed

lemma safe_namePortSuffix: "port_shape ports hasRange \<Longrightarrow> \<exists>s. namePortSuffix ports hasRange = Inr s"
  by (erule port_shape_cases) (simp_all add: namePortSuffix_def Let_def)

lemma dash_not_in_itoa [simp]: "0 \<le> p \<Longrightarrow> CHR ''-'' \<notin> set (itoa p)"
  by (simp add: itoa_def is_digit_code)

lemma itoa_nonneg_inject: "0 \<le> p \<Longrightarrow> 0 \<le> q \<Longrightarrow> itoa p = itoa q \<longleftrightarrow> p = q"
  by (simp add: itoa_def eq_nat_nat_iff)

lemma itoa_neq_thru [simp]: "0 \<le> p \<Longrightarrow> itoa p \<noteq> ''thru''" "0 \<le> p \<Longrightarrow> ''thru'' \<noteq> itoa p"
proof -
  have "\<not> list_all is_digit ''thru''" by (simp add: is_digit_code)
  then show "itoa p \<noteq> ''thru''" "''thru'' \<noteq> itoa p" if "0 \<le> p"
    using that nat_digits_all_digit [of "nat p"] by (metis itoa_def not_less)+
qed

text \<open>Splitting a suffix at its dashes recovers its words.\<close>

definition suffix_words :: "int list \<Rightarrow> bool \<Rightarrow> string list" where
  "suffix_words ports hasRange =
     (if ports = [] then [''any'', ''port'']
      else if hasRange then [''ports'', itoa (ports ! 0), ''thru'', itoa (ports ! 1)]
      else (if length ports > 1 then ''ports'' else ''port'') # map itoa ports)"

lemma split_dashed: "(\<forall>p \<in> set ps. 0 \<le> p) \<Longrightarrow> CHR ''-'' \<notin> set w \<Longrightarrow>
    split_on (CHR ''-'') (w @ concat (map (\<lambda>p. ''-'' @ itoa p) ps)) = w # map itoa ps"
  by (induction ps arbitrary: w) (simp_all add: split_on_no_sep split_on_append)

lemma split_namePortSuffix:
  assumes "port_shape ports hasRange" "\<forall>p \<in> set ports. 0 \<le> p" "namePortSuffix ports hasRange = Inr s"
  shows "split_on (CHR ''-'') s = suffix_words ports hasRange"
  using assms(1)
proof (cases rule: port_shape_cases)
  case 1
  with assms(3) show ?thesis by (auto simp: namePortSuffix_def suffix_words_def)
next
  case (2 a b)
  from assms(2) 2 have ab: "0 \<le> a" "0 \<le> b" by simp_all
  from assms(3) 2 have s: "s = join ''-'' [''ports'', itoa a, ''thru'', itoa b]"
    by (simp add: namePortSuffix_def)
  have "split_on (CHR ''-'') (join ''-'' [''ports'', itoa a, ''thru'', itoa b])
      = [''ports'', itoa a, ''thru'', itoa b]"
    by (rule split_on_join) (use ab in auto)
  then show ?thesis using 2 unfolding s by (simp add: suffix_words_def)
next
  case (3 p ps)
  then have "s = (if length ports > 1 then ''ports'' else ''port'') @ concat (map (\<lambda>p. ''-'' @ itoa p) ports)"
    using assms(3) by (auto simp: namePortSuffix_def Let_def)
  moreover have "split_on (CHR ''-'') (w @ concat (map (\<lambda>p. ''-'' @ itoa p) ports)) = w # map itoa ports"
    if "CHR ''-'' \<notin> set w" for w
    using assms(2) that by (rule split_dashed)
  ultimately show ?thesis using 3 by (simp add: suffix_words_def)
qed

lemma map_itoa_inject:
  "(\<forall>p \<in> set ps. 0 \<le> p) \<Longrightarrow> (\<forall>q \<in> set qs. 0 \<le> q) \<Longrightarrow> map itoa ps = map itoa qs \<Longrightarrow> ps = qs"
  by (rule map_inj_on [of itoa]) (auto simp: inj_on_def itoa_nonneg_inject)

lemma suffix_words_inject:
  assumes "port_shape ps r" "\<forall>p \<in> set ps. 0 \<le> p" "port_shape qs t" "\<forall>q \<in> set qs. 0 \<le> q"
    and "suffix_words ps r = suffix_words qs t"
  shows "ps = qs \<and> (ps \<noteq> [] \<longrightarrow> r = t)"
  using assms(1)
proof (cases rule: port_shape_cases)
  case 1
  from assms(3) show ?thesis
    by (cases rule: port_shape_cases) (use 1 assms in \<open>auto simp: suffix_words_def split: if_splits\<close>)
next
  case (2 a b)
  from assms(3) show ?thesis
    by (cases rule: port_shape_cases)
      (use 2 assms in \<open>auto simp: suffix_words_def itoa_nonneg_inject split: if_splits\<close>)
next
  case (3 p ps')
  from assms(3) show ?thesis
  proof (cases rule: port_shape_cases)
    case (2 a b)
    then show ?thesis using 3 assms
      by (auto simp: suffix_words_def Cons_eq_map_conv map_eq_Cons_conv split: if_splits)
  next
    case (3 q qs')
    with \<open>\<not> r\<close> \<open>ps = p # ps'\<close> assms show ?thesis
      using map_itoa_inject [of ps' qs'] by (auto simp: suffix_words_def itoa_nonneg_inject split: if_splits)
  qed (use 3 assms in \<open>auto simp: suffix_words_def split: if_splits\<close>)
qed

text \<open>Two port specifications get the same name suffix only when they are the same
  ports, given as a range or as a list alike: a generated name never merges two of them.\<close>

theorem namePortSuffix_injective:
  assumes "port_shape ps r" "\<forall>p \<in> set ps. 0 \<le> p"
    and "port_shape qs t" "\<forall>q \<in> set qs. 0 \<le> q"
    and "namePortSuffix ps r = namePortSuffix qs t"
  shows "ps = qs \<and> (ps \<noteq> [] \<longrightarrow> r = t)"
proof -
  from safe_namePortSuffix [OF assms(1)] obtain s where s: "namePortSuffix ps r = Inr s" by blast
  with assms(5) have t: "namePortSuffix qs t = Inr s" by simp
  have "suffix_words ps r = suffix_words qs t"
    using split_namePortSuffix [OF assms(1,2) s] split_namePortSuffix [OF assms(3,4) t] by simp
  then show ?thesis by (rule suffix_words_inject [OF assms(1-4)])
qed

theorem namePortSuffix_injective_witness:
  "namePortSuffix [8000, 9000] True \<noteq> namePortSuffix [8000, 9000] False"
  using namePortSuffix_injective [of "[8000, 9000]" True "[8000, 9000]" False] by (auto simp: port_shape_def)

end
