(* ===== verification/Shorthand.thy ===== *)
theory Shorthand
  imports Api_Types Regexp Names
begin

text \<open>
  The key grammars of the shorthand rules (\<open>pkg/generator/shorthand.go\<close>): the five
  regular expressions, the port specification and the five key parsers, and
  the theorems that each parser accepts exactly the keys of its documented
  grammar and returns what the key says.
\<close>

definition protoTCP :: string where
  "protoTCP = ''TCP''"

record parsedK8sRemote =
  kNamespace :: string
  kPod :: string
  kIdentity :: string
  kProtocol :: string
  kPorts :: "int list"
  kHasPortRange :: bool

record parsedLocalIngressKey =
  lPod :: string
  lProtocol :: string
  lPorts :: "int list"
  lHasPortRange :: bool

record parsedCIDR =
  pcCIDR :: string
  pcProtocol :: string
  pcPorts :: "int list"
  pcHasPortRange :: bool

section \<open>The regular expressions\<close>

definition proto_re :: re where
  "proto_re = ropt (RSeq (RAlt (rlit ''tcp'') (rlit ''udp'')) (rlit ''://''))"

definition name_re :: re where
  "name_re = RAlt (rplus (RCls is_alnum_dash)) (rlit ''*'')"

definition num_re :: re where
  "num_re = rplus (RCls is_digit)"

definition range_re :: re where
  "range_re = RSeq num_re (RSeq (rlit ''-'') num_re)"

definition list_re :: re where
  "list_re = RSeq (ropt (rlit ''['')) (RSeq num_re (RSeq (RStar (RSeq (rlit '','') num_re)) (ropt (rlit '']''))))"

definition cidr_re :: re where
  "cidr_re = (let octet = RSeq num_re (rlit ''.'') in
     RSeq octet (RSeq octet (RSeq octet (RSeq num_re (RSeq (rlit ''/'') num_re)))))"

definition egressRemoteKeyRe :: re where
  "egressRemoteKeyRe = RSeq proto_re (RSeq name_re (RSeq (ropt (RSeq (rlit ''/'') name_re))
     (ropt (RSeq (rlit '':'') (RAlt num_re (RAlt range_re list_re))))))"

definition ingressRemoteKeyRe :: re where
  "ingressRemoteKeyRe = RSeq (ropt (RSeq (rplus (RCls is_alnum_dash)) (rlit ''@'')))
     (RSeq name_re (ropt (RSeq (rlit ''/'') name_re)))"

definition ingressLocalKeyRe :: re where
  "ingressLocalKeyRe = RSeq proto_re (RSeq (rplus (RCls is_word_dash))
     (ropt (RSeq (rlit '':'') (RAlt list_re (RAlt num_re range_re)))))"

definition egressCIDRKeyRe :: re where
  "egressCIDRKeyRe = RSeq proto_re (RSeq cidr_re
     (ropt (RSeq (rlit '':'') (RAlt num_re (RAlt range_re list_re)))))"

definition ingressCIDRKeyRe :: re where
  "ingressCIDRKeyRe = cidr_re"

declare rlit.simps [simp del]

section \<open>The parsers\<close>

definition parsePortSpec :: "string \<Rightarrow> (int list \<times> bool) res" where
  "parsePortSpec s0 =
     (let s = trim_space s0;
          s = trim_prefix ''['' s;
          s = trim_suffix '']'' s
      in case str_index s ''-'' of
           Some i \<Rightarrow>
             (case (atoi (take i s), atoi (drop (i + 1) s)) of
                (Some a, Some b) \<Rightarrow> Inr ([a, b], True)
              | _ \<Rightarrow> Inl (Errorf ''bad port range %q'' [s]))
         | None \<Rightarrow>
             rbind (rmap (\<lambda>p. case atoi (trim_space p) of
                        Some n \<Rightarrow> Inr n
                      | None \<Rightarrow> Inl (Errorf ''bad port %q'' [p])) (split_on (CHR '','') s))
               (\<lambda>out. Inr (out, False)))"

text \<open>
  The step \<open>if i := strings.Index(rest, "://"); i >= 0\<close> that three parsers
  begin with: the protocol and the rest of the key.
\<close>

definition split_protocol :: "string \<Rightarrow> string \<times> string" where
  "split_protocol rest =
     (case str_index rest ''://'' of
        Some i \<Rightarrow> (to_upper (take i rest), drop (i + 3) rest)
      | None \<Rightarrow> (protoTCP, rest))"

text \<open>The step \<open>if i := strings.Index(rest, ":"); i >= 0\<close>: the ports, the range flag, and the rest.\<close>

definition split_ports :: "string \<Rightarrow> (int list \<times> bool \<times> string) res" where
  "split_ports rest =
     (case str_index rest '':'' of
        Some i \<Rightarrow> rbind (parsePortSpec (drop (i + 1) rest)) (\<lambda>(ports, hasRange). Inr (ports, hasRange, take i rest))
      | None \<Rightarrow> Inr ([], False, rest))"

text \<open>The step \<open>if i := strings.Index(rest, "/"); i >= 0\<close>: namespace and pod.\<close>

definition split_pod :: "string \<Rightarrow> string \<times> string" where
  "split_pod rest =
     (case str_index rest ''/'' of
        Some i \<Rightarrow> (take i rest, drop (i + 1) rest)
      | None \<Rightarrow> (rest, []))"

definition parseEgressRemoteKey :: "string \<Rightarrow> parsedK8sRemote res" where
  "parseEgressRemoteKey key =
     (if \<not> MatchString egressRemoteKeyRe key
      then Inl (Errorf ''egress k8s key %q does not match `[<tcp|udp>://]<ns>[/<pod>][:<ports>]`'' [key])
      else (let (protocol, rest) = split_protocol key
            in rbind (split_ports rest) (\<lambda>(ports, hasRange, rest).
                 let (ns, pod) = split_pod rest
                 in Inr \<lparr>kNamespace = ns, kPod = pod, kIdentity = [], kProtocol = protocol,
                        kPorts = ports, kHasPortRange = hasRange\<rparr>)))"

definition parseIngressRemoteKey :: "string \<Rightarrow> parsedK8sRemote res" where
  "parseIngressRemoteKey key =
     (if \<not> MatchString ingressRemoteKeyRe key
      then Inl (Errorf ''ingress k8s key %q does not match `[<identity>@]<ns>[/<pod>]`'' [key])
      else (let (identity, rest) = (case str_index key ''@'' of
                    Some i \<Rightarrow> (take i key, drop (i + 1) key) | None \<Rightarrow> ([], key));
                (ns, pod) = split_pod rest
            in Inr \<lparr>kNamespace = ns, kPod = pod, kIdentity = identity, kProtocol = protoTCP,
                   kPorts = [], kHasPortRange = False\<rparr>))"

definition parseIngressLocalKey :: "string \<Rightarrow> parsedLocalIngressKey res" where
  "parseIngressLocalKey key =
     (if \<not> MatchString ingressLocalKeyRe key
      then Inl (Errorf ''ingress local key %q does not match `[<udp|tcp>://]<pod-name>[:<ports>]`'' [key])
      else (let (protocol, rest) = split_protocol key
            in rbind (split_ports rest) (\<lambda>(ports, hasRange, rest).
                 Inr \<lparr>lPod = rest, lProtocol = protocol, lPorts = ports, lHasPortRange = hasRange\<rparr>)))"

text \<open>\<open>strings.LastIndex\<close> as the Go integer, \<open>-1\<close> when there is none.\<close>

definition last_index_int :: "string \<Rightarrow> char \<Rightarrow> int" where
  "last_index_int s c = (case last_index s c of None \<Rightarrow> -1 | Some i \<Rightarrow> int i)"

definition parseEgressCIDRKey :: "string \<Rightarrow> parsedCIDR res" where
  "parseEgressCIDRKey key =
     (if \<not> MatchString egressCIDRKeyRe key
      then Inl (Errorf ''egress cidr key %q does not match `[<tcp|udp>://]<cidr>[:<ports>]`'' [key])
      else (let (protocol, rest) = split_protocol key; i = last_index_int rest (CHR '':'')
            in if i > last_index_int rest (CHR ''/'')
               then rbind (parsePortSpec (drop (nat i + 1) rest)) (\<lambda>(ports, hasRange).
                      Inr \<lparr>pcCIDR = take (nat i) rest, pcProtocol = protocol, pcPorts = ports, pcHasPortRange = hasRange\<rparr>)
               else Inr \<lparr>pcCIDR = rest, pcProtocol = protocol, pcPorts = [], pcHasPortRange = False\<rparr>))"

definition parseIngressCIDRKey :: "string \<Rightarrow> parsedCIDR res" where
  "parseIngressCIDRKey key =
     (if \<not> MatchString ingressCIDRKeyRe key
      then Inl (Errorf ''ingress cidr key %q does not match `<cidr>`'' [key])
      else Inr \<lparr>pcCIDR = key, pcProtocol = protoTCP, pcPorts = [], pcHasPortRange = False\<rparr>)"

section \<open>The texts of the grammar\<close>

text \<open>
  The parts of a key as the documentation names them: an optional protocol, a
  name or \<open>*\<close>, an optional pod, optional ports. \<open>PortList\<close> keeps whether each
  bracket was written.
\<close>

datatype ports_text = NoPorts | PortRange string string | PortList bool "string list" bool

definition is_number :: "string \<Rightarrow> bool" where
  "is_number s \<longleftrightarrow> s \<noteq> [] \<and> list_all is_digit s"

definition is_name :: "string \<Rightarrow> bool" where
  "is_name s \<longleftrightarrow> s \<noteq> [] \<and> list_all is_alnum_dash s \<or> s = ''*''"

fun ports_ok :: "ports_text \<Rightarrow> bool" where
  "ports_ok NoPorts = True"
| "ports_ok (PortRange a b) = (is_number a \<and> is_number b)"
| "ports_ok (PortList l ns r) = (ns \<noteq> [] \<and> list_all is_number ns)"

fun show_spec :: "ports_text \<Rightarrow> string" where
  "show_spec NoPorts = []"
| "show_spec (PortRange a b) = a @ ''-'' @ b"
| "show_spec (PortList l ns r) = (if l then ''['' else []) @ join '','' ns @ (if r then '']'' else [])"

definition show_ports :: "ports_text \<Rightarrow> string" where
  "show_ports pt = (if pt = NoPorts then [] else '':'' @ show_spec pt)"

definition port_number :: "string \<Rightarrow> int" where
  "port_number n = int (dec_value n)"

fun ports_value :: "ports_text \<Rightarrow> int list \<times> bool" where
  "ports_value NoPorts = ([], False)"
| "ports_value (PortRange a b) = ([port_number a, port_number b], True)"
| "ports_value (PortList l ns r) = (map port_number ns, False)"

definition ports_fit :: "ports_text \<Rightarrow> bool" where
  "ports_fit pt \<longleftrightarrow> list_all (int_fits 64) (fst (ports_value pt))"

definition proto_ok :: "string option \<Rightarrow> bool" where
  "proto_ok p \<longleftrightarrow> p \<in> {None, Some ''tcp'', Some ''udp''}"

definition show_proto :: "string option \<Rightarrow> string" where
  "show_proto p = (case p of None \<Rightarrow> [] | Some t \<Rightarrow> t @ ''://'')"

definition proto_value :: "string option \<Rightarrow> string" where
  "proto_value p = (case p of None \<Rightarrow> protoTCP | Some t \<Rightarrow> to_upper t)"

definition pod_ok :: "string option \<Rightarrow> bool" where
  "pod_ok p \<longleftrightarrow> (case p of None \<Rightarrow> True | Some t \<Rightarrow> is_name t)"

definition show_pod :: "string option \<Rightarrow> string" where
  "show_pod p = (case p of None \<Rightarrow> [] | Some t \<Rightarrow> ''/'' @ t)"

definition pod_value :: "string option \<Rightarrow> string" where
  "pod_value p = (case p of None \<Rightarrow> [] | Some t \<Rightarrow> t)"

subsection \<open>What the expressions match\<close>

lemma match_num: "MatchString num_re s \<longleftrightarrow> is_number s"
  by (simp add: num_re_def is_number_def rx.match_plus_cls)

lemma match_name: "MatchString name_re s \<longleftrightarrow> is_name s"
  by (simp add: name_re_def is_name_def rx.match_alt rx.match_plus_cls rx.match_lit)

lemma match_proto: "MatchString proto_re s \<longleftrightarrow> (\<exists>p. proto_ok p \<and> s = show_proto p)"
proof -
  have "MatchString proto_re s \<longleftrightarrow> s = ''tcp://'' \<or> s = ''udp://'' \<or> s = []"
    by (auto simp: proto_re_def rx.match_alt rx.match_lit rx.match_empty rx.match_seq)
  then show ?thesis by (simp add: proto_ok_def show_proto_def conj_disj_distribR ex_disj_distrib disj_ac)
qed

lemma match_pod: "MatchString (ropt (RSeq (rlit ''/'') name_re)) s \<longleftrightarrow> (\<exists>p. pod_ok p \<and> s = show_pod p)"
  by (auto simp: rx_simps match_name pod_ok_def show_pod_def split: option.splits)

lemma match_range: "MatchString range_re s \<longleftrightarrow> (\<exists>a b. is_number a \<and> is_number b \<and> s = a @ ''-'' @ b)"
  by (auto simp: range_re_def rx_simps match_num)

lemma join_comma_Cons: "join '','' (n # ns) = n @ concat (map (\<lambda>m. '','' @ m) ns)"
  by (induction ns arbitrary: n) auto

lemma match_tail: "MatchString (RStar (RSeq (rlit '','') num_re)) s \<longleftrightarrow>
    (\<exists>ns. list_all is_number ns \<and> s = concat (map (\<lambda>m. '','' @ m) ns))"
proof -
  have item: "MatchString (RSeq (rlit '','') num_re) t \<longleftrightarrow> (\<exists>n. is_number n \<and> t = '','' @ n)" for t
    by (auto simp: rx_simps match_num)
  have "(\<exists>ts. s = concat ts \<and> (\<forall>t \<in> set ts. \<exists>n. is_number n \<and> t = '','' @ n)) \<longleftrightarrow>
      (\<exists>ns. list_all is_number ns \<and> s = concat (map (\<lambda>m. '','' @ m) ns))" (is "?L = ?R")
  proof
    assume ?L
    then obtain ts where ts: "s = concat ts" "\<forall>t \<in> set ts. \<exists>n. is_number n \<and> t = '','' @ n" by blast
    then have "ts = map (\<lambda>m. '','' @ m) (map tl ts)" "list_all is_number (map tl ts)"
      by (induction ts arbitrary: s) auto
    with ts(1) show ?R by metis
  next
    assume ?R
    then show ?L by (force simp: list_all_iff)
  qed
  then show ?thesis by (simp add: rx.match_star item)
qed

lemma match_list: "MatchString list_re s \<longleftrightarrow>
    (\<exists>l ns r. ns \<noteq> [] \<and> list_all is_number ns \<and> s = show_spec (PortList l ns r))" (is "?L = ?R")
proof
  assume ?L
  then obtain a n ns c where *: "is_number n" "list_all is_number ns" "a = ''['' \<or> a = []" "c = '']'' \<or> c = []"
    "s = a @ n @ concat (map (\<lambda>m. '','' @ m) ns) @ c"
    by (auto simp: list_re_def rx.match_seq match_num match_tail rx.match_alt rx.match_lit rx.match_empty
       )
  then have "s = show_spec (PortList (a = ''['') (n # ns) (c = '']''))"
    by (auto simp: join_comma_Cons)
  with * show ?R by (intro exI [of _ "a = ''[''"] exI [of _ "n # ns"] exI [of _ "c = '']''"]) simp
next
  assume ?R
  then obtain l n ns r where *: "is_number n" "list_all is_number ns" "s = show_spec (PortList l (n # ns) r)"
    by (metis list.exhaust list.pred_inject(2))
  then have "s = (if l then ''['' else []) @ n @ concat (map (\<lambda>m. '','' @ m) ns) @ (if r then '']'' else [])"
    by (simp add: join_comma_Cons)
  moreover have "MatchString (ropt (rlit ''['')) (if l then ''['' else [])"
    "MatchString (ropt (rlit '']'')) (if r then '']'' else [])"
    by (simp_all add: rx_simps)
  moreover have "MatchString (RStar (RSeq (rlit '','') num_re)) (concat (map (\<lambda>m. '','' @ m) ns))"
    using * match_tail by blast
  ultimately show ?L unfolding list_re_def rx.match_seq using * match_num by blast
qed

lemma match_list_show:
  "ns \<noteq> [] \<Longrightarrow> list_all is_number ns \<Longrightarrow> MatchString list_re (show_spec (PortList l ns r))"
  using match_list by blast

lemma match_num_list: "is_number s \<Longrightarrow> MatchString list_re s"
  unfolding match_list by (intro exI [of _ False] exI [of _ "[s]"]) simp

lemma match_ports:
  "MatchString (ropt (RSeq (rlit '':'') (RAlt num_re (RAlt range_re list_re)))) s \<longleftrightarrow>
     (\<exists>pt. ports_ok pt \<and> s = show_ports pt)" (is "?A \<longleftrightarrow> ?B")
  "MatchString (ropt (RSeq (rlit '':'') (RAlt list_re (RAlt num_re range_re)))) s \<longleftrightarrow>
     (\<exists>pt. ports_ok pt \<and> s = show_ports pt)" (is "?C \<longleftrightarrow> ?B")
proof -
  have spec: "MatchString range_re t \<or> MatchString list_re t \<longleftrightarrow> (\<exists>pt. pt \<noteq> NoPorts \<and> ports_ok pt \<and> t = show_spec pt)"
    (is "_ = ?P") for t
  proof
    assume "MatchString range_re t \<or> MatchString list_re t"
    then show ?P by (auto simp only: match_range match_list) (metis ports_ok.simps show_spec.simps ports_text.distinct)+
  next
    assume ?P
    then obtain pt where "pt \<noteq> NoPorts" "ports_ok pt" "t = show_spec pt" by blast
    then show "MatchString range_re t \<or> MatchString list_re t"
      by (cases pt) (auto simp: match_range match_list_show simp del: show_spec.simps(3))
  qed
  have "?B \<longleftrightarrow> s = [] \<or> (\<exists>t. s = '':'' @ t \<and> (MatchString range_re t \<or> MatchString list_re t))"
    unfolding spec by (auto simp: show_ports_def)
  then show "?A \<longleftrightarrow> ?B" "?C \<longleftrightarrow> ?B"
    by (auto simp: rx_simps match_num dest: match_num_list)
qed

subsection \<open>Reading the parts back\<close>

lemma digit_facts:
  assumes "is_digit c"
  shows "\<not> is_space c" "c \<noteq> CHR ''-''" "c \<noteq> CHR '',''" "c \<noteq> CHR ''[''" "c \<noteq> CHR '']''" "c \<noteq> CHR '':''" "c \<noteq> CHR ''/''"
  using assms by (auto simp: is_digit_code is_space_def)

lemma number_facts:
  assumes "is_number n"
  shows "list_all (\<lambda>c. \<not> is_space c) n" "CHR ''-'' \<notin> set n" "CHR '','' \<notin> set n" "CHR ''['' \<notin> set n"
    "CHR '']'' \<notin> set n" "CHR '':'' \<notin> set n" "CHR ''/'' \<notin> set n" "n \<noteq> []"
  using assms by (auto simp: is_number_def list_all_iff dest: digit_facts)

lemma atoi_number: "is_number n \<Longrightarrow> atoi n = (if int_fits 64 (port_number n) then Some (port_number n) else None)"
  by (simp add: atoi_def is_number_def parse_int_digits port_number_def)

lemma set_join: "set (join [x] ts) \<subseteq> insert x (\<Union>t \<in> set ts. set t)"
  by (induction "[x]" ts rule: join.induct) auto

lemma join_hd: "ts \<noteq> [] \<Longrightarrow> hd ts \<noteq> [] \<Longrightarrow> \<exists>u. join sep ts = hd (hd ts) # u"
  by (induction sep ts rule: join.induct) (auto simp: neq_Nil_conv)

lemma join_not_Nil: "list_all is_number ts \<Longrightarrow> ts \<noteq> [] \<Longrightarrow> join sep ts \<noteq> []"
  by (cases "(sep, ts)" rule: join.cases) (auto simp: is_number_def)

lemma trim_list_brackets:
  assumes "ns \<noteq> []" "list_all is_number ns"
  shows "trim_suffix '']'' (trim_prefix ''['' (trim_space (show_spec (PortList l ns r)))) = join '','' ns"
proof -
  let ?j = "join '','' ns"
  have in_j: "c = CHR '','' \<or> is_digit c" if "c \<in> set ?j" for c
    using that set_join [of "CHR '',''" ns] assms(2) by (fastforce simp: list_all_iff is_number_def)
  from assms have "hd ns \<noteq> []" "is_digit (hd (hd ns))"
    by (cases ns; auto simp: is_number_def neq_Nil_conv)+
  with join_hd [OF assms(1), of "'',''"] obtain u where u: "?j = hd (hd ns) # u" "hd (hd ns) \<noteq> CHR ''[''"
    using digit_facts(4) by metis
  have pre: "\<not> prefix ''['' (?j @ t)" for t using u by simp
  have "CHR '']'' \<notin> set ?j" using in_j digit_facts(5) by fastforce
  then have suf: "\<not> suffix '']'' ?j" by (auto simp: suffix_def)
  have "list_all (\<lambda>c. \<not> is_space c) (show_spec (PortList l ns r))"
    using in_j digit_facts(1) by (auto simp: list_all_iff is_space_def)
  then show ?thesis
    using pre [of "[]"] pre [of "'']''"] suf
    by (simp add: trim_space_id) (simp add: trim_prefix_def trim_suffix_def)
qed

lemma rmap_atoi:
  assumes "list_all is_number ns"
  shows "rmap (\<lambda>p. case atoi (trim_space p) of Some n \<Rightarrow> Inr n | None \<Rightarrow> Inl (f p)) ns =
    (case List.find (\<lambda>n. \<not> int_fits 64 (port_number n)) ns of
       None \<Rightarrow> Inr (map port_number ns) | Some p \<Rightarrow> Inl (f p))"
  using assms
  by (induction ns) (auto simp: atoi_number trim_space_id number_facts split: option.splits)

lemma parsePortSpec_show:
  assumes "ports_ok pt" "pt \<noteq> NoPorts"
  shows "ports_fit pt \<Longrightarrow> parsePortSpec (show_spec pt) = Inr (ports_value pt)"
    and "\<not> ports_fit pt \<Longrightarrow> \<exists>fmt args. parsePortSpec (show_spec pt) = Inl (Errorf fmt args)"
proof (atomize (full), cases pt)
  case (PortRange a b)
  with assms have ab: "is_number a" "is_number b" by simp_all
  then have "list_all (\<lambda>c. \<not> is_space c) (a @ ''-'' @ b)"
    by (simp add: number_facts) (simp add: is_space_def)
  moreover have "\<not> prefix ''['' (a @ ''-'' @ b)" using number_facts(4,8) [OF ab(1)] by (cases a) auto
  moreover have "\<not> suffix '']'' (a @ ''-'' @ b)"
    using number_facts(5,8) [OF ab(2)] by (cases b rule: rev_cases) (auto simp: suffix_def)
  ultimately have "parsePortSpec (a @ ''-'' @ b) =
      (case (atoi a, atoi b) of (Some a, Some b) \<Rightarrow> Inr ([a, b], True)
        | _ \<Rightarrow> Inl (Errorf ''bad port range %q'' [a @ ''-'' @ b]))"
    using number_facts(2) [OF ab(1)]
    by (simp add: parsePortSpec_def trim_space_id trim_prefix_def trim_suffix_def Let_def split: option.splits)
  with PortRange ab show "(ports_fit pt \<longrightarrow> parsePortSpec (show_spec pt) = Inr (ports_value pt)) \<and>
      (\<not> ports_fit pt \<longrightarrow> (\<exists>fmt args. parsePortSpec (show_spec pt) = Inl (Errorf fmt args)))"
    by (auto simp: atoi_number ports_fit_def)
next
  case (PortList l ns r)
  with assms have ns: "ns \<noteq> []" "list_all is_number ns" by simp_all
  have "CHR ''-'' \<notin> set (join '','' ns)"
    using set_join [of "CHR '',''" ns] ns(2) number_facts(2) by (fastforce simp: list_all_iff)
  moreover have "split_on (CHR '','') (join '','' ns) = ns"
    by (rule split_on_join) (use ns number_facts(3) in \<open>auto simp: list_all_iff\<close>)
  ultimately have "parsePortSpec (show_spec pt) =
      (case List.find (\<lambda>n. \<not> int_fits 64 (port_number n)) ns of
         None \<Rightarrow> Inr (map port_number ns, False) | Some p \<Rightarrow> Inl (Errorf ''bad port %q'' [p]))"
    unfolding PortList parsePortSpec_def Let_def trim_list_brackets [OF ns]
    by (simp add: rmap_atoi [OF ns(2)] split: option.splits)
  with PortList show "(ports_fit pt \<longrightarrow> parsePortSpec (show_spec pt) = Inr (ports_value pt)) \<and>
      (\<not> ports_fit pt \<longrightarrow> (\<exists>fmt args. parsePortSpec (show_spec pt) = Inl (Errorf fmt args)))"
    by (auto simp: ports_fit_def list_all_iff find_None_iff find_Some_iff split: option.splits)
qed (use assms in simp)

lemma show_spec_chars:
  assumes "ports_ok pt" "pt \<noteq> NoPorts"
  shows "CHR '':'' \<notin> set (show_spec pt)" "CHR ''/'' \<notin> set (show_spec pt)" "show_spec pt \<noteq> []"
proof -
  have "c \<in> {CHR ''-'', CHR '','', CHR ''['', CHR '']''} \<or> is_digit c" if "c \<in> set (show_spec pt)" for c
    using that assms set_join [of "CHR '',''"]
    by (cases pt) (fastforce simp: is_number_def list_all_iff split: if_splits)+
  then show "CHR '':'' \<notin> set (show_spec pt)" "CHR ''/'' \<notin> set (show_spec pt)"
    using digit_facts(6,7) by force+
  show "show_spec pt \<noteq> []"
    using assms by (cases pt) (auto simp: join_not_Nil is_number_def)
qed

lemma show_ports_cases:
  assumes "ports_ok pt"
  obtains "pt = NoPorts" "show_ports pt = []"
    | c u where "pt \<noteq> NoPorts" "show_spec pt = c # u" "show_ports pt = CHR '':'' # c # u"
        "c \<noteq> CHR ''/''" "CHR '':'' \<notin> set (c # u)" "CHR ''/'' \<notin> set (c # u)"
proof (cases "pt = NoPorts")
  case False
  with assms show_spec_chars obtain c u where "show_spec pt = c # u" by (metis neq_Nil_conv)
  with False that(2) [of c u] show_spec_chars [OF assms] show thesis by (auto simp: show_ports_def)
qed (use that(1) in \<open>simp add: show_ports_def\<close>)

lemma split_protocol_show:
  assumes "proto_ok p" "CHR '':'' \<notin> set a" "ports_ok pt"
  shows "split_protocol (show_proto p @ a @ show_ports pt) = (proto_value p, a @ show_ports pt)"
proof -
  have "str_index (a @ show_ports pt) ''://'' = None"
    using assms(3)
  proof (cases rule: show_ports_cases)
    case 1
    with assms(2) show ?thesis by (simp add: str_index_lead_None)
  next
    case (2 c u)
    then show ?thesis using assms(2) by (simp add: str_index_lead_append str_index_lead_None)
  qed
  moreover have "str_index (t @ ''://'' @ r) ''://'' = Some (length t)" if "CHR '':'' \<notin> set t" for t r
    using that by (simp add: str_index_lead_append)
  ultimately show ?thesis
    using assms(1) by (auto simp: proto_ok_def split_protocol_def show_proto_def proto_value_def protoTCP_def)
qed

lemma split_ports_show:
  assumes "CHR '':'' \<notin> set a" "ports_ok pt"
  shows "ports_fit pt \<Longrightarrow> split_ports (a @ show_ports pt) = Inr (fst (ports_value pt), snd (ports_value pt), a)"
    and "\<not> ports_fit pt \<Longrightarrow> \<exists>fmt args. split_ports (a @ show_ports pt) = Inl (Errorf fmt args)"
proof -
  have "(ports_fit pt \<longrightarrow> split_ports (a @ show_ports pt) = Inr (fst (ports_value pt), snd (ports_value pt), a)) \<and>
    (\<not> ports_fit pt \<longrightarrow> (\<exists>fmt args. split_ports (a @ show_ports pt) = Inl (Errorf fmt args)))"
    using assms(2)
  proof (cases rule: show_ports_cases)
    case 1
    with assms(1) show ?thesis by (simp add: split_ports_def ports_fit_def)
  next
    case (2 c u)
    then have "split_ports (a @ show_ports pt) = rbind (parsePortSpec (show_spec pt)) (\<lambda>(ports, hasRange). Inr (ports, hasRange, a))"
      using assms(1) by (simp add: split_ports_def)
    then show ?thesis using parsePortSpec_show [OF assms(2) \<open>pt \<noteq> NoPorts\<close>] by (auto simp: case_prod_unfold)
  qed
  then show "ports_fit pt \<Longrightarrow> split_ports (a @ show_ports pt) = Inr (fst (ports_value pt), snd (ports_value pt), a)"
    and "\<not> ports_fit pt \<Longrightarrow> \<exists>fmt args. split_ports (a @ show_ports pt) = Inl (Errorf fmt args)" by blast+
qed

lemma name_chars:
  assumes "is_name n"
  shows "CHR '':'' \<notin> set n" "CHR ''/'' \<notin> set n" "CHR ''@'' \<notin> set n"
  using assms alnum_dash_not_special by (fastforce simp: is_name_def list_all_iff)+

lemma split_pod_show:
  assumes "is_name ns" "pod_ok pod"
  shows "split_pod (ns @ show_pod pod) = (ns, pod_value pod)"
  using name_chars(2) [OF assms(1)] by (cases pod) (simp_all add: split_pod_def show_pod_def pod_value_def)

lemma pod_chars: "pod_ok pod \<Longrightarrow> CHR '':'' \<notin> set (show_pod pod) \<and> CHR ''@'' \<notin> set (show_pod pod)"
  by (cases pod) (auto simp: pod_ok_def show_pod_def dest: name_chars)

section \<open>The parsers implement their grammars\<close>

text \<open>
  What every key parser has: a regular expression that matches exactly the
  printed forms of the syntax trees that are well formed, an error for any
  other key, and for a printed tree its value, or an error when a
  number is too large. A client then knows which keys are accepted and with what
  result, and that nothing but a Go error comes back otherwise.
\<close>

locale key_grammar =
  fixes accepts :: "string \<Rightarrow> bool"
    and parse :: "string \<Rightarrow> 'r res"
    and ok :: "'a \<Rightarrow> bool"
    and fits :: "'a \<Rightarrow> bool"
    and print :: "'a \<Rightarrow> string"
    and meaning :: "'a \<Rightarrow> 'r"
  assumes accepts_iff: "accepts key \<longleftrightarrow> (\<exists>x. ok x \<and> key = print x)"
    and reject: "\<not> accepts key \<Longrightarrow> \<exists>fmt args. parse key = Inl (Errorf fmt args)"
    and parse_print: "ok x \<Longrightarrow> fits x \<Longrightarrow> parse (print x) = Inr (meaning x)"
    and parse_overflow: "ok x \<Longrightarrow> \<not> fits x \<Longrightarrow> \<exists>fmt args. parse (print x) = Inl (Errorf fmt args)"
begin

lemma parse_iff: "parse key = Inr r \<longleftrightarrow> (\<exists>x. ok x \<and> fits x \<and> key = print x \<and> r = meaning x)" (is "?L \<longleftrightarrow> ?R")
proof
  assume ?L
  with reject have "accepts key" by fastforce
  then obtain x where x: "ok x" "key = print x" using accepts_iff by blast
  with \<open>?L\<close> parse_overflow have "fits x" by fastforce
  with x \<open>?L\<close> parse_print show ?R by fastforce
qed (use parse_print in blast)

lemma parse_error: "(\<exists>r. parse key = Inr r) \<or> (\<exists>fmt args. parse key = Inl (Errorf fmt args))"
proof (cases "accepts key")
  case True
  then obtain x where "ok x" "key = print x" using accepts_iff by blast
  then show ?thesis using parse_print parse_overflow by (cases "fits x") auto
qed (use reject in blast)

lemma safe_parse: "safe (parse key)"
  using parse_error [of key] by auto

lemma unambiguous: "ok x \<Longrightarrow> fits x \<Longrightarrow> ok y \<Longrightarrow> fits y \<Longrightarrow> print x = print y \<Longrightarrow> meaning x = meaning y"
  using parse_print by (metis sum.inject(2))

end

lemma match_egressRemoteKey:
  "MatchString egressRemoteKeyRe key \<longleftrightarrow>
     (\<exists>p ns pod pt. proto_ok p \<and> is_name ns \<and> pod_ok pod \<and> ports_ok pt \<and>
        key = show_proto p @ (ns @ show_pod pod) @ show_ports pt)"
  unfolding egressRemoteKeyRe_def rx.match_seq [of proto_re] rx.match_seq [of name_re]
    rx.match_seq [of "ropt (RSeq (rlit ''/'') name_re)"] match_proto match_name match_pod match_ports
  by (safe; simp only: append_assoc; blast)

interpretation egress_key: key_grammar "MatchString egressRemoteKeyRe" parseEgressRemoteKey
  "\<lambda>(p, ns, pod, pt). proto_ok p \<and> is_name ns \<and> pod_ok pod \<and> ports_ok pt"
  "\<lambda>(p, ns, pod, pt). ports_fit pt"
  "\<lambda>(p, ns, pod, pt). show_proto p @ (ns @ show_pod pod) @ show_ports pt"
  "\<lambda>(p, ns, pod, pt). \<lparr>kNamespace = ns, kPod = pod_value pod, kIdentity = [], kProtocol = proto_value p,
     kPorts = fst (ports_value pt), kHasPortRange = snd (ports_value pt)\<rparr>"
proof (unfold_locales, goal_cases)
  case (1 key)
  show ?case by (simp only: match_egressRemoteKey split_paired_Ex prod.case) blast
next
  case (3 x)
  then obtain p ns pod pt where x: "x = (p, ns, pod, pt)" "proto_ok p" "is_name ns" "pod_ok pod" "ports_ok pt" "ports_fit pt"
    by (cases x) auto
  have c: "CHR '':'' \<notin> set (ns @ show_pod pod)" using x name_chars pod_chars by auto
  have "MatchString egressRemoteKeyRe (show_proto p @ (ns @ show_pod pod) @ show_ports pt)"
    using match_egressRemoteKey x by blast
  then show ?case
    unfolding x(1) prod.case parseEgressRemoteKey_def split_protocol_show [OF x(2) c x(5)]
    by (simp add: split_ports_show(1) [OF c x(5,6), unfolded append_assoc] split_pod_show x)
next
  case (4 x)
  then obtain p ns pod pt where x: "x = (p, ns, pod, pt)" "proto_ok p" "is_name ns" "pod_ok pod" "ports_ok pt" "\<not> ports_fit pt"
    by (cases x) auto
  have c: "CHR '':'' \<notin> set (ns @ show_pod pod)" using x name_chars pod_chars by auto
  have "MatchString egressRemoteKeyRe (show_proto p @ (ns @ show_pod pod) @ show_ports pt)"
    using match_egressRemoteKey x by blast
  then show ?case using split_ports_show(2) [OF c x(5,6)]
    unfolding x(1) prod.case parseEgressRemoteKey_def split_protocol_show [OF x(2) c x(5)] by auto
qed (auto simp: parseEgressRemoteKey_def)


subsection \<open>The other keys\<close>

definition identity_ok :: "string option \<Rightarrow> bool" where
  "identity_ok i \<longleftrightarrow> (case i of None \<Rightarrow> True | Some t \<Rightarrow> t \<noteq> [] \<and> list_all is_alnum_dash t)"

definition show_identity :: "string option \<Rightarrow> string" where
  "show_identity i = (case i of None \<Rightarrow> [] | Some t \<Rightarrow> t @ ''@'')"

lemma match_identity: "MatchString (ropt (RSeq (rplus (RCls is_alnum_dash)) (rlit ''@''))) s \<longleftrightarrow>
    (\<exists>i. identity_ok i \<and> s = show_identity i)"
  by (auto simp: rx.match_alt rx.match_seq [of _ "rlit ''@''"] rx.match_plus_cls rx.match_lit rx.match_empty
      identity_ok_def show_identity_def split: option.splits)

lemma match_ingressRemoteKey:
  "MatchString ingressRemoteKeyRe key \<longleftrightarrow>
     (\<exists>i ns pod. identity_ok i \<and> is_name ns \<and> pod_ok pod \<and> key = show_identity i @ ns @ show_pod pod)"
  unfolding ingressRemoteKeyRe_def rx.match_seq [of "ropt (RSeq (rplus (RCls is_alnum_dash)) (rlit ''@''))"]
    rx.match_seq [of name_re] match_identity match_name match_pod
  by blast

lemma split_identity:
  assumes "identity_ok i" "CHR ''@'' \<notin> set a"
  shows "(case str_index (show_identity i @ a) ''@'' of
      Some j \<Rightarrow> (take j (show_identity i @ a), drop (j + 1) (show_identity i @ a)) | None \<Rightarrow> ([], show_identity i @ a))
    = (pod_value i, a)"
proof (cases i)
  case (Some t)
  with assms have "CHR ''@'' \<notin> set t" using alnum_dash_not_special by (fastforce simp: identity_ok_def list_all_iff)
  with Some show ?thesis by (simp add: show_identity_def pod_value_def)
qed (use assms in \<open>simp add: show_identity_def pod_value_def\<close>)

interpretation ingress_key: key_grammar "MatchString ingressRemoteKeyRe" parseIngressRemoteKey
  "\<lambda>(i, ns, pod). identity_ok i \<and> is_name ns \<and> pod_ok pod" "\<lambda>_. True"
  "\<lambda>(i, ns, pod). show_identity i @ ns @ show_pod pod"
  "\<lambda>(i, ns, pod). \<lparr>kNamespace = ns, kPod = pod_value pod, kIdentity = pod_value i, kProtocol = protoTCP,
     kPorts = [], kHasPortRange = False\<rparr>"
proof (unfold_locales, goal_cases)
  case (1 key)
  show ?case by (simp only: match_ingressRemoteKey split_paired_Ex prod.case) blast
next
  case (3 x)
  then obtain i ns pod where x: "x = (i, ns, pod)" "identity_ok i" "is_name ns" "pod_ok pod" by (cases x) auto
  have c: "CHR ''@'' \<notin> set (ns @ show_pod pod)" using x name_chars pod_chars by auto
  have "MatchString ingressRemoteKeyRe (show_identity i @ ns @ show_pod pod)"
    using match_ingressRemoteKey x by blast
  then show ?case
    unfolding x(1) prod.case parseIngressRemoteKey_def split_identity [OF x(2) c] by (simp add: split_pod_show x)
qed (auto simp: parseIngressRemoteKey_def)


lemma match_ingressLocalKey:
  "MatchString ingressLocalKeyRe key \<longleftrightarrow>
     (\<exists>p w pt. proto_ok p \<and> w \<noteq> [] \<and> list_all is_word_dash w \<and> ports_ok pt \<and> key = show_proto p @ w @ show_ports pt)"
  unfolding ingressLocalKeyRe_def rx.match_seq [of proto_re] rx.match_seq [of "rplus (RCls is_word_dash)"]
    match_proto rx.match_plus_cls match_ports
  by blast

interpretation local_key: key_grammar "MatchString ingressLocalKeyRe" parseIngressLocalKey
  "\<lambda>(p, w, pt). proto_ok p \<and> w \<noteq> [] \<and> list_all is_word_dash w \<and> ports_ok pt"
  "\<lambda>(p, w, pt). ports_fit pt"
  "\<lambda>(p, w, pt). show_proto p @ w @ show_ports pt"
  "\<lambda>(p, w, pt). \<lparr>lPod = w, lProtocol = proto_value p,
     lPorts = fst (ports_value pt), lHasPortRange = snd (ports_value pt)\<rparr>"
proof (unfold_locales, goal_cases)
  case (1 key)
  show ?case by (simp only: match_ingressLocalKey split_paired_Ex prod.case) blast
next
  case (3 x)
  then obtain p w pt where x: "x = (p, w, pt)" "proto_ok p" "w \<noteq> []" "list_all is_word_dash w" "ports_ok pt" "ports_fit pt"
    by (cases x) auto
  have c: "CHR '':'' \<notin> set w" using x(4) word_dash_not_special by (fastforce simp: list_all_iff)
  have "MatchString ingressLocalKeyRe (show_proto p @ w @ show_ports pt)" using match_ingressLocalKey x by blast
  then show ?case
    unfolding x(1) prod.case parseIngressLocalKey_def split_protocol_show [OF x(2) c x(5)]
    by (simp add: split_ports_show(1) [OF c x(5,6)])
next
  case (4 x)
  then obtain p w pt where x: "x = (p, w, pt)" "proto_ok p" "w \<noteq> []" "list_all is_word_dash w" "ports_ok pt" "\<not> ports_fit pt"
    by (cases x) auto
  have c: "CHR '':'' \<notin> set w" using x(4) word_dash_not_special by (fastforce simp: list_all_iff)
  have "MatchString ingressLocalKeyRe (show_proto p @ w @ show_ports pt)" using match_ingressLocalKey x by blast
  then show ?case using split_ports_show(2) [OF c x(5,6)]
    unfolding x(1) prod.case parseIngressLocalKey_def split_protocol_show [OF x(2) c x(5)] by auto
qed (auto simp: parseIngressLocalKey_def)

text \<open>The local ingress parser accepts exactly the keys \<open>[<udp|tcp>://]<pod-name>[:<ports>]\<close> whose
  ports fit a Go int and returns the pod name, the protocol in upper case and the ports.\<close>

theorem parseIngressLocalKey_grammar:
  "parseIngressLocalKey key = Inr r \<longleftrightarrow>
     (\<exists>p w pt. proto_ok p \<and> w \<noteq> [] \<and> list_all is_word_dash w \<and> ports_ok pt \<and> ports_fit pt \<and>
        key = show_proto p @ w @ show_ports pt \<and>
        r = \<lparr>lPod = w, lProtocol = proto_value p, lPorts = fst (ports_value pt), lHasPortRange = snd (ports_value pt)\<rparr>)"
  by (simp only: local_key.parse_iff split_paired_Ex prod.case) blast

subsection \<open>CIDR keys\<close>

definition is_cidr_text :: "string \<Rightarrow> bool" where
  "is_cidr_text c \<longleftrightarrow> (\<exists>a b d e m. is_number a \<and> is_number b \<and> is_number d \<and> is_number e \<and> is_number m \<and>
     c = a @ ''.'' @ b @ ''.'' @ d @ ''.'' @ e @ ''/'' @ m)"

lemma match_cidr: "MatchString cidr_re c \<longleftrightarrow> is_cidr_text c"
proof -
  have octet: "MatchString (RSeq (RSeq num_re (rlit ''.'')) r) s \<longleftrightarrow>
      (\<exists>a t. is_number a \<and> MatchString r t \<and> s = a @ ''.'' @ t)" for r s
  proof -
    have "MatchString (RSeq num_re (rlit ''.'')) x \<longleftrightarrow> (\<exists>a. is_number a \<and> x = a @ ''.'')" for x
      by (auto simp: rx.match_seq match_num rx.match_lit)
    then have "MatchString (RSeq (RSeq num_re (rlit ''.'')) r) s \<longleftrightarrow>
        (\<exists>x t. s = x @ t \<and> (\<exists>a. is_number a \<and> x = a @ ''.'') \<and> MatchString r t)"
      by (simp only: rx.match_seq [of "RSeq num_re (rlit ''.'')"])
    also have "\<dots> \<longleftrightarrow> (\<exists>a t. is_number a \<and> MatchString r t \<and> s = (a @ ''.'') @ t)" by blast
    finally show ?thesis by simp
  qed
  have last: "MatchString (RSeq num_re (RSeq (rlit ''/'') num_re)) s \<longleftrightarrow>
      (\<exists>e m. is_number e \<and> is_number m \<and> s = e @ ''/'' @ m)" for s
    by (auto simp: rx.match_seq match_num rx.match_lit)
  show ?thesis unfolding cidr_re_def Let_def octet last is_cidr_text_def by (iprover intro: iffI)
qed

lemma cidr_text_shape:
  assumes "is_cidr_text c"
  obtains u m where "c = u @ CHR ''/'' # m" "CHR ''/'' \<notin> set m" "CHR '':'' \<notin> set c" "m \<noteq> []"
proof -
  from assms obtain a b d e m where *: "is_number a" "is_number b" "is_number d" "is_number e" "is_number m"
    "c = (a @ ''.'' @ b @ ''.'' @ d @ ''.'' @ e) @ CHR ''/'' # m"
    unfolding is_cidr_text_def by (metis append_Cons append_Nil append_assoc)
  moreover from *(1-5) have "CHR '':'' \<notin> set (a @ ''.'' @ b @ ''.'' @ d @ ''.'' @ e)" "CHR '':'' \<notin> set m"
    using number_facts(6) by auto
  ultimately have "CHR '':'' \<notin> set c" by simp
  with *(5,6) that number_facts(7,8) show thesis by blast
qed

lemma match_egressCIDRKey:
  "MatchString egressCIDRKeyRe key \<longleftrightarrow>
     (\<exists>p c pt. proto_ok p \<and> is_cidr_text c \<and> ports_ok pt \<and> key = show_proto p @ c @ show_ports pt)"
  unfolding egressCIDRKeyRe_def rx.match_seq [of proto_re] rx.match_seq [of cidr_re] match_proto match_cidr match_ports
  by blast

lemma last_index_cidr:
  assumes "is_cidr_text c" "ports_ok pt" "pt \<noteq> NoPorts"
  shows "last_index_int (c @ '':'' @ show_spec pt) (CHR '':'') = int (length c)"
    "last_index_int (c @ '':'' @ show_spec pt) (CHR ''/'') < int (length c)"
proof -
  from assms(1) obtain u m where *: "c = u @ CHR ''/'' # m" "CHR ''/'' \<notin> set m" "CHR '':'' \<notin> set c"
    by (rule cidr_text_shape)
  show "last_index_int (c @ '':'' @ show_spec pt) (CHR '':'') = int (length c)"
    using show_spec_chars [OF assms(2,3)] by (simp add: last_index_int_def)
  have "CHR ''/'' \<notin> set (m @ '':'' @ show_spec pt)" using show_spec_chars [OF assms(2,3)] *(2) by simp
  then have "last_index (u @ CHR ''/'' # (m @ '':'' @ show_spec pt)) (CHR ''/'') = Some (length u)"
    by (rule last_index_append)
  then show "last_index_int (c @ '':'' @ show_spec pt) (CHR ''/'') < int (length c)"
    using *(1) by (simp add: last_index_int_def)
qed

lemma last_index_cidr_none:
  assumes "is_cidr_text c"
  shows "\<not> last_index_int c (CHR ''/'') < last_index_int c (CHR '':'')"
proof -
  from assms obtain u m where *: "c = u @ CHR ''/'' # m" "CHR ''/'' \<notin> set m" "CHR '':'' \<notin> set c"
    by (rule cidr_text_shape)
  then show ?thesis by (simp add: last_index_int_def)
qed

lemma cidr_no_colon: "is_cidr_text c \<Longrightarrow> CHR '':'' \<notin> set c"
  by (erule cidr_text_shape)

lemma parseEgressCIDRKey_show:
  assumes "proto_ok p" "is_cidr_text c" "ports_ok pt"
  shows "parseEgressCIDRKey (show_proto p @ c @ show_ports pt) =
    (if pt = NoPorts then Inr \<lparr>pcCIDR = c, pcProtocol = proto_value p, pcPorts = [], pcHasPortRange = False\<rparr>
     else rbind (parsePortSpec (show_spec pt)) (\<lambda>(ports, hasRange).
       Inr \<lparr>pcCIDR = c, pcProtocol = proto_value p, pcPorts = ports, pcHasPortRange = hasRange\<rparr>))"
proof -
  have "MatchString egressCIDRKeyRe (show_proto p @ c @ show_ports pt)" using match_egressCIDRKey assms by blast
  then show ?thesis
    unfolding parseEgressCIDRKey_def split_protocol_show [OF assms(1) cidr_no_colon [OF assms(2)] assms(3)]
    using last_index_cidr_none [OF assms(2)] last_index_cidr [OF assms(2,3)]
    by (cases "pt = NoPorts") (simp_all add: show_ports_def)
qed

interpretation egress_cidr: key_grammar "MatchString egressCIDRKeyRe" parseEgressCIDRKey
  "\<lambda>(p, c, pt). proto_ok p \<and> is_cidr_text c \<and> ports_ok pt"
  "\<lambda>(p, c, pt). ports_fit pt"
  "\<lambda>(p, c, pt). show_proto p @ c @ show_ports pt"
  "\<lambda>(p, c, pt). \<lparr>pcCIDR = c, pcProtocol = proto_value p,
     pcPorts = fst (ports_value pt), pcHasPortRange = snd (ports_value pt)\<rparr>"
proof (unfold_locales, goal_cases)
  case (1 key)
  show ?case by (simp only: match_egressCIDRKey split_paired_Ex prod.case) blast
next
  case (3 x)
  then show ?case
    by (cases x) (auto simp: parseEgressCIDRKey_show parsePortSpec_show(1) case_prod_unfold)
next
  case (4 x)
  then obtain p c pt where x: "x = (p, c, pt)" "proto_ok p" "is_cidr_text c" "ports_ok pt" "\<not> ports_fit pt"
    by (cases x) auto
  then have "pt \<noteq> NoPorts" by (auto simp: ports_fit_def)
  then show ?case using parsePortSpec_show(2) [OF x(4) _ x(5)] by (auto simp: x parseEgressCIDRKey_show)
qed (auto simp: parseEgressCIDRKey_def)

interpretation ingress_cidr: key_grammar "MatchString ingressCIDRKeyRe" parseIngressCIDRKey is_cidr_text "\<lambda>_. True"
  "\<lambda>c. c" "\<lambda>c. \<lparr>pcCIDR = c, pcProtocol = protoTCP, pcPorts = [], pcHasPortRange = False\<rparr>"
  by unfold_locales (auto simp: ingressCIDRKeyRe_def match_cidr parseIngressCIDRKey_def)

text \<open>The egress CIDR parser accepts exactly the keys \<open>[<tcp|udp>://]<cidr>[:<ports>]\<close> with a
  dotted IPv4 address and a prefix length (whose sizes it does not check), and splits the ports off
  at the last colon, never inside the CIDR.\<close>

theorem parseEgressCIDRKey_grammar:
  "parseEgressCIDRKey key = Inr r \<longleftrightarrow>
     (\<exists>p c pt. proto_ok p \<and> is_cidr_text c \<and> ports_ok pt \<and> ports_fit pt \<and> key = show_proto p @ c @ show_ports pt \<and>
        r = \<lparr>pcCIDR = c, pcProtocol = proto_value p, pcPorts = fst (ports_value pt), pcHasPortRange = snd (ports_value pt)\<rparr>)"
  by (simp only: egress_cidr.parse_iff split_paired_Ex prod.case) blast

lemmas safe_parsers [simp] = egress_key.safe_parse ingress_key.safe_parse local_key.safe_parse
  egress_cidr.safe_parse ingress_cidr.safe_parse

section \<open>The shape of parsed ports\<close>

lemma ports_value_shape: "port_shape (fst (ports_value pt)) (snd (ports_value pt))"
  by (cases pt) (simp_all add: port_shape_def)

lemma ports_value_nonneg: "\<forall>p \<in> set (fst (ports_value pt)). 0 \<le> p"
  by (cases pt) (auto simp: port_number_def)

lemma parsed_ports_shape:
  "parseEgressRemoteKey key = Inr r \<Longrightarrow> port_shape (kPorts r) (kHasPortRange r)"
  "parseEgressCIDRKey key = Inr c \<Longrightarrow> port_shape (pcPorts c) (pcHasPortRange c)"
  "parseIngressLocalKey key = Inr l \<Longrightarrow> port_shape (lPorts l) (lHasPortRange l)"
  by (auto simp: egress_key.parse_iff egress_cidr.parse_iff local_key.parse_iff ports_value_shape)

end
