(* ===== verification/Metadata.thy ===== *)
theory Metadata
  imports Api_Types Keyed_List
begin

text \<open>
  Metadata the generator puts on every object (\<open>pkg/generator/metadata.go\<close>,
  \<open>api/v1alpha1/groupversion_info.go\<close>): the package label the controller prunes
  by, the managed-by label, the namespace and the owner reference. The lemmas
  say what stamping guarantees, what it leaves alone, and that a second pass
  changes nothing.
\<close>

definition LabelManagedBy :: string where
  "LabelManagedBy = ''app.kubernetes.io/managed-by''"

definition LabelPackage :: string where
  "LabelPackage = ''bigbang.dev/package''"

definition LabelNetpolSource :: string where
  "LabelNetpolSource = ''network-policies.bigbang.dev/source''"

definition LabelNetpolSourceValue :: string where
  "LabelNetpolSourceValue = ''bigbang-operator''"

definition FieldManager :: string where
  "FieldManager = ''bigbang-operator''"

text \<open>\<open>bbv1alpha1.GroupVersion.String()\<close>.\<close>

definition GroupVersion :: string where
  "GroupVersion = ''bigbang.dev'' @ ''/'' @ ''v1alpha1''"

section \<open>stampMetadata\<close>

definition owner_of :: "package \<Rightarrow> owner_ref" where
  "owner_of pkg = \<lparr>orAPIVersion = GroupVersion, orKind = ''Package'', orName = pkgName pkg,
     orUID = pkgUID pkg, orController = Some True, orBlockOwnerDeletion = Some True\<rparr>"

text \<open>The loop over the references: replace the first one with the owner's UID, or append.\<close>

fun set_owner :: "owner_ref \<Rightarrow> owner_ref list \<Rightarrow> owner_ref list" where
  "set_owner owner [] = [owner]"
| "set_owner owner (r # rs) = (if orUID r = orUID owner then owner # rs else r # set_owner owner rs)"

definition stamp_labels :: "package \<Rightarrow> string gomap \<Rightarrow> string gomap" where
  "stamp_labels pkg labels =
     (let labels = (if labels = None then Some [] else labels);
          labels = (if glookup labels LabelManagedBy = None then gput LabelManagedBy FieldManager labels else labels)
      in gput LabelPackage (pkgName pkg) labels)"

definition stampMetadata :: "package \<Rightarrow> client_object \<Rightarrow> client_object" where
  "stampMetadata pkg obj =
     (let m = meta_of obj;
          m = (if omNamespace m = [] then m\<lparr>omNamespace := pkgNamespace pkg\<rparr> else m);
          m = m\<lparr>omLabels := stamp_labels pkg (omLabels m)\<rparr>;
          m = m\<lparr>omOwnerReferences := set_owner (owner_of pkg) (omOwnerReferences m)\<rparr>
      in set_meta m obj)"

definition mergeMaps :: "string gomap \<Rightarrow> string gomap \<Rightarrow> string gomap" where
  "mergeMaps a b =
     (if glen a = 0 \<and> glen b = 0 then None
      else (let out = []; out = copy_into (entries a) out; out = copy_into (entries b) out in Some out))"

definition cloneLabels :: "string gomap \<Rightarrow> string gomap" where
  "cloneLabels m = Some (copy_into (entries m) [])"

section \<open>What stamping guarantees\<close>

lemma LabelManagedBy_neq_Package [simp]: "LabelManagedBy \<noteq> LabelPackage" "LabelPackage \<noteq> LabelManagedBy"
  by (simp_all add: LabelManagedBy_def LabelPackage_def)

lemma glookup_stamp_labels [gomap_simps]:
  "glookup (stamp_labels pkg l) k =
     (if k = LabelPackage then Some (pkgName pkg)
      else if k = LabelManagedBy then Some (case glookup l k of None \<Rightarrow> FieldManager | Some v \<Rightarrow> v)
      else glookup l k)"
  by (auto simp: stamp_labels_def Let_def glookup_gput split: option.splits)

lemma update_same: "map_of al k = Some v \<Longrightarrow> AList.update k v al = al"
  by (induction al) auto

lemma gput_same: "glookup m k = Some v \<Longrightarrow> gput k v m = m"
  by (cases m) (auto simp: gput_def update_same)

lemma stamp_labels_not_nil [simp]: "stamp_labels pkg l \<noteq> None"
  by (simp add: stamp_labels_def Let_def)

lemma stamp_labels_idem [simp]: "stamp_labels pkg (stamp_labels pkg l) = stamp_labels pkg l"
proof -
  have pk: "glookup (stamp_labels pkg l) LabelPackage = Some (pkgName pkg)"
    and mb: "glookup (stamp_labels pkg l) LabelManagedBy \<noteq> None"
    by (simp_all add: gomap_simps)
  from mb show ?thesis by (subst (1) stamp_labels_def) (auto simp: Let_def gput_same [OF pk])
qed

text \<open>Owner references are a list keyed by UID, where a new reference replaces the old one.\<close>

interpretation owners: keyed_list orUID "\<lambda>old new. new" set_owner
proof
  fix owner :: owner_ref and k rs
  show "map orUID (set_owner owner rs) = map orUID rs @ (if orUID owner \<in> orUID ` set rs then [] else [orUID owner])"
    by (induction rs) auto
  show "find_key orUID k (set_owner owner rs) =
      (if k = orUID owner then Some (case find_key orUID k rs of None \<Rightarrow> owner | Some e \<Rightarrow> owner) else find_key orUID k rs)"
    by (induction rs) auto
qed

lemma set_owner_in: "owner \<in> set (set_owner owner rs)"
  using owners.upsert_find [of "orUID owner" owner rs] by (auto dest: find_key_SomeD split: option.splits)

lemma set_owner_others: "filter (\<lambda>r. orUID r \<noteq> orUID owner) (set_owner owner rs) = filter (\<lambda>r. orUID r \<noteq> orUID owner) rs"
  by (induction rs) auto

lemma set_owner_idem [simp]: "set_owner owner (set_owner owner rs) = set_owner owner rs"
  by (induction rs) auto

lemma stampMetadata_rest [simp]: "kind_of (stampMetadata pkg x) = kind_of x" "gvk_of (stampMetadata pkg x) = gvk_of x"
  "set_meta m (stampMetadata pkg x) = set_meta m x"
  by (simp_all add: stampMetadata_def Let_def)

lemma meta_of_stampMetadata:
  "meta_of (stampMetadata pkg x) = (meta_of x)
     \<lparr>omNamespace := if namespace_of x = [] then pkgNamespace pkg else namespace_of x,
      omLabels := stamp_labels pkg (labels_of x),
      omOwnerReferences := set_owner (owner_of pkg) (omOwnerReferences (meta_of x))\<rparr>"
  by (simp add: stampMetadata_def Let_def)

text \<open>A stamped object carries the label of its package, which is what pruning lists
  by, and a managed-by label; a managed-by label or any other label the user
  set is kept. Its namespace is the package's unless it had one; it is owned by the
  package through one reference, and the references to other owners keep their
  place. Nothing but the metadata changes.\<close>

theorem stampMetadata_guarantees:
  "glookup (labels_of (stampMetadata pkg x)) LabelPackage = Some (pkgName pkg) \<and>
   glookup (labels_of (stampMetadata pkg x)) LabelManagedBy =
     Some (case glookup (labels_of x) LabelManagedBy of None \<Rightarrow> FieldManager | Some v \<Rightarrow> v) \<and>
   (\<forall>k. k = LabelPackage \<or> k = LabelManagedBy \<or>
      glookup (labels_of (stampMetadata pkg x)) k = glookup (labels_of x) k) \<and>
   namespace_of (stampMetadata pkg x) = (if namespace_of x = [] then pkgNamespace pkg else namespace_of x) \<and>
   owner_of pkg \<in> set (omOwnerReferences (meta_of (stampMetadata pkg x))) \<and>
   filter (\<lambda>r. orUID r \<noteq> pkgUID pkg) (omOwnerReferences (meta_of (stampMetadata pkg x))) =
     filter (\<lambda>r. orUID r \<noteq> pkgUID pkg) (omOwnerReferences (meta_of x)) \<and>
   name_of (stampMetadata pkg x) = name_of x \<and>
   set_meta m (stampMetadata pkg x) = set_meta m x"
  using set_owner_others [of "owner_of pkg"]
  by (auto simp: meta_of_stampMetadata gomap_simps set_owner_in, simp_all add: owner_of_def)

text \<open>Stamping is idempotent: applying it to an object it has stamped, as every
  later reconcile of an unchanged package does, changes nothing.\<close>

theorem stampMetadata_idempotent: "stampMetadata pkg (stampMetadata pkg x) = stampMetadata pkg x"
proof -
  define f where "f = (\<lambda>m :: object_meta. m\<lparr>omNamespace := if omNamespace m = [] then pkgNamespace pkg else omNamespace m,
      omLabels := stamp_labels pkg (omLabels m),
      omOwnerReferences := set_owner (owner_of pkg) (omOwnerReferences m)\<rparr>)"
  have stamp: "stampMetadata pkg y = set_meta (f (meta_of y)) y" for y
    by (simp add: stampMetadata_def f_def Let_def)
  have "f (f m) = f m" for m by (simp add: f_def)
  then show ?thesis unfolding stamp by (rule client_meta.put_idempotent)
qed

section \<open>Merging maps\<close>

lemma glookup_mergeMaps [gomap_simps]:
  assumes "gomap_wf a" "gomap_wf b"
  shows "glookup (mergeMaps a b) k = (case glookup b k of None \<Rightarrow> glookup a k | Some v \<Rightarrow> Some v)"
proof (cases "glen a = 0 \<and> glen b = 0")
  case True
  then show ?thesis by (simp add: mergeMaps_def glen_0_iff)
next
  case False
  then have "mergeMaps a b = Some (copy_into (entries b) (copy_into (entries a) []))"
    unfolding mergeMaps_def Let_def by presburger
  moreover have "distinct (map fst (entries a))" "distinct (map fst (entries b))"
    using assms by (simp_all add: gomap_wf_def)
  ultimately show ?thesis
    by (simp add: copy_into_lookup glookup_def split: option.splits)
qed

lemma gomap_wf_mergeMaps [intro]: "gomap_wf (mergeMaps a b)"
  by (auto simp: mergeMaps_def Let_def gomap_wf_def intro!: distinct_copy_into)

lemma glookup_cloneLabels [gomap_simps]: "gomap_wf m \<Longrightarrow> glookup (cloneLabels m) k = glookup m k"
  by (simp add: cloneLabels_def gomap_wf_def copy_into_lookup glookup_def split: option.splits)

lemma copy_into_Nil [simp]: "copy_into [] dst = dst"
  by (simp add: copy_into_def)

lemma mergeMaps_nil_iff: "mergeMaps a b = None \<longleftrightarrow> glen a = 0 \<and> glen b = 0"
  by (auto simp: mergeMaps_def Let_def)

text \<open>A merged map holds the pairs of both maps, the second one winning where both have
  a key, and is the nil map, which the API omits, exactly when both are empty.\<close>

theorem mergeMaps_correct:
  assumes "gomap_wf a" "gomap_wf b"
  shows "glookup (mergeMaps a b) = glookup a ++ glookup b \<and> (mergeMaps a b = None \<longleftrightarrow> glen a = 0 \<and> glen b = 0)
    \<and> gomap_wf (mergeMaps a b)"
  using assms by (auto simp: glookup_mergeMaps map_add_def mergeMaps_nil_iff fun_eq_iff split: option.splits)

theorem mergeMaps_correct_witness:
  "glookup (mergeMaps (Some [(''a'', ''1''), (''b'', ''2'')]) (Some [(''b'', ''3'')])) =
     glookup (Some [(''a'', ''1''), (''b'', ''2'')]) ++ glookup (Some [(''b'', ''3'')]) \<and>
   glookup (mergeMaps (Some [(''a'', ''1''), (''b'', ''2'')]) (Some [(''b'', ''3'')])) ''b'' = Some ''3''"
  using mergeMaps_correct [of "Some [(''a'', ''1''), (''b'', ''2'')]" "Some [(''b'', ''3'')]"]
  by (simp add: gomap_wf_def)

end
