(* ===== verification/Shorthand_Values.thy ===== *)
theory Shorthand_Values
  imports Shorthand Metadata
begin

text \<open>
  The values of the shorthand maps (\<open>pkg/generator/shorthand.go\<close>, second half): the
  custom JSON decoders, which accept \<open>true\<close>, \<open>false\<close> or an object, and the metadata
  overrides of a source and of a rule.
\<close>

record shorthandMetadata =
  smLabels :: "string gomap"
  smAnnotations :: "string gomap"

record shorthandTarget =
  stgEnabled :: bool
  stgPodSelector :: "string gomap"
  stgNamespaceSelector :: "string gomap"
  stgMetadata :: "shorthandMetadata option"

text \<open>\<open>ltSpec\<close> is the raw message: \<open>None\<close> when the field is absent.\<close>

record literalTarget =
  ltEnabled :: bool
  ltMetadata :: "shorthandMetadata option"
  ltSpec :: "json option"

record shorthandPeer =
  spK8s :: "shorthandTarget gomap"
  spDefinition :: "shorthandTarget gomap"
  spCidr :: "shorthandTarget gomap"
  spLiteral :: "literalTarget gomap"

record shorthandSource =
  ssPodSelector :: "string gomap"
  ssMetadata :: "shorthandMetadata option"
  ssTo :: "shorthandPeer option"
  ssFrom :: "shorthandPeer option"

section \<open>Decoding\<close>

text \<open>The loop \<open>for k, v := range m { if s, ok := v.(string); ok { out[k] = s } }\<close>.\<close>

definition string_entries :: "(string \<times> json) list \<Rightarrow> (string \<times> string) list" where
  "string_entries kvs = copy_into (concat (map (\<lambda>(k, v). case v of JString s \<Rightarrow> [(k, s)] | _ \<Rightarrow> []) kvs)) []"

definition flattenMatchLabels :: "json gomap \<Rightarrow> string gomap" where
  "flattenMatchLabels m =
     (case m of None \<Rightarrow> None
      | Some kvs \<Rightarrow>
          (case map_of kvs ''matchLabels'' of
             Some (JObject ml) \<Rightarrow> Some (string_entries (copy_into ml []))
           | _ \<Rightarrow> Some (string_entries kvs)))"

definition decode_shorthandMetadata :: "json \<Rightarrow> shorthandMetadata res" where
  "decode_shorthandMetadata j =
     rbind (dec_struct j) (\<lambda>kvs.
     rbind (dec_string_map (jfield ''labels'' kvs)) (\<lambda>labels.
     rbind (dec_string_map (jfield ''annotations'' kvs)) (\<lambda>annotations.
     Inr \<lparr>smLabels = labels, smAnnotations = annotations\<rparr>)))"

definition decode_shorthandTarget :: "json \<Rightarrow> shorthandTarget res" where
  "decode_shorthandTarget j =
     (case j of
        JBool b \<Rightarrow> Inr \<lparr>stgEnabled = b, stgPodSelector = None, stgNamespaceSelector = None, stgMetadata = None\<rparr>
      | _ \<Rightarrow>
         rbind (dec_struct j) (\<lambda>kvs.
         rbind (dec_bool_ptr (jfield ''enabled'' kvs)) (\<lambda>enabled.
         rbind (dec_any_map (jfield ''podSelector'' kvs)) (\<lambda>podSel.
         rbind (dec_any_map (jfield ''namespaceSelector'' kvs)) (\<lambda>nsSel.
         rbind (dec_ptr decode_shorthandMetadata (jfield ''metadata'' kvs)) (\<lambda>meta.
         Inr \<lparr>stgEnabled = (enabled = None \<or> enabled = Some True),
              stgPodSelector = flattenMatchLabels podSel,
              stgNamespaceSelector = flattenMatchLabels nsSel,
              stgMetadata = meta\<rparr>))))))"

definition decode_literalTarget :: "json \<Rightarrow> literalTarget res" where
  "decode_literalTarget j =
     (case j of
        JBool b \<Rightarrow> Inr \<lparr>ltEnabled = b, ltMetadata = None, ltSpec = None\<rparr>
      | _ \<Rightarrow>
         rbind (dec_struct j) (\<lambda>kvs.
         rbind (dec_bool_ptr (jfield ''enabled'' kvs)) (\<lambda>enabled.
         rbind (dec_ptr decode_shorthandMetadata (jfield ''metadata'' kvs)) (\<lambda>meta.
         Inr \<lparr>ltEnabled = (enabled = None \<or> enabled = Some True),
              ltMetadata = meta,
              ltSpec = jfield ''spec'' kvs\<rparr>))))"

definition decode_shorthandPeer :: "json \<Rightarrow> shorthandPeer res" where
  "decode_shorthandPeer j =
     rbind (dec_struct j) (\<lambda>kvs.
     rbind (dec_map decode_shorthandTarget (jfield ''k8s'' kvs)) (\<lambda>k8s.
     rbind (dec_map decode_shorthandTarget (jfield ''definition'' kvs)) (\<lambda>def.
     rbind (dec_map decode_shorthandTarget (jfield ''cidr'' kvs)) (\<lambda>cidr.
     rbind (dec_map decode_literalTarget (jfield ''literal'' kvs)) (\<lambda>literal.
     Inr \<lparr>spK8s = k8s, spDefinition = def, spCidr = cidr, spLiteral = literal\<rparr>)))))"

definition decode_shorthandSource :: "json \<Rightarrow> shorthandSource res" where
  "decode_shorthandSource j =
     rbind (dec_struct j) (\<lambda>kvs.
     rbind (dec_any_map (jfield ''podSelector'' kvs)) (\<lambda>podSel.
     rbind (dec_ptr decode_shorthandMetadata (jfield ''metadata'' kvs)) (\<lambda>meta.
     rbind (dec_ptr decode_shorthandPeer (jfield ''to'' kvs)) (\<lambda>to.
     rbind (dec_ptr decode_shorthandPeer (jfield ''from'' kvs)) (\<lambda>from.
     Inr \<lparr>ssPodSelector = flattenMatchLabels podSel, ssMetadata = meta, ssTo = to, ssFrom = from\<rparr>)))))"

section \<open>Metadata overrides\<close>

definition mergeShorthandMetadata ::
  "shorthandMetadata option \<Rightarrow> shorthandMetadata option \<Rightarrow> shorthandMetadata option" where
  "mergeShorthandMetadata local remote =
     (if local = None \<and> remote = None then None
      else
        (let out = \<lparr>smLabels = None, smAnnotations = None\<rparr>;
             out = (case local of None \<Rightarrow> out
               | Some l \<Rightarrow> out\<lparr>smLabels := mergeMaps (smLabels out) (smLabels l),
                              smAnnotations := mergeMaps (smAnnotations out) (smAnnotations l)\<rparr>);
             out = (case remote of None \<Rightarrow> out
               | Some r \<Rightarrow> out\<lparr>smLabels := mergeMaps (smLabels out) (smLabels r),
                              smAnnotations := mergeMaps (smAnnotations out) (smAnnotations r)\<rparr>)
         in Some out))"

text \<open>On the metadata of an object; the two calls of the source pass a NetworkPolicy or an
  AuthorizationPolicy.\<close>

definition applyShorthandMetadata ::
  "'s k8s_object \<Rightarrow> shorthandMetadata option \<Rightarrow> 's k8s_object" where
  "applyShorthandMetadata obj meta =
     (case meta of None \<Rightarrow> obj
      | Some sm \<Rightarrow>
          (let m = objMeta obj;
               m = (if glen (smLabels sm) > 0 then m\<lparr>omLabels := mergeMaps (smLabels sm) (omLabels m)\<rparr> else m);
               m = (if glen (smAnnotations sm) > 0
                    then m\<lparr>omAnnotations := mergeMaps (smAnnotations sm) (omAnnotations m)\<rparr> else m)
           in obj\<lparr>objMeta := m\<rparr>))"

section \<open>Properties\<close>

lemma distinct_string_entries: "distinct (map fst (string_entries kvs))"
  by (simp add: string_entries_def distinct_copy_into)

lemma flattenMatchLabels_wf: "gomap_wf (flattenMatchLabels m)"
  by (auto simp: flattenMatchLabels_def gomap_wf_def distinct_string_entries split: option.splits json.splits)

lemma string_entries_lookup:
  assumes "distinct (map fst kvs)"
  shows "map_of (string_entries kvs) k = (case map_of kvs k of Some (JString s) \<Rightarrow> Some s | _ \<Rightarrow> None)"
proof -
  let ?pick = "\<lambda>kvs. concat (map (\<lambda>(k, v). case v of JString s \<Rightarrow> [(k, s)] | _ \<Rightarrow> []) kvs)"
  have sub: "fst ` set (?pick xs) \<subseteq> fst ` set xs" for xs :: "(string \<times> json) list"
    by (force split: json.splits)
  have dist: "distinct (map fst (?pick xs))" if "distinct (map fst xs)" for xs :: "(string \<times> json) list"
    using that
  proof (induction xs)
    case (Cons x xs)
    moreover from Cons.prems have "fst x \<notin> fst ` set xs" by simp
    then have "fst x \<notin> fst ` set (?pick xs)" using sub [of xs] by blast
    ultimately show ?case by (cases x) (simp split: json.splits)
  qed simp
  have "map_of (?pick kvs) k = (case map_of kvs k of Some (JString s) \<Rightarrow> Some s | _ \<Rightarrow> None)"
    using assms
  proof (induction kvs)
    case (Cons kv kvs)
    from Cons.prems have "fst kv \<notin> fst ` set kvs" by simp
    then have "fst kv \<notin> fst ` set (?pick kvs)" using sub [of kvs] by blast
    then have "map_of (?pick kvs) (fst kv) = None" by (simp only: map_of_eq_None_iff not_False_eq_True)
    with Cons show ?case by (cases kv) (auto split: json.splits)
  qed simp
  then show ?thesis using dist [OF assms] by (simp add: string_entries_def copy_into_lookup split: option.splits)
qed

lemma safe_decode_shorthandMetadata [simp]: "safe (decode_shorthandMetadata j)"
  by (auto simp: decode_shorthandMetadata_def intro!: safe_rbind safe_dec_map)

lemma safe_decode_shorthandTarget [simp]: "safe (decode_shorthandTarget j)"
  by (cases j) (auto simp: decode_shorthandTarget_def intro!: safe_rbind safe_dec_map safe_dec_ptr)

lemma safe_decode_literalTarget [simp]: "safe (decode_literalTarget j)"
  by (cases j) (auto simp: decode_literalTarget_def intro!: safe_rbind safe_dec_ptr)

lemma safe_decode_shorthandPeer [simp]: "safe (decode_shorthandPeer j)"
  by (auto simp: decode_shorthandPeer_def intro!: safe_rbind safe_dec_map)

lemma safe_decode_shorthandSource [simp]: "safe (decode_shorthandSource j)"
  by (auto simp: decode_shorthandSource_def intro!: safe_rbind safe_dec_map safe_dec_ptr)

text \<open>The labels and annotations of decoded metadata are maps with one value per key.\<close>

definition metadata_wf :: "shorthandMetadata option \<Rightarrow> bool" where
  "metadata_wf sm = (case sm of None \<Rightarrow> True | Some m \<Rightarrow> gomap_wf (smLabels m) \<and> gomap_wf (smAnnotations m))"

definition meta_labels :: "shorthandMetadata option \<Rightarrow> string gomap" where
  "meta_labels sm = (case sm of None \<Rightarrow> None | Some m \<Rightarrow> smLabels m)"

definition meta_annotations :: "shorthandMetadata option \<Rightarrow> string gomap" where
  "meta_annotations sm = (case sm of None \<Rightarrow> None | Some m \<Rightarrow> smAnnotations m)"

lemma metadata_wf_merge [simp]: "metadata_wf (mergeShorthandMetadata l r)"
  by (auto simp: metadata_wf_def mergeShorthandMetadata_def Let_def gomap_wf_mergeMaps split: option.splits)

lemma merge_labels:
  assumes "metadata_wf l" "metadata_wf r"
  shows "glookup (meta_labels (mergeShorthandMetadata l r)) k =
      (case glookup (meta_labels r) k of None \<Rightarrow> glookup (meta_labels l) k | Some v \<Rightarrow> Some v)"
    and "glookup (meta_annotations (mergeShorthandMetadata l r)) k =
      (case glookup (meta_annotations r) k of None \<Rightarrow> glookup (meta_annotations l) k | Some v \<Rightarrow> Some v)"
  using assms
  by (auto simp: meta_labels_def meta_annotations_def metadata_wf_def mergeShorthandMetadata_def Let_def
      glookup_mergeMaps gomap_wf_mergeMaps split: option.splits)

lemma apply_labels:
  assumes "metadata_wf sm" "gomap_wf (omLabels (objMeta obj))" "gomap_wf (omAnnotations (objMeta obj))"
  shows "glookup (omLabels (objMeta (applyShorthandMetadata obj sm))) k =
      (case glookup (omLabels (objMeta obj)) k of None \<Rightarrow> glookup (meta_labels sm) k | Some v \<Rightarrow> Some v)"
    and "glookup (omAnnotations (objMeta (applyShorthandMetadata obj sm))) k =
      (case glookup (omAnnotations (objMeta obj)) k of None \<Rightarrow> glookup (meta_annotations sm) k | Some v \<Rightarrow> Some v)"
  using assms
  by (auto simp: applyShorthandMetadata_def meta_labels_def meta_annotations_def metadata_wf_def Let_def
      glookup_mergeMaps glen_0_iff split: option.splits)

lemma apply_rest [simp]:
  "objGVK (applyShorthandMetadata obj sm) = objGVK obj" "objSpec (applyShorthandMetadata obj sm) = objSpec obj"
  "omName (objMeta (applyShorthandMetadata obj sm)) = omName (objMeta obj)"
  "omNamespace (objMeta (applyShorthandMetadata obj sm)) = omNamespace (objMeta obj)"
  "omOwnerReferences (objMeta (applyShorthandMetadata obj sm)) = omOwnerReferences (objMeta obj)"
  by (auto simp: applyShorthandMetadata_def Let_def split: option.splits)

text \<open>C39: The metadata an emitted policy ends up with: a label the generator itself set wins, then the
  rule's own metadata, then the metadata of the pod the rule belongs to; the same for
  annotations. The rest of the object is untouched.\<close>

theorem shorthand_metadata_precedence:
  assumes "metadata_wf local" "metadata_wf remote"
    and "gomap_wf (omLabels (objMeta obj))" "gomap_wf (omAnnotations (objMeta obj))"
  shows "let out = applyShorthandMetadata obj (mergeShorthandMetadata local remote) in
    glookup (omLabels (objMeta out)) =
      glookup (meta_labels local) ++ glookup (meta_labels remote) ++ glookup (omLabels (objMeta obj)) \<and>
    glookup (omAnnotations (objMeta out)) =
      glookup (meta_annotations local) ++ glookup (meta_annotations remote) ++ glookup (omAnnotations (objMeta obj)) \<and>
    objSpec out = objSpec obj \<and> omName (objMeta out) = omName (objMeta obj)"
  using assms by (auto simp: fun_eq_iff apply_labels merge_labels map_add_def split: option.splits)

definition sample_object :: "bool k8s_object" where
  "sample_object = new_object (new_meta ''n'' (Some [(''a'', ''gen'')]) None) True"

theorem shorthand_metadata_precedence_witness:
  "let out = applyShorthandMetadata sample_object
     (mergeShorthandMetadata (Some \<lparr>smLabels = Some [(''a'', ''1''), (''b'', ''2''), (''c'', ''3'')], smAnnotations = None\<rparr>)
       (Some \<lparr>smLabels = Some [(''b'', ''4'')], smAnnotations = Some [(''x'', ''y'')]\<rparr>)) in
   glookup (omLabels (objMeta out)) ''a'' = Some ''gen'' \<and> glookup (omLabels (objMeta out)) ''b'' = Some ''4'' \<and>
   glookup (omLabels (objMeta out)) ''c'' = Some ''3'' \<and> glookup (omAnnotations (objMeta out)) ''x'' = Some ''y''"
  using shorthand_metadata_precedence [of
      "Some \<lparr>smLabels = Some [(''a'', ''1''), (''b'', ''2''), (''c'', ''3'')], smAnnotations = None\<rparr>"
      "Some \<lparr>smLabels = Some [(''b'', ''4'')], smAnnotations = Some [(''x'', ''y'')]\<rparr>" sample_object]
  by (simp add: metadata_wf_def sample_object_def gomap_wf_def meta_labels_def meta_annotations_def map_add_def Let_def)

end
