(* ===== verification/Net_Cidr.thy ===== *)
theory Net_Cidr
  imports Go_Strings
begin

unbundle bit_operations_syntax

text \<open>
  The part of the package \<open>net\<close> that \<open>applyExcludeCIDRs\<close> calls: \<open>ParseCIDR\<close> (over
  \<open>netip.ParseAddr\<close>), \<open>CIDRMask\<close>, \<open>IP.To4\<close>, \<open>IP.Mask\<close> and \<open>IPNet.Contains\<close>, on byte
  slices as in Go. An error is \<open>None\<close>: no caller looks at its text. The lemmas
  read the byte-wise tests as statements about address bits.
\<close>

type_synonym byte = "8 word"

section \<open>Addresses\<close>

text \<open>\<open>parseIPv4Fields\<close>: four dot-separated decimal fields, at most 255, no leading zero.\<close>

definition parse_octet :: "string \<Rightarrow> byte option" where
  "parse_octet s =
     (if s \<noteq> [] \<and> list_all is_digit s \<and> (length s = 1 \<or> hd s \<noteq> CHR ''0'') \<and> dec_value s \<le> 255
      then Some (word_of_nat (dec_value s)) else None)"

definition parse_ipv4 :: "string \<Rightarrow> byte list option" where
  "parse_ipv4 s =
     (case map parse_octet (split_on (CHR ''.'') s) of
        [Some a, Some b, Some c, Some d] \<Rightarrow> Some [a, b, c, d]
      | _ \<Rightarrow> None)"

definition hex_val :: "char \<Rightarrow> nat option" where
  "hex_val c =
     (let n = of_char c :: nat
      in if 48 \<le> n \<and> n \<le> 57 then Some (n - 48)
         else if 97 \<le> n \<and> n \<le> 102 then Some (n - 87)
         else if 65 \<le> n \<and> n \<le> 70 then Some (n - 55)
         else None)"

definition is_hex :: "char \<Rightarrow> bool" where
  "is_hex c \<longleftrightarrow> hex_val c \<noteq> None"

definition hex_number :: "string \<Rightarrow> nat" where
  "hex_number s = foldl (\<lambda>a c. 16 * a + (case hex_val c of None \<Rightarrow> 0 | Some v \<Rightarrow> v)) 0 s"

text \<open>
  The group loop of \<open>parseIPv6\<close>: \<open>ip\<close> holds the bytes written so far and
  \<open>ell\<close> the position of the ellipsis; the result is the unread rest, the bytes
  and the ellipsis.
\<close>

function v6_groups :: "string \<Rightarrow> byte list \<Rightarrow> nat option \<Rightarrow> (string \<times> byte list \<times> nat option) option" where
  "v6_groups s ip ell =
     (if 16 \<le> length ip then Some (s, ip, ell)
      else
        (let h = takeWhile is_hex s; rest = dropWhile is_hex s;
             ip' = ip @ [word_of_nat (hex_number h div 256), word_of_nat (hex_number h mod 256)]
         in if length h > 4 \<or> h = [] then None
            else (case rest of
                [] \<Rightarrow> Some ([], ip', ell)
              | c # t \<Rightarrow>
                  if c = CHR ''.'' then
                    (if ell = None \<and> length ip \<noteq> 12 then None
                     else if length ip + 4 > 16 then None
                     else map_option (\<lambda>q. ([], ip @ q, ell)) (parse_ipv4 s))
                  else if c \<noteq> CHR '':'' \<or> t = [] then None
                  else if hd t = CHR '':'' then
                    (if ell \<noteq> None then None
                     else if tl t = [] then Some ([], ip', Some (length ip'))
                     else v6_groups (tl t) ip' (Some (length ip')))
                  else v6_groups t ip' ell)))"
  by pat_completeness auto
termination by (relation "measure (\<lambda>(s, ip, ell). 16 - length ip)") auto

declare v6_groups.simps [simp del]

text \<open>
  \<open>parseIPv6\<close>. An address with a zone is refused here, since \<open>ParseCIDR\<close>
  refuses every address whose zone is not empty and an empty zone is an error.
\<close>

definition parse_ipv6 :: "string \<Rightarrow> byte list option" where
  "parse_ipv6 s0 =
     (if CHR ''%'' \<in> set s0 then None
      else
        (let lead = prefix ''::'' s0;
             s = (if lead then drop 2 s0 else s0);
             ell0 = (if lead then Some 0 else None)
         in if lead \<and> s = [] then Some (replicate 16 0)
            else (case v6_groups s [] ell0 of
                None \<Rightarrow> None
              | Some (rest, ip, ell) \<Rightarrow>
                  if rest \<noteq> [] then None
                  else if length ip < 16 then
                    (case ell of None \<Rightarrow> None
                     | Some e \<Rightarrow> Some (take e ip @ replicate (16 - length ip) 0 @ drop e ip))
                  else if ell \<noteq> None then None
                  else Some ip)))"

text \<open>\<open>netip.ParseAddr\<close>: the bytes and whether the address is IPv4.\<close>

fun parse_addr_from :: "string \<Rightarrow> string \<Rightarrow> (bool \<times> byte list) option" where
  "parse_addr_from whole [] = None"
| "parse_addr_from whole (c # s) =
     (if c = CHR ''.'' then map_option (Pair True) (parse_ipv4 whole)
      else if c = CHR '':'' then map_option (Pair False) (parse_ipv6 whole)
      else if c = CHR ''%'' then None
      else parse_addr_from whole s)"

definition ParseAddr :: "string \<Rightarrow> (bool \<times> byte list) option" where
  "ParseAddr s = parse_addr_from s s"

section \<open>Networks\<close>

definition v4InV6Prefix :: "byte list" where
  "v4InV6Prefix = replicate 10 0 @ [0xff, 0xff]"

definition To4 :: "byte list \<Rightarrow> byte list option" where
  "To4 ip =
     (if length ip = 4 then Some ip
      else if length ip = 16 \<and> take 12 ip = v4InV6Prefix then Some (drop 12 ip)
      else None)"

text \<open>\<open>CIDRMask(ones, bits)\<close>.\<close>

fun mask_bytes :: "nat \<Rightarrow> nat \<Rightarrow> byte list" where
  "mask_bytes ones 0 = []"
| "mask_bytes ones (Suc l) =
     (if ones \<ge> 8 then 0xff # mask_bytes (ones - 8) l
      else NOT (drop_bit ones 0xff) # mask_bytes 0 l)"

definition CIDRMask :: "nat \<Rightarrow> nat \<Rightarrow> byte list" where
  "CIDRMask ones bits = mask_bytes ones (bits div 8)"

record ip_net =
  netIP :: "byte list"
  netMask :: "byte list"
  netOnes :: nat

text \<open>\<open>IP.Mask\<close> as \<open>ParseCIDR\<close> applies it, to the 16-byte form of an address.\<close>

definition mask_ip :: "byte list \<Rightarrow> byte list \<Rightarrow> byte list" where
  "mask_ip ip m =
     (let ip = (if length m = 4 \<and> length ip = 16 \<and> take 12 ip = v4InV6Prefix then drop 12 ip else ip)
      in map2 (\<lambda>a b. a AND b) ip m)"

text \<open>\<open>ParseCIDR\<close>: the 16-byte address and the network; \<open>netOnes\<close> is what \<open>Mask.Size\<close> returns.\<close>

definition ParseCIDR :: "string \<Rightarrow> (byte list \<times> ip_net) option" where
  "ParseCIDR s =
     (case str_index s ''/'' of
        None \<Rightarrow> None
      | Some i \<Rightarrow>
          (let addr = take i s; mask = drop (i + 1) s
           in case ParseAddr addr of
                None \<Rightarrow> None
              | Some (is4, ip) \<Rightarrow>
                  (let bits = (if is4 then 32 else 128); n = dec_value mask
                   in if mask = [] \<or> \<not> list_all is_digit mask \<or> n > bits then None
                      else (let ip16 = (if is4 then v4InV6Prefix @ ip else ip); m = CIDRMask n bits
                            in Some (ip16, \<lparr>netIP = mask_ip ip16 m, netMask = m, netOnes = n\<rparr>)))))"

definition Contains :: "ip_net \<Rightarrow> byte list \<Rightarrow> bool" where
  "Contains n ip0 =
     (let nn = (case To4 (netIP n) of None \<Rightarrow> netIP n | Some x \<Rightarrow> x);
          m = (if length (netMask n) = 16 \<and> length nn = 4 then drop 12 (netMask n) else netMask n);
          ip = (case To4 ip0 of None \<Rightarrow> ip0 | Some x \<Rightarrow> x)
      in length (netMask n) \<in> {4, 16} \<and> length m = length nn \<and> length ip = length nn \<and>
         map2 (\<lambda>a b. a AND b) nn m = map2 (\<lambda>a b. a AND b) ip m)"

section \<open>Address bits\<close>

text \<open>Bit \<open>k\<close> of an address, counted from the most significant one.\<close>

definition addr_bit :: "byte list \<Rightarrow> nat \<Rightarrow> bool" where
  "addr_bit a k = bit (a ! (k div 8)) (7 - k mod 8)"

lemma length_mask_bytes [simp]: "length (mask_bytes n l) = l"
  by (induction n l rule: mask_bytes.induct) auto

lemma partial_mask_bit:
  assumes "k < 8" "n < 8"
  shows "bit (NOT (drop_bit n (0xff :: byte))) (7 - k) \<longleftrightarrow> k < n"
proof -
  have "k \<in> {0, 1, 2, 3, 4, 5, 6, 7}" "n \<in> {0, 1, 2, 3, 4, 5, 6, 7}" using assms by auto
  then show ?thesis by (auto simp: bit_simps)
qed

lemma addr_bit_mask: "k < 8 * l \<Longrightarrow> addr_bit (mask_bytes n l) k \<longleftrightarrow> k < n"
proof (induction n l arbitrary: k rule: mask_bytes.induct)
  case (2 n l)
  show ?case
  proof (cases "k < 8")
    case True
    then have "k div 8 = 0" "k mod 8 = k" by simp_all
    moreover have "bit (0xff :: byte) (7 - k)" using True partial_mask_bit [of k 7]
      by (cases "k = 7") (auto simp: bit_simps less_Suc_eq numeral_eq_Suc)
    ultimately show ?thesis using True partial_mask_bit [of k n] by (simp add: addr_bit_def)
  next
    case False
    then have k: "k div 8 = Suc ((k - 8) div 8)" "k mod 8 = (k - 8) mod 8"
      by (simp_all add: le_div_geq le_mod_geq)
    with 2 False show ?thesis by (auto simp: addr_bit_def)
  qed
qed simp

lemma byte_eqI: "(\<And>j. j < 8 \<Longrightarrow> bit (a :: byte) j \<longleftrightarrow> bit b j) \<Longrightarrow> a = b"
  by (rule bit_word_eqI) simp

lemma addr_bits_eq_iff:
  assumes "length a = l" "length b = l"
  shows "a = b \<longleftrightarrow> (\<forall>k < 8 * l. addr_bit a k \<longleftrightarrow> addr_bit b k)"
proof
  assume *: "\<forall>k < 8 * l. addr_bit a k \<longleftrightarrow> addr_bit b k"
  show "a = b"
  proof (rule nth_equalityI)
    fix i assume "i < length a"
    show "a ! i = b ! i"
    proof (rule byte_eqI)
      fix j :: nat assume "j < 8"
      define r where "r = 7 - j"
      have r: "r < 8" "j = 7 - r" using \<open>j < 8\<close> by (auto simp: r_def)
      then have "(8 * i + r) div 8 = i" "(8 * i + r) mod 8 = r" "8 * i + r < 8 * l"
        using \<open>i < length a\<close> assms by auto
      with * r show "bit (a ! i) j \<longleftrightarrow> bit (b ! i) j" by (auto simp: addr_bit_def)
    qed
  qed (use assms in simp)
qed simp

lemma addr_bit_and:
  "length a = l \<Longrightarrow> length m = l \<Longrightarrow> k < 8 * l \<Longrightarrow>
     addr_bit (map2 (\<lambda>x y. x AND y) a m) k \<longleftrightarrow> addr_bit a k \<and> addr_bit m k"
  by (simp add: addr_bit_def bit_and_iff less_mult_imp_div_less mult.commute)

text \<open>Comparing two masked addresses is comparing their leading bits.\<close>

lemma masked_eq_iff:
  assumes "length a = l" "length b = l"
  shows "map2 (\<lambda>x y. x AND y) a (mask_bytes n l) = map2 (\<lambda>x y. x AND y) b (mask_bytes n l) \<longleftrightarrow>
    (\<forall>k < min n (8 * l). addr_bit a k \<longleftrightarrow> addr_bit b k)"
proof -
  let ?m = "mask_bytes n l"
  have "map2 (\<lambda>x y. x AND y) a ?m = map2 (\<lambda>x y. x AND y) b ?m \<longleftrightarrow>
      (\<forall>k < 8 * l. addr_bit (map2 (\<lambda>x y. x AND y) a ?m) k \<longleftrightarrow> addr_bit (map2 (\<lambda>x y. x AND y) b ?m) k)"
    by (rule addr_bits_eq_iff) (use assms in simp_all)
  also have "\<dots> \<longleftrightarrow> (\<forall>k < min n (8 * l). addr_bit a k \<longleftrightarrow> addr_bit b k)"
    using addr_bit_and [of a l ?m] addr_bit_and [of b l ?m] assms addr_bit_mask [of _ l n] by auto
  finally show ?thesis .
qed

section \<open>IPv4 networks\<close>

lemma To4_mapped [simp]: "length a = 4 \<Longrightarrow> To4 (v4InV6Prefix @ a) = Some a"
  by (simp add: To4_def v4InV6Prefix_def)

lemma length_v4InV6Prefix [simp]: "length v4InV6Prefix = 12"
  by (simp add: v4InV6Prefix_def)

lemma parse_ipv4_length: "parse_ipv4 s = Some ip \<Longrightarrow> length ip = 4"
  by (auto simp: parse_ipv4_def split: list.splits option.splits)

text \<open>An IPv4 CIDR as the address and prefix length its text denotes.\<close>

definition v4_cidr :: "string \<Rightarrow> (byte list \<times> nat) option" where
  "v4_cidr s =
     (case ParseCIDR s of
        Some (ip, n) \<Rightarrow> if length (netMask n) = 4 then Some (drop 12 ip, netOnes n) else None
      | None \<Rightarrow> None)"

lemma ParseCIDR_parts:
  assumes "ParseCIDR s = Some (ip, nt)"
  obtains t is4 raw where "ParseAddr t = Some (is4, raw)" "netOnes nt \<le> (if is4 then 32 else 128)"
    "ip = (if is4 then v4InV6Prefix @ raw else raw)"
    "nt = \<lparr>netIP = mask_ip ip (CIDRMask (netOnes nt) (if is4 then 32 else 128)),
       netMask = CIDRMask (netOnes nt) (if is4 then 32 else 128), netOnes = netOnes nt\<rparr>"
proof -
  from assms obtain i is4 raw where i: "str_index s ''/'' = Some i" "ParseAddr (take i s) = Some (is4, raw)"
    by (auto simp: ParseCIDR_def Let_def split: option.splits)
  define bits :: nat where "bits = (if is4 then 32 else 128)"
  define ip16 where "ip16 = (if is4 then v4InV6Prefix @ raw else raw)"
  define n where "n = dec_value (drop (i + 1) s)"
  from assms i have "n \<le> bits" "ip = ip16" "nt = \<lparr>netIP = mask_ip ip16 (CIDRMask n bits), netMask = CIDRMask n bits, netOnes = n\<rparr>"
    unfolding ParseCIDR_def Let_def by (simp_all add: bits_def ip16_def n_def split: if_split_asm)
  with i(2) that show thesis unfolding bits_def ip16_def by simp
qed

lemma ParseCIDR_v4:
  assumes "v4_cidr s = Some (a, n)"
  shows "ParseCIDR s = Some (v4InV6Prefix @ a,
      \<lparr>netIP = map2 (\<lambda>x y. x AND y) a (mask_bytes n 4), netMask = mask_bytes n 4, netOnes = n\<rparr>)"
    and "length a = 4" "n \<le> 32"
proof -
  from assms obtain ip nt where p: "ParseCIDR s = Some (ip, nt)" "length (netMask nt) = 4" "a = drop 12 ip" "n = netOnes nt"
    by (auto simp: v4_cidr_def split: option.splits if_splits)
  obtain t is4 raw where r: "ParseAddr t = Some (is4, raw)" "n \<le> (if is4 then 32 else 128)"
    "ip = (if is4 then v4InV6Prefix @ raw else raw)"
    "nt = \<lparr>netIP = mask_ip ip (CIDRMask n (if is4 then 32 else 128)), netMask = CIDRMask n (if is4 then 32 else 128), netOnes = n\<rparr>"
    using ParseCIDR_parts [OF p(1)] unfolding p(4) by blast
  have is4: is4 using p(2) r(4) by (cases is4) (auto simp: CIDRMask_def)
  have four: "length raw = 4"
  proof -
    have "parse_addr_from w t = Some (True, raw) \<Longrightarrow> length raw = 4" for w t
      by (induction t) (auto split: if_splits dest: parse_ipv4_length)
    with r(1) is4 show ?thesis by (simp add: ParseAddr_def)
  qed
  show "length a = 4" "n \<le> 32" using p(3) r is4 four by simp_all
  show "ParseCIDR s = Some (v4InV6Prefix @ a,
      \<lparr>netIP = map2 (\<lambda>x y. x AND y) a (mask_bytes n 4), netMask = mask_bytes n 4, netOnes = n\<rparr>)"
  proof -
    have ip: "ip = v4InV6Prefix @ a" using p(3) r(3) is4 by simp
    moreover have "length a = 4" by fact
    ultimately have "mask_ip ip (CIDRMask n 32) = map2 (\<lambda>x y. x AND y) a (mask_bytes n 4)"
      by (simp add: mask_ip_def CIDRMask_def)
    then show ?thesis unfolding p(1) ip [symmetric] using r(4) is4 by (simp add: CIDRMask_def)
  qed
qed

text \<open>The addresses of a network: those that share its first \<open>n\<close> bits.\<close>

definition v4_range :: "byte list \<times> nat \<Rightarrow> byte list set" where
  "v4_range c = {a. length a = 4 \<and> (\<forall>k < snd c. addr_bit a k \<longleftrightarrow> addr_bit (fst c) k)}"

lemma addr_bit_masked:
  "length a = 4 \<Longrightarrow> n \<le> 32 \<Longrightarrow> k < n \<Longrightarrow> addr_bit (map2 (\<lambda>x y. x AND y) a (mask_bytes n 4)) k \<longleftrightarrow> addr_bit a k"
  using addr_bit_and [of a 4 "mask_bytes n 4" k] addr_bit_mask [of k 4 n] by auto

lemma Contains_v4:
  assumes "length a = 4" "length b = 4" "n \<le> 32"
  shows "Contains \<lparr>netIP = map2 (\<lambda>x y. x AND y) a (mask_bytes n 4), netMask = mask_bytes n 4, netOnes = n\<rparr>
      (v4InV6Prefix @ b) \<longleftrightarrow> b \<in> v4_range (a, n)"
proof -
  let ?nn = "map2 (\<lambda>x y. x AND y) a (mask_bytes n 4)"
  have "Contains \<lparr>netIP = ?nn, netMask = mask_bytes n 4, netOnes = n\<rparr> (v4InV6Prefix @ b) \<longleftrightarrow>
      map2 (\<lambda>x y. x AND y) ?nn (mask_bytes n 4) = map2 (\<lambda>x y. x AND y) b (mask_bytes n 4)"
    using assms by (simp add: Contains_def Let_def To4_def v4InV6Prefix_def)
  also have "\<dots> \<longleftrightarrow> (\<forall>k < n. addr_bit ?nn k \<longleftrightarrow> addr_bit b k)"
    using masked_eq_iff [of ?nn 4 b n] assms by (simp add: min_absorb1)
  also have "\<dots> \<longleftrightarrow> b \<in> v4_range (a, n)"
    using addr_bit_masked [OF assms(1,3)] assms(2) by (auto simp: v4_range_def)
  finally show ?thesis .
qed

lemma flip_bit_addr:
  assumes "length a = 4" "k < 32"
  obtains b where "length b = 4" "addr_bit b k \<longleftrightarrow> \<not> addr_bit a k" "\<And>j. j < k \<Longrightarrow> addr_bit b j \<longleftrightarrow> addr_bit a j"
proof
  let ?b = "a[k div 8 := flip_bit (7 - k mod 8) (a ! (k div 8))]"
  show "length ?b = 4" using assms by simp
  have kd: "k div 8 < length a" using assms by auto
  show "addr_bit ?b k \<longleftrightarrow> \<not> addr_bit a k"
    using kd by (auto simp: addr_bit_def bit_flip_bit_iff)
  show "addr_bit ?b j \<longleftrightarrow> addr_bit a j" if "j < k" for j
  proof (cases "j div 8 = k div 8")
    case True
    with that have "j mod 8 < k mod 8" by (metis div_mult_mod_eq nat_add_left_cancel_less)
    then have "7 - j mod 8 \<noteq> 7 - k mod 8" using mod_less_divisor [of 8 k] by linarith
    with True kd show ?thesis by (auto simp: addr_bit_def bit_flip_bit_iff)
  qed (simp add: addr_bit_def)
qed

lemma v4_range_subset_iff:
  assumes "length a = 4" "length b = 4" "n \<le> 32" "m \<le> 32"
  shows "v4_range (b, m) \<subseteq> v4_range (a, n) \<longleftrightarrow> n \<le> m \<and> b \<in> v4_range (a, n)"
proof
  assume sub: "v4_range (b, m) \<subseteq> v4_range (a, n)"
  have b: "b \<in> v4_range (b, m)" using assms by (simp add: v4_range_def)
  moreover have "n \<le> m"
  proof (rule ccontr)
    assume "\<not> n \<le> m"
    then have "m < 32" using assms by simp
    with assms(2) obtain c where c: "length c = 4" "addr_bit c m \<longleftrightarrow> \<not> addr_bit b m" "\<And>j. j < m \<Longrightarrow> addr_bit c j \<longleftrightarrow> addr_bit b j"
      using flip_bit_addr [of b m] by blast
    then have "c \<in> v4_range (b, m)" by (simp add: v4_range_def)
    with sub b have "c \<in> v4_range (a, n)" "b \<in> v4_range (a, n)" by blast+
    with c(2) \<open>\<not> n \<le> m\<close> show False by (auto simp: v4_range_def)
  qed
  ultimately show "n \<le> m \<and> b \<in> v4_range (a, n)" using sub by blast
qed (auto simp: v4_range_def)

end
