(* ===== verification/Externals.thy ===== *)
theory Externals
  imports Api_Types
begin

text \<open>
  Third-party code the generator calls, as one record of functions that every
  definition using it takes as an argument: the Kubernetes name and selector
  validators, the unmarshallers of the Kubernetes and Istio types, JSON to
  YAML conversion and strict YAML decoding. What the theorems assume of them
  is only that they return: a value or an error, never a panic (\<open>ext_returns\<close>).
  \<open>json.Unmarshal\<close> into a type with its own \<open>UnmarshalJSON\<close> is such a function, here on
  the document's value; an Istio message is kept as the document it was decoded from.
\<close>

text \<open>\<open>GatewayDefinition\<close> of \<open>pkg/generator/ingressconfig.go\<close>, which the YAML decoder returns.\<close>

record gateway_definition =
  gwPodSelector :: "label_selector option"
  gwServiceAccountName :: string

record ext =
  xIsDNS1123Label :: "string \<Rightarrow> string list"
  xIsDNS1123Subdomain :: "string \<Rightarrow> string list"
  xLabelSelectorAsSelector :: "label_selector \<Rightarrow> unit res"
  xIntOrString :: "json \<Rightarrow> int_or_string res"
  xNetpolSpec :: "json \<Rightarrow> netpol_spec res"
  xEgressRules :: "json \<Rightarrow> netpol_rule list res"
  xIngressRules :: "json \<Rightarrow> netpol_rule list res"
  xJSONToYAML :: "json \<Rightarrow> string res"
  xAuthorizationPolicy :: "json \<Rightarrow> unit res"
  xServiceEntry :: "json \<Rightarrow> unit res"
  xHTTPRoute :: "json \<Rightarrow> unit res"
  xYamlEgressDefinitions :: "string \<Rightarrow> definition_value gomap res"
  xYamlIngressDefinitions :: "string \<Rightarrow> definition_value gomap res"
  xYamlRoutes :: "string \<Rightarrow> route_defaults option res"
  xYamlGateways :: "string \<Rightarrow> gateway_definition gomap res"

definition ext_returns :: "ext \<Rightarrow> bool" where
  "ext_returns X \<longleftrightarrow>
     (\<forall>s. safe (xLabelSelectorAsSelector X s)) \<and>
     (\<forall>j. safe (xIntOrString X j)) \<and> (\<forall>j. safe (xNetpolSpec X j)) \<and>
     (\<forall>j. safe (xEgressRules X j)) \<and> (\<forall>j. safe (xIngressRules X j)) \<and> (\<forall>j. safe (xJSONToYAML X j)) \<and>
     (\<forall>j. safe (xAuthorizationPolicy X j)) \<and> (\<forall>j. safe (xServiceEntry X j)) \<and> (\<forall>j. safe (xHTTPRoute X j)) \<and>
     (\<forall>s. safe (xYamlEgressDefinitions X s)) \<and> (\<forall>s. safe (xYamlIngressDefinitions X s)) \<and>
     (\<forall>s. safe (xYamlRoutes X s)) \<and> (\<forall>s. safe (xYamlGateways X s))"

lemma ext_returnsD:
  assumes "ext_returns X"
  shows "safe (xLabelSelectorAsSelector X s)" "safe (xIntOrString X j)" "safe (xNetpolSpec X j)"
    "safe (xEgressRules X j)" "safe (xIngressRules X j)" "safe (xJSONToYAML X j)"
    "safe (xAuthorizationPolicy X j)" "safe (xServiceEntry X j)" "safe (xHTTPRoute X j)"
    "safe (xYamlEgressDefinitions X t)" "safe (xYamlIngressDefinitions X t)"
    "safe (xYamlRoutes X t)" "safe (xYamlGateways X t)"
  using assms by (simp_all add: ext_returns_def)

text \<open>
  A concrete instance, on which the theorems that assume \<open>ext_returns\<close> are
  applied: names are valid when they are made of letters, digits, dashes and
  dots, integers and strings decode to ports, and the decoders of larger
  documents return empty values.
\<close>

definition sample_name_errs :: "string \<Rightarrow> string list" where
  "sample_name_errs s =
     (if s \<noteq> [] \<and> list_all (\<lambda>c. CHR ''a'' \<le> c \<and> c \<le> CHR ''z'' \<or> is_digit c \<or> c = CHR ''-'' \<or> c = CHR ''.'') s
      then [] else [''invalid name''])"

definition sample_ext :: ext where
  "sample_ext = \<lparr>
     xIsDNS1123Label = sample_name_errs,
     xIsDNS1123Subdomain = sample_name_errs,
     xLabelSelectorAsSelector = (\<lambda>_. Inr ()),
     xIntOrString = (\<lambda>j. case j of
         JNumber n \<Rightarrow> (case parse_int 32 n of None \<Rightarrow> json_error | Some i \<Rightarrow> Inr (IntVal (word_of_int i)))
       | JString s \<Rightarrow> Inr (StrVal s)
       | _ \<Rightarrow> json_error),
     xNetpolSpec = (\<lambda>j. case j of JObject _ \<Rightarrow> Inr empty_netpol_spec | _ \<Rightarrow> json_error),
     xEgressRules = (\<lambda>j. case j of JArray _ \<Rightarrow> Inr [] | JNull \<Rightarrow> Inr [] | _ \<Rightarrow> json_error),
     xIngressRules = (\<lambda>j. case j of JArray _ \<Rightarrow> Inr [] | JNull \<Rightarrow> Inr [] | _ \<Rightarrow> json_error),
     xJSONToYAML = (\<lambda>_. Inr ''[]''),
     xAuthorizationPolicy = (\<lambda>j. case j of JObject _ \<Rightarrow> Inr () | _ \<Rightarrow> json_error),
     xServiceEntry = (\<lambda>j. case j of JObject _ \<Rightarrow> Inr () | _ \<Rightarrow> json_error),
     xHTTPRoute = (\<lambda>j. case j of JObject _ \<Rightarrow> Inr () | _ \<Rightarrow> json_error),
     xYamlEgressDefinitions = (\<lambda>_. Inr (Some [])),
     xYamlIngressDefinitions = (\<lambda>_. Inr (Some [])),
     xYamlRoutes = (\<lambda>_. Inr None),
     xYamlGateways = (\<lambda>_. Inr None)\<rparr>"

lemma sample_ext_returns: "ext_returns sample_ext"
  by (auto simp: ext_returns_def sample_ext_def split: json.splits option.splits)

end
