(* ===== verification/Netpol_Core.thy ===== *)
theory Netpol_Core
  imports Shorthand_Values Net_Cidr Externals
begin

text \<open>
  Helpers of \<open>pkg/generator/networkpolicies.go\<close>: CIDR exclusions, remote selectors,
  ports, raw additional policies and the labels every generated policy carries.
\<close>

definition defaultEgressExcludeCIDRs :: "string list" where
  "defaultEgressExcludeCIDRs = [''169.254.169.254/32'']"

definition excludeCIDRsFor :: "network_policies option \<Rightarrow> string list" where
  "excludeCIDRsFor spec =
     (case spec of
        None \<Rightarrow> defaultEgressExcludeCIDRs
      | Some np \<Rightarrow>
          (case npEgress np of
             None \<Rightarrow> defaultEgressExcludeCIDRs
           | Some eg \<Rightarrow>
               (case neExcludeCIDRs eg of None \<Rightarrow> defaultEgressExcludeCIDRs | Some l \<Rightarrow> l)))"

text \<open>One iteration of the loop of \<open>applyExcludeCIDRs\<close>: does \<open>ex\<close> stay?\<close>

definition keep_exclusion :: "string \<Rightarrow> ip_net \<Rightarrow> string \<Rightarrow> bool" where
  "keep_exclusion cidr ruleNet ex \<longleftrightarrow>
     (if ex = cidr then False
      else (case ParseCIDR ex of
          None \<Rightarrow> False
        | Some (exIP, exNet) \<Rightarrow>
            if netOnes exNet < netOnes ruleNet then False
            else Contains ruleNet exIP))"

definition applyExcludeCIDRs :: "string \<Rightarrow> string list \<Rightarrow> string list option" where
  "applyExcludeCIDRs cidr exclusions =
     (if exclusions = [] then None
      else (case ParseCIDR cidr of
          None \<Rightarrow> None
        | Some (_, ruleNet) \<Rightarrow>
            (let out = filter (keep_exclusion cidr ruleNet) exclusions
             in if out = [] then None else Some out)))"

definition remoteNamespaceSelector :: "string \<Rightarrow> string gomap \<Rightarrow> label_selector" where
  "remoteNamespaceSelector ns override =
     (if glen override > 0 then selector_of override
      else if ns = ''*'' then empty_selector
      else selector_of (Some [(''kubernetes.io/metadata.name'', ns)]))"

definition remotePodSelector :: "string \<Rightarrow> string gomap \<Rightarrow> label_selector" where
  "remotePodSelector pod override =
     (if glen override > 0 then selector_of override
      else if pod = [] \<or> pod = ''*'' then empty_selector
      else selector_of (Some [(''app.kubernetes.io/name'', pod)]))"

definition buildNetpolPorts :: "string \<Rightarrow> int list \<Rightarrow> bool \<Rightarrow> netpol_port list" where
  "buildNetpolPorts protocol ports hasRange =
     (if ports = [] then []
      else
        (let proto = (if to_upper protocol = ''UDP'' then ''UDP'' else ''TCP'')
         in if hasRange \<and> length ports = 2
            then [\<lparr>portProtocol = Some proto, portPort = Some (FromInt (ports ! 0)),
                   portEndPort = Some (word_of_int (ports ! 1))\<rparr>]
            else map (\<lambda>p. int_port proto p) ports))"

definition buildAdditionalPolicy ::
  "ext \<Rightarrow> package \<Rightarrow> network_policies \<Rightarrow> additional_policy \<Rightarrow> client_object res" where
  "buildAdditionalPolicy X pkg spec raw =
     (let meta = new_meta (prependName (npPrependReleaseName spec) (pkgName pkg) (aplName raw))
                   (aplLabels raw) (aplAnnotations raw)
      in if glen (aplSpec raw) > 0
         then rbind (xNetpolSpec X (marshal_raw_map (aplSpec raw)))
                (\<lambda>s. Inr (NetworkPolicy (new_object meta s)))
         else Inr (NetworkPolicy (new_object meta empty_netpol_spec)))"

definition defaultNetpolLabels :: "string \<Rightarrow> string gomap" where
  "defaultNetpolLabels direction =
     Some [(LabelNetpolSource, LabelNetpolSourceValue), (''network-policies.bigbang.dev/direction'', direction)]"

section \<open>Exclusions\<close>

lemma applyExcludeCIDRs_set:
  assumes "ParseCIDR cidr = Some (ip, ruleNet)"
  shows "(case applyExcludeCIDRs cidr exs of None \<Rightarrow> [] | Some l \<Rightarrow> l) = filter (keep_exclusion cidr ruleNet) exs"
  using assms by (auto simp: applyExcludeCIDRs_def Let_def)

text \<open>For IPv4 texts, an exclusion stays exactly when its addresses are among the rule's.\<close>

lemma keep_exclusion_v4:
  assumes "v4_cidr cidr = Some (a, n)" "v4_cidr ex = Some (b, m)" "ParseCIDR cidr = Some (ip, ruleNet)"
  shows "keep_exclusion cidr ruleNet ex \<longleftrightarrow> ex \<noteq> cidr \<and> v4_range (b, m) \<subseteq> v4_range (a, n)"
proof -
  note a = ParseCIDR_v4 [OF assms(1)] and b = ParseCIDR_v4 [OF assms(2)]
  from a(1) assms(3) have rule: "ruleNet =
      \<lparr>netIP = map2 (\<lambda>x y. x AND y) a (mask_bytes n 4), netMask = mask_bytes n 4, netOnes = n\<rparr>" by simp
  show ?thesis
    unfolding keep_exclusion_def b(1) rule v4_range_subset_iff [OF a(2) b(2) a(3) b(3)]
    using Contains_v4 [OF a(2) b(2) a(3)] by auto
qed



text \<open>Under the default exclusions a rule for the whole IPv4 internet is emitted
  without the instance metadata address: no destination it allows is 169.254.169.254.\<close>

theorem default_exclusion_blocks_imds:
  "applyExcludeCIDRs cidrAnywhere (excludeCIDRsFor None) = Some [''169.254.169.254/32''] \<and>
   v4_cidr ''169.254.169.254/32'' = Some ([169, 254, 169, 254], 32) \<and>
   v4_range ([169, 254, 169, 254], 32) = {[169, 254, 169, 254]}"
proof (intro conjI)
  show "applyExcludeCIDRs cidrAnywhere (excludeCIDRsFor None) = Some [''169.254.169.254/32'']" by code_simp
  show "v4_cidr ''169.254.169.254/32'' = Some ([169, 254, 169, 254], 32)" by code_simp
  have "a = [169, 254, 169, 254]" if "length a = 4" "\<forall>k < 32. addr_bit a k \<longleftrightarrow> addr_bit [169, 254, 169, 254] k" for a
    using that addr_bits_eq_iff [of a 4 "[169, 254, 169, 254]"] by simp
  then show "v4_range ([169, 254, 169, 254], 32) = {[169, 254, 169, 254]}" by (auto simp: v4_range_def)
qed

text \<open>The comparison with the rule is on the text: an exclusion that denotes the same network as the rule
  but is written differently is kept, so the emitted ipBlock excepts every address it names. The
  comment of the function promises a strict subset.\<close>

theorem applyExcludeCIDRs_keeps_equal_network:
  "applyExcludeCIDRs ''10.0.0.0/8'' [''10.1.2.3/8''] = Some [''10.1.2.3/8''] \<and>
   v4_cidr ''10.0.0.0/8'' = Some ([10, 0, 0, 0], 8) \<and> v4_cidr ''10.1.2.3/8'' = Some ([10, 1, 2, 3], 8) \<and>
   v4_range ([10, 1, 2, 3], 8) = v4_range ([10, 0, 0, 0], 8)"
proof (intro conjI)
  have "addr_bit [10, 1, 2, 3] k \<longleftrightarrow> addr_bit [10, 0, 0, 0] k" if "k < 8" for k
    using that by (simp add: addr_bit_def)
  then show "v4_range ([10, 1, 2, 3], 8) = v4_range ([10, 0, 0, 0], 8)" by (auto simp: v4_range_def)
qed code_simp+

section \<open>Ports\<close>

lemma length_ports_2: "length ps = 2 \<Longrightarrow> \<exists>a b. ps = [a, b]"
  by (auto simp: numeral_2_eq_2 length_Suc_conv)

lemma buildNetpolPorts_empty_iff: "buildNetpolPorts proto ports hasRange = [] \<longleftrightarrow> ports = []"
  by (auto simp: buildNetpolPorts_def Let_def)

lemma safe_buildAdditionalPolicy: "ext_returns X \<Longrightarrow> safe (buildAdditionalPolicy X pkg spec raw)"
  by (auto simp: buildAdditionalPolicy_def Let_def ext_returnsD intro!: safe_rbind)

end
