(* ===== verification/Definitions.thy ===== *)
theory Definitions
  imports Netpol_Core
begin

text \<open>
  Named peer definitions (\<open>pkg/generator/definitions.go\<close>, \<open>pkg/generator/globalconfig.go\<close>): the
  built-in pools, the parsing of an authored definition into peers and ports,
  and the resolution of a name through the layers package-local, shared,
  built-in. The interface \<open>definition_layers\<close> states the layering once for the
  two directions.
\<close>

definition matchLabels :: "string \<Rightarrow> string \<Rightarrow> label_selector" where
  "matchLabels k v = selector_of (Some [(k, v)])"

record resolvedDefinition =
  rdPeers :: "netpol_peer list"
  rdPorts :: "netpol_port list"

definition builtInEgressDefinitions :: "int_or_string list \<Rightarrow> resolvedDefinition gomap" where
  "builtInEgressDefinitions kubeAPIPorts =
     Some [(''kubeAPI'',
       \<lparr>rdPeers = [cidr_peer ''10.0.0.0/8'' None, cidr_peer ''172.16.0.0/12'' None, cidr_peer ''192.168.0.0/16'' None],
        rdPorts = map (\<lambda>p. \<lparr>portProtocol = Some ''TCP'', portPort = Some p, portEndPort = None\<rparr>) kubeAPIPorts\<rparr>)]"

definition builtInIngressDefinitions :: "resolvedDefinition gomap" where
  "builtInIngressDefinitions =
     Some [(''gateway'',
             \<lparr>rdPeers = [selector_peer (Some (matchLabels ''kubernetes.io/metadata.name'' ''istio-gateway''))
                                      (Some (matchLabels ''istio'' ''ingressgateway''))], rdPorts = []\<rparr>),
           (''monitoring'',
             \<lparr>rdPeers = [selector_peer (Some (matchLabels ''kubernetes.io/metadata.name'' ''monitoring''))
                                      (Some (matchLabels ''app.kubernetes.io/name'' ''prometheus''))], rdPorts = []\<rparr>)]"

record defsEnv =
  deKubeAPIPorts :: "int_or_string list"
  deSharedEgress :: "definition_value gomap"
  deSharedIngress :: "definition_value gomap"
  deSharedErr :: "gerror option"

section \<open>Parsing a definition\<close>

record definitionIPBlock =
  dbCIDR :: string
  dbExcept :: "string list option"

record definitionPeer =
  dfIPBlock :: "definitionIPBlock option"
  dfNamespaceSelector :: "json gomap"
  dfPodSelector :: "json gomap"

record definitionPort =
  dfPort :: "int_or_string option"
  dfEndPort :: "32 word option"
  dfProtocol :: string

text \<open>
  The loop ranges over a Go map, in no fixed order: the order of the pairs
  stands for it, and only the key an error names depends on it.
\<close>

definition selectorFromTyped :: "raw_json gomap \<Rightarrow> json gomap res" where
  "selectorFromTyped m =
     (case m of None \<Rightarrow> Inr None
      | Some kvs \<Rightarrow>
          rbind (rmap (\<lambda>(k, v). rbind (rwrap ''selector key %s: %w'' [k] (of_raw v)) (\<lambda>val. Inr (k, val))) kvs)
            (\<lambda>out. Inr (Some out)))"

definition typedPeer ::
  "string option \<Rightarrow> string list option \<Rightarrow> raw_json gomap \<Rightarrow> raw_json gomap \<Rightarrow> definitionPeer res" where
  "typedPeer cidr except ns pod =
     (let block = (if cidr \<noteq> None \<or> except \<noteq> None
                   then Some \<lparr>dbCIDR = (case cidr of None \<Rightarrow> [] | Some c \<Rightarrow> c), dbExcept = except\<rparr> else None)
      in rbind (selectorFromTyped ns) (\<lambda>nsSel.
         rbind (selectorFromTyped pod) (\<lambda>podSel.
         Inr \<lparr>dfIPBlock = block, dfNamespaceSelector = nsSel, dfPodSelector = podSel\<rparr>)))"

text \<open>
  The ports go through \<open>json.Marshal\<close> and \<open>json.Unmarshal\<close>: the schema's 64-bit
  end port must fit the \<open>int32\<close> it is decoded into, and an absent protocol
  becomes the empty string.
\<close>

definition parseDefinitionPorts :: "def_port list \<Rightarrow> definitionPort list res" where
  "parseDefinitionPorts typed =
     rmap (\<lambda>p. case dpEndPort p of
         None \<Rightarrow> Inr \<lparr>dfPort = dpPort p, dfEndPort = None, dfProtocol = (case dpProtocol p of None \<Rightarrow> [] | Some s \<Rightarrow> s)\<rparr>
       | Some e \<Rightarrow>
           if int_fits 32 e
           then Inr \<lparr>dfPort = dpPort p, dfEndPort = Some (word_of_int e),
                    dfProtocol = (case dpProtocol p of None \<Rightarrow> [] | Some s \<Rightarrow> s)\<rparr>
           else json_error) typed"

definition build_peer :: "definitionPeer \<Rightarrow> netpol_peer" where
  "build_peer p =
     \<lparr>peerIPBlock = map_option (\<lambda>b. \<lparr>ibCIDR = dbCIDR b, ibExcept = dbExcept b\<rparr>) (dfIPBlock p),
      peerNamespaceSelector =
        (if dfNamespaceSelector p \<noteq> None then Some (selector_of (flattenMatchLabels (dfNamespaceSelector p))) else None),
      peerPodSelector =
        (if dfPodSelector p \<noteq> None then Some (selector_of (flattenMatchLabels (dfPodSelector p))) else None)\<rparr>"

definition build_port :: "definitionPort \<Rightarrow> netpol_port" where
  "build_port p =
     \<lparr>portProtocol = (if dfProtocol p \<noteq> [] then Some (dfProtocol p) else None),
      portPort = dfPort p, portEndPort = dfEndPort p\<rparr>"

definition buildDefinition :: "definitionPeer list \<Rightarrow> definitionPort list \<Rightarrow> resolvedDefinition res" where
  "buildDefinition peersRaw portsRaw =
     Inr \<lparr>rdPeers = map build_peer peersRaw, rdPorts = map build_port portsRaw\<rparr>"

text \<open>
  \<open>parseEgressDefinition\<close> and \<open>parseIngressDefinition\<close> have the same body over
  two generated types with the same fields.
\<close>

definition parse_definition :: "definition_value \<Rightarrow> resolvedDefinition res" where
  "parse_definition raw =
     rbind (rmap (\<lambda>e.
         let (cidr, except) = (case dprIPBlock e of None \<Rightarrow> (None, None) | Some b \<Rightarrow> (dibCIDR b, dibExcept b))
         in typedPeer cidr except (dprNamespaceSelector e) (dprPodSelector e)) (dvPeers raw)) (\<lambda>peers.
     rbind (parseDefinitionPorts (dvPorts raw)) (\<lambda>ports.
     buildDefinition peers ports))"

definition parseEgressDefinition :: "definition_value \<Rightarrow> resolvedDefinition res" where
  "parseEgressDefinition raw = parse_definition raw"

definition parseIngressDefinition :: "definition_value \<Rightarrow> resolvedDefinition res" where
  "parseIngressDefinition raw = parse_definition raw"

section \<open>Resolution\<close>

definition egress_local :: "network_policies \<Rightarrow> string \<Rightarrow> definition_value option" where
  "egress_local spec name = (case npEgress spec of None \<Rightarrow> None | Some eg \<Rightarrow> glookup (neDefinitions eg) name)"

definition ingress_local :: "network_policies \<Rightarrow> string \<Rightarrow> definition_value option" where
  "ingress_local spec name = (case npIngress spec of None \<Rightarrow> None | Some ing \<Rightarrow> glookup (niDefinitions ing) name)"

definition resolveEgressDefinition :: "network_policies \<Rightarrow> string \<Rightarrow> defsEnv \<Rightarrow> resolvedDefinition res" where
  "resolveEgressDefinition spec name env =
     (case egress_local spec name of
        Some raw \<Rightarrow> rwrap ''egress.definitions.%s: %w'' [name] (parseEgressDefinition raw)
      | None \<Rightarrow>
          (case deSharedErr env of
             Some e \<Rightarrow> Inl (wrapf ''egress definition %q: global config unreadable: %w'' [name] e)
           | None \<Rightarrow>
               (case glookup (deSharedEgress env) name of
                  Some raw \<Rightarrow> rwrap ''global egress definition %s: %w'' [name] (parseEgressDefinition raw)
                | None \<Rightarrow>
                    (case glookup (builtInEgressDefinitions (deKubeAPIPorts env)) name of
                       Some d \<Rightarrow> Inr d
                     | None \<Rightarrow> Inl (Errorf ''egress definition %q not found'' [name])))))"

definition resolveIngressDefinition :: "network_policies \<Rightarrow> string \<Rightarrow> defsEnv \<Rightarrow> resolvedDefinition res" where
  "resolveIngressDefinition spec name env =
     (case ingress_local spec name of
        Some raw \<Rightarrow> rwrap ''ingress.definitions.%s: %w'' [name] (parseIngressDefinition raw)
      | None \<Rightarrow>
          (case deSharedErr env of
             Some e \<Rightarrow> Inl (wrapf ''ingress definition %q: global config unreadable: %w'' [name] e)
           | None \<Rightarrow>
               (case glookup (deSharedIngress env) name of
                  Some raw \<Rightarrow> rwrap ''global ingress definition %s: %w'' [name] (parseIngressDefinition raw)
                | None \<Rightarrow>
                    (case glookup builtInIngressDefinitions name of
                       Some d \<Rightarrow> Inr d
                     | None \<Rightarrow> Inl (Errorf ''ingress definition %q not found'' [name])))))"

section \<open>The global ConfigMap\<close>

definition GlobalConfigEgressKey :: string where
  "GlobalConfigEgressKey = ''egressDefinitions''"

definition GlobalConfigIngressKey :: string where
  "GlobalConfigIngressKey = ''ingressDefinitions''"

definition ParseSharedEgressDefinitions :: "ext \<Rightarrow> string \<Rightarrow> definition_value gomap res" where
  "ParseSharedEgressDefinitions X data =
     (if trim_space data = [] then Inr None
      else rwrap ''%s: %w'' [GlobalConfigEgressKey] (xYamlEgressDefinitions X data))"

definition ParseSharedIngressDefinitions :: "ext \<Rightarrow> string \<Rightarrow> definition_value gomap res" where
  "ParseSharedIngressDefinitions X data =
     (if trim_space data = [] then Inr None
      else rwrap ''%s: %w'' [GlobalConfigIngressKey] (xYamlIngressDefinitions X data))"

section \<open>Layering\<close>

text \<open>The value a name denotes: that of the topmost layer that has it, or none at all.\<close>

definition topmost_layer ::
  "'raw option \<Rightarrow> gerror option \<Rightarrow> 'raw option \<Rightarrow> 'd option \<Rightarrow> ('raw \<Rightarrow> 'd res) \<Rightarrow> 'd option" where
  "topmost_layer package unreadable shared builtin parse =
     (case package of Some raw \<Rightarrow> (case parse raw of Inr d \<Rightarrow> Some d | Inl _ \<Rightarrow> None)
      | None \<Rightarrow> (case unreadable of Some _ \<Rightarrow> None
        | None \<Rightarrow> (case shared of Some raw \<Rightarrow> (case parse raw of Inr d \<Rightarrow> Some d | Inl _ \<Rightarrow> None)
          | None \<Rightarrow> builtin)))"

text \<open>
  The contract of resolution, for one package and one environment: which layers
  hold a name, how an authored value is parsed, and what resolving gives in each case.
\<close>

locale definition_layers =
  fixes in_package :: "string \<Rightarrow> 'raw option"
    and in_shared :: "string \<Rightarrow> 'raw option"
    and builtin :: "string \<Rightarrow> 'd option"
    and unreadable :: "gerror option"
    and parse :: "'raw \<Rightarrow> 'd res"
    and resolve :: "string \<Rightarrow> 'd res"
  assumes package_wins: "in_package n = Some raw \<Longrightarrow> parse raw = Inr d \<Longrightarrow> resolve n = Inr d"
    and package_error: "in_package n = Some raw \<Longrightarrow> parse raw = Inl e \<Longrightarrow> \<exists>fmt. resolve n = Inl (wrapf fmt [n] e)"
    and fails_closed: "in_package n = None \<Longrightarrow> unreadable = Some e \<Longrightarrow> \<exists>fmt. resolve n = Inl (wrapf fmt [n] e)"
    and shared_next: "in_package n = None \<Longrightarrow> unreadable = None \<Longrightarrow> in_shared n = Some raw \<Longrightarrow> parse raw = Inr d \<Longrightarrow> resolve n = Inr d"
    and shared_error: "in_package n = None \<Longrightarrow> unreadable = None \<Longrightarrow> in_shared n = Some raw \<Longrightarrow> parse raw = Inl e \<Longrightarrow>
      \<exists>fmt. resolve n = Inl (wrapf fmt [n] e)"
    and builtin_last: "in_package n = None \<Longrightarrow> unreadable = None \<Longrightarrow> in_shared n = None \<Longrightarrow> builtin n = Some d \<Longrightarrow> resolve n = Inr d"
    and unknown: "in_package n = None \<Longrightarrow> unreadable = None \<Longrightarrow> in_shared n = None \<Longrightarrow> builtin n = None \<Longrightarrow>
      \<exists>fmt. resolve n = Inl (Errorf fmt [n])"
begin

lemma resolve_iff:
  "resolve n = Inr d \<longleftrightarrow> topmost_layer (in_package n) unreadable (in_shared n) (builtin n) parse = Some d"
proof (cases "in_package n")
  case (Some raw)
  show ?thesis using package_wins [OF Some] package_error [OF Some]
    by (cases "parse raw") (fastforce simp: topmost_layer_def Some)+
next
  case None
  show ?thesis
  proof (cases unreadable)
    case (Some e)
    from fails_closed [OF None this] show ?thesis unfolding topmost_layer_def Some None by auto
  next
    case ok: None
    show ?thesis
    proof (cases "in_shared n")
      case (Some raw)
      show ?thesis using shared_next [OF None ok Some] shared_error [OF None ok Some]
        unfolding topmost_layer_def Some None ok by (cases "parse raw") fastforce+
    next
      case sh: None
      show ?thesis using builtin_last [OF None ok sh] unknown [OF None ok sh]
        unfolding topmost_layer_def None ok sh by (cases "builtin n") fastforce+
    qed
  qed
qed

lemma safe_resolve:
  assumes "\<And>raw. safe (parse raw)" "\<And>e. unreadable = Some e \<Longrightarrow> is_go_error e"
  shows "safe (resolve n)"
proof -
  have err: "is_go_error e" if "parse raw = Inl e" for raw e using assms(1) [of raw] that by simp
  show ?thesis
  proof (cases "in_package n")
    case (Some raw)
    show ?thesis
    proof (cases "parse raw")
      case (Inl e)
      then show ?thesis using package_error [OF Some Inl] err by auto
    qed (use package_wins [OF Some] in auto)
  next
    case None
    show ?thesis
    proof (cases unreadable)
      case (Some e)
      then show ?thesis using fails_closed [OF None Some] assms(2) by auto
    next
      case ok: None
      show ?thesis
      proof (cases "in_shared n")
        case (Some raw)
        show ?thesis
        proof (cases "parse raw")
          case (Inl e)
          then show ?thesis using shared_error [OF None ok Some Inl] err by auto
        qed (use shared_next [OF None ok Some] in auto)
      next
        case sh: None
        show ?thesis using builtin_last [OF None ok sh] unknown [OF None ok sh] by (cases "builtin n") auto
      qed
    qed
  qed
qed

end

interpretation egress_defs: definition_layers "egress_local spec" "glookup (deSharedEgress env)"
  "glookup (builtInEgressDefinitions (deKubeAPIPorts env))" "deSharedErr env" parseEgressDefinition
  "\<lambda>n. resolveEgressDefinition spec n env" for spec env
  by unfold_locales (auto simp: resolveEgressDefinition_def)

interpretation ingress_defs: definition_layers "ingress_local spec" "glookup (deSharedIngress env)"
  "glookup builtInIngressDefinitions" "deSharedErr env" parseIngressDefinition
  "\<lambda>n. resolveIngressDefinition spec n env" for spec env
  by unfold_locales (auto simp: resolveIngressDefinition_def)

text \<open>C24: Resolving a definition returns the value of the topmost layer that has the name:
  the package's own definitions, then the shared pool of the global ConfigMap, then the built-in ones,
  in both directions; and it succeeds in no other case. In particular when the shared pool
  could not be read only a package-local name resolves.\<close>

theorem resolve_definition_layering:
  "(resolveEgressDefinition spec n env = Inr d \<longleftrightarrow>
      topmost_layer (egress_local spec n) (deSharedErr env) (glookup (deSharedEgress env) n)
        (glookup (builtInEgressDefinitions (deKubeAPIPorts env)) n) parseEgressDefinition = Some d) \<and>
   (resolveIngressDefinition spec n env = Inr d \<longleftrightarrow>
      topmost_layer (ingress_local spec n) (deSharedErr env) (glookup (deSharedIngress env) n)
        (glookup builtInIngressDefinitions n) parseIngressDefinition = Some d)"
  using egress_defs.resolve_iff ingress_defs.resolve_iff by blast


definition sample_netpol :: network_policies where
  "sample_netpol = \<lparr>npAdditional = [], npAdditionalPolicies = [], npDefaultsAsHooks = None, npEgress = None,
     npEnabled = True, npHbonePortInjection = None, npIngress = None, npPrependReleaseName = False\<rparr>"


section \<open>Parsed definitions\<close>

lemma safe_selectorFromTyped [simp]: "safe (selectorFromTyped m)"
  by (auto simp: selectorFromTyped_def intro!: safe_rbind safe_rmap split: option.splits)

lemma safe_typedPeer [simp]: "safe (typedPeer c e ns pod)"
  by (auto simp: typedPeer_def Let_def intro!: safe_rbind)

lemma safe_parseDefinitionPorts [simp]: "safe (parseDefinitionPorts ps)"
  by (auto simp: parseDefinitionPorts_def intro!: safe_rmap split: option.splits)

lemma safe_parse_definition [simp]:
  "safe (parse_definition raw)" "safe (parseEgressDefinition raw)" "safe (parseIngressDefinition raw)"
  by (auto simp: parse_definition_def parseEgressDefinition_def parseIngressDefinition_def buildDefinition_def
      case_prod_unfold Let_def intro!: safe_rbind safe_rmap)

lemma safe_resolveDefinition:
  assumes "\<And>e. deSharedErr env = Some e \<Longrightarrow> is_go_error e"
  shows "safe (resolveEgressDefinition spec n env)" "safe (resolveIngressDefinition spec n env)"
  using assms by (auto intro!: egress_defs.safe_resolve ingress_defs.safe_resolve)

lemma selectorFromTyped_nil_iff: "selectorFromTyped m = Inr s \<Longrightarrow> s = None \<longleftrightarrow> m = None"
  by (auto simp: selectorFromTyped_def res_simps split: option.splits)

lemma typedPeer_presence:
  assumes "typedPeer c e ns pod = Inr p"
  shows "peerNamespaceSelector (build_peer p) = None \<longleftrightarrow> ns = None"
    and "peerPodSelector (build_peer p) = None \<longleftrightarrow> pod = None"
    and "peerIPBlock (build_peer p) = (if c = None \<and> e = None then None
      else Some \<lparr>ibCIDR = (case c of None \<Rightarrow> [] | Some t \<Rightarrow> t), ibExcept = e\<rparr>)"
  using assms by (auto simp: typedPeer_def build_peer_def Let_def res_simps dest: selectorFromTyped_nil_iff)

text \<open>A parsed definition has one peer per authored peer, in order, and a selector is present in
  the emitted peer exactly when it was authored, also when it is empty: dropping an empty namespace
  selector would narrow the rule to the package's own namespace. The ipBlock is passed on as written.\<close>

theorem parse_definition_presence:
  assumes "parse_definition raw = Inr d"
  shows "list_all2 (\<lambda>a p.
      (peerNamespaceSelector p = None \<longleftrightarrow> dprNamespaceSelector a = None) \<and>
      (peerPodSelector p = None \<longleftrightarrow> dprPodSelector a = None) \<and>
      peerIPBlock p = (case dprIPBlock a of None \<Rightarrow> None
        | Some b \<Rightarrow> if dibCIDR b = None \<and> dibExcept b = None then None
                    else Some \<lparr>ibCIDR = (case dibCIDR b of None \<Rightarrow> [] | Some t \<Rightarrow> t), ibExcept = dibExcept b\<rparr>))
    (dvPeers raw) (rdPeers d)"
proof -
  let ?f = "\<lambda>e. let (cidr, except) = (case dprIPBlock e of None \<Rightarrow> (None, None) | Some b \<Rightarrow> (dibCIDR b, dibExcept b))
      in typedPeer cidr except (dprNamespaceSelector e) (dprPodSelector e)"
  from assms obtain peers where peers: "rmap ?f (dvPeers raw) = Inr peers" "rdPeers d = map build_peer peers"
    by (auto simp: parse_definition_def buildDefinition_def res_simps)
  from peers(1) have "list_all2 (\<lambda>a p. ?f a = Inr p) (dvPeers raw) peers" by (simp add: rmap_Inr_iff)
  then show ?thesis unfolding peers(2) list_all2_map2
    by (rule list_all2_mono) (auto simp: typedPeer_presence split: option.splits)
qed

definition sample_definition :: definition_value where
  "sample_definition = \<lparr>dvPorts = [\<lparr>dpEndPort = None, dpPort = Some (IntVal 9200), dpProtocol = Some ''TCP''\<rparr>],
     dvPeers = [\<lparr>dprIPBlock = None, dprNamespaceSelector = Some [], dprPodSelector = None\<rparr>]\<rparr>"

theorem parse_definition_presence_witness:
  "\<exists>d. parse_definition sample_definition = Inr d \<and>
     list_all2 (\<lambda>a p. peerNamespaceSelector p = None \<longleftrightarrow> dprNamespaceSelector a = None) (dvPeers sample_definition) (rdPeers d)"
proof -
  have p: "parse_definition sample_definition =
      Inr \<lparr>rdPeers = [selector_peer (Some (selector_of (Some []))) None],
           rdPorts = [\<lparr>portProtocol = Some ''TCP'', portPort = Some (IntVal 9200), portEndPort = None\<rparr>]\<rparr>"
    by code_simp
  from parse_definition_presence [OF p] have "list_all2 (\<lambda>a p. peerNamespaceSelector p = None \<longleftrightarrow> dprNamespaceSelector a = None)
      (dvPeers sample_definition) [selector_peer (Some (selector_of (Some []))) None]"
    by (auto elim!: list_all2_mono)
  with p show ?thesis by simp
qed

end
