(* ===== verification/Netpol_Defaults.thy ===== *)
theory Netpol_Defaults
  imports Definitions
begin

text \<open>
  The default NetworkPolicies and their gates
  (\<open>pkg/generator/networkpolicies_defaults.go\<close>), with the reading of each gate as the
  documentation gives it: a default is on unless it or its side is switched off.
\<close>

definition defaultEnabled :: "bool option \<Rightarrow> bool" where
  "defaultEnabled b \<longleftrightarrow> b = None \<or> b = Some True"

definition egressSideEnabled :: "network_policies \<Rightarrow> bool" where
  "egressSideEnabled spec =
     (case npEgress spec of None \<Rightarrow> True
      | Some eg \<Rightarrow> (case neDefaults eg of None \<Rightarrow> True | Some d \<Rightarrow> defaultEnabled (edEnabled d)))"

definition ingressSideEnabled :: "network_policies \<Rightarrow> bool" where
  "ingressSideEnabled spec =
     (case npIngress spec of None \<Rightarrow> True
      | Some ing \<Rightarrow> (case niDefaults ing of None \<Rightarrow> True | Some d \<Rightarrow> defaultEnabled (idEnabled d)))"

text \<open>
  The seven getters have one body up to the field they read: the side's gate
  when the side is off or the field's path is nil, the field's toggle otherwise.
\<close>

definition egress_toggle :: "network_policies \<Rightarrow> (egress_defaults \<Rightarrow> toggle option) \<Rightarrow> toggle option" where
  "egress_toggle spec fld = Option.bind (npEgress spec) (\<lambda>eg. Option.bind (neDefaults eg) fld)"

definition ingress_toggle :: "network_policies \<Rightarrow> (ingress_defaults \<Rightarrow> toggle option) \<Rightarrow> toggle option" where
  "ingress_toggle spec fld = Option.bind (npIngress spec) (\<lambda>ing. Option.bind (niDefaults ing) fld)"

definition egress_default :: "network_policies \<Rightarrow> (egress_defaults \<Rightarrow> toggle option) \<Rightarrow> bool" where
  "egress_default spec fld =
     (if \<not> egressSideEnabled spec then egressSideEnabled spec
      else (case egress_toggle spec fld of
          None \<Rightarrow> egressSideEnabled spec
        | Some t \<Rightarrow> defaultEnabled (tgEnabled t)))"

definition ingress_default :: "network_policies \<Rightarrow> (ingress_defaults \<Rightarrow> toggle option) \<Rightarrow> bool" where
  "ingress_default spec fld =
     (if \<not> ingressSideEnabled spec then ingressSideEnabled spec
      else (case ingress_toggle spec fld of
          None \<Rightarrow> ingressSideEnabled spec
        | Some t \<Rightarrow> defaultEnabled (tgEnabled t)))"

definition egressDenyAll :: "network_policies \<Rightarrow> bool" where
  "egressDenyAll spec = egress_default spec edDenyAll"

definition egressAllowInNS :: "network_policies \<Rightarrow> bool" where
  "egressAllowInNS spec = egress_default spec edAllowInNamespace"

definition egressAllowKubeDNS :: "network_policies \<Rightarrow> bool" where
  "egressAllowKubeDNS spec = egress_default spec edAllowKubeDNS"

definition egressAllowIstiod :: "network_policies \<Rightarrow> bool" where
  "egressAllowIstiod spec = egress_default spec edAllowIstiod"

definition ingressDenyAll :: "network_policies \<Rightarrow> bool" where
  "ingressDenyAll spec = ingress_default spec idDenyAll"

definition ingressAllowInNS :: "network_policies \<Rightarrow> bool" where
  "ingressAllowInNS spec = ingress_default spec idAllowInNamespace"

definition ingressAllowPromToSidecar :: "network_policies \<Rightarrow> bool" where
  "ingressAllowPromToSidecar spec = ingress_default spec idAllowPrometheusToIstioSidecar"

definition istioAmbient :: "istio option \<Rightarrow> bool" where
  "istioAmbient ist = (case ist of None \<Rightarrow> False | Some i \<Rightarrow> istAmbient i = Some True)"

section \<open>The policies\<close>

text \<open>The object literal the seven default policies share: a name, the labels, and a spec.\<close>

definition default_netpol :: "package \<Rightarrow> network_policies \<Rightarrow> string gomap \<Rightarrow> string \<Rightarrow> netpol_spec \<Rightarrow> client_object" where
  "default_netpol pkg spec npLabels name s =
     NetworkPolicy (new_object
       (new_meta (prependName (npPrependReleaseName spec) (pkgName pkg) name) (cloneLabels npLabels) None) s)"

definition defaultEgressPolicies :: "package \<Rightarrow> network_policies \<Rightarrow> istio option \<Rightarrow> client_object list" where
  "defaultEgressPolicies pkg spec ist =
     (let npLabels = defaultNetpolLabels ''egress''; mk = default_netpol pkg spec npLabels
      in (if egressDenyAll spec
          then [mk ''default-egress-deny-all'' (egress_spec empty_selector [])] else []) @
         (if egressAllowInNS spec
          then [mk ''default-egress-allow-all-in-ns'' (egress_spec empty_selector
                 [\<lparr>rulePeers = [selector_peer None (Some empty_selector)], rulePorts = []\<rparr>])] else []) @
         (if egressAllowKubeDNS spec
          then [mk ''default-egress-allow-kube-dns'' (egress_spec empty_selector
                 [\<lparr>rulePeers = [selector_peer (Some (selector_of (Some [(''kubernetes.io/metadata.name'', ''kube-system'')])))
                                             (Some (selector_of (Some [(''k8s-app'', ''kube-dns'')])))],
                   rulePorts = [int_port ''UDP'' 53, int_port ''TCP'' 53]\<rparr>])] else []) @
         (if egressAllowIstiod spec \<and> \<not> istioAmbient ist
          then [mk ''default-egress-allow-istiod'' (egress_spec empty_selector
                 [\<lparr>rulePeers = [selector_peer (Some (selector_of (Some [(''kubernetes.io/metadata.name'', ''istio-system'')])))
                                             (Some (selector_of (Some [(''app'', ''istiod'')])))],
                   rulePorts = [int_port ''TCP'' 15012]\<rparr>])] else []))"

definition defaultIngressPolicies :: "package \<Rightarrow> network_policies \<Rightarrow> istio option \<Rightarrow> client_object list" where
  "defaultIngressPolicies pkg spec ist =
     (let npLabels = defaultNetpolLabels ''ingress''; mk = default_netpol pkg spec npLabels; ambient = istioAmbient ist
      in (if ingressDenyAll spec
          then [mk ''default-ingress-deny-all'' (ingress_spec empty_selector [])] else []) @
         (if ingressAllowInNS spec
          then [mk ''default-ingress-allow-all-in-ns'' (ingress_spec empty_selector
                 [\<lparr>rulePeers = [selector_peer None (Some empty_selector)], rulePorts = []\<rparr>])] else []) @
         (if ingressAllowPromToSidecar spec \<and> \<not> ambient
          then [mk ''default-ingress-allow-prometheus-to-istio-sidecar'' (ingress_spec empty_selector
                 [\<lparr>rulePeers = [selector_peer (Some (selector_of (Some [(''kubernetes.io/metadata.name'', ''monitoring'')])))
                                             (Some (selector_of (Some [(''app.kubernetes.io/name'', ''prometheus'')])))],
                   rulePorts = [int_port ''TCP'' 15020]\<rparr>])] else []) @
         (if ambient \<and> ingressSideEnabled spec
          then [mk ''default-ingress-allow-ambient-kubelet'' (ingress_spec empty_selector
                 [\<lparr>rulePeers = [cidr_peer ''169.254.7.127/32'' None], rulePorts = []\<rparr>])] else []))"

section \<open>Gates\<close>

definition disabled :: "toggle option \<Rightarrow> bool" where
  "disabled t \<longleftrightarrow> (\<exists>x. t = Some x \<and> tgEnabled x = Some False)"

lemma defaultEnabled_iff: "defaultEnabled b \<longleftrightarrow> b \<noteq> Some False"
  by (cases b) (auto simp: defaultEnabled_def)

lemma egress_default_iff: "egress_default spec fld \<longleftrightarrow> egressSideEnabled spec \<and> \<not> disabled (egress_toggle spec fld)"
  by (auto simp: egress_default_def defaultEnabled_iff disabled_def split: option.splits)

lemma ingress_default_iff: "ingress_default spec fld \<longleftrightarrow> ingressSideEnabled spec \<and> \<not> disabled (ingress_toggle spec fld)"
  by (auto simp: ingress_default_def defaultEnabled_iff disabled_def split: option.splits)

lemmas default_gates = egressDenyAll_def egressAllowInNS_def egressAllowKubeDNS_def egressAllowIstiod_def
  ingressDenyAll_def ingressAllowInNS_def ingressAllowPromToSidecar_def egress_default_iff ingress_default_iff

text \<open>The names of the default policies, per gate.\<close>

definition default_names :: "package \<Rightarrow> network_policies \<Rightarrow> istio option \<Rightarrow> string list" where
  "default_names pkg spec ist =
     map (prependName (npPrependReleaseName spec) (pkgName pkg)) (map fst (filter snd
       [(''default-egress-deny-all'', egressSideEnabled spec \<and> \<not> disabled (egress_toggle spec edDenyAll)),
        (''default-egress-allow-all-in-ns'', egressSideEnabled spec \<and> \<not> disabled (egress_toggle spec edAllowInNamespace)),
        (''default-egress-allow-kube-dns'', egressSideEnabled spec \<and> \<not> disabled (egress_toggle spec edAllowKubeDNS)),
        (''default-egress-allow-istiod'', egressSideEnabled spec \<and> \<not> disabled (egress_toggle spec edAllowIstiod) \<and> \<not> istioAmbient ist),
        (''default-ingress-deny-all'', ingressSideEnabled spec \<and> \<not> disabled (ingress_toggle spec idDenyAll)),
        (''default-ingress-allow-all-in-ns'', ingressSideEnabled spec \<and> \<not> disabled (ingress_toggle spec idAllowInNamespace)),
        (''default-ingress-allow-prometheus-to-istio-sidecar'',
           ingressSideEnabled spec \<and> \<not> disabled (ingress_toggle spec idAllowPrometheusToIstioSidecar) \<and> \<not> istioAmbient ist),
        (''default-ingress-allow-ambient-kubelet'', istioAmbient ist \<and> ingressSideEnabled spec)]))"

lemma name_of_default_netpol [simp]:
  "name_of (default_netpol pkg spec l n s) = prependName (npPrependReleaseName spec) (pkgName pkg) n"
  by (simp add: default_netpol_def)

lemma filter_gates: "map fst (filter snd xs) = concat (map (\<lambda>(n, g). if g then [n] else []) xs)"
  by (induction xs) auto

lemma map_if_singleton: "map f (if g then [x] else []) = (if g then [f x] else [])"
  by simp

text \<open>Which default policies are emitted, and in which order: each one is present unless its side
  (egress or ingress) or the policy itself is explicitly disabled; in ambient mode the two sidecar
  policies are left out and the kubelet probe policy is added.\<close>

theorem default_policies_emitted:
  "map name_of (defaultEgressPolicies pkg spec ist @ defaultIngressPolicies pkg spec ist) = default_names pkg spec ist"
  unfolding default_names_def filter_gates
  by (simp add: defaultEgressPolicies_def defaultIngressPolicies_def default_gates Let_def map_if_singleton conj_ac
      cong: if_cong split del: if_split)

end
