(* ===== verification/Netpol_Shorthand.thy ===== *)
theory Netpol_Shorthand
  imports Netpol_Defaults
begin

text \<open>
  Expansion of the shorthand rules into NetworkPolicies
  (\<open>pkg/generator/networkpolicies_shorthand.go\<close> and the two builders at the end of
  \<open>pkg/generator/definitions.go\<close>). The builders return a result because the port suffix of a name
  indexes its ports; the theorems show that this never fails on parsed keys.
\<close>

abbreviation local_key_annotation :: string where
  "local_key_annotation \<equiv> ''generated.network-policies.bigbang.dev/local-key''"

abbreviation remote_key_annotation :: string where
  "remote_key_annotation \<equiv> ''generated.network-policies.bigbang.dev/remote-key''"

abbreviation from_definition_annotation :: string where
  "from_definition_annotation \<equiv> ''generated.network-policies.bigbang.dev/from-definition''"

abbreviation from_literal_annotation :: string where
  "from_literal_annotation \<equiv> ''generated.network-policies.bigbang.dev/from-spec-literal''"

section \<open>Steps the builders share\<close>

text \<open>The selector of the pods an egress rule applies to.\<close>

definition src_selector :: "string \<Rightarrow> shorthandSource \<Rightarrow> label_selector" where
  "src_selector localKey src =
     (if glen (ssPodSelector src) > 0 then selector_of (ssPodSelector src)
      else if localKey \<noteq> ''*'' then selector_of (Some [(''app.kubernetes.io/name'', localKey)])
      else empty_selector)"

text \<open>The selector of the pods an ingress rule applies to.\<close>

definition dst_selector :: "parsedLocalIngressKey \<Rightarrow> shorthandSource \<Rightarrow> label_selector" where
  "dst_selector parsedLocal src =
     (if glen (ssPodSelector src) > 0 then selector_of (ssPodSelector src)
      else selector_of (Some [(''app.kubernetes.io/name'', lPod parsedLocal)]))"

definition local_name :: "string \<Rightarrow> string" where
  "local_name localKey = (if localKey = ''*'' then nameAnyPod else localKey)"

text \<open>\<open>allow-ingress-to-<pod>\<close>, with the protocol when it is not TCP.\<close>

definition ingress_name :: "parsedLocalIngressKey \<Rightarrow> string" where
  "ingress_name l =
     (let name = ''allow-ingress-to-'' @ lPod l
      in if lProtocol l \<noteq> [] \<and> lProtocol l \<noteq> protoTCP then name @ ''-'' @ to_lower (lProtocol l) else name)"

definition pod_segment :: "string \<Rightarrow> string" where
  "pod_segment pod = (if pod \<noteq> [] \<and> pod \<noteq> ''*'' then ''-pod-'' @ pod else ''-any-pod'')"

section \<open>The builders\<close>

definition buildShorthandEgressNetpol ::
  "package \<Rightarrow> bool \<Rightarrow> string gomap \<Rightarrow> string \<Rightarrow> shorthandSource \<Rightarrow> string \<Rightarrow> parsedK8sRemote \<Rightarrow> shorthandTarget \<Rightarrow>
     netpol_spec k8s_object res" where
  "buildShorthandEgressNetpol pkg prepend npLabels localKey src remoteKey remote target =
     (let remoteNS = remoteNamespaceSelector (kNamespace remote) (stgNamespaceSelector target);
          remotePod = remotePodSelector (kPod remote) (stgPodSelector target);
          name = ''allow-egress-from-'' @ local_name localKey;
          name = name @ (if kNamespace remote = ''*'' then ''-to-any-ns'' else ''-to-ns-'' @ kNamespace remote);
          name = name @ pod_segment (kPod remote);
          name = (if kPorts remote \<noteq> [] then name @ ''-'' @ to_lower (kProtocol remote) else name)
      in rbind (namePortSuffix (kPorts remote) (kHasPortRange remote)) (\<lambda>suf.
         let name = prependName prepend (pkgName pkg) (name @ ''-'' @ suf);
             ports = buildNetpolPorts (kProtocol remote) (kPorts remote) (kHasPortRange remote)
         in Inr (new_object
              (new_meta name (cloneLabels npLabels)
                (Some [(local_key_annotation, localKey), (remote_key_annotation, remoteKey)]))
              (egress_spec (src_selector localKey src)
                [\<lparr>rulePeers = [selector_peer (Some remoteNS) (Some remotePod)], rulePorts = ports\<rparr>]))))"

definition buildShorthandIngressNetpol ::
  "package \<Rightarrow> bool \<Rightarrow> string gomap \<Rightarrow> parsedLocalIngressKey \<Rightarrow> shorthandSource \<Rightarrow> string \<Rightarrow> parsedK8sRemote \<Rightarrow>
     shorthandTarget \<Rightarrow> netpol_spec k8s_object res" where
  "buildShorthandIngressNetpol pkg prepend npLabels parsedLocal src remoteKey remote target =
     (let remoteNS = remoteNamespaceSelector (kNamespace remote) (stgNamespaceSelector target);
          remotePod = remotePodSelector (kPod remote) (stgPodSelector target);
          name = ingress_name parsedLocal;
          name = (if lPorts parsedLocal \<noteq> [] then name @ ''-'' @ to_lower (lProtocol parsedLocal) else name)
      in rbind (namePortSuffix (lPorts parsedLocal) (lHasPortRange parsedLocal)) (\<lambda>suf.
         let name = name @ ''-'' @ suf;
             name = name @ (if kNamespace remote = ''*'' then ''-from-any-ns'' else ''-from-ns-'' @ kNamespace remote);
             name = name @ pod_segment (kPod remote);
             name = prependName prepend (pkgName pkg) name;
             ports = buildNetpolPorts (lProtocol parsedLocal) (lPorts parsedLocal) (lHasPortRange parsedLocal)
         in Inr (new_object
              (new_meta name (cloneLabels npLabels)
                (Some [(local_key_annotation, lPod parsedLocal), (remote_key_annotation, remoteKey)]))
              (ingress_spec (dst_selector parsedLocal src)
                [\<lparr>rulePeers = [selector_peer (Some remoteNS) (Some remotePod)], rulePorts = ports\<rparr>]))))"

definition buildEgressCIDRNetpol ::
  "package \<Rightarrow> network_policies \<Rightarrow> bool \<Rightarrow> string gomap \<Rightarrow> string \<Rightarrow> shorthandSource \<Rightarrow> string \<Rightarrow> parsedCIDR \<Rightarrow>
     netpol_spec k8s_object res" where
  "buildEgressCIDRNetpol pkg spec prepend npLabels localKey src cidrKey cidr =
     (let name = ''allow-egress-from-'' @ local_name localKey;
          name = name @ (if pcCIDR cidr = cidrAnywhere then ''-to-anywhere'' else ''-to-cidr-'' @ cidrNameSegment (pcCIDR cidr));
          name = (if pcPorts cidr \<noteq> [] then name @ ''-'' @ to_lower (pcProtocol cidr) else name)
      in rbind (namePortSuffix (pcPorts cidr) (pcHasPortRange cidr)) (\<lambda>suf.
         let name = prependName prepend (pkgName pkg) (name @ ''-'' @ suf)
         in Inr (new_object
              (new_meta name (cloneLabels npLabels)
                (Some [(local_key_annotation, localKey), (remote_key_annotation, cidrKey)]))
              (egress_spec (src_selector localKey src)
                [\<lparr>rulePeers = [cidr_peer (pcCIDR cidr) (applyExcludeCIDRs (pcCIDR cidr) (excludeCIDRsFor (Some spec)))],
                  rulePorts = buildNetpolPorts (pcProtocol cidr) (pcPorts cidr) (pcHasPortRange cidr)\<rparr>]))))"

definition buildIngressCIDRNetpol ::
  "package \<Rightarrow> bool \<Rightarrow> string gomap \<Rightarrow> parsedLocalIngressKey \<Rightarrow> shorthandSource \<Rightarrow> string \<Rightarrow> parsedCIDR \<Rightarrow>
     netpol_spec k8s_object res" where
  "buildIngressCIDRNetpol pkg prepend npLabels parsedLocal src cidrKey cidr =
     (let name = ingress_name parsedLocal
      in rbind (if lPorts parsedLocal \<noteq> []
                then rbind (namePortSuffix (lPorts parsedLocal) (lHasPortRange parsedLocal)) (\<lambda>suf.
                       Inr (name @ ''-'' @ to_lower (lProtocol parsedLocal) @ ''-'' @ suf))
                else Inr name) (\<lambda>name.
         let name = name @ (if pcCIDR cidr = cidrAnywhere then ''-from-anywhere'' else ''-from-cidr-'' @ cidrNameSegment (pcCIDR cidr));
             name = prependName prepend (pkgName pkg) name
         in Inr (new_object
              (new_meta name (cloneLabels npLabels)
                (Some [(local_key_annotation, lPod parsedLocal), (remote_key_annotation, cidrKey)]))
              (ingress_spec (dst_selector parsedLocal src)
                [\<lparr>rulePeers = [cidr_peer (pcCIDR cidr) None],
                  rulePorts = buildNetpolPorts (lProtocol parsedLocal) (lPorts parsedLocal) (lHasPortRange parsedLocal)\<rparr>]))))"

definition buildEgressDefinitionNetpol ::
  "package \<Rightarrow> bool \<Rightarrow> string gomap \<Rightarrow> string \<Rightarrow> shorthandSource \<Rightarrow> string \<Rightarrow> resolvedDefinition \<Rightarrow> netpol_spec k8s_object" where
  "buildEgressDefinitionNetpol pkg prepend npLabels localKey src defName def =
     (let name = prependName prepend (pkgName pkg) (''allow-egress-from-'' @ local_name localKey @ ''-to-'' @ to_lower defName)
      in new_object
           (new_meta name (cloneLabels npLabels)
             (Some [(local_key_annotation, localKey), (from_definition_annotation, defName)]))
           (egress_spec (src_selector localKey src) [\<lparr>rulePeers = rdPeers def, rulePorts = rdPorts def\<rparr>]))"

definition buildIngressDefinitionNetpol ::
  "package \<Rightarrow> bool \<Rightarrow> string gomap \<Rightarrow> parsedLocalIngressKey \<Rightarrow> shorthandSource \<Rightarrow> string \<Rightarrow> resolvedDefinition \<Rightarrow>
     netpol_spec k8s_object res" where
  "buildIngressDefinitionNetpol pkg prepend npLabels parsedLocal src defName def =
     (let ports = (if lPorts parsedLocal \<noteq> []
                   then buildNetpolPorts (lProtocol parsedLocal) (lPorts parsedLocal) (lHasPortRange parsedLocal)
                   else rdPorts def);
          name = ingress_name parsedLocal
      in rbind (if lPorts parsedLocal \<noteq> []
                then rbind (namePortSuffix (lPorts parsedLocal) (lHasPortRange parsedLocal)) (\<lambda>suf.
                       Inr (name @ ''-'' @ to_lower (lProtocol parsedLocal) @ ''-'' @ suf))
                else Inr name) (\<lambda>name.
         let name = prependName prepend (pkgName pkg) (name @ ''-from-'' @ to_lower defName)
         in Inr (new_object
              (new_meta name (cloneLabels npLabels)
                (Some [(local_key_annotation, lPod parsedLocal), (from_definition_annotation, defName)]))
              (ingress_spec (dst_selector parsedLocal src) [\<lparr>rulePeers = rdPeers def, rulePorts = ports\<rparr>]))))"

section \<open>Literal rules\<close>

definition literalRuleKeyRe :: re where
  "literalRuleKeyRe = rplus (RCls is_alnum_dash)"

definition decodeLiteralRules ::
  "ext \<Rightarrow> (json \<Rightarrow> netpol_rule list res) \<Rightarrow> json option \<Rightarrow> (netpol_rule list \<times> string) res" where
  "decodeLiteralRules X unmarshal raw =
     (case raw of
        None \<Rightarrow> Inl (Errorf ''literal rule has no spec'' [])
      | Some j \<Rightarrow>
          rbind (rwrap ''spec must be a rule array: %w'' [] (unmarshal j)) (\<lambda>rules.
          rbind (xJSONToYAML X j) (\<lambda>specYAML.
          Inr (rules, trim_right_by (\<lambda>c. c = CHR 0x0A) specYAML @ [CHR 0x0A]))))"

definition buildEgressLiteralNetpol ::
  "ext \<Rightarrow> package \<Rightarrow> bool \<Rightarrow> string gomap \<Rightarrow> string \<Rightarrow> shorthandSource \<Rightarrow> string \<Rightarrow> literalTarget \<Rightarrow>
     netpol_spec k8s_object res" where
  "buildEgressLiteralNetpol X pkg prepend npLabels localKey src ruleKey lit =
     (if \<not> MatchString literalRuleKeyRe ruleKey
      then Inl (Errorf ''rule key %q cannot combine shorthand syntax with a spec value'' [ruleKey])
      else
        rbind (rwrap ''%s: %w'' [ruleKey] (decodeLiteralRules X (xEgressRules X) (ltSpec lit))) (\<lambda>(rules, specYAML).
        let name = prependName prepend (pkgName pkg) (''allow-egress-from-'' @ local_name localKey @ ''-to-'' @ to_lower ruleKey)
        in Inr (new_object
             (new_meta name (cloneLabels npLabels)
               (Some [(local_key_annotation, localKey), (remote_key_annotation, ruleKey), (from_literal_annotation, specYAML)]))
             (egress_spec (src_selector localKey src) rules))))"

definition buildIngressLiteralNetpol ::
  "ext \<Rightarrow> package \<Rightarrow> bool \<Rightarrow> string gomap \<Rightarrow> parsedLocalIngressKey \<Rightarrow> shorthandSource \<Rightarrow> string \<Rightarrow> literalTarget \<Rightarrow>
     netpol_spec k8s_object res" where
  "buildIngressLiteralNetpol X pkg prepend npLabels parsedLocal src ruleKey lit =
     (if \<not> MatchString literalRuleKeyRe ruleKey
      then Inl (Errorf ''rule key %q cannot combine shorthand syntax with a spec value'' [ruleKey])
      else
        rbind (rwrap ''%s: %w'' [ruleKey] (decodeLiteralRules X (xIngressRules X) (ltSpec lit))) (\<lambda>(rules, specYAML).
        let name = prependName prepend (pkgName pkg) (ingress_name parsedLocal @ ''-from-'' @ to_lower ruleKey)
        in Inr (new_object
             (new_meta name (cloneLabels npLabels)
               (Some [(local_key_annotation, lPod parsedLocal), (remote_key_annotation, ruleKey), (from_literal_annotation, specYAML)]))
             (ingress_spec (dst_selector parsedLocal src) rules))))"

section \<open>Expansion\<close>

text \<open>The two lines that end every iteration: fold the metadata in, append the policy.\<close>

definition emit_netpol ::
  "shorthandSource \<Rightarrow> shorthandMetadata option \<Rightarrow> netpol_spec k8s_object \<Rightarrow> client_object list res" where
  "emit_netpol src meta np =
     Inr [NetworkPolicy (applyShorthandMetadata np (mergeShorthandMetadata (ssMetadata src) meta))]"

text \<open>The body of the outer loop of \<open>expandShorthandEgress\<close>: the four inner loops for one local key.\<close>

definition expand_egress_source ::
  "ext \<Rightarrow> package \<Rightarrow> network_policies \<Rightarrow> defsEnv \<Rightarrow> string \<Rightarrow> shorthandSource \<Rightarrow> shorthandPeer \<Rightarrow> client_object list res" where
  "expand_egress_source X pkg spec env localKey src to =
     (let prepend = npPrependReleaseName spec; npLabels = defaultNetpolLabels ''egress''
      in rbind (range_sorted (spK8s to) (\<lambda>remoteKey target.
             if \<not> stgEnabled target then Inr []
             else rbind (rwrap ''networkPolicies.egress.from.%s.to.k8s: %w'' [localKey] (parseEgressRemoteKey remoteKey)) (\<lambda>remote.
                  rbind (buildShorthandEgressNetpol pkg prepend npLabels localKey src remoteKey remote target)
                    (emit_netpol src (stgMetadata target))))) (\<lambda>k8s.
         rbind (range_sorted (spDefinition to) (\<lambda>defName target.
             if \<not> stgEnabled target then Inr []
             else rbind (rwrap ''networkPolicies.egress.from.%s.to.definition: %w'' [localKey] (resolveEgressDefinition spec defName env)) (\<lambda>def.
                  emit_netpol src (stgMetadata target)
                    (buildEgressDefinitionNetpol pkg prepend npLabels localKey src defName def)))) (\<lambda>defs.
         rbind (range_sorted (spCidr to) (\<lambda>cidrKey target.
             if \<not> stgEnabled target then Inr []
             else rbind (rwrap ''networkPolicies.egress.from.%s.to.cidr: %w'' [localKey] (parseEgressCIDRKey cidrKey)) (\<lambda>cidr.
                  rbind (buildEgressCIDRNetpol pkg spec prepend npLabels localKey src cidrKey cidr)
                    (emit_netpol src (stgMetadata target))))) (\<lambda>cidrs.
         rbind (range_sorted (spLiteral to) (\<lambda>ruleKey lit.
             if \<not> ltEnabled lit then Inr []
             else rbind (rwrap ''networkPolicies.egress.from.%s.to.literal: %w'' [localKey]
                    (buildEgressLiteralNetpol X pkg prepend npLabels localKey src ruleKey lit))
                    (emit_netpol src (ltMetadata lit)))) (\<lambda>literals.
         Inr (k8s @ defs @ cidrs @ literals))))))"

definition expandShorthandEgress ::
  "ext \<Rightarrow> package \<Rightarrow> network_policies \<Rightarrow> defsEnv \<Rightarrow> client_object list res" where
  "expandShorthandEgress X pkg spec env =
     (case npEgress spec of
        None \<Rightarrow> Inl (Panic ''nil pointer dereference'')
      | Some eg \<Rightarrow>
          range_sorted (neFrom eg) (\<lambda>localKey raw.
            rbind (rwrap ''networkPolicies.egress.from.%s: %w'' [localKey] (rbind (of_raw raw) decode_shorthandSource)) (\<lambda>src.
            case ssTo src of
              None \<Rightarrow> Inr []
            | Some to \<Rightarrow> expand_egress_source X pkg spec env localKey src to)))"

definition expand_ingress_source ::
  "ext \<Rightarrow> package \<Rightarrow> network_policies \<Rightarrow> defsEnv \<Rightarrow> string \<Rightarrow> parsedLocalIngressKey \<Rightarrow> shorthandSource \<Rightarrow> shorthandPeer \<Rightarrow>
     client_object list res" where
  "expand_ingress_source X pkg spec env localKey parsedLocal src from =
     (let prepend = npPrependReleaseName spec; npLabels = defaultNetpolLabels ''ingress''
      in rbind (range_sorted (spK8s from) (\<lambda>remoteKey target.
             if \<not> stgEnabled target then Inr []
             else rbind (rwrap ''networkPolicies.ingress.to.%s.from.k8s: %w'' [localKey] (parseIngressRemoteKey remoteKey)) (\<lambda>remote.
                  rbind (buildShorthandIngressNetpol pkg prepend npLabels parsedLocal src remoteKey remote target)
                    (emit_netpol src (stgMetadata target))))) (\<lambda>k8s.
         rbind (range_sorted (spDefinition from) (\<lambda>defName target.
             if \<not> stgEnabled target then Inr []
             else rbind (rwrap ''networkPolicies.ingress.to.%s.from.definition: %w'' [localKey] (resolveIngressDefinition spec defName env)) (\<lambda>def.
                  rbind (buildIngressDefinitionNetpol pkg prepend npLabels parsedLocal src defName def)
                    (emit_netpol src (stgMetadata target))))) (\<lambda>defs.
         rbind (range_sorted (spCidr from) (\<lambda>cidrKey target.
             if \<not> stgEnabled target then Inr []
             else rbind (rwrap ''networkPolicies.ingress.to.%s.from.cidr: %w'' [localKey] (parseIngressCIDRKey cidrKey)) (\<lambda>cidr.
                  rbind (buildIngressCIDRNetpol pkg prepend npLabels parsedLocal src cidrKey cidr)
                    (emit_netpol src (stgMetadata target))))) (\<lambda>cidrs.
         rbind (range_sorted (spLiteral from) (\<lambda>ruleKey lit.
             if \<not> ltEnabled lit then Inr []
             else rbind (rwrap ''networkPolicies.ingress.to.%s.from.literal: %w'' [localKey]
                    (buildIngressLiteralNetpol X pkg prepend npLabels parsedLocal src ruleKey lit))
                    (emit_netpol src (ltMetadata lit)))) (\<lambda>literals.
         Inr (k8s @ defs @ cidrs @ literals))))))"

definition expandShorthandIngress ::
  "ext \<Rightarrow> package \<Rightarrow> network_policies \<Rightarrow> defsEnv \<Rightarrow> client_object list res" where
  "expandShorthandIngress X pkg spec env =
     (case npIngress spec of
        None \<Rightarrow> Inl (Panic ''nil pointer dereference'')
      | Some ing \<Rightarrow>
          range_sorted (niTo ing) (\<lambda>localKey raw.
            rbind (rwrap ''networkPolicies.ingress.to.%s: %w'' [localKey] (rbind (of_raw raw) decode_shorthandSource)) (\<lambda>src.
            case ssFrom src of
              None \<Rightarrow> Inr []
            | Some from \<Rightarrow>
                rbind (rwrap ''networkPolicies.ingress.to: %w'' [] (parseIngressLocalKey localKey)) (\<lambda>parsedLocal.
                expand_ingress_source X pkg spec env localKey parsedLocal src from))))"

section \<open>generateNetworkPolicies\<close>

text \<open>\<open>pkg/generator/networkpolicies.go\<close>.\<close>

definition generateNetworkPolicies ::
  "ext \<Rightarrow> package \<Rightarrow> network_policies \<Rightarrow> istio option \<Rightarrow> defsEnv \<Rightarrow> client_object list res" where
  "generateNetworkPolicies X pkg spec ist env =
     (let out = defaultEgressPolicies pkg spec ist @ defaultIngressPolicies pkg spec ist
      in rbind (if npEgress spec \<noteq> None then expandShorthandEgress X pkg spec env else Inr []) (\<lambda>egress.
         rbind (if npIngress spec \<noteq> None then expandShorthandIngress X pkg spec env else Inr []) (\<lambda>ingress.
         rbind (rmap (buildAdditionalPolicy X pkg spec) (npAdditionalPolicies spec)) (\<lambda>additional.
         rbind (rmap (buildAdditionalPolicy X pkg spec) (npAdditional spec)) (\<lambda>legacy.
         Inr (out @ egress @ ingress @ additional @ legacy))))))"

section \<open>No rule makes the expansion panic\<close>

lemma safe_suffix: "port_shape ps r \<Longrightarrow> safe (namePortSuffix ps r)"
  using safe_namePortSuffix by fastforce

lemma safe_buildShorthandEgressNetpol:
  "port_shape (kPorts r) (kHasPortRange r) \<Longrightarrow> safe (buildShorthandEgressNetpol pkg p l k src rk r t)"
  by (auto simp: buildShorthandEgressNetpol_def Let_def intro!: safe_rbind safe_suffix)

lemma safe_buildShorthandIngressNetpol:
  "port_shape (lPorts q) (lHasPortRange q) \<Longrightarrow> safe (buildShorthandIngressNetpol pkg p l q src rk r t)"
  by (auto simp: buildShorthandIngressNetpol_def Let_def intro!: safe_rbind safe_suffix)

lemma safe_buildEgressCIDRNetpol:
  "port_shape (pcPorts c) (pcHasPortRange c) \<Longrightarrow> safe (buildEgressCIDRNetpol pkg spec p l k src ck c)"
  by (auto simp: buildEgressCIDRNetpol_def Let_def intro!: safe_rbind safe_suffix)

lemma safe_buildIngressCIDRNetpol:
  "port_shape (lPorts q) (lHasPortRange q) \<Longrightarrow> safe (buildIngressCIDRNetpol pkg p l q src ck c)"
  by (auto simp: buildIngressCIDRNetpol_def Let_def intro!: safe_rbind safe_suffix)

lemma safe_buildIngressDefinitionNetpol:
  "port_shape (lPorts q) (lHasPortRange q) \<Longrightarrow> safe (buildIngressDefinitionNetpol pkg p l q src d def)"
  by (auto simp: buildIngressDefinitionNetpol_def Let_def intro!: safe_rbind safe_suffix)

lemma safe_decodeLiteralRules:
  "ext_returns X \<Longrightarrow> (\<And>j. safe (u j)) \<Longrightarrow> safe (decodeLiteralRules X u raw)"
  by (auto simp: decodeLiteralRules_def ext_returnsD intro!: safe_rbind split: option.splits)

lemma safe_buildLiteral:
  assumes "ext_returns X"
  shows "safe (buildEgressLiteralNetpol X pkg p l k src rk lit)" "safe (buildIngressLiteralNetpol X pkg p l q src rk lit)"
  using assms by (auto simp: buildEgressLiteralNetpol_def buildIngressLiteralNetpol_def Let_def ext_returnsD
      intro!: safe_rbind safe_decodeLiteralRules)

lemma safe_emit_netpol [simp]: "safe (emit_netpol src m np)"
  by (simp add: emit_netpol_def)

lemma safe_egress_rules:
  "parseEgressRemoteKey rk = Inr r \<Longrightarrow> safe (buildShorthandEgressNetpol pkg p l k src rk r t)"
  "parseEgressCIDRKey ck = Inr c \<Longrightarrow> safe (buildEgressCIDRNetpol pkg spec p l k src ck c)"
  by (blast intro: safe_buildShorthandEgressNetpol safe_buildEgressCIDRNetpol parsed_ports_shape)+

lemmas safe_builders = safe_egress_rules safe_buildShorthandIngressNetpol
  safe_buildIngressCIDRNetpol safe_buildIngressDefinitionNetpol safe_buildLiteral

lemma safe_expandShorthandEgress:
  assumes "ext_returns X" "\<And>e. deSharedErr env = Some e \<Longrightarrow> is_go_error e" "npEgress spec \<noteq> None"
  shows "safe (expandShorthandEgress X pkg spec env)"
  using assms
  by (auto simp: expandShorthandEgress_def expand_egress_source_def Let_def rwrap_eq_Inr safe_resolveDefinition safe_builders
      intro!: safe_range_sorted safe_rbind split: option.splits)

lemma safe_expand_ingress_source:
  assumes "ext_returns X" "\<And>e. deSharedErr env = Some e \<Longrightarrow> is_go_error e" "port_shape (lPorts q) (lHasPortRange q)"
  shows "safe (expand_ingress_source X pkg spec env k q src from)"
  using assms
  by (auto simp: expand_ingress_source_def Let_def rwrap_eq_Inr safe_resolveDefinition safe_builders
      intro!: safe_range_sorted safe_rbind)

lemma safe_expandShorthandIngress:
  assumes "ext_returns X" "\<And>e. deSharedErr env = Some e \<Longrightarrow> is_go_error e" "npIngress spec \<noteq> None"
  shows "safe (expandShorthandIngress X pkg spec env)"
  using assms parsed_ports_shape(3)
  by (auto simp: expandShorthandIngress_def rwrap_eq_Inr
      intro!: safe_range_sorted safe_rbind safe_expand_ingress_source split: option.splits)

lemma safe_generateNetworkPolicies:
  assumes "ext_returns X" "\<And>e. deSharedErr env = Some e \<Longrightarrow> is_go_error e"
  shows "safe (generateNetworkPolicies X pkg spec ist env)"
  using assms
  by (auto simp: generateNetworkPolicies_def Let_def
      intro!: safe_rbind safe_rmap safe_expandShorthandEgress safe_expandShorthandIngress safe_buildAdditionalPolicy)

end
