(* ===== verification/Ingress_Config.thy ===== *)
theory Ingress_Config
  imports Netpol_Shorthand
begin

text \<open>
  Inbound routes and gateways (\<open>pkg/generator/ingressconfig.go\<close> and the decoding and validation of
  \<open>pkg/generator/routes.go\<close>): the shared ingress configuration, the generator's input, and the
  resolution of every enabled inbound route to its gateways' identities.
\<close>

record ingress_config =
  icDefaults :: "route_defaults option"
  icGateways :: "gateway_definition gomap"

text \<open>
  \<open>Input\<close> of \<open>pkg/generator/generator.go\<close>. The scheme is the function from the Go type of an object
  to the group-version-kinds registered for it.
\<close>

record input =
  inPackage :: "package option"
  inScheme :: "(go_kind \<Rightarrow> gvk list res) option"
  inKubeAPIPorts :: "int_or_string list"
  inSharedEgressDefinitions :: "definition_value gomap"
  inSharedIngressDefinitions :: "definition_value gomap"
  inSharedDefinitionsError :: "gerror option"
  inSharedIngressConfig :: "ingress_config option"
  inSharedIngressConfigError :: "gerror option"

record resolvedGateway =
  rgNamespace :: string
  rgName :: string
  rgDefinition :: gateway_definition

record resolvedInbound =
  riName :: string
  riRoute :: inbound_route
  riGateways :: "resolvedGateway list"

section \<open>Decoding and validation\<close>

definition zero_inbound :: inbound_route where
  "zero_inbound = \<lparr>irEnabled = False, irGateways = None, irHosts = [], irService = [], irPort = None, irContainerPort = None,
     irSelector = None, irHttp = [], irPassthrough = None, irResolution = [], irLabels = None, irAnnotations = None\<rparr>"

definition slice :: "'a list option \<Rightarrow> 'a list" where
  "slice xs = (case xs of None \<Rightarrow> [] | Some l \<Rightarrow> l)"

definition decode_passthrough :: "json \<Rightarrow> route_passthrough res" where
  "decode_passthrough j =
     rbind (dec_struct j) (\<lambda>kvs.
     rbind (dec_bool (jfield ''enabled'' kvs)) (\<lambda>enabled.
     rbind (dec_ptr (\<lambda>p. dec_int 64 (Some p)) (jfield ''gatewayPort'' kvs)) (\<lambda>port.
     Inr \<lparr>ptEnabled = enabled, ptGatewayPort = port\<rparr>)))"

definition decodeInbound :: "ext \<Rightarrow> raw_json \<Rightarrow> inbound_route res" where
  "decodeInbound X raw =
     rbind (dec_struct (marshal_raw raw)) (\<lambda>kvs.
     rbind (dec_bool (jfield ''enabled'' kvs)) (\<lambda>enabled.
     rbind (dec_strings (jfield ''gateways'' kvs)) (\<lambda>gateways.
     rbind (dec_strings (jfield ''hosts'' kvs)) (\<lambda>hosts.
     rbind (dec_string (jfield ''service'' kvs)) (\<lambda>service.
     rbind (dec_ptr (xIntOrString X) (jfield ''port'' kvs)) (\<lambda>port.
     rbind (dec_ptr (xIntOrString X) (jfield ''containerPort'' kvs)) (\<lambda>containerPort.
     rbind (dec_string_map (jfield ''selector'' kvs)) (\<lambda>selector.
     rbind (dec_slice (\<lambda>j. Inr (to_raw j)) (jfield ''http'' kvs)) (\<lambda>http.
     rbind (dec_ptr decode_passthrough (jfield ''passthrough'' kvs)) (\<lambda>passthrough.
     rbind (dec_string (jfield ''resolution'' kvs)) (\<lambda>resolution.
     rbind (dec_string_map (jfield ''labels'' kvs)) (\<lambda>labels.
     rbind (dec_string_map (jfield ''annotations'' kvs)) (\<lambda>annotations.
     Inr \<lparr>irEnabled = enabled, irGateways = gateways, irHosts = slice hosts, irService = service, irPort = port,
          irContainerPort = containerPort, irSelector = selector, irHttp = slice http, irPassthrough = passthrough,
          irResolution = resolution, irLabels = labels, irAnnotations = annotations\<rparr>)))))))))))))"

definition splitGateway :: "ext \<Rightarrow> string \<Rightarrow> (string \<times> string) option" where
  "splitGateway X s =
     (case str_index s ''/'' of
        None \<Rightarrow> None
      | Some i \<Rightarrow>
          if i = 0 \<or> Suc i = length s then None
          else (let ns = take i s; name = drop (i + 1) s
                in if xIsDNS1123Label X ns \<noteq> [] \<or> xIsDNS1123Subdomain X name \<noteq> [] then None
                   else Some (ns, name)))"

definition validateInbound :: "ext \<Rightarrow> string \<Rightarrow> inbound_route \<Rightarrow> unit res" where
  "validateInbound X name r =
     (if slice (irGateways r) = [] then Inl (Errorf ''routes.inbound.%s: gateways[] must be non-empty when enabled'' [name])
      else
        rbind (for_each (\<lambda>gw. if splitGateway X gw = None
                 then Inl (Errorf ''routes.inbound.%s: gateway %q must be <namespace>/<name>'' [name, gw]) else Inr [])
               (slice (irGateways r))) (\<lambda>_ :: unit list.
        if irService r = [] then Inl (Errorf ''routes.inbound.%s: service is required when enabled'' [name])
        else if irPort r = None then Inl (Errorf ''routes.inbound.%s: port is required when enabled'' [name])
        else Inr ()))"

section \<open>The shared configuration\<close>

definition GlobalConfigRoutesKey :: string where
  "GlobalConfigRoutesKey = ''routes''"

definition GlobalConfigGatewaysKey :: string where
  "GlobalConfigGatewaysKey = ''gateways''"

definition ParseIngressConfig :: "ext \<Rightarrow> string \<Rightarrow> string \<Rightarrow> ingress_config res" where
  "ParseIngressConfig X rts gateways =
     rbind (rwrap ''routes: %w'' [] (xYamlRoutes X rts)) (\<lambda>defaults.
     rbind (rwrap ''gateways: %w'' [] (xYamlGateways X gateways)) (\<lambda>gws.
     rbind (range_sorted gws (\<lambda>ref def.
         if splitGateway X ref = None then Inl (Errorf ''gateways.%s: reference must be <namespace>/<name>'' [ref])
         else (case gwPodSelector def of
             None \<Rightarrow> Inl (Errorf ''gateways.%s: podSelector is required'' [ref])
           | Some sel \<Rightarrow>
               rbind (rwrap ''gateways.%s.podSelector: %w'' [ref] (xLabelSelectorAsSelector X sel)) (\<lambda>_.
               let errs = xIsDNS1123Subdomain X (gwServiceAccountName def)
               in if errs \<noteq> [] then Inl (Errorf ''gateways.%s.serviceAccountName: %s'' [ref, join '', '' errs])
                  else Inr [])))) (\<lambda>_ :: unit list.
     Inr \<lparr>icDefaults = defaults, icGateways = gws\<rparr>)))"

definition defaultGateways :: "route_defaults option \<Rightarrow> string list option" where
  "defaultGateways defaults =
     (case defaults of None \<Rightarrow> None
      | Some d \<Rightarrow> (case rdInbound d of None \<Rightarrow> None | Some gws \<Rightarrow> gws))"

section \<open>Resolution\<close>

definition resolve_gateway :: "ext \<Rightarrow> ingress_config option \<Rightarrow> string \<Rightarrow> resolvedGateway" where
  "resolve_gateway X cfg ref =
     (let (ns, gw) = (case splitGateway X ref of None \<Rightarrow> ([], []) | Some p \<Rightarrow> p);
          def = \<lparr>gwPodSelector = Some (selector_of (Some [(''app.kubernetes.io/name'', gw)])),
                 gwServiceAccountName = gw @ ''-ingressgateway-service-account''\<rparr>;
          def = (case cfg of None \<Rightarrow> def
                 | Some c \<Rightarrow> (case glookup (icGateways c) ref of None \<Rightarrow> def | Some configured \<Rightarrow> configured))
      in \<lparr>rgNamespace = ns, rgName = gw, rgDefinition = def\<rparr>)"

definition fill_gateways :: "routes \<Rightarrow> ingress_config option \<Rightarrow> inbound_route \<Rightarrow> inbound_route" where
  "fill_gateways spec cfg route =
     (if irGateways route = None
      then (let g = defaultGateways (rtDefaults spec);
                g = (if g = None then (case cfg of None \<Rightarrow> g | Some c \<Rightarrow> defaultGateways (icDefaults c)) else g)
            in route\<lparr>irGateways := g\<rparr>)
      else route)"

definition resolve_inbound :: "ext \<Rightarrow> input \<Rightarrow> routes \<Rightarrow> string \<Rightarrow> raw_json \<Rightarrow> resolvedInbound list res" where
  "resolve_inbound X inp spec name raw =
     rbind (rwrap ''routes.inbound.%s: %w'' [name] (decodeInbound X raw)) (\<lambda>route.
     if \<not> irEnabled route then Inr []
     else (case inSharedIngressConfigError inp of
         Some e \<Rightarrow> Inl (wrapf ''routes.inbound.%s: global config unreadable: %w'' [name] e)
       | None \<Rightarrow>
           (let cfg = inSharedIngressConfig inp;
                route = fill_gateways spec cfg route;
                route = (if glen (irSelector route) = 0
                         then route\<lparr>irSelector := Some [(''app.kubernetes.io/name'', name)]\<rparr> else route)
            in rbind (validateInbound X name route) (\<lambda>_.
               Inr [\<lparr>riName = name, riRoute = route, riGateways = map (resolve_gateway X cfg) (slice (irGateways route))\<rparr>]))))"

definition resolveInboundRoutes :: "ext \<Rightarrow> input \<Rightarrow> resolvedInbound list res" where
  "resolveInboundRoutes X inp =
     (case inPackage inp of
        None \<Rightarrow> Inl (Panic ''nil pointer dereference'')
      | Some pkg \<Rightarrow>
          (case psRoutes (pkgSpec pkg) of
             None \<Rightarrow> Inr []
           | Some spec \<Rightarrow> range_sorted (rtInbound spec) (resolve_inbound X inp spec)))"

section \<open>Properties\<close>

lemma safe_decodeInbound: "ext_returns X \<Longrightarrow> safe (decodeInbound X raw)"
  by (auto simp: decodeInbound_def decode_passthrough_def ext_returnsD
      intro!: safe_rbind safe_dec_slice safe_dec_map safe_dec_ptr)

lemma safe_validateInbound [simp]: "safe (validateInbound X name r)"
  by (auto simp: validateInbound_def intro!: safe_rbind safe_for_each)

lemma safe_resolveInboundRoutes:
  assumes "ext_returns X" "inPackage inp \<noteq> None" "\<And>e. inSharedIngressConfigError inp = Some e \<Longrightarrow> is_go_error e"
  shows "safe (resolveInboundRoutes X inp)"
  using assms by (auto simp: resolveInboundRoutes_def resolve_inbound_def Let_def safe_decodeInbound
      intro!: safe_range_sorted safe_rbind split: option.splits)

lemma validateInbound_ok:
  "validateInbound X name r = Inr u \<longleftrightarrow>
     slice (irGateways r) \<noteq> [] \<and> (\<forall>gw \<in> set (slice (irGateways r)). splitGateway X gw \<noteq> None) \<and>
     irService r \<noteq> [] \<and> irPort r \<noteq> None"
proof -
  have "(\<exists>us :: unit list. for_each (\<lambda>gw. if splitGateway X gw = None then Inl (f gw) else Inr []) gws = Inr us) \<longleftrightarrow>
      (\<forall>gw \<in> set gws. splitGateway X gw \<noteq> None)" for gws and f :: "string \<Rightarrow> gerror"
    by (induction gws) (auto simp: res_simps)
  then show ?thesis by (auto simp: validateInbound_def res_simps split: if_splits)
qed

lemma splitGateway_ref:
  assumes "splitGateway X s = Some (ns, name)"
  shows "s = ns @ ''/'' @ name" "ns \<noteq> []" "name \<noteq> []" "xIsDNS1123Label X ns = []" "xIsDNS1123Subdomain X name = []"
proof -
  from assms obtain i where i: "str_index s ''/'' = Some i" "i \<noteq> 0" "Suc i \<noteq> length s" "ns = take i s" "name = drop (i + 1) s"
    and v: "xIsDNS1123Label X ns = []" "xIsDNS1123Subdomain X name = []"
    by (auto simp: splitGateway_def Let_def split: option.splits if_splits)
  from str_index_prefix [OF i(1)] obtain t where t: "drop i s = ''/'' @ t" by (auto simp: prefix_def)
  then have name: "name = t" using i(5) by (metis One_nat_def append_Cons append_Nil drop_Suc_Cons drop0 drop_drop add.commute)
  have len: "i < length s" using t by (metis append_Cons drop_all leI list.distinct(1))
  show "s = ns @ ''/'' @ name" using t name i(4) by (metis append_take_drop_id)
  show "ns \<noteq> []" using i(2,4) len by auto
  show "name \<noteq> []" using i(3,5) len by auto
  show "xIsDNS1123Label X ns = []" "xIsDNS1123Subdomain X name = []" by (fact v)+
qed

definition gateway_layers :: "inbound_route \<Rightarrow> routes \<Rightarrow> ingress_config option \<Rightarrow> string list option" where
  "gateway_layers route spec cfg =
     (case irGateways route of Some g \<Rightarrow> Some g
      | None \<Rightarrow> (case defaultGateways (rtDefaults spec) of Some g \<Rightarrow> Some g
        | None \<Rightarrow> Option.bind cfg (\<lambda>c. defaultGateways (icDefaults c))))"

lemma fill_gateways_layers: "fill_gateways spec cfg route = route\<lparr>irGateways := gateway_layers route spec cfg\<rparr>"
  by (auto simp: fill_gateways_def gateway_layers_def Let_def split: option.splits)

lemma resolve_inbound_iff:
  "resolve_inbound X inp spec name raw = Inr out \<longleftrightarrow>
     (\<exists>route. decodeInbound X raw = Inr route \<and>
       (if irEnabled route
        then inSharedIngressConfigError inp = None \<and>
          (let r = route\<lparr>irGateways := gateway_layers route spec (inSharedIngressConfig inp),
                irSelector := if glen (irSelector route) = 0 then Some [(''app.kubernetes.io/name'', name)] else irSelector route\<rparr>
           in slice (irGateways r) \<noteq> [] \<and> (\<forall>gw \<in> set (slice (irGateways r)). splitGateway X gw \<noteq> None) \<and>
              irService r \<noteq> [] \<and> irPort r \<noteq> None \<and>
              out = [\<lparr>riName = name, riRoute = r, riGateways = map (resolve_gateway X (inSharedIngressConfig inp)) (slice (irGateways r))\<rparr>])
        else out = []))"
proof (cases "decodeInbound X raw")
  case (Inr route)
  define r where "r = route\<lparr>irGateways := gateway_layers route spec (inSharedIngressConfig inp),
    irSelector := if glen (irSelector route) = 0 then Some [(''app.kubernetes.io/name'', name)] else irSelector route\<rparr>"
  let ?out = "[\<lparr>riName = name, riRoute = r, riGateways = map (resolve_gateway X (inSharedIngressConfig inp)) (slice (irGateways r))\<rparr>]"
  have sel: "(let route = fill_gateways spec (inSharedIngressConfig inp) route
      in if glen (irSelector route) = 0 then route\<lparr>irSelector := Some [(''app.kubernetes.io/name'', name)]\<rparr> else route) = r"
    by (simp add: r_def fill_gateways_layers Let_def)
  have "resolve_inbound X inp spec name raw =
      (if \<not> irEnabled route then Inr []
       else case inSharedIngressConfigError inp of
           Some e \<Rightarrow> Inl (wrapf ''routes.inbound.%s: global config unreadable: %w'' [name] e)
         | None \<Rightarrow> rbind (validateInbound X name r) (\<lambda>_. Inr ?out))"
    unfolding resolve_inbound_def Inr rwrap_Inr rbind.simps using sel unfolding Let_def by presburger
  moreover have "(rbind (validateInbound X name r) (\<lambda>_. Inr ?out) = Inr out) \<longleftrightarrow>
      slice (irGateways r) \<noteq> [] \<and> (\<forall>gw \<in> set (slice (irGateways r)). splitGateway X gw \<noteq> None) \<and>
      irService r \<noteq> [] \<and> irPort r \<noteq> None \<and> out = ?out"
    unfolding rbind_eq_Inr validateInbound_ok by blast
  ultimately show ?thesis unfolding Inr sum.inject Let_def
    by (cases "irEnabled route"; cases "inSharedIngressConfigError inp") (simp_all add: r_def, blast+)
qed (simp add: resolve_inbound_def)

lemma resolve_gateway_ref:
  "splitGateway X ref \<noteq> None \<Longrightarrow> rgNamespace (resolve_gateway X cfg ref) @ ''/'' @ rgName (resolve_gateway X cfg ref) = ref"
  by (cases "splitGateway X ref") (auto simp: resolve_gateway_def Let_def splitGateway_ref(1) [symmetric] dest: sym [OF splitGateway_ref(1)])


definition sample_routes :: routes where
  "sample_routes = \<lparr>rtDefaults = None,
     rtInbound = Some [(''web'', Some (JObject [(''enabled'', JBool True), (''service'', JString ''web.apps.svc''),
       (''port'', JNumber ''8080''), (''hosts'', JArray [JString ''web.example.com''])]))],
     rtOutbound = None, rtPrependReleaseName = False\<rparr>"

definition route_package :: package where
  "route_package = \<lparr>pkgName = ''my-app'', pkgNamespace = ''apps'', pkgUID = ''u1'', pkgGeneration = 1,
     pkgDeleting = False, pkgSpec = \<lparr>psIstio = None, psNetworkPolicies = None, psRoutes = Some sample_routes\<rparr>,
     pkgStatus = \<lparr>stObservedGeneration = 0, stConditions = [], stAppliedResources = []\<rparr>\<rparr>"

definition sample_input :: input where
  "sample_input = \<lparr>inPackage = Some route_package,
     inScheme = Some (\<lambda>k. Inr [\<lparr>gvkGroup = ''g'', gvkVersion = ''v1'', gvkKind = ''K''\<rparr>]),
     inKubeAPIPorts = [], inSharedEgressDefinitions = None, inSharedIngressDefinitions = None, inSharedDefinitionsError = None,
     inSharedIngressConfig = Some \<lparr>icDefaults = Some \<lparr>rdInbound = Some (Some [''istio-gateway/public''])\<rparr>, icGateways = None\<rparr>,
     inSharedIngressConfigError = None\<rparr>"


text \<open>While the shared ingress configuration is unreadable no enabled inbound route is resolved: generation
  fails with an error that names a route, instead of guessing the gateways' identities.\<close>

lemma inbound_unresolved:
  assumes "inSharedIngressConfigError inp = Some e" "inPackage inp = Some pkg" "psRoutes (pkgSpec pkg) = Some spec"
    and "glookup (rtInbound spec) n = Some raw" "decodeInbound X raw = Inr route" "irEnabled route"
  shows "\<exists>err. resolveInboundRoutes X inp = Inl err"
proof (cases "resolveInboundRoutes X inp")
  case (Inr rs)
  then have "range_sorted (rtInbound spec) (resolve_inbound X inp spec) = Inr rs"
    using assms(2,3) by (simp add: resolveInboundRoutes_def)
  from range_sorted_ok [OF this assms(4)] assms show ?thesis by (auto simp: resolve_inbound_iff Let_def)
qed blast

text \<open>A parsed ingress configuration has no partial gateway: every entry is keyed by a valid reference and has
  a pod selector Kubernetes accepts and a valid service account name.\<close>

theorem ParseIngressConfig_valid:
  assumes "ParseIngressConfig X r g = Inr cfg" "glookup (icGateways cfg) ref = Some def"
  shows "splitGateway X ref \<noteq> None \<and>
    (\<exists>sel u. gwPodSelector def = Some sel \<and> xLabelSelectorAsSelector X sel = Inr u) \<and>
    xIsDNS1123Subdomain X (gwServiceAccountName def) = []"
proof -
  from assms(1) obtain us :: "unit list" where
    "range_sorted (icGateways cfg) (\<lambda>ref def.
         if splitGateway X ref = None then Inl (Errorf ''gateways.%s: reference must be <namespace>/<name>'' [ref])
         else (case gwPodSelector def of
             None \<Rightarrow> Inl (Errorf ''gateways.%s: podSelector is required'' [ref])
           | Some sel \<Rightarrow>
               rbind (rwrap ''gateways.%s.podSelector: %w'' [ref] (xLabelSelectorAsSelector X sel)) (\<lambda>_.
               let errs = xIsDNS1123Subdomain X (gwServiceAccountName def)
               in if errs \<noteq> [] then Inl (Errorf ''gateways.%s.serviceAccountName: %s'' [ref, join '', '' errs])
                  else Inr []))) = Inr us"
    by (auto simp: ParseIngressConfig_def res_simps)
  from range_sorted_ok [OF this assms(2)] show ?thesis
    by (auto simp: res_simps Let_def split: if_splits option.splits)
qed

definition gateway_ext :: ext where
  "gateway_ext = sample_ext\<lparr>xYamlGateways := (\<lambda>_. Inr (Some [(''istio-gateway/public'',
     \<lparr>gwPodSelector = Some empty_selector, gwServiceAccountName = ''public''\<rparr>)]))\<rparr>"

theorem ParseIngressConfig_valid_witness:
  "\<exists>cfg def. ParseIngressConfig gateway_ext [] ''gateways'' = Inr cfg \<and> glookup (icGateways cfg) ''istio-gateway/public'' = Some def \<and>
     splitGateway gateway_ext ''istio-gateway/public'' \<noteq> None \<and> xIsDNS1123Subdomain gateway_ext (gwServiceAccountName def) = []"
proof -
  let ?def = "\<lparr>gwPodSelector = Some empty_selector, gwServiceAccountName = ''public''\<rparr>"
  let ?cfg = "\<lparr>icDefaults = None, icGateways = Some [(''istio-gateway/public'', ?def)]\<rparr>"
  have c: "ParseIngressConfig gateway_ext [] ''gateways'' = Inr ?cfg" by code_simp
  have g: "glookup (icGateways ?cfg) ''istio-gateway/public'' = Some ?def" by simp
  show ?thesis using c g ParseIngressConfig_valid [OF c g] by blast
qed

end
