(* ===== verification/Routes.thy ===== *)
theory Routes
  imports Ingress_Config
begin

text \<open>
  The routing resources (\<open>pkg/generator/routes.go\<close>): per inbound route a VirtualService, a
  ServiceEntry for its public hosts and, with NetworkPolicies on, one policy per gateway; per
  outbound route a ServiceEntry.
\<close>

section \<open>Helpers\<close>

definition portNumber :: "int_or_string option \<Rightarrow> 32 word" where
  "portNumber p = (case p of None \<Rightarrow> 0 | Some (IntVal w) \<Rightarrow> word_of_int (sint w) | Some (StrVal s) \<Rightarrow> 0)"

definition inboundWorkloadPort :: "inbound_route \<Rightarrow> int_or_string option" where
  "inboundWorkloadPort r = (if irContainerPort r \<noteq> None then irContainerPort r else irPort r)"

definition serviceLeaf :: "string \<Rightarrow> string" where
  "serviceLeaf s = (case str_index s ''.'' of None \<Rightarrow> s | Some i \<Rightarrow> if i > 0 then take i s else s)"

definition hasWildcardHost :: "string list \<Rightarrow> bool" where
  "hasWildcardHost hosts = list_ex (\<lambda>h. str_index h ''*'' \<noteq> None) hosts"

definition parseLocation :: "string \<Rightarrow> se_location" where
  "parseLocation s = (if to_upper s = ''MESH_INTERNAL'' then MESH_INTERNAL else MESH_EXTERNAL)"

definition parseResolution :: "string \<Rightarrow> se_resolution" where
  "parseResolution s =
     (let u = to_upper s
      in if u = ''STATIC'' then RES_STATIC
         else if u = ''DNS_ROUND_ROBIN'' then RES_DNS_ROUND_ROBIN
         else if u = ''NONE'' then RES_NONE
         else RES_DNS)"

section \<open>Inbound\<close>

definition buildHTTPRoutes :: "ext \<Rightarrow> inbound_route \<Rightarrow> http_route list res" where
  "buildHTTPRoutes X r =
     (if irHttp r \<noteq> []
      then rmap (\<lambda>(i, raw).
             rwrap ''http[%d]: %w'' [itoa (int i)]
               (rbind (of_raw raw) (\<lambda>j. rbind (xHTTPRoute X j) (\<lambda>_. Inr (HttpRaw j))))) (enumerate 0 (irHttp r))
      else Inr [HttpDefault \<lparr>destHost = irService r,
             destPort = (case inboundWorkloadPort r of None \<Rightarrow> None | Some p \<Rightarrow> Some (portNumber (Some p)))\<rparr>])"

definition buildVirtualService :: "ext \<Rightarrow> package \<Rightarrow> bool \<Rightarrow> string \<Rightarrow> inbound_route \<Rightarrow> client_object res" where
  "buildVirtualService X pkg prepend name r =
     (let meta = new_meta (prependName prepend (pkgName pkg) name) (mergeMaps (irLabels r) None) (mergeMaps (irAnnotations r) None);
          vs = \<lparr>vsHosts = irHosts r, vsGateways = slice (irGateways r), vsHttp = [], vsTls = []\<rparr>
      in case irPassthrough r of
           Some pt \<Rightarrow>
             if ptEnabled pt
             then (let gwPort = (case ptGatewayPort pt of None \<Rightarrow> 8443 | Some p \<Rightarrow> word_of_int p);
                       dest = \<lparr>destHost = irService r,
                               destPort = (case irPort r of None \<Rightarrow> None | Some p \<Rightarrow> Some (portNumber (Some p)))\<rparr>
                   in Inr (VirtualService (new_object meta
                        (vs\<lparr>vsTls := [\<lparr>tlsPort = gwPort, tlsSniHosts = irHosts r, tlsDestination = dest\<rparr>]\<rparr>))))
             else rbind (rwrap ''routes.inbound.%s.http: %w'' [name] (buildHTTPRoutes X r))
                    (\<lambda>http. Inr (VirtualService (new_object meta (vs\<lparr>vsHttp := http\<rparr>))))
         | None \<Rightarrow> rbind (rwrap ''routes.inbound.%s.http: %w'' [name] (buildHTTPRoutes X r))
                    (\<lambda>http. Inr (VirtualService (new_object meta (vs\<lparr>vsHttp := http\<rparr>)))))"

definition https_port :: service_port where
  "https_port = \<lparr>spNumber = 443, spName = ''https'', spProtocol = ''HTTPS''\<rparr>"

definition buildInboundServiceEntry :: "package \<Rightarrow> bool \<Rightarrow> string \<Rightarrow> inbound_route \<Rightarrow> client_object" where
  "buildInboundServiceEntry pkg prepend name r =
     (let resolution = (if irResolution r = [] \<and> hasWildcardHost (irHosts r) then ''NONE'' else irResolution r)
      in ServiceEntry (new_object
           (new_meta (prependName prepend (pkgName pkg) (name @ ''-internal''))
             (mergeMaps (irLabels r) None) (mergeMaps (irAnnotations r) None))
           (SeTyped \<lparr>seHosts = irHosts r, seLocation = MESH_EXTERNAL, seResolution = parseResolution resolution,
                     sePorts = [https_port]\<rparr>)))"

definition inbound_netpol :: "package \<Rightarrow> bool \<Rightarrow> inbound_route \<Rightarrow> resolvedGateway \<Rightarrow> client_object" where
  "inbound_netpol pkg prepend r gw =
     (let n = portNumber (inboundWorkloadPort r)
      in NetworkPolicy (new_object
           (new_meta
             (prependName prepend (pkgName pkg) (''allow-ingress-to-'' @ serviceLeaf (irService r) @ ''-'' @ itoa (uint n) @
               ''-from-ns-'' @ rgNamespace gw @ ''-pod-'' @ rgName gw))
             (mergeMaps (irLabels r) (defaultNetpolLabels ''ingress''))
             (mergeMaps (irAnnotations r) None))
           (ingress_spec (selector_of (irSelector r))
             [\<lparr>rulePeers = [selector_peer (Some (selector_of (Some [(''kubernetes.io/metadata.name'', rgNamespace gw)])))
                                         (gwPodSelector (rgDefinition gw))],
               rulePorts = [int_port ''TCP'' (uint n)]\<rparr>])))"

definition buildInboundNetpols :: "package \<Rightarrow> bool \<Rightarrow> inbound_route \<Rightarrow> resolvedGateway list \<Rightarrow> client_object list" where
  "buildInboundNetpols pkg prepend r gateways = map (inbound_netpol pkg prepend r) gateways"

section \<open>Outbound\<close>

definition decode_outbound_port :: "json \<Rightarrow> outbound_route_port res" where
  "decode_outbound_port j =
     rbind (dec_struct j) (\<lambda>kvs.
     rbind (dec_uint 32 (jfield ''number'' kvs)) (\<lambda>number.
     rbind (dec_string (jfield ''name'' kvs)) (\<lambda>name.
     rbind (dec_string (jfield ''protocol'' kvs)) (\<lambda>protocol.
     Inr \<lparr>opNumber = word_of_int number, opName = name, opProtocol = protocol\<rparr>))))"

definition decode_route_metadata :: "json \<Rightarrow> route_metadata res" where
  "decode_route_metadata j =
     rbind (dec_struct j) (\<lambda>kvs.
     rbind (dec_string_map (jfield ''labels'' kvs)) (\<lambda>labels.
     rbind (dec_string_map (jfield ''annotations'' kvs)) (\<lambda>annotations.
     Inr \<lparr>rmLabels = labels, rmAnnotations = annotations\<rparr>)))"

definition decodeOutbound :: "raw_json \<Rightarrow> outbound_route res" where
  "decodeOutbound raw =
     rbind (dec_struct (marshal_raw raw)) (\<lambda>kvs.
     rbind (dec_bool (jfield ''enabled'' kvs)) (\<lambda>enabled.
     rbind (dec_strings (jfield ''hosts'' kvs)) (\<lambda>hosts.
     rbind (dec_string (jfield ''location'' kvs)) (\<lambda>location.
     rbind (dec_string (jfield ''resolution'' kvs)) (\<lambda>resolution.
     rbind (dec_slice decode_outbound_port (jfield ''ports'' kvs)) (\<lambda>ports.
     rbind (dec_ptr decode_route_metadata (jfield ''metadata'' kvs)) (\<lambda>metadata.
     Inr \<lparr>orEnabled = enabled, orHosts = slice hosts, orLocation = location, orResolution = resolution,
          orPorts = slice ports, orMetadata = metadata\<rparr>)))))))"

definition validateOutbound :: "string \<Rightarrow> outbound_route \<Rightarrow> unit res" where
  "validateOutbound name r =
     (if orHosts r = [] then Inl (Errorf ''routes.outbound.%s: hosts[] must be non-empty when enabled'' [name]) else Inr ())"

definition buildOutboundServiceEntry :: "package \<Rightarrow> bool \<Rightarrow> string \<Rightarrow> outbound_route \<Rightarrow> client_object" where
  "buildOutboundServiceEntry pkg prepend name r =
     (let ports = (if orPorts r = [] then [\<lparr>opNumber = 443, opName = ''https'', opProtocol = ''HTTPS''\<rparr>] else orPorts r);
          sePorts = map (\<lambda>p. \<lparr>spNumber = opNumber p, spName = opName p, spProtocol = opProtocol p\<rparr>) ports;
          labels = (case orMetadata r of None \<Rightarrow> None | Some m \<Rightarrow> rmLabels m);
          annotations = (case orMetadata r of None \<Rightarrow> None | Some m \<Rightarrow> rmAnnotations m);
          loc = parseLocation (orLocation r);
          suf = (if loc = MESH_INTERNAL then ''-internal'' else ''-external'')
      in ServiceEntry (new_object
           (new_meta (prependName prepend (pkgName pkg) (name @ suf)) (mergeMaps labels None) (mergeMaps annotations None))
           (SeTyped \<lparr>seHosts = orHosts r, seLocation = loc, seResolution = parseResolution (orResolution r), sePorts = sePorts\<rparr>)))"

section \<open>generateRoutes\<close>

definition generate_inbound :: "ext \<Rightarrow> package \<Rightarrow> bool \<Rightarrow> bool \<Rightarrow> resolvedInbound \<Rightarrow> client_object list res" where
  "generate_inbound X pkg prepend netpolsEnabled resolved =
     (let name = riName resolved; route = riRoute resolved
      in rbind (buildVirtualService X pkg prepend name route) (\<lambda>vs.
         Inr ([vs, buildInboundServiceEntry pkg prepend name route] @
           (if netpolsEnabled then buildInboundNetpols pkg prepend route (riGateways resolved) else []))))"

definition generate_outbound :: "package \<Rightarrow> bool \<Rightarrow> string \<Rightarrow> raw_json \<Rightarrow> client_object list res" where
  "generate_outbound pkg prepend name raw =
     rbind (rwrap ''routes.outbound.%s: %w'' [name] (decodeOutbound raw)) (\<lambda>route.
     if \<not> orEnabled route then Inr []
     else rbind (validateOutbound name route) (\<lambda>_. Inr [buildOutboundServiceEntry pkg prepend name route]))"

definition generateRoutes :: "ext \<Rightarrow> package \<Rightarrow> routes option \<Rightarrow> resolvedInbound list \<Rightarrow> client_object list res" where
  "generateRoutes X pkg spec inbound =
     (case spec of None \<Rightarrow> Inr []
      | Some rt \<Rightarrow>
          (let netpolsEnabled = (case psNetworkPolicies (pkgSpec pkg) of None \<Rightarrow> False | Some np \<Rightarrow> npEnabled np);
               prepend = rtPrependReleaseName rt
           in rbind (for_each (generate_inbound X pkg prepend netpolsEnabled) inbound) (\<lambda>ins.
              rbind (range_sorted (rtOutbound rt) (generate_outbound pkg prepend)) (\<lambda>outs.
              Inr (ins @ outs)))))"

section \<open>Properties\<close>

lemma safe_buildHTTPRoutes: "ext_returns X \<Longrightarrow> safe (buildHTTPRoutes X r)"
  by (auto simp: buildHTTPRoutes_def ext_returnsD intro!: safe_rmap safe_rbind)

lemma safe_buildVirtualService: "ext_returns X \<Longrightarrow> safe (buildVirtualService X pkg p n r)"
  by (auto simp: buildVirtualService_def Let_def safe_buildHTTPRoutes intro!: safe_rbind split: option.splits)

lemma safe_decodeOutbound: "safe (decodeOutbound raw)"
  by (auto simp: decodeOutbound_def decode_outbound_port_def decode_route_metadata_def
      intro!: safe_rbind safe_dec_slice safe_dec_map safe_dec_ptr)

lemma safe_generateRoutes: "ext_returns X \<Longrightarrow> safe (generateRoutes X pkg spec inbound)"
  by (auto simp: generateRoutes_def generate_inbound_def generate_outbound_def validateOutbound_def Let_def safe_buildVirtualService
      safe_decodeOutbound intro!: safe_rbind safe_for_each safe_range_sorted split: option.splits)

end
