(* ===== verification/Istio_Gen.thy ===== *)
theory Istio_Gen
  imports Netpol_Shorthand
begin

text \<open>
  The istio pass (\<open>pkg/generator/istio.go\<close>): the PeerAuthentication, the namespace-wide Sidecar and the
  user's own ServiceEntries.
\<close>

definition mTLSMode :: "istio option \<Rightarrow> mtls_mode" where
  "mTLSMode spec =
     (case spec of None \<Rightarrow> MTLS_STRICT
      | Some i \<Rightarrow>
          (case istMtls i of None \<Rightarrow> MTLS_STRICT
           | Some mode \<Rightarrow>
               if mode = [] then MTLS_STRICT
               else (let m = to_upper mode
                     in if m = ''STRICT'' then MTLS_STRICT
                        else if m = ''PERMISSIVE'' then MTLS_PERMISSIVE
                        else if m = ''DISABLE'' then MTLS_DISABLE
                        else if m = ''UNSET'' then MTLS_UNSET
                        else MTLS_STRICT)))"

definition sidecarResource :: "package \<Rightarrow> istio option \<Rightarrow> outbound_mode k8s_object option" where
  "sidecarResource pkg spec =
     (case spec of None \<Rightarrow> None
      | Some i \<Rightarrow>
          (case istSidecar i of None \<Rightarrow> None
           | Some sc \<Rightarrow>
               if \<not> isEnabled sc then None
               else if istAmbient i = Some True then None
               else (let mode = (if to_upper (isOutboundTrafficPolicyMode sc) = ''ALLOW_ANY'' then ALLOW_ANY else REGISTRY_ONLY)
                     in Some (new_object (new_meta (prependName (istPrependReleaseName i) (pkgName pkg) ''sidecar'') None None) mode))))"

definition custom_service_entry :: "ext \<Rightarrow> nat \<times> custom_elem \<Rightarrow> client_object res" where
  "custom_service_entry X ie =
     (let (i, elem) = ie; meta = new_meta (ceName elem) (ceLabels elem) (ceAnnotations elem)
      in if ceName elem = [] then Inl (Errorf ''custom[%d]: name is required'' [itoa (int i)])
         else if glen (ceSpec elem) > 0
         then (let j = marshal_raw_map (ceSpec elem)
               in rbind (rwrap ''custom[%d] %q: %w'' [itoa (int i), ceName elem] (xServiceEntry X j))
                    (\<lambda>_. Inr (ServiceEntry (new_object meta (SeRaw j)))))
         else Inr (ServiceEntry (new_object meta (SeTyped empty_service_entry))))"

definition generateCustomServiceEntries :: "ext \<Rightarrow> istio option \<Rightarrow> client_object list res" where
  "generateCustomServiceEntries X spec =
     (case spec of None \<Rightarrow> Inr []
      | Some i \<Rightarrow>
          (case istServiceEntries i of None \<Rightarrow> Inr []
           | Some custom \<Rightarrow> rmap (custom_service_entry X) (enumerate 0 custom)))"

definition generateIstio :: "ext \<Rightarrow> package \<Rightarrow> istio \<Rightarrow> client_object list res" where
  "generateIstio X pkg spec =
     (let pa = PeerAuthentication (new_object
                 (new_meta (prependName (istPrependReleaseName spec) (pkgName pkg) ''default-peer-auth'') None None)
                 (mTLSMode (Some spec)));
          sc = (case sidecarResource pkg (Some spec) of None \<Rightarrow> [] | Some s \<Rightarrow> [Sidecar s])
      in rbind (rwrap ''istio.serviceEntries: %w'' [] (generateCustomServiceEntries X (Some spec))) (\<lambda>ses.
         Inr (pa # sc @ ses)))"

section \<open>Properties\<close>

lemma safe_generateIstio: "ext_returns X \<Longrightarrow> safe (generateIstio X pkg spec)"
  by (auto simp: generateIstio_def generateCustomServiceEntries_def custom_service_entry_def Let_def case_prod_unfold
      ext_returnsD intro!: safe_rbind safe_rmap split: option.splits)

text \<open>Mutual TLS is strict unless the package asks for another mode by its exact name (in any case):
  a missing, empty or misspelt mode never weakens it.\<close>

theorem mTLSMode_strict_by_default:
  "mTLSMode (Some i) = MTLS_STRICT \<longleftrightarrow>
     \<not> (\<exists>m. istMtls i = Some m \<and> (to_upper m = ''PERMISSIVE'' \<or> to_upper m = ''DISABLE'' \<or> to_upper m = ''UNSET''))"
  by (auto simp: mTLSMode_def Let_def to_upper_def split: option.splits)

text \<open>The istio pass emits exactly one PeerAuthentication, in first place; a Sidecar exactly when
  it is enabled and ambient mode is off; and one ServiceEntry per custom entry, named as the user wrote it.\<close>

theorem generateIstio_objects:
  assumes "generateIstio X pkg spec = Inr objs"
  shows "\<exists>pa rest. objs = PeerAuthentication pa # rest \<and> objSpec pa = mTLSMode (Some spec) \<and>
    filter (\<lambda>x. kind_of x = KPeerAuthentication) rest = [] \<and>
    length (filter (\<lambda>x. kind_of x = KSidecar) rest) =
      (if (\<exists>sc. istSidecar spec = Some sc \<and> isEnabled sc) \<and> istAmbient spec \<noteq> Some True then 1 else 0) \<and>
    map name_of (filter (\<lambda>x. kind_of x = KServiceEntry) rest) =
      (case istServiceEntries spec of None \<Rightarrow> [] | Some es \<Rightarrow> map ceName es)"
proof -
  have se: "kind_of y = KServiceEntry \<and> name_of y = ceName (snd ie)" if "custom_service_entry X ie = Inr y" for ie y
    using that by (auto simp: custom_service_entry_def Let_def case_prod_unfold res_simps split: if_splits)
  have list: "map name_of ys = map (ceName \<circ> snd) ies \<and> (\<forall>y \<in> set ys. kind_of y = KServiceEntry)"
    if "rmap (custom_service_entry X) ies = Inr ys" for ies ys
    using that by (induction ies arbitrary: ys) (auto simp: res_simps dest!: se)
  from assms obtain ses where ses: "generateCustomServiceEntries X (Some spec) = Inr ses" and
    objs: "objs = PeerAuthentication (new_object
        (new_meta (prependName (istPrependReleaseName spec) (pkgName pkg) ''default-peer-auth'') None None) (mTLSMode (Some spec)))
      # (case sidecarResource pkg (Some spec) of None \<Rightarrow> [] | Some s \<Rightarrow> [Sidecar s]) @ ses"
    by (auto simp: generateIstio_def Let_def res_simps)
  have names: "map name_of ses = (case istServiceEntries spec of None \<Rightarrow> [] | Some es \<Rightarrow> map ceName es)"
    and kinds: "\<forall>y \<in> set ses. kind_of y = KServiceEntry"
  proof (atomize (full), cases "istServiceEntries spec")
    case (Some es)
    then have "rmap (custom_service_entry X) (enumerate 0 es) = Inr ses"
      using ses by (simp add: generateCustomServiceEntries_def)
    from list [OF this] show "map name_of ses = (case istServiceEntries spec of None \<Rightarrow> [] | Some es \<Rightarrow> map ceName es) \<and>
        (\<forall>y \<in> set ses. kind_of y = KServiceEntry)"
      by (simp add: Some flip: map_map)
  qed (use ses in \<open>simp add: generateCustomServiceEntries_def\<close>)
  have "filter (\<lambda>x. kind_of x = KServiceEntry) ses = ses" "filter (\<lambda>x. kind_of x = KSidecar) ses = []"
    "filter (\<lambda>x. kind_of x = KPeerAuthentication) ses = []"
    using kinds by (auto simp: filter_empty_conv filter_id_conv)
  then show ?thesis unfolding objs
    by (auto simp: names sidecarResource_def Let_def split: option.splits)
qed

definition sample_istio :: istio where
  "sample_istio = \<lparr>istAmbient = None, istAuthorizationPolicies = None, istEnabled = True, istMtls = Some ''permissive'',
     istPrependReleaseName = False,
     istServiceEntries = Some [\<lparr>ceAnnotations = None, ceLabels = None, ceName = ''ext-db'', ceSpec = None\<rparr>],
     istSidecar = Some \<lparr>isEnabled = True, isOutboundTrafficPolicyMode = []\<rparr>\<rparr>"

theorem generateIstio_objects_witness:
  "\<exists>objs pa rest. generateIstio sample_ext
       \<lparr>pkgName = ''a'', pkgNamespace = ''n'', pkgUID = ''u'', pkgGeneration = 1, pkgDeleting = False,
        pkgSpec = \<lparr>psIstio = None, psNetworkPolicies = None, psRoutes = None\<rparr>,
        pkgStatus = \<lparr>stObservedGeneration = 0, stConditions = [], stAppliedResources = []\<rparr>\<rparr> sample_istio = Inr objs \<and>
     objs = PeerAuthentication pa # rest \<and> objSpec pa = MTLS_PERMISSIVE \<and>
     map name_of (filter (\<lambda>x. kind_of x = KServiceEntry) rest) = [''ext-db'']"
proof -
  let ?p = "\<lparr>pkgName = ''a'', pkgNamespace = ''n'', pkgUID = ''u'', pkgGeneration = 1, pkgDeleting = False,
        pkgSpec = \<lparr>psIstio = None, psNetworkPolicies = None, psRoutes = None\<rparr>,
        pkgStatus = \<lparr>stObservedGeneration = 0, stConditions = [], stAppliedResources = []\<rparr>\<rparr>"
  obtain objs where o: "generateIstio sample_ext ?p sample_istio = Inr objs"
    by (simp add: generateIstio_def generateCustomServiceEntries_def custom_service_entry_def sample_istio_def Let_def)
  have m: "mTLSMode (Some sample_istio) = MTLS_PERMISSIVE" by code_simp
  have s: "istServiceEntries sample_istio = Some [\<lparr>ceAnnotations = None, ceLabels = None, ceName = ''ext-db'', ceSpec = None\<rparr>]"
    by (simp add: sample_istio_def)
  from generateIstio_objects [OF o] o show ?thesis unfolding m s by auto
qed

end
