(* ===== verification/Authz.thy ===== *)
theory Authz
  imports Routes Istio_Gen
begin

text \<open>
  AuthorizationPolicies (\<open>pkg/generator/authorizationpolicies.go\<close>): the defaults, the companions of the ingress
  shorthand rules and of the inbound routes, and the user's own policies. The loop that expands a port
  range works on 64-bit integers and is kept as a partial function: where it does not
  end it has no value.
\<close>

section \<open>Gates\<close>

definition authzEnabled :: "istio option \<Rightarrow> bool" where
  "authzEnabled ist =
     (case ist of None \<Rightarrow> False
      | Some i \<Rightarrow>
          if istAmbient i = Some True then True
          else (case istAuthorizationPolicies i of None \<Rightarrow> False | Some a \<Rightarrow> iaEnabled a))"

definition generateFromNetpol :: "istio option \<Rightarrow> bool" where
  "generateFromNetpol ist =
     (case ist of None \<Rightarrow> True
      | Some i \<Rightarrow>
          (case istAuthorizationPolicies i of None \<Rightarrow> True
           | Some a \<Rightarrow> (case iaGenerateFromNetpol a of None \<Rightarrow> True | Some b \<Rightarrow> b)))"

definition authz_defaults_of :: "istio option \<Rightarrow> authz_defaults option" where
  "authz_defaults_of ist = Option.bind ist (\<lambda>i. Option.bind (istAuthorizationPolicies i) iaDefaults)"

definition authzDefaultsEnabled :: "istio option \<Rightarrow> bool" where
  "authzDefaultsEnabled ist =
     (case authz_defaults_of ist of None \<Rightarrow> True | Some d \<Rightarrow> defaultEnabled (adEnabled d))"

definition authzAllowNothing :: "istio option \<Rightarrow> bool" where
  "authzAllowNothing ist =
     (if \<not> authzDefaultsEnabled ist then False
      else (case Option.bind (authz_defaults_of ist) adDenyAll of None \<Rightarrow> True | Some t \<Rightarrow> defaultEnabled (tgEnabled t)))"

definition authzAllowAllInNS :: "istio option \<Rightarrow> bool" where
  "authzAllowAllInNS ist =
     (if \<not> authzDefaultsEnabled ist then False
      else (case Option.bind (authz_defaults_of ist) adAllowInNamespace of None \<Rightarrow> True | Some t \<Rightarrow> defaultEnabled (tgEnabled t)))"

section \<open>Defaults\<close>

definition allow_policy :: "string gomap option \<Rightarrow> authz_rule \<Rightarrow> ap_spec" where
  "allow_policy sel rule = ApTyped \<lparr>azSelector = sel, azAction = AZ_ALLOW, azRules = [rule]\<rparr>"

definition generateDefaultAuthzPolicies ::
  "package \<Rightarrow> istio option \<Rightarrow> network_policies option \<Rightarrow> client_object list" where
  "generateDefaultAuthzPolicies pkg ist npSpec =
     (case ist of None \<Rightarrow> []
      | Some i \<Rightarrow>
          if \<not> authzEnabled ist then []
          else if (case npSpec of None \<Rightarrow> False | Some np \<Rightarrow> \<not> ingressSideEnabled np) then []
          else
            (if authzAllowNothing ist
             then [AuthorizationPolicy (new_object
                    (new_meta (prependName (istPrependReleaseName i) (pkgName pkg) ''default-authz-allow-nothing'') None None)
                    (ApTyped empty_authz_spec))] else []) @
            (if authzAllowAllInNS ist
             then [AuthorizationPolicy (new_object
                    (new_meta (prependName (istPrependReleaseName i) (pkgName pkg) ''default-authz-allow-all-in-ns'') None None)
                    (allow_policy None
                      \<lparr>arFrom = [\<lparr>asPrincipals = [], asNamespaces = [pkgNamespace pkg], asIpBlocks = []\<rparr>], arTo = []\<rparr>))] else []))"

section \<open>The ports of a rule\<close>

definition wrap64 :: "int \<Rightarrow> int" where
  "wrap64 i = (i + 2 ^ 63) mod 2 ^ 64 - 2 ^ 63"

text \<open>\<open>for p := a; p <= b; p++ { ports = append(ports, strconv.Itoa(p)) }\<close>.\<close>

partial_function (option) port_loop :: "int \<Rightarrow> int \<Rightarrow> string list \<Rightarrow> string list option" where
  "port_loop p b acc = (if p \<le> b then port_loop (wrap64 (p + 1)) b (acc @ [itoa p]) else Some acc)"

definition operation_ports :: "int list \<Rightarrow> bool \<Rightarrow> string list res" where
  "operation_ports ports hasRange =
     (if hasRange \<and> length ports = 2
      then (case port_loop (ports ! 0) (ports ! 1) [] of None \<Rightarrow> Inl Diverges | Some ps \<Rightarrow> Inr ps)
      else Inr (map itoa ports))"

text \<open>The \<open>to\<close> of a rule: nothing when the local key has no ports.\<close>

definition rule_to :: "parsedLocalIngressKey \<Rightarrow> string list list res" where
  "rule_to l =
     (if lPorts l \<noteq> [] then rbind (operation_ports (lPorts l) (lHasPortRange l)) (\<lambda>ps. Inr [ps]) else Inr [])"

definition workload_selector :: "parsedLocalIngressKey \<Rightarrow> shorthandSource \<Rightarrow> string gomap" where
  "workload_selector l src =
     (if glen (ssPodSelector src) > 0 then ssPodSelector src else Some [(''app.kubernetes.io/name'', lPod l)])"

section \<open>Companions of the ingress shorthand\<close>

definition buildAuthzFromCIDR ::
  "package \<Rightarrow> bool \<Rightarrow> parsedLocalIngressKey \<Rightarrow> shorthandSource \<Rightarrow> string \<Rightarrow> parsedCIDR \<Rightarrow> ap_spec k8s_object res" where
  "buildAuthzFromCIDR pkg prepend l src cidrKey cidr =
     rbind (if lPorts l \<noteq> []
            then rbind (namePortSuffix (lPorts l) (lHasPortRange l)) (\<lambda>suf.
                   Inr (ingress_name l @ ''-'' @ to_lower (lProtocol l) @ ''-'' @ suf))
            else Inr (ingress_name l)) (\<lambda>name.
     let name = name @ (if pcCIDR cidr = cidrAnywhere then ''-from-anywhere'' else ''-from-cidr-'' @ cidrNameSegment (pcCIDR cidr));
         name = prependName prepend (pkgName pkg) name
     in rbind (rule_to l) (\<lambda>to.
        Inr (new_object
          (new_meta name None
            (Some [(''generated.authorization-policies.bigbang.dev/from-cidr'', cidrKey),
                   (''generated.authorization-policies.bigbang.dev/cidr'', pcCIDR cidr)]))
          (allow_policy (Some (workload_selector l src))
            \<lparr>arFrom = [\<lparr>asPrincipals = [], asNamespaces = [], asIpBlocks = [pcCIDR cidr]\<rparr>], arTo = to\<rparr>))))"

definition buildAuthzFromShorthand ::
  "package \<Rightarrow> bool \<Rightarrow> parsedLocalIngressKey \<Rightarrow> shorthandSource \<Rightarrow> string \<Rightarrow> parsedK8sRemote \<Rightarrow> ap_spec k8s_object res" where
  "buildAuthzFromShorthand pkg prepend l src remoteKey remote =
     (let netpolName = ingress_name l;
          netpolName = (if lPorts l \<noteq> [] then netpolName @ ''-'' @ to_lower (lProtocol l) else netpolName)
      in rbind (namePortSuffix (lPorts l) (lHasPortRange l)) (\<lambda>suf.
         let netpolName = netpolName @ ''-'' @ suf;
             (name, annotations) =
               (if kIdentity remote \<noteq> []
                then (netpolName @ ''-from-ns-'' @ kNamespace remote @ ''-with-identity-'' @ kIdentity remote,
                      [(''generated.authorization-policies.bigbang.dev/from-spiffe'', remoteKey),
                       (''generated.authorization-policies.bigbang.dev/identity'', kIdentity remote)])
                else if kNamespace remote = ''*''
                then (netpolName @ ''-from-ns-any'',
                      [(''generated.authorization-policies.bigbang.dev/from-namespace'', remoteKey)])
                else (netpolName @ ''-from-ns-'' @ kNamespace remote,
                      (''generated.authorization-policies.bigbang.dev/from-namespace'', remoteKey) #
                      (if kPod remote \<noteq> [] then [(''generated.authorization-policies.bigbang.dev/pod'', kPod remote)] else [])));
             name = prependName prepend (pkgName pkg) name;
             from = (if kIdentity remote \<noteq> []
                     then \<lparr>asPrincipals = [''cluster.local/ns/'' @ kNamespace remote @ ''/sa/'' @ kIdentity remote],
                           asNamespaces = [], asIpBlocks = []\<rparr>
                     else \<lparr>asPrincipals = [], asNamespaces = [kNamespace remote], asIpBlocks = []\<rparr>)
         in rbind (rule_to l) (\<lambda>to.
            Inr (new_object (new_meta name None (Some annotations))
              (allow_policy (Some (workload_selector l src)) \<lparr>arFrom = [from], arTo = to\<rparr>)))))"

definition emit_authz :: "shorthandSource \<Rightarrow> shorthandMetadata option \<Rightarrow> ap_spec k8s_object \<Rightarrow> client_object list res" where
  "emit_authz src meta ap =
     Inr [AuthorizationPolicy (applyShorthandMetadata ap (mergeShorthandMetadata (ssMetadata src) meta))]"

definition authz_from_source ::
  "package \<Rightarrow> bool \<Rightarrow> string \<Rightarrow> parsedLocalIngressKey \<Rightarrow> shorthandSource \<Rightarrow> shorthandPeer \<Rightarrow> client_object list res" where
  "authz_from_source pkg prepend localKey parsedLocal src from =
     rbind (range_sorted (spK8s from) (\<lambda>remoteKey target.
         if \<not> stgEnabled target then Inr []
         else rbind (rwrap ''authz ingress.to.%s.from.k8s: %w'' [localKey] (parseIngressRemoteKey remoteKey)) (\<lambda>remote.
              rbind (buildAuthzFromShorthand pkg prepend parsedLocal src remoteKey remote) (emit_authz src (stgMetadata target))))) (\<lambda>k8s.
     rbind (range_sorted (spCidr from) (\<lambda>cidrKey target.
         if \<not> stgEnabled target then Inr []
         else rbind (rwrap ''authz ingress.to.%s.from.cidr: %w'' [localKey] (parseIngressCIDRKey cidrKey)) (\<lambda>cidr.
              rbind (buildAuthzFromCIDR pkg prepend parsedLocal src cidrKey cidr) (emit_authz src (stgMetadata target))))) (\<lambda>cidrs.
     Inr (k8s @ cidrs)))"

definition generateAuthzFromIngressShorthand ::
  "package \<Rightarrow> network_policies option \<Rightarrow> istio option \<Rightarrow> client_object list res" where
  "generateAuthzFromIngressShorthand pkg npSpec ist =
     (if \<not> authzEnabled ist \<or> \<not> generateFromNetpol ist then Inr []
      else (case npSpec of None \<Rightarrow> Inr []
        | Some np \<Rightarrow>
            (case npIngress np of None \<Rightarrow> Inr []
             | Some ing \<Rightarrow>
                 range_sorted (niTo ing) (\<lambda>localKey raw.
                   rbind (rwrap ''authz from ingress.to.%s: %w'' [localKey] (rbind (of_raw raw) decode_shorthandSource)) (\<lambda>src.
                   case ssFrom src of None \<Rightarrow> Inr []
                   | Some from \<Rightarrow>
                       rbind (rwrap ''authz ingress.to: %w'' [] (parseIngressLocalKey localKey)) (\<lambda>parsedLocal.
                       authz_from_source pkg (npPrependReleaseName np) localKey parsedLocal src from))))))"

section \<open>Companions of the routes\<close>

definition buildAuthzFromRoute :: "package \<Rightarrow> bool \<Rightarrow> inbound_route \<Rightarrow> resolvedGateway \<Rightarrow> string \<Rightarrow> ap_spec k8s_object" where
  "buildAuthzFromRoute pkg prepend route gw suf =
     (let apName = prependName prepend (pkgName pkg) (serviceLeaf (irService route) @ ''-'' @ suf @ ''-authz-policy'');
          to = (case inboundWorkloadPort route of
                  None \<Rightarrow> []
                | Some p \<Rightarrow> (let n = portNumber (Some p) in if n \<noteq> 0 then [[itoa (uint n)]] else []))
      in new_object (new_meta apName (mergeMaps (irLabels route) None) (mergeMaps (irAnnotations route) None))
           (allow_policy (Some (irSelector route))
             \<lparr>arFrom = [\<lparr>asPrincipals = [''cluster.local/ns/'' @ rgNamespace gw @ ''/sa/'' @ gwServiceAccountName (rgDefinition gw)],
                         asNamespaces = [], asIpBlocks = []\<rparr>], arTo = to\<rparr>))"

definition gateway_namespaces :: "resolvedInbound list \<Rightarrow> string \<Rightarrow> string list" where
  "gateway_namespaces inbound n =
     remdups (map rgNamespace (filter (\<lambda>g. rgName g = n) (concat (map riGateways inbound))))"

definition gateway_suffix :: "resolvedInbound list \<Rightarrow> resolvedGateway \<Rightarrow> string" where
  "gateway_suffix inbound gw =
     (if length (gateway_namespaces inbound (rgName gw)) > 1 then rgNamespace gw @ ''-'' @ rgName gw else rgName gw)"

definition generateAuthzFromRoutes ::
  "package \<Rightarrow> routes option \<Rightarrow> istio option \<Rightarrow> resolvedInbound list \<Rightarrow> client_object list" where
  "generateAuthzFromRoutes pkg rts ist inbound =
     (if \<not> authzEnabled ist then []
      else (case rts of None \<Rightarrow> []
        | Some rt \<Rightarrow>
            concat (map (\<lambda>resolved.
              map (\<lambda>gw. AuthorizationPolicy
                    (buildAuthzFromRoute pkg (rtPrependReleaseName rt) (riRoute resolved) gw (gateway_suffix inbound gw)))
                (riGateways resolved)) inbound)))"

section \<open>The user's own policies\<close>

definition buildRawAuthzPolicy ::
  "ext \<Rightarrow> string \<Rightarrow> string gomap \<Rightarrow> string gomap \<Rightarrow> raw_json gomap \<Rightarrow> ap_spec k8s_object res" where
  "buildRawAuthzPolicy X name labels annotations rawSpec =
     (let meta = new_meta name labels annotations
      in if glen rawSpec = 0 then Inr (new_object meta (ApTyped empty_authz_spec))
         else rbind (xAuthorizationPolicy X (marshal_raw_map rawSpec))
                (\<lambda>_. Inr (new_object meta (ApRaw (marshal_raw_map rawSpec)))))"

text \<open>\<open>json.Marshal\<close> of the typed spec: empty fields are omitted.\<close>

definition marshal_additional_spec :: "additional_authz_spec \<Rightarrow> json" where
  "marshal_additional_spec spec =
     JObject ((case aasAction spec of None \<Rightarrow> [] | Some a \<Rightarrow> [(''action'', JString a)]) @
       (if aasRules spec \<noteq> [] then [(''rules'', JArray (map marshal_raw_map (aasRules spec)))] else []) @
       (if glen (aasSelector spec) > 0 then [(''selector'', marshal_raw_map (aasSelector spec))] else []))"

definition buildAdditionalAuthzPolicy ::
  "ext \<Rightarrow> string \<Rightarrow> string gomap \<Rightarrow> string gomap \<Rightarrow> additional_authz_spec \<Rightarrow> ap_spec k8s_object res" where
  "buildAdditionalAuthzPolicy X name labels annotations spec =
     (let j = marshal_additional_spec spec
      in rbind (xAuthorizationPolicy X j) (\<lambda>_. Inr (new_object (new_meta name labels annotations) (ApRaw j))))"

definition custom_authz :: "ext \<Rightarrow> nat \<times> custom_elem \<Rightarrow> client_object res" where
  "custom_authz X ie =
     (let (i, elem) = ie
      in if ceName elem = [] then Inl (Errorf ''custom[%d]: name is required'' [itoa (int i)])
         else rbind (rwrap ''custom[%d] %q: %w'' [itoa (int i), ceName elem]
                      (buildRawAuthzPolicy X (ceName elem) (ceLabels elem) (ceAnnotations elem) (ceSpec elem)))
                (\<lambda>ap. Inr (AuthorizationPolicy ap)))"

definition additional_authz_policy :: "ext \<Rightarrow> string \<Rightarrow> additional_authz \<Rightarrow> client_object list res" where
  "additional_authz_policy X key elem =
     (if \<not> aaEnabled elem then Inr []
      else
        (let name = (case aaName elem of None \<Rightarrow> key | Some n \<Rightarrow> if n \<noteq> [] then n else key)
         in rbind (rwrap ''additionalPolicies.%s: %w'' [key]
                    (buildAdditionalAuthzPolicy X name (aaLabels elem) (aaAnnotations elem) (aaSpec elem)))
              (\<lambda>ap. Inr [AuthorizationPolicy ap])))"

definition generateCustomAuthzPolicies :: "ext \<Rightarrow> istio option \<Rightarrow> client_object list res" where
  "generateCustomAuthzPolicies X ist =
     (case ist of None \<Rightarrow> Inr []
      | Some i \<Rightarrow>
          if \<not> istEnabled i then Inr []
          else (case istAuthorizationPolicies i of None \<Rightarrow> Inr []
            | Some apSpec \<Rightarrow>
                rbind (rmap (custom_authz X) (enumerate 0 (iaCustom apSpec))) (\<lambda>custom.
                rbind (range_sorted (iaAdditionalPolicies apSpec) (additional_authz_policy X)) (\<lambda>additional.
                Inr (custom @ additional)))))"

section \<open>The port loop\<close>

lemma wrap64_id: "int_fits 64 i \<Longrightarrow> wrap64 i = i"
  by (simp add: wrap64_def int_fits_def)

lemma wrap64_fits: "int_fits 64 (wrap64 i)"
  by (simp add: wrap64_def int_fits_def)

lemma port_loop_value:
  assumes "int_fits 64 p" "b < 2 ^ 63 - 1"
  shows "port_loop p b acc = Some (acc @ map itoa [p..b])"
  using assms
proof (induction "nat (b + 1 - p)" arbitrary: p acc)
  case 0
  then have "\<not> p \<le> b" by simp
  then show ?case by (subst port_loop.simps) simp
next
  case (Suc n)
  then have le: "p \<le> b" by simp
  have fits: "int_fits 64 (p + 1)" using Suc.prems le by (simp add: int_fits_def)
  have "n = nat (b + 1 - (p + 1))" using Suc.hyps(2) by simp
  from Suc.hyps(1) [OF this fits Suc.prems(2)] le fits show ?case
    by (subst port_loop.simps) (simp add: wrap64_id upto_rec1 [of p b])
qed

text \<open>With the largest integer as its bound the loop never ends: the counter wraps around below the bound.\<close>

lemma port_loop_no_value: "port_loop p b acc = Some ps \<Longrightarrow> int_fits 64 p \<longrightarrow> b \<noteq> 2 ^ 63 - 1"
proof (rule port_loop.raw_induct [where P = "\<lambda>p b acc ps. int_fits 64 p \<longrightarrow> b \<noteq> 2 ^ 63 - 1"], goal_cases)
  case (1 f p b acc ps)
  show ?case
  proof (cases "p \<le> b")
    case True
    with 1(3) have "f (wrap64 (p + 1)) b (acc @ [itoa p]) = Some ps" by simp
    from 1(2) [OF this] show ?thesis by (simp add: wrap64_fits)
  next
    case False
    then show ?thesis by (simp add: int_fits_def)
  qed
qed

lemma operation_ports_value:
  assumes "port_shape ports hasRange" "\<forall>p \<in> set ports. 0 \<le> p \<and> p < 2 ^ 63 - 1"
  shows "operation_ports ports hasRange = Inr (map itoa (if hasRange then [ports ! 0..ports ! 1] else ports))"
  using assms(1)
proof (cases rule: port_shape_cases)
  case (2 a b)
  then have "int_fits 64 a" "b < 2 ^ 63 - 1" using assms(2) by (auto simp: int_fits_def)
  from port_loop_value [OF this, of "[]"] 2 show ?thesis by (simp add: operation_ports_def)
qed (simp_all add: operation_ports_def)

text \<open>C29: The ports of an AuthorizationPolicy are the ports of the local ingress key: all numbers of a range, in
  order, or the list as written; the expansion of a range ends for every bound below the largest 64-bit
  integer.\<close>

theorem rule_to_ports:
  assumes "parseIngressLocalKey key = Inr l" "\<forall>p \<in> set (lPorts l). p < 2 ^ 63 - 1"
  shows "rule_to l = Inr (if lPorts l = [] then []
    else [map itoa (if lHasPortRange l then [lPorts l ! 0..lPorts l ! 1] else lPorts l)])"
proof -
  have "\<forall>p \<in> set (lPorts l). 0 \<le> p \<and> p < 2 ^ 63 - 1"
    using assms by (auto simp: local_key.parse_iff dest: bspec [OF ports_value_nonneg])
  from operation_ports_value [OF parsed_ports_shape(3) [OF assms(1)] this] show ?thesis
    by (simp add: rule_to_def)
qed

theorem rule_to_ports_witness:
  "rule_to \<lparr>lPod = ''web'', lProtocol = ''TCP'', lPorts = [80, 82], lHasPortRange = True\<rparr> = Inr [[''80'', ''81'', ''82'']]"
proof -
  have l: "parseIngressLocalKey ''web:80-82'' = Inr \<lparr>lPod = ''web'', lProtocol = ''TCP'', lPorts = [80, 82], lHasPortRange = True\<rparr>"
    by code_simp
  have m: "map itoa [80..82] = [''80'', ''81'', ''82'']" by code_simp
  have "rule_to \<lparr>lPod = ''web'', lProtocol = ''TCP'', lPorts = [80, 82], lHasPortRange = True\<rparr> = Inr [map itoa [80..82]]"
    using rule_to_ports [OF l] by (simp del: upto.simps upto_rec_numeral)
  then show ?thesis unfolding m .
qed

text \<open>C30: A port range that ends at the largest 64-bit integer is accepted by the key parser, and the expansion of
  its AuthorizationPolicy ports then never returns.\<close>

theorem rule_to_diverges:
  "\<exists>l. parseIngressLocalKey ''web:1-9223372036854775807'' = Inr l \<and> rule_to l = Inl Diverges"
proof -
  let ?l = "\<lparr>lPod = ''web'', lProtocol = ''TCP'', lPorts = [1, 9223372036854775807], lHasPortRange = True\<rparr>"
  have ok: "proto_ok None \<and> ''web'' \<noteq> [] \<and> list_all is_word_dash ''web'' \<and> ports_ok (PortRange ''1'' ''9223372036854775807'')"
    by (simp add: proto_ok_def is_number_def is_digit_code is_word_dash_def is_alnum_dash_code)
  have v: "ports_value (PortRange ''1'' ''9223372036854775807'') = ([1, 9223372036854775807], True)"
    by (simp add: port_number_def dec_value_def digit_val_def)
  have fit: "ports_fit (PortRange ''1'' ''9223372036854775807'')"
    unfolding ports_fit_def v by (simp add: int_fits_def)
  have p: "parseIngressLocalKey ''web:1-9223372036854775807'' = Inr ?l"
    using local_key.parse_print [of "(None, ''web'', PortRange ''1'' ''9223372036854775807'')"] ok fit
    by (simp add: v show_proto_def show_ports_def proto_value_def protoTCP_def del: ports_value.simps)
  have "port_loop 1 9223372036854775807 [] = None"
  proof (cases "port_loop 1 9223372036854775807 []")
    case (Some ps)
    from port_loop_no_value [OF this] show ?thesis by (simp add: int_fits_def)
  qed
  then have "rule_to ?l = Inl Diverges" by (simp add: rule_to_def operation_ports_def)
  with p show ?thesis by blast
qed

section \<open>Generated policies\<close>

definition ports_bounded :: "parsedLocalIngressKey \<Rightarrow> bool" where
  "ports_bounded l \<longleftrightarrow> port_shape (lPorts l) (lHasPortRange l) \<and> (\<forall>p \<in> set (lPorts l). 0 \<le> p \<and> p < 2 ^ 63 - 1)"

lemma safe_rule_to: "ports_bounded l \<Longrightarrow> safe (rule_to l)"
  by (auto simp: rule_to_def ports_bounded_def operation_ports_value intro!: safe_rbind)

lemma safe_buildAuthz:
  assumes "ports_bounded l"
  shows "safe (buildAuthzFromCIDR pkg p l src ck c)" "safe (buildAuthzFromShorthand pkg p l src rk r)"
  using assms safe_rule_to [OF assms]
  by (auto simp: buildAuthzFromCIDR_def buildAuthzFromShorthand_def Let_def ports_bounded_def case_prod_unfold
      intro!: safe_rbind safe_suffix)

text \<open>The keys under \<open>ingress.to\<close> whose port ranges the loop can expand.\<close>

definition ingress_ports_bounded :: "network_policies option \<Rightarrow> bool" where
  "ingress_ports_bounded np \<longleftrightarrow>
     (\<forall>spec ing k raw l. np = Some spec \<longrightarrow> npIngress spec = Some ing \<longrightarrow> glookup (niTo ing) k = Some raw \<longrightarrow>
        parseIngressLocalKey k = Inr l \<longrightarrow> (\<forall>p \<in> set (lPorts l). p < 2 ^ 63 - 1))"

lemma safe_generateAuthzFromIngressShorthand:
  assumes "ingress_ports_bounded np"
  shows "safe (generateAuthzFromIngressShorthand pkg np ist)"
proof -
  have bounded: "ports_bounded l" if "np = Some spec" "npIngress spec = Some ing" "glookup (niTo ing) k = Some raw"
    "parseIngressLocalKey k = Inr l" for spec ing k raw l
  proof -
    have "\<forall>p \<in> set (lPorts l). p < 2 ^ 63 - 1" using assms that unfolding ingress_ports_bounded_def by blast
    moreover have "\<forall>p \<in> set (lPorts l). 0 \<le> p"
      using that(4) by (auto simp: local_key.parse_iff dest: bspec [OF ports_value_nonneg])
    ultimately show ?thesis using parsed_ports_shape(3) [OF that(4)] by (auto simp: ports_bounded_def)
  qed
  have src: "safe (authz_from_source pkg p k l src frm)" if "ports_bounded l" for p k l src frm
    using that by (auto simp: authz_from_source_def emit_authz_def safe_buildAuthz intro!: safe_rbind safe_range_sorted)
  show ?thesis
    by (auto simp: generateAuthzFromIngressShorthand_def rwrap_eq_Inr
        intro!: safe_range_sorted safe_rbind src split: option.splits) (rule bounded)
qed

lemma safe_generateCustomAuthzPolicies: "ext_returns X \<Longrightarrow> safe (generateCustomAuthzPolicies X ist)"
  by (auto simp: generateCustomAuthzPolicies_def custom_authz_def additional_authz_policy_def buildRawAuthzPolicy_def
      buildAdditionalAuthzPolicy_def Let_def case_prod_unfold ext_returnsD
      intro!: safe_rbind safe_rmap safe_range_sorted split: option.splits)

subsection \<open>Defaults\<close>

lemma defaults_toggle: "(case Option.bind d f of None \<Rightarrow> True | Some t \<Rightarrow> defaultEnabled (tgEnabled t)) \<longleftrightarrow> \<not> disabled (Option.bind d f)"
  by (auto simp: disabled_def defaultEnabled_iff split: option.splits)


subsection \<open>Companions select the pods of their policies\<close>

lemma selector_companion: "selector_of (workload_selector l src) = dst_selector l src"
  by (simp add: workload_selector_def dst_selector_def)

definition ap_selects :: "client_object \<Rightarrow> string gomap \<Rightarrow> bool" where
  "ap_selects x sel = (case x of AuthorizationPolicy ap \<Rightarrow>
     (case objSpec ap of ApTyped s \<Rightarrow> azSelector s = Some sel | ApRaw j \<Rightarrow> False) | _ \<Rightarrow> False)"

definition np_selects :: "client_object \<Rightarrow> label_selector \<Rightarrow> bool" where
  "np_selects x sel = (case x of NetworkPolicy np \<Rightarrow> npsPodSelector (objSpec np) = sel \<and> npsPolicyTypes (objSpec np) = [''Ingress''] | _ \<Rightarrow> False)"

lemma authz_builders_select:
  "buildAuthzFromShorthand pkg p l src rk r = Inr ap \<Longrightarrow> ap_selects (AuthorizationPolicy (applyShorthandMetadata ap m)) (workload_selector l src)"
  "buildAuthzFromCIDR pkg p l src ck c = Inr ap \<Longrightarrow> ap_selects (AuthorizationPolicy (applyShorthandMetadata ap m)) (workload_selector l src)"
  by (auto simp: buildAuthzFromShorthand_def buildAuthzFromCIDR_def Let_def case_prod_unfold res_simps ap_selects_def allow_policy_def)

lemma authz_source_selects:
  assumes "authz_from_source pkg p k l src frm = Inr aps" "ap \<in> set aps"
  shows "ap_selects ap (workload_selector l src)"
    and "(\<exists>r t. glookup (spK8s frm) r = Some t \<and> stgEnabled t) \<or> (\<exists>c t. glookup (spCidr frm) c = Some t \<and> stgEnabled t)"
proof -
  from assms(1) obtain k8s cidrs where all: "Inr (k8s @ cidrs) = Inr aps" and
    k8s: "range_sorted (spK8s frm) (\<lambda>remoteKey target.
         if \<not> stgEnabled target then Inr []
         else rbind (rwrap ''authz ingress.to.%s.from.k8s: %w'' [k] (parseIngressRemoteKey remoteKey)) (\<lambda>remote.
              rbind (buildAuthzFromShorthand pkg p l src remoteKey remote) (emit_authz src (stgMetadata target)))) = Inr k8s" and
    cidrs: "range_sorted (spCidr frm) (\<lambda>cidrKey target.
         if \<not> stgEnabled target then Inr []
         else rbind (rwrap ''authz ingress.to.%s.from.cidr: %w'' [k] (parseIngressCIDRKey cidrKey)) (\<lambda>cidr.
              rbind (buildAuthzFromCIDR pkg p l src cidrKey cidr) (emit_authz src (stgMetadata target)))) = Inr cidrs"
    unfolding authz_from_source_def rbind_eq_Inr by blast
  have 1: "ap_selects ap (workload_selector l src) \<and> (\<exists>r t. glookup (spK8s frm) r = Some t \<and> stgEnabled t)" if "ap \<in> set k8s"
  proof -
    from range_sorted_set [OF k8s, of ap] that obtain rk t remote ap' where
      "glookup (spK8s frm) rk = Some t" "stgEnabled t" "buildAuthzFromShorthand pkg p l src rk remote = Inr ap'"
      "ap = AuthorizationPolicy (applyShorthandMetadata ap' (mergeShorthandMetadata (ssMetadata src) (stgMetadata t)))"
      by (auto simp: res_simps emit_authz_def split: if_splits)
    then show ?thesis using authz_builders_select(1) by blast
  qed
  have 2: "ap_selects ap (workload_selector l src) \<and> (\<exists>c t. glookup (spCidr frm) c = Some t \<and> stgEnabled t)" if "ap \<in> set cidrs"
  proof -
    from range_sorted_set [OF cidrs, of ap] that obtain ck t cidr ap' where
      "glookup (spCidr frm) ck = Some t" "stgEnabled t" "buildAuthzFromCIDR pkg p l src ck cidr = Inr ap'"
      "ap = AuthorizationPolicy (applyShorthandMetadata ap' (mergeShorthandMetadata (ssMetadata src) (stgMetadata t)))"
      by (auto simp: res_simps emit_authz_def split: if_splits)
    then show ?thesis using authz_builders_select(2) by blast
  qed
  from all assms(2) have "ap \<in> set k8s \<or> ap \<in> set cidrs" by auto
  with 1 2 show "ap_selects ap (workload_selector l src)"
    "(\<exists>r t. glookup (spK8s frm) r = Some t \<and> stgEnabled t) \<or> (\<exists>c t. glookup (spCidr frm) c = Some t \<and> stgEnabled t)" by blast+
qed

lemma ingress_builders_select:
  "buildShorthandIngressNetpol pkg p lbl l src rk r t = Inr np \<Longrightarrow> np_selects (NetworkPolicy (applyShorthandMetadata np m)) (dst_selector l src)"
  "buildIngressCIDRNetpol pkg p lbl l src ck c = Inr np \<Longrightarrow> np_selects (NetworkPolicy (applyShorthandMetadata np m)) (dst_selector l src)"
  by (auto simp: buildShorthandIngressNetpol_def buildIngressCIDRNetpol_def Let_def res_simps np_selects_def)

lemma ingress_source_selects:
  assumes "expand_ingress_source X pkg spec env k l src frm = Inr nps"
  shows "glookup (spK8s frm) r = Some t \<Longrightarrow> stgEnabled t \<Longrightarrow> \<exists>np \<in> set nps. np_selects np (dst_selector l src)"
    and "glookup (spCidr frm) c = Some t \<Longrightarrow> stgEnabled t \<Longrightarrow> \<exists>np \<in> set nps. np_selects np (dst_selector l src)"
proof -
  from assms obtain k8s defs cidrs lits where all: "Inr (k8s @ defs @ cidrs @ lits) = Inr nps" and
    k8s: "range_sorted (spK8s frm) (\<lambda>remoteKey target.
             if \<not> stgEnabled target then Inr []
             else rbind (rwrap ''networkPolicies.ingress.to.%s.from.k8s: %w'' [k] (parseIngressRemoteKey remoteKey)) (\<lambda>remote.
                  rbind (buildShorthandIngressNetpol pkg (npPrependReleaseName spec) (defaultNetpolLabels ''ingress'') l src remoteKey remote target)
                    (emit_netpol src (stgMetadata target)))) = Inr k8s" and
    cidrs: "range_sorted (spCidr frm) (\<lambda>cidrKey target.
             if \<not> stgEnabled target then Inr []
             else rbind (rwrap ''networkPolicies.ingress.to.%s.from.cidr: %w'' [k] (parseIngressCIDRKey cidrKey)) (\<lambda>cidr.
                  rbind (buildIngressCIDRNetpol pkg (npPrependReleaseName spec) (defaultNetpolLabels ''ingress'') l src cidrKey cidr)
                    (emit_netpol src (stgMetadata target)))) = Inr cidrs"
    unfolding expand_ingress_source_def Let_def rbind_eq_Inr by blast
  from all have k: "set k8s \<subseteq> set nps" "set cidrs \<subseteq> set nps" by auto
  show "\<exists>np \<in> set nps. np_selects np (dst_selector l src)" if "glookup (spK8s frm) r = Some t" "stgEnabled t"
  proof -
    from range_sorted_emits [OF k8s that(1)] that(2) obtain remote np where
      "buildShorthandIngressNetpol pkg (npPrependReleaseName spec) (defaultNetpolLabels ''ingress'') l src r remote t = Inr np"
      "NetworkPolicy (applyShorthandMetadata np (mergeShorthandMetadata (ssMetadata src) (stgMetadata t))) \<in> set k8s"
      by (auto simp: res_simps emit_netpol_def)
    then show ?thesis using ingress_builders_select(1) k(1) by blast
  qed
  show "\<exists>np \<in> set nps. np_selects np (dst_selector l src)" if "glookup (spCidr frm) c = Some t" "stgEnabled t"
  proof -
    from range_sorted_emits [OF cidrs that(1)] that(2) obtain cidr np where
      "buildIngressCIDRNetpol pkg (npPrependReleaseName spec) (defaultNetpolLabels ''ingress'') l src c cidr = Inr np"
      "NetworkPolicy (applyShorthandMetadata np (mergeShorthandMetadata (ssMetadata src) (stgMetadata t))) \<in> set cidrs"
      by (auto simp: res_simps emit_netpol_def)
    then show ?thesis using ingress_builders_select(2) k(2) by blast
  qed
qed


definition ingress_netpol :: network_policies where
  "ingress_netpol = sample_netpol\<lparr>npIngress := Some \<lparr>niDefaults = None, niDefinitions = None,
     niTo = Some [(''web:80'', Some (JObject [(''from'', JObject [(''k8s'', JObject [(''sa@apps/api'', JBool True)])])]))]\<rparr>\<rparr>"

definition ambient_istio :: istio where
  "ambient_istio = sample_istio\<lparr>istAmbient := Some True\<rparr>"

definition plain_env :: defsEnv where
  "plain_env = \<lparr>deKubeAPIPorts = [], deSharedEgress = None, deSharedIngress = None, deSharedErr = None\<rparr>"


subsection \<open>Policies of the routes\<close>

text \<open>Gateways of the same name in two namespaces, used by the package's routes, get different
  AuthorizationPolicy names for one service: neither policy replaces the other.\<close>

theorem gateway_suffix_separates_namespaces:
  assumes "g \<in> set (concat (map riGateways inbound))" "h \<in> set (concat (map riGateways inbound))"
    and "rgName g = rgName h" "rgNamespace g \<noteq> rgNamespace h"
  shows "omName (objMeta (buildAuthzFromRoute pkg p r g (gateway_suffix inbound g))) \<noteq>
    omName (objMeta (buildAuthzFromRoute pkg p r h (gateway_suffix inbound h)))"
proof -
  have sub: "{rgNamespace g, rgNamespace h} \<subseteq> set (gateway_namespaces inbound (rgName g))"
    using assms by (auto simp: gateway_namespaces_def)
  have "2 = card {rgNamespace g, rgNamespace h}" using assms(4) by simp
  also have "\<dots> \<le> card (set (gateway_namespaces inbound (rgName g)))" by (rule card_mono [OF _ sub]) simp
  also have "\<dots> = length (gateway_namespaces inbound (rgName g))"
    by (rule distinct_card) (simp add: gateway_namespaces_def)
  finally have "length (gateway_namespaces inbound (rgName g)) > 1" by simp
  then have "gateway_suffix inbound g = rgNamespace g @ ''-'' @ rgName g" "gateway_suffix inbound h = rgNamespace h @ ''-'' @ rgName g"
    using assms(3) by (simp_all add: gateway_suffix_def)
  then show ?thesis using assms(4) by (simp add: buildAuthzFromRoute_def Let_def)
qed

definition sample_gateway :: "string \<Rightarrow> resolvedGateway" where
  "sample_gateway ns = \<lparr>rgNamespace = ns, rgName = ''public'',
     rgDefinition = \<lparr>gwPodSelector = Some empty_selector, gwServiceAccountName = ''public-sa''\<rparr>\<rparr>"

definition sample_route :: "32 word \<Rightarrow> inbound_route" where
  "sample_route port = zero_inbound\<lparr>irEnabled := True, irService := ''web'', irPort := Some (IntVal port),
     irSelector := Some [(''app'', ''web'')]\<rparr>"

theorem gateway_suffix_separates_namespaces_witness:
  "let inbound = [\<lparr>riName = ''web'', riRoute = sample_route 80, riGateways = [sample_gateway ''a'', sample_gateway ''b'']\<rparr>]
   in omName (objMeta (buildAuthzFromRoute route_package False (sample_route 80) (sample_gateway ''a'') (gateway_suffix inbound (sample_gateway ''a'')))) \<noteq>
      omName (objMeta (buildAuthzFromRoute route_package False (sample_route 80) (sample_gateway ''b'') (gateway_suffix inbound (sample_gateway ''b''))))"
  unfolding Let_def by (rule gateway_suffix_separates_namespaces) (simp_all add: sample_gateway_def)

text \<open>The AuthorizationPolicy of a route is named by its service and gateway alone: two routes to one service
  through one gateway on different ports yield two different policies under one name, so applying the
  second replaces the first.\<close>

theorem route_authz_name_collision:
  "\<exists>x y. generateAuthzFromRoutes route_package (Some sample_routes) (Some ambient_istio)
      [\<lparr>riName = ''a'', riRoute = sample_route 80, riGateways = [sample_gateway ''gw'']\<rparr>,
       \<lparr>riName = ''b'', riRoute = sample_route 81, riGateways = [sample_gateway ''gw'']\<rparr>] =
      [AuthorizationPolicy x, AuthorizationPolicy y] \<and> omName (objMeta x) = omName (objMeta y) \<and> objSpec x \<noteq> objSpec y"
proof -
  let ?ap = "\<lambda>n. buildAuthzFromRoute route_package False (sample_route n) (sample_gateway ''gw'') ''public''"
  have eq: "generateAuthzFromRoutes route_package (Some sample_routes) (Some ambient_istio)
      [\<lparr>riName = ''a'', riRoute = sample_route 80, riGateways = [sample_gateway ''gw'']\<rparr>,
       \<lparr>riName = ''b'', riRoute = sample_route 81, riGateways = [sample_gateway ''gw'']\<rparr>] =
      [AuthorizationPolicy (?ap 80), AuthorizationPolicy (?ap 81)]" by code_simp
  have "omName (objMeta (?ap 80)) = omName (objMeta (?ap 81))" by code_simp
  moreover have "objSpec (?ap 80) = allow_policy (Some (Some [(''app'', ''web'')]))
      \<lparr>arFrom = [\<lparr>asPrincipals = [''cluster.local/ns/gw/sa/public-sa''], asNamespaces = [], asIpBlocks = []\<rparr>], arTo = [[''80'']]\<rparr>"
    "objSpec (?ap 81) = allow_policy (Some (Some [(''app'', ''web'')]))
      \<lparr>arFrom = [\<lparr>asPrincipals = [''cluster.local/ns/gw/sa/public-sa''], asNamespaces = [], asIpBlocks = []\<rparr>], arTo = [[''81'']]\<rparr>"
    by code_simp+
  ultimately show ?thesis using eq by (auto simp: allow_policy_def)
qed

end
