(* ===== verification/Hbone.thy ===== *)
theory Hbone
  imports Netpol_Shorthand
begin

text \<open>
  HBONE port injection (\<open>pkg/generator/hbone.go\<close>): in ambient mode every rule that has ports and a
  pod or namespace peer also admits TCP 15008, and the policies changed are labelled.
\<close>

definition hbonePort :: int where
  "hbonePort = 15008"

definition hboneLabel :: string where
  "hboneLabel = ''ambient.istio.network-policies.bigbang.dev/hbone-injected''"

definition hboneLabelValue :: string where
  "hboneLabelValue = ''true''"

definition hboneEnabled :: "network_policies option \<Rightarrow> istio option \<Rightarrow> bool" where
  "hboneEnabled spec ist =
     (if istioAmbient ist then True
      else (case spec of None \<Rightarrow> False
        | Some np \<Rightarrow> (case npHbonePortInjection np of None \<Rightarrow> False | Some b \<Rightarrow> b)))"

definition peerHasK8sSelector :: "netpol_peer list \<Rightarrow> bool" where
  "peerHasK8sSelector peers = list_ex (\<lambda>p. peerNamespaceSelector p \<noteq> None \<or> peerPodSelector p \<noteq> None) peers"

definition is_hbone_port :: "netpol_port \<Rightarrow> bool" where
  "is_hbone_port p \<longleftrightarrow>
     portProtocol p = Some ''TCP'' \<and>
     (case portPort p of Some (IntVal w) \<Rightarrow> sint w = hbonePort | _ \<Rightarrow> False)"

text \<open>The new ports and whether the port was added.\<close>

definition injectIntoPorts :: "netpol_port list \<Rightarrow> bool \<Rightarrow> netpol_port list \<times> bool" where
  "injectIntoPorts ports eligible =
     (if \<not> eligible \<or> ports = [] then (ports, False)
      else if list_ex is_hbone_port ports then (ports, False)
      else (ports @ [int_port ''TCP'' hbonePort], True))"

definition inject_rule :: "netpol_rule \<Rightarrow> netpol_rule \<times> bool" where
  "inject_rule r =
     (let (ports, added) = injectIntoPorts (rulePorts r) (peerHasK8sSelector (rulePeers r))
      in (r\<lparr>rulePorts := ports\<rparr>, added))"

definition inject_netpol :: "netpol_spec k8s_object \<Rightarrow> netpol_spec k8s_object" where
  "inject_netpol np =
     (let s = objSpec np;
          egress = map inject_rule (npsEgress s);
          ingress = map inject_rule (npsIngress s);
          mutated = list_ex snd egress \<or> list_ex snd ingress;
          s = s\<lparr>npsEgress := map fst egress, npsIngress := map fst ingress\<rparr>;
          m = objMeta np;
          m = (if mutated then m\<lparr>omLabels := gput hboneLabel hboneLabelValue (omLabels m)\<rparr> else m)
      in np\<lparr>objMeta := m, objSpec := s\<rparr>)"

primrec inject_object :: "client_object \<Rightarrow> client_object" where
  "inject_object (NetworkPolicy np) = NetworkPolicy (inject_netpol np)"
| "inject_object (PeerAuthentication x) = PeerAuthentication x"
| "inject_object (Sidecar x) = Sidecar x"
| "inject_object (AuthorizationPolicy x) = AuthorizationPolicy x"
| "inject_object (VirtualService x) = VirtualService x"
| "inject_object (ServiceEntry x) = ServiceEntry x"

definition injectHBonePorts :: "client_object list \<Rightarrow> client_object list" where
  "injectHBonePorts objs = map inject_object objs"

section \<open>Idempotence and frame\<close>

lemma is_hbone_port_injected [simp]: "is_hbone_port (int_port ''TCP'' hbonePort)"
  by (simp add: is_hbone_port_def int_port_def FromInt_def hbonePort_def)

lemma injectIntoPorts_again: "injectIntoPorts (fst (injectIntoPorts ports el)) el = (fst (injectIntoPorts ports el), False)"
  by (simp add: injectIntoPorts_def)

lemma inject_rule_again: "inject_rule (fst (inject_rule r)) = (fst (inject_rule r), False)"
  by (auto simp: inject_rule_def case_prod_unfold Let_def injectIntoPorts_again)

lemma inject_rule_unchanged: "\<not> snd (inject_rule r) \<Longrightarrow> fst (inject_rule r) = r"
  by (auto simp: inject_rule_def injectIntoPorts_def split: if_splits)

lemma inject_netpol_simps [simp]:
  "objGVK (inject_netpol np) = objGVK np" "omName (objMeta (inject_netpol np)) = omName (objMeta np)"
  "omNamespace (objMeta (inject_netpol np)) = omNamespace (objMeta np)"
  "omAnnotations (objMeta (inject_netpol np)) = omAnnotations (objMeta np)"
  "omOwnerReferences (objMeta (inject_netpol np)) = omOwnerReferences (objMeta np)"
  "npsPodSelector (objSpec (inject_netpol np)) = npsPodSelector (objSpec np)"
  "npsPolicyTypes (objSpec (inject_netpol np)) = npsPolicyTypes (objSpec np)"
  "npsEgress (objSpec (inject_netpol np)) = map (\<lambda>r. fst (inject_rule r)) (npsEgress (objSpec np))"
  "npsIngress (objSpec (inject_netpol np)) = map (\<lambda>r. fst (inject_rule r)) (npsIngress (objSpec np))"
  by (auto simp: inject_netpol_def Let_def)

lemma inject_netpol_unchanged:
  assumes "\<forall>r \<in> set (npsEgress (objSpec np)) \<union> set (npsIngress (objSpec np)). \<not> snd (inject_rule r)"
  shows "inject_netpol np = np"
proof -
  have "map fst (map inject_rule (npsEgress (objSpec np))) = npsEgress (objSpec np)"
    "map fst (map inject_rule (npsIngress (objSpec np))) = npsIngress (objSpec np)"
    using assms by (auto simp: inject_rule_unchanged intro!: map_idI)
  moreover have "\<not> list_ex snd (map inject_rule (npsEgress (objSpec np)))"
    "\<not> list_ex snd (map inject_rule (npsIngress (objSpec np)))"
    using assms by (auto simp: list_ex_iff)
  ultimately show ?thesis by (simp add: inject_netpol_def Let_def del: map_map list.map_comp)
qed

lemma inject_netpol_again: "inject_netpol (inject_netpol np) = inject_netpol np"
  by (rule inject_netpol_unchanged) (auto simp: inject_rule_again)

lemma kind_of_inject [simp]: "kind_of (inject_object x) = kind_of x"
  by (cases x) simp_all

lemma gvk_of_inject [simp]: "gvk_of (inject_object x) = gvk_of x"
  by (cases x) simp_all

lemma name_of_inject [simp]: "name_of (inject_object x) = name_of x" "namespace_of (inject_object x) = namespace_of x"
  by (cases x; simp)+

text \<open>C33: Injecting the HBONE port is idempotent, so a policy is never given the port twice, and it
  keeps the number, kinds, names and order of the objects.\<close>

theorem injectHBonePorts_idempotent:
  "injectHBonePorts (injectHBonePorts objs) = injectHBonePorts objs \<and>
   map kind_of (injectHBonePorts objs) = map kind_of objs \<and> map name_of (injectHBonePorts objs) = map name_of objs"
proof -
  have "inject_object (inject_object x) = inject_object x" for x by (cases x) (simp_all add: inject_netpol_again)
  then show ?thesis by (simp add: injectHBonePorts_def)
qed

end
