(* ===== verification/Netpol_Semantics.thy ===== *)
theory Netpol_Semantics
  imports Hbone
begin

text \<open>
  What the emitted NetworkPolicies mean: the documented semantics of the
  Kubernetes API (label selectors, peers, ports, isolation of selected pods) as
  a specification, and the theorems that relate the generator's output to it.
  Traffic is seen from a pod of the package's namespace, with \<open>lbl\<close> its labels.
\<close>

section \<open>The NetworkPolicy semantics\<close>

record endpoint =
  epIsPod :: bool
  epSameNamespace :: bool
  epNamespaceLabels :: "string \<Rightarrow> string option"
  epLabels :: "string \<Rightarrow> string option"
  epIP :: "byte list"

record traffic =
  trProtocol :: string
  trPort :: int
  trNamed :: "string \<Rightarrow> int option"

definition requirement_matches :: "label_requirement \<Rightarrow> (string \<Rightarrow> string option) \<Rightarrow> bool" where
  "requirement_matches r lbl =
     (if lrOperator r = ''In'' then (\<exists>v \<in> set (lrValues r). lbl (lrKey r) = Some v)
      else if lrOperator r = ''NotIn'' then (\<forall>v \<in> set (lrValues r). lbl (lrKey r) \<noteq> Some v)
      else if lrOperator r = ''Exists'' then lbl (lrKey r) \<noteq> None
      else if lrOperator r = ''DoesNotExist'' then lbl (lrKey r) = None
      else False)"

definition selector_matches :: "label_selector \<Rightarrow> (string \<Rightarrow> string option) \<Rightarrow> bool" where
  "selector_matches sel lbl \<longleftrightarrow>
     list_all (\<lambda>(k, v). lbl k = Some v) (entries (lsMatchLabels sel)) \<and>
     list_all (\<lambda>r. requirement_matches r lbl) (lsMatchExpressions sel)"

definition in_v4 :: "byte list \<times> nat \<Rightarrow> byte list \<Rightarrow> bool" where
  "in_v4 c ip \<longleftrightarrow> length ip = 4 \<and> list_all (\<lambda>k. addr_bit ip k = addr_bit (fst c) k) [0..<snd c]"

definition in_cidr :: "string \<Rightarrow> byte list \<Rightarrow> bool" where
  "in_cidr s ip = (case v4_cidr s of None \<Rightarrow> False | Some c \<Rightarrow> in_v4 c ip)"

definition block_matches :: "ip_block \<Rightarrow> byte list \<Rightarrow> bool" where
  "block_matches b ip \<longleftrightarrow>
     in_cidr (ibCIDR b) ip \<and> list_all (\<lambda>ex. \<not> in_cidr ex ip) (case ibExcept b of None \<Rightarrow> [] | Some l \<Rightarrow> l)"

definition peer_matches :: "netpol_peer \<Rightarrow> endpoint \<Rightarrow> bool" where
  "peer_matches p e =
     (case peerIPBlock p of
        Some b \<Rightarrow> block_matches b (epIP e)
      | None \<Rightarrow>
          epIsPod e \<and>
          (case peerNamespaceSelector p of None \<Rightarrow> epSameNamespace e | Some sel \<Rightarrow> selector_matches sel (epNamespaceLabels e)) \<and>
          (case peerPodSelector p of None \<Rightarrow> True | Some sel \<Rightarrow> selector_matches sel (epLabels e)))"

definition port_matches :: "netpol_port \<Rightarrow> traffic \<Rightarrow> bool" where
  "port_matches p t \<longleftrightarrow>
     trProtocol t = (case portProtocol p of None \<Rightarrow> ''TCP'' | Some q \<Rightarrow> q) \<and>
     (case portPort p of
        None \<Rightarrow> True
      | Some (IntVal w) \<Rightarrow>
          (case portEndPort p of None \<Rightarrow> trPort t = sint w | Some x \<Rightarrow> sint w \<le> trPort t \<and> trPort t \<le> sint x)
      | Some (StrVal s) \<Rightarrow> trNamed t s = Some (trPort t))"

definition rule_allows :: "netpol_rule \<Rightarrow> endpoint \<Rightarrow> traffic \<Rightarrow> bool" where
  "rule_allows r e t \<longleftrightarrow>
     (rulePeers r = [] \<or> list_ex (\<lambda>p. peer_matches p e) (rulePeers r)) \<and>
     (rulePorts r = [] \<or> list_ex (\<lambda>p. port_matches p t) (rulePorts r))"

datatype direction = Egress | Ingress

fun type_name :: "direction \<Rightarrow> string" where
  "type_name Egress = ''Egress''"
| "type_name Ingress = ''Ingress''"

fun rules_of :: "direction \<Rightarrow> netpol_spec \<Rightarrow> netpol_rule list" where
  "rules_of Egress s = npsEgress s"
| "rules_of Ingress s = npsIngress s"

definition applies :: "direction \<Rightarrow> (string \<Rightarrow> string option) \<Rightarrow> netpol_spec \<Rightarrow> bool" where
  "applies d lbl s \<longleftrightarrow> type_name d \<in> set (npsPolicyTypes s) \<and> selector_matches (npsPodSelector s) lbl"

definition policy_allows :: "direction \<Rightarrow> endpoint \<Rightarrow> traffic \<Rightarrow> netpol_spec \<Rightarrow> bool" where
  "policy_allows d e t s \<longleftrightarrow> list_ex (\<lambda>r. rule_allows r e t) (rules_of d s)"

definition allowed :: "direction \<Rightarrow> netpol_spec list \<Rightarrow> (string \<Rightarrow> string option) \<Rightarrow> endpoint \<Rightarrow> traffic \<Rightarrow> bool" where
  "allowed d ps lbl e t \<longleftrightarrow>
     filter (applies d lbl) ps = [] \<or> list_ex (policy_allows d e t) (filter (applies d lbl) ps)"

primrec netpols_in :: "client_object \<Rightarrow> netpol_spec list" where
  "netpols_in (NetworkPolicy np) = [objSpec np]"
| "netpols_in (PeerAuthentication x) = []"
| "netpols_in (Sidecar x) = []"
| "netpols_in (AuthorizationPolicy x) = []"
| "netpols_in (VirtualService x) = []"
| "netpols_in (ServiceEntry x) = []"

definition netpol_specs :: "client_object list \<Rightarrow> netpol_spec list" where
  "netpol_specs objs = concat (map netpols_in objs)"

lemma in_v4_iff: "in_v4 c ip \<longleftrightarrow> ip \<in> v4_range c"
  by (auto simp: in_v4_def v4_range_def list_all_iff)

lemma empty_selector_matches [simp]: "selector_matches empty_selector lbl"
  "selector_matches (selector_of (Some [])) lbl"
  by (simp_all add: selector_matches_def)

lemma selector_of_matches [simp]: "selector_matches (selector_of (Some [(k, v)])) lbl \<longleftrightarrow> lbl k = Some v"
  by (simp add: selector_matches_def)

section \<open>Default deny\<close>

lemma isolated_allowed_iff:
  assumes "s \<in> set ps" "applies d lbl s"
  shows "allowed d ps lbl e t \<longleftrightarrow> (\<exists>s \<in> set ps. applies d lbl s \<and> policy_allows d e t s)"
  using assms by (auto simp: allowed_def list_ex_iff filter_empty_conv)

lemma default_deny_present:
  assumes "generateNetworkPolicies X pkg spec ist env = Inr objs"
  shows "egressDenyAll spec \<Longrightarrow> egress_spec empty_selector [] \<in> set (netpol_specs objs)"
    and "ingressDenyAll spec \<Longrightarrow> ingress_spec empty_selector [] \<in> set (netpol_specs objs)"
  using assms
  by (auto simp: generateNetworkPolicies_def Let_def res_simps netpol_specs_def defaultEgressPolicies_def
      defaultIngressPolicies_def default_netpol_def)

text \<open>C8: With a default-deny policy in the output (its gate is on unless explicitly disabled), every pod of the
  namespace is isolated in that direction: traffic passes exactly when a rule of an emitted policy
  that selects the pod allows it, never because no policy applies.\<close>

theorem default_deny_isolates:
  assumes "generateNetworkPolicies X pkg spec ist env = Inr objs"
  shows "(egressDenyAll spec \<longrightarrow> allowed Egress (netpol_specs objs) lbl e t =
      (\<exists>s \<in> set (netpol_specs objs). applies Egress lbl s \<and> policy_allows Egress e t s)) \<and>
    (ingressDenyAll spec \<longrightarrow> allowed Ingress (netpol_specs objs) lbl e t =
      (\<exists>s \<in> set (netpol_specs objs). applies Ingress lbl s \<and> policy_allows Ingress e t s))"
proof -
  have "applies Egress lbl (egress_spec empty_selector [])" "applies Ingress lbl (ingress_spec empty_selector [])"
    by (simp_all add: applies_def)
  then show ?thesis using default_deny_present [OF assms] isolated_allowed_iff by blast
qed

definition sample_package :: package where
  "sample_package = \<lparr>pkgName = ''my-app'', pkgNamespace = ''apps'', pkgUID = ''u1'', pkgGeneration = 1, pkgDeleting = False,
     pkgSpec = \<lparr>psIstio = None, psNetworkPolicies = Some sample_netpol, psRoutes = None\<rparr>,
     pkgStatus = \<lparr>stObservedGeneration = 0, stConditions = [], stAppliedResources = []\<rparr>\<rparr>"

definition sample_env :: defsEnv where
  "sample_env = \<lparr>deKubeAPIPorts = [], deSharedEgress = None, deSharedIngress = None, deSharedErr = None\<rparr>"

theorem default_deny_isolates_witness:
  "\<exists>objs. generateNetworkPolicies sample_ext sample_package sample_netpol None sample_env = Inr objs \<and> egressDenyAll sample_netpol \<and>
     (\<forall>lbl e t. allowed Egress (netpol_specs objs) lbl e t =
        (\<exists>s \<in> set (netpol_specs objs). applies Egress lbl s \<and> policy_allows Egress e t s))"
proof -
  have deny: "egressDenyAll sample_netpol" by code_simp
  have "\<exists>objs. generateNetworkPolicies sample_ext sample_package sample_netpol None sample_env = Inr objs"
    by (simp add: generateNetworkPolicies_def sample_netpol_def)
  then obtain objs where "generateNetworkPolicies sample_ext sample_package sample_netpol None sample_env = Inr objs" by blast
  with default_deny_isolates [OF this] deny show ?thesis by blast
qed

section \<open>HBONE\<close>

lemma hbone_port_matches:
  "port_matches (int_port ''TCP'' hbonePort) t \<longleftrightarrow> trProtocol t = ''TCP'' \<and> trPort t = 15008"
  by (auto simp: port_matches_def int_port_def FromInt_def hbonePort_def)

text \<open>A port entry for 15008 may carry an end port; it still covers 15008 unless that range is empty.\<close>

lemma is_hbone_port_matches:
  "is_hbone_port p \<Longrightarrow> portEndPort p = None \<Longrightarrow> trProtocol t = ''TCP'' \<Longrightarrow> trPort t = 15008 \<Longrightarrow> port_matches p t"
  by (auto simp: is_hbone_port_def port_matches_def hbonePort_def split: option.splits int_or_string.splits)



section \<open>What a shorthand rule allows\<close>

lemma sint_port: "0 \<le> p \<Longrightarrow> p < 2 ^ 31 \<Longrightarrow> sint (word_of_int p :: 32 word) = p"
  by (simp add: sint_sbintrunc' signed_take_bit_int_eq_self)

lemma to_upper_protocols: "to_upper ''tcp'' = ''TCP''" "to_upper ''udp'' = ''UDP''" "to_upper ''TCP'' = ''TCP''" "to_upper ''UDP'' = ''UDP''"
  by code_simp+

definition ports_allow :: "string \<Rightarrow> int list \<Rightarrow> bool \<Rightarrow> traffic \<Rightarrow> bool" where
  "ports_allow proto ports hasRange t \<longleftrightarrow>
     ports = [] \<or> trProtocol t = proto \<and>
       (if hasRange then ports ! 0 \<le> trPort t \<and> trPort t \<le> ports ! 1 else trPort t \<in> set ports)"

lemma buildNetpolPorts_meaning:
  assumes "proto \<in> {''TCP'', ''UDP''}" "port_shape ports hasRange" "\<forall>p \<in> set ports. 0 \<le> p \<and> p < 2 ^ 31"
  shows "(buildNetpolPorts proto ports hasRange = [] \<or> list_ex (\<lambda>p. port_matches p t) (buildNetpolPorts proto ports hasRange)) \<longleftrightarrow>
    ports_allow proto ports hasRange t"
proof -
  have proto: "(if to_upper proto = ''UDP'' then ''UDP'' else ''TCP'') = proto"
    using assms(1) by (auto simp: to_upper_protocols)
  from assms(2) show ?thesis
  proof (cases rule: port_shape_cases)
    case 1
    then show ?thesis by (simp add: buildNetpolPorts_def ports_allow_def)
  next
    case (2 a b)
    with assms(3) have "sint (word_of_int a :: 32 word) = a" "sint (word_of_int b :: 32 word) = b"
      by (simp_all add: sint_port)
    with 2 show ?thesis
      by (simp add: buildNetpolPorts_def Let_def proto ports_allow_def port_matches_def FromInt_def)
  next
    case (3 p ps)
    have one: "port_matches (int_port proto q) t \<longleftrightarrow> trProtocol t = proto \<and> trPort t = q" if "q \<in> set ports" for q
      using assms(3) that by (simp add: port_matches_def int_port_def FromInt_def sint_port)
    have "buildNetpolPorts proto ports hasRange = map (int_port proto) ports" "ports \<noteq> []"
      using 3 by (simp_all add: buildNetpolPorts_def Let_def proto)
    then show ?thesis using 3 one by (auto simp: ports_allow_def list_ex_iff)
  qed
qed

definition remote_matches :: "parsedK8sRemote \<Rightarrow> endpoint \<Rightarrow> bool" where
  "remote_matches r e \<longleftrightarrow>
     epIsPod e \<and>
     (kNamespace r = ''*'' \<or> epNamespaceLabels e ''kubernetes.io/metadata.name'' = Some (kNamespace r)) \<and>
     (kPod r = [] \<or> kPod r = ''*'' \<or> epLabels e ''app.kubernetes.io/name'' = Some (kPod r))"

lemma remote_selectors_meaning:
  assumes "glen nsSel = 0" "glen podSel = 0"
  shows "peer_matches (selector_peer (Some (remoteNamespaceSelector (kNamespace r) nsSel))
      (Some (remotePodSelector (kPod r) podSel))) e \<longleftrightarrow> remote_matches r e"
  using assms
  by (auto simp: peer_matches_def remoteNamespaceSelector_def remotePodSelector_def remote_matches_def)

lemma proto_value_cases: "proto_ok p \<Longrightarrow> proto_value p \<in> {''TCP'', ''UDP''}"
  by (auto simp: proto_ok_def proto_value_def protoTCP_def to_upper_protocols)

lemma parsed_protocols:
  "parseEgressRemoteKey key = Inr r \<Longrightarrow> kProtocol r \<in> {''TCP'', ''UDP''}"
  "parseIngressLocalKey key = Inr l \<Longrightarrow> lProtocol l \<in> {''TCP'', ''UDP''}"
  "parseEgressCIDRKey key = Inr c \<Longrightarrow> pcProtocol c \<in> {''TCP'', ''UDP''}"
  by (auto simp: egress_key.parse_iff local_key.parse_iff egress_cidr.parse_iff dest: proto_value_cases)

lemma parsed_ports_nonneg:
  "parseEgressRemoteKey key = Inr r \<Longrightarrow> \<forall>p \<in> set (kPorts r). 0 \<le> p"
  "parseIngressLocalKey key = Inr l \<Longrightarrow> \<forall>p \<in> set (lPorts l). 0 \<le> p"
  "parseEgressCIDRKey key = Inr c \<Longrightarrow> \<forall>p \<in> set (pcPorts c). 0 \<le> p"
  by (auto simp: egress_key.parse_iff local_key.parse_iff egress_cidr.parse_iff dest: bspec [OF ports_value_nonneg])


definition sample_source :: shorthandSource where
  "sample_source = \<lparr>ssPodSelector = None, ssMetadata = None, ssTo = None, ssFrom = None\<rparr>"

definition sample_target :: shorthandTarget where
  "sample_target = \<lparr>stgEnabled = True, stgPodSelector = None, stgNamespaceSelector = None, stgMetadata = None\<rparr>"

definition sample_remote :: parsedK8sRemote where
  "sample_remote = \<lparr>kNamespace = ''db'', kPod = ''pg'', kIdentity = [], kProtocol = ''TCP'', kPorts = [5432], kHasPortRange = False\<rparr>"



definition sample_local :: parsedLocalIngressKey where
  "sample_local = \<lparr>lPod = ''web'', lProtocol = ''TCP'', lPorts = [8000, 9000], lHasPortRange = True\<rparr>"

definition sample_caller :: parsedK8sRemote where
  "sample_caller = \<lparr>kNamespace = ''apps'', kPod = [], kIdentity = ''sa'', kProtocol = ''TCP'', kPorts = [], kHasPortRange = False\<rparr>"


section \<open>Excluded addresses\<close>


definition sample_anywhere :: parsedCIDR where
  "sample_anywhere = \<lparr>pcCIDR = ''0.0.0.0/0'', pcProtocol = ''TCP'', pcPorts = [443], pcHasPortRange = False\<rparr>"


section \<open>A selector the parser loses\<close>

text \<open>C40: A definition's selector keeps only its labels: a peer authored with match expressions and no labels is
  parsed, without an error, into a peer that matches the pods of every namespace.\<close>

theorem definition_expressions_match_all:
  "\<exists>d p. parse_definition \<lparr>dvPorts = [],
      dvPeers = [\<lparr>dprIPBlock = None, dprNamespaceSelector = Some [(''matchExpressions'', Some (JArray es))], dprPodSelector = None\<rparr>]\<rparr> = Inr d \<and>
    rdPeers d = [p] \<and> peer_matches p e = epIsPod e"
  by (simp add: parse_definition_def typedPeer_def selectorFromTyped_def of_raw_def parseDefinitionPorts_def buildDefinition_def
      build_peer_def flattenMatchLabels_def string_entries_def peer_matches_def Let_def)

end
