(* ===== verification/Generator.thy ===== *)
theory Generator
  imports Authz Netpol_Semantics
begin

text \<open>
  The generator as a whole (\<open>pkg/generator/generator.go\<close>): \<open>Generate\<close> runs the passes in a fixed
  order, injects the HBONE port, and stamps metadata and type on every object. The theorem here says
  that it always returns; \<open>Generator_Guarantees\<close> says what it returns.
\<close>

definition Warnings :: "package \<Rightarrow> string list" where
  "Warnings pkg =
     (case psNetworkPolicies (pkgSpec pkg) of
        None \<Rightarrow> []
      | Some np \<Rightarrow>
          (case npDefaultsAsHooks np of
             None \<Rightarrow> []
           | Some h \<Rightarrow>
               if dhEnabled h = Some True
               then [''networkPolicies.defaultsAsHooks is ignored: the operator only reconciles persistent policies and does not manage Helm hooks'']
               else []))"

fun kind_name :: "go_kind \<Rightarrow> string" where
  "kind_name KNetworkPolicy = ''*v1.NetworkPolicy''"
| "kind_name KPeerAuthentication = ''*v1.PeerAuthentication''"
| "kind_name KSidecar = ''*v1.Sidecar''"
| "kind_name KAuthorizationPolicy = ''*v1.AuthorizationPolicy''"
| "kind_name KVirtualService = ''*v1.VirtualService''"
| "kind_name KServiceEntry = ''*v1.ServiceEntry''"

definition setGVK :: "(go_kind \<Rightarrow> gvk list res) \<Rightarrow> client_object \<Rightarrow> client_object res" where
  "setGVK scheme obj =
     rbind (rwrap ''gvk for %T: %w'' [kind_name (kind_of obj)] (scheme (kind_of obj))) (\<lambda>gvks.
     case gvks of
       [] \<Rightarrow> Inl (Errorf ''no GVK for %T'' [kind_name (kind_of obj)])
     | g # _ \<Rightarrow> Inr (set_gvk g obj))"

text \<open>The passes, up to the post-processing.\<close>

definition generate_passes :: "ext \<Rightarrow> input \<Rightarrow> package \<Rightarrow> resolvedInbound list \<Rightarrow> client_object list res" where
  "generate_passes X inp pkg inbound =
     (let spec = pkgSpec pkg;
          env = \<lparr>deKubeAPIPorts = inKubeAPIPorts inp, deSharedEgress = inSharedEgressDefinitions inp,
                 deSharedIngress = inSharedIngressDefinitions inp, deSharedErr = inSharedDefinitionsError inp\<rparr>
      in rbind (case psIstio spec of None \<Rightarrow> Inr []
                | Some i \<Rightarrow> if istEnabled i then rwrap ''istio: %w'' [] (generateIstio X pkg i) else Inr []) (\<lambda>istioObjs.
         rbind (case psNetworkPolicies spec of None \<Rightarrow> Inr []
                | Some np \<Rightarrow> if npEnabled np
                    then rwrap ''networkPolicies: %w'' [] (generateNetworkPolicies X pkg np (psIstio spec) env) else Inr []) (\<lambda>netpols.
         rbind (if psRoutes spec \<noteq> None then rwrap ''routes: %w'' [] (generateRoutes X pkg (psRoutes spec) inbound) else Inr []) (\<lambda>routeObjs.
         let defaults = generateDefaultAuthzPolicies pkg (psIstio spec) (psNetworkPolicies spec)
         in rbind (if psNetworkPolicies spec \<noteq> None
                   then rwrap ''authorizationPolicies: %w'' []
                     (generateAuthzFromIngressShorthand pkg (psNetworkPolicies spec) (psIstio spec)) else Inr []) (\<lambda>shorthandAPs.
            let routeAPs = (if psRoutes spec \<noteq> None then generateAuthzFromRoutes pkg (psRoutes spec) (psIstio spec) inbound else [])
            in rbind (rwrap ''authorizationPolicies: %w'' [] (generateCustomAuthzPolicies X (psIstio spec))) (\<lambda>customAPs.
               Inr (istioObjs @ netpols @ routeObjs @ defaults @ shorthandAPs @ routeAPs @ customAPs)))))))"

definition Generate :: "ext \<Rightarrow> input \<Rightarrow> client_object list res" where
  "Generate X inp =
     (case inPackage inp of
        None \<Rightarrow> Inl (Errorf ''generator: Package is nil'' [])
      | Some pkg \<Rightarrow>
          (case inScheme inp of
             None \<Rightarrow> Inl (Errorf ''generator: Scheme is nil'' [])
           | Some scheme \<Rightarrow>
               rbind (resolveInboundRoutes X inp) (\<lambda>inbound.
               rbind (generate_passes X inp pkg inbound) (\<lambda>out.
               let out = (if hboneEnabled (psNetworkPolicies (pkgSpec pkg)) (psIstio (pkgSpec pkg)) then injectHBonePorts out else out)
               in rmap (\<lambda>o'. setGVK scheme (stampMetadata pkg o')) out))))"

section \<open>Generation always returns\<close>

lemma safe_setGVK: "safe (scheme (kind_of x)) \<Longrightarrow> safe (setGVK scheme x)"
  by (auto simp: setGVK_def intro!: safe_rbind split: list.splits)

lemma safe_generate_passes:
  assumes "ext_returns X" "\<And>e. inSharedDefinitionsError inp = Some e \<Longrightarrow> is_go_error e"
    "ingress_ports_bounded (psNetworkPolicies (pkgSpec pkg))"
  shows "safe (generate_passes X inp pkg inbound)"
  using assms
  by (auto simp: generate_passes_def Let_def safe_generateIstio safe_generateRoutes safe_generateCustomAuthzPolicies
      safe_generateAuthzFromIngressShorthand intro!: safe_rbind safe_generateNetworkPolicies split: option.splits)

text \<open>What \<open>Generate\<close> is given: library code that returns, error values that are errors, and local ingress keys with
  port ranges below the largest integer.\<close>

definition input_ok :: "ext \<Rightarrow> input \<Rightarrow> bool" where
  "input_ok X inp \<longleftrightarrow>
     ext_returns X \<and> (\<forall>scheme k. inScheme inp = Some scheme \<longrightarrow> safe (scheme k)) \<and>
     (\<forall>e. inSharedDefinitionsError inp = Some e \<longrightarrow> is_go_error e) \<and>
     (\<forall>e. inSharedIngressConfigError inp = Some e \<longrightarrow> is_go_error e) \<and>
     (\<forall>pkg. inPackage inp = Some pkg \<longrightarrow> ingress_ports_bounded (psNetworkPolicies (pkgSpec pkg)))"

lemma safe_Generate:
  assumes "input_ok X inp"
  shows "safe (Generate X inp)"
  using assms
  by (auto simp: input_ok_def Generate_def Let_def
      intro!: safe_rbind safe_rmap safe_setGVK safe_resolveInboundRoutes safe_generate_passes split: option.splits)

text \<open>C3: Generate is total: on every package, however malformed its shorthand keys, raw JSON values, definitions or routes,
  it ends and returns either the objects or an ordinary error; no run-time panic is reachable.\<close>

theorem Generate_returns:
  assumes "input_ok X inp"
  shows "safe (Generate X inp)"
  using safe_Generate [OF assms] .

lemma ingress_ports_bounded_None: "ingress_ports_bounded None"
  by (simp add: ingress_ports_bounded_def)

theorem Generate_returns_witness: "safe (Generate sample_ext sample_input)"
proof (rule Generate_returns)
  show "input_ok sample_ext sample_input"
    by (simp add: input_ok_def sample_ext_returns sample_input_def route_package_def ingress_ports_bounded_None)
qed

end
