(* ===== verification/Generator_Guarantees.thy ===== *)
theory Generator_Guarantees
  imports Generator
begin

text \<open>
  What \<open>Generate\<close> returns: the metadata and type every object carries, and the kinds the switches of the
  specification allow. Each pass is shown to emit fresh objects of its kinds; post-processing then stamps them.
\<close>

section \<open>What every object carries\<close>

text \<open>An object as the passes leave it: no namespace and no owner yet, and a kind among \<open>K\<close>.\<close>

definition fresh :: "go_kind set \<Rightarrow> client_object \<Rightarrow> bool" where
  "fresh K x \<longleftrightarrow> kind_of x \<in> K \<and> namespace_of x = [] \<and> omOwnerReferences (meta_of x) = []"

lemma fresh_mono: "fresh K x \<Longrightarrow> K \<subseteq> L \<Longrightarrow> fresh L x"
  by (auto simp: fresh_def)

lemma fresh_istio: "emits (fresh {KPeerAuthentication, KSidecar, KServiceEntry}) (generateIstio X pkg i)"
  by (auto simp: generateIstio_def generateCustomServiceEntries_def custom_service_entry_def sidecarResource_def Let_def case_prod_unfold
      fresh_def res_simps intro!: emits_seq emits_rmap split: option.splits if_splits)

lemma fresh_default_netpols:
  "list_all (fresh {KNetworkPolicy}) (defaultEgressPolicies pkg np ist)"
  "list_all (fresh {KNetworkPolicy}) (defaultIngressPolicies pkg np ist)"
  by (auto simp: defaultEgressPolicies_def defaultIngressPolicies_def default_netpol_def fresh_def Let_def)

lemma fresh_emit_netpol:
  "omNamespace (objMeta np) = [] \<Longrightarrow> omOwnerReferences (objMeta np) = [] \<Longrightarrow> emits (fresh {KNetworkPolicy}) (emit_netpol src m np)"
  by (simp add: emit_netpol_def fresh_def)

lemma fresh_builders:
  "buildShorthandEgressNetpol pkg p l k src rk r t = Inr np \<Longrightarrow> omNamespace (objMeta np) = [] \<and> omOwnerReferences (objMeta np) = []"
  "buildShorthandIngressNetpol pkg p l q src rk r t = Inr np \<Longrightarrow> omNamespace (objMeta np) = [] \<and> omOwnerReferences (objMeta np) = []"
  "buildEgressCIDRNetpol pkg spec p l k src ck c = Inr np \<Longrightarrow> omNamespace (objMeta np) = [] \<and> omOwnerReferences (objMeta np) = []"
  "buildIngressCIDRNetpol pkg p l q src ck c = Inr np \<Longrightarrow> omNamespace (objMeta np) = [] \<and> omOwnerReferences (objMeta np) = []"
  "buildIngressDefinitionNetpol pkg p l q src d def = Inr np \<Longrightarrow> omNamespace (objMeta np) = [] \<and> omOwnerReferences (objMeta np) = []"
  "buildEgressLiteralNetpol X pkg p l k src rk lit = Inr np \<Longrightarrow> omNamespace (objMeta np) = [] \<and> omOwnerReferences (objMeta np) = []"
  "buildIngressLiteralNetpol X pkg p l q src rk lit = Inr np \<Longrightarrow> omNamespace (objMeta np) = [] \<and> omOwnerReferences (objMeta np) = []"
  by (auto simp: buildShorthandEgressNetpol_def buildShorthandIngressNetpol_def buildEgressCIDRNetpol_def buildIngressCIDRNetpol_def
      buildIngressDefinitionNetpol_def buildEgressLiteralNetpol_def buildIngressLiteralNetpol_def Let_def res_simps case_prod_unfold
      split: if_splits)

lemma fresh_egress_definition:
  "omNamespace (objMeta (buildEgressDefinitionNetpol pkg p l k src d def)) = []"
  "omOwnerReferences (objMeta (buildEgressDefinitionNetpol pkg p l k src d def)) = []"
  by (simp_all add: buildEgressDefinitionNetpol_def Let_def)

lemma fresh_egress_source: "emits (fresh {KNetworkPolicy}) (expand_egress_source X pkg np env k src to)"
  unfolding expand_egress_source_def Let_def
  by (intro emits_seq emits_range_sorted)
    (auto simp: rwrap_eq_Inr fresh_egress_definition intro!: emits_rbind fresh_emit_netpol dest: fresh_builders)

lemma fresh_ingress_source: "emits (fresh {KNetworkPolicy}) (expand_ingress_source X pkg np env k q src to)"
  unfolding expand_ingress_source_def Let_def
  by (intro emits_seq emits_range_sorted)
    (auto simp: rwrap_eq_Inr intro!: emits_rbind fresh_emit_netpol dest: fresh_builders)

lemma fresh_shorthand_egress: "emits (fresh {KNetworkPolicy}) (expandShorthandEgress X pkg np env)"
  by (auto simp: expandShorthandEgress_def fresh_egress_source
      intro!: emits_rbind emits_range_sorted split: option.splits)

lemma fresh_shorthand_ingress: "emits (fresh {KNetworkPolicy}) (expandShorthandIngress X pkg np env)"
  by (auto simp: expandShorthandIngress_def fresh_ingress_source
      intro!: emits_rbind emits_range_sorted split: option.splits)

lemma fresh_netpols: "emits (fresh {KNetworkPolicy}) (generateNetworkPolicies X pkg np ist env)"
proof -
  have add: "emits (fresh {KNetworkPolicy}) (rmap (buildAdditionalPolicy X pkg np) ps)" for ps
    by (rule emits_rmap) (auto simp: buildAdditionalPolicy_def Let_def fresh_def res_simps split: if_splits)
  show ?thesis unfolding generateNetworkPolicies_def Let_def
    by (intro emits_seq) (auto simp: fresh_default_netpols fresh_shorthand_egress fresh_shorthand_ingress add)
qed

lemma fresh_default_authz: "list_all (fresh {KAuthorizationPolicy}) (generateDefaultAuthzPolicies pkg ist np)"
  by (auto simp: generateDefaultAuthzPolicies_def fresh_def split: option.splits)

lemma fresh_authz_builders:
  "buildAuthzFromShorthand pkg p l src rk r = Inr ap \<Longrightarrow> omNamespace (objMeta ap) = [] \<and> omOwnerReferences (objMeta ap) = []"
  "buildAuthzFromCIDR pkg p l src ck c = Inr ap \<Longrightarrow> omNamespace (objMeta ap) = [] \<and> omOwnerReferences (objMeta ap) = []"
  by (auto simp: buildAuthzFromShorthand_def buildAuthzFromCIDR_def Let_def case_prod_unfold res_simps)

lemma fresh_authz_source: "emits (fresh {KAuthorizationPolicy}) (authz_from_source pkg p k q src peer)"
  unfolding authz_from_source_def
  by (intro emits_seq emits_range_sorted)
    (auto simp: emit_authz_def fresh_def intro!: emits_rbind dest: fresh_authz_builders)

lemma fresh_shorthand_authz: "emits (fresh {KAuthorizationPolicy}) (generateAuthzFromIngressShorthand pkg np ist)"
  by (auto simp: generateAuthzFromIngressShorthand_def fresh_authz_source
      intro!: emits_rbind emits_range_sorted split: option.splits)

lemma fresh_route_authz: "list_all (fresh {KAuthorizationPolicy}) (generateAuthzFromRoutes pkg rts ist inbound)"
  by (auto simp: generateAuthzFromRoutes_def list_all_iff fresh_def buildAuthzFromRoute_def Let_def split: option.splits)

lemma fresh_custom_authz: "emits (fresh {KAuthorizationPolicy}) (generateCustomAuthzPolicies X ist)"
proof -
  have "custom_authz X ie = Inr y \<Longrightarrow> fresh {KAuthorizationPolicy} y" for ie y
    by (auto simp: custom_authz_def buildRawAuthzPolicy_def Let_def case_prod_unfold fresh_def res_simps split: if_splits)
  moreover have "emits (fresh {KAuthorizationPolicy}) (additional_authz_policy X k e)" for k e
    by (auto simp: additional_authz_policy_def buildAdditionalAuthzPolicy_def Let_def fresh_def res_simps intro!: emits_rbind)
  ultimately show ?thesis
    by (auto simp: generateCustomAuthzPolicies_def intro!: emits_seq emits_rmap emits_range_sorted split: option.splits)
qed

lemma fresh_route_passes:
  "emits (fresh ({KVirtualService, KServiceEntry} \<union> (if b then {KNetworkPolicy} else {}))) (generate_inbound X pkg p b r)"
  "emits (fresh {KVirtualService, KServiceEntry}) (generate_outbound pkg p n raw)"
proof -
  have vs: "buildVirtualService X pkg p n r = Inr x \<Longrightarrow> fresh {KVirtualService} x" for p n r x
    by (auto simp: buildVirtualService_def Let_def fresh_def res_simps split: option.splits if_splits)
  show "emits (fresh {KVirtualService, KServiceEntry}) (generate_outbound pkg p n raw)"
    by (auto simp: generate_outbound_def buildOutboundServiceEntry_def Let_def fresh_def intro!: emits_rbind)
  show "emits (fresh ({KVirtualService, KServiceEntry} \<union> (if b then {KNetworkPolicy} else {}))) (generate_inbound X pkg p b r)"
    by (auto simp: generate_inbound_def Let_def buildInboundNetpols_def list_all_iff buildInboundServiceEntry_def inbound_netpol_def
        fresh_def dest!: vs intro!: emits_rbind)
qed

definition netpols_on :: "package_spec \<Rightarrow> bool" where
  "netpols_on spec = (case psNetworkPolicies spec of None \<Rightarrow> False | Some np \<Rightarrow> npEnabled np)"

definition istio_on :: "package_spec \<Rightarrow> bool" where
  "istio_on spec = (case psIstio spec of None \<Rightarrow> False | Some i \<Rightarrow> istEnabled i)"

definition pass_kinds :: "package_spec \<Rightarrow> go_kind set" where
  "pass_kinds spec =
     (if istio_on spec then {KPeerAuthentication, KSidecar, KServiceEntry} else {}) \<union>
     (if netpols_on spec then {KNetworkPolicy} else {}) \<union>
     (if psRoutes spec \<noteq> None then {KVirtualService, KServiceEntry} else {}) \<union>
     (if psIstio spec \<noteq> None then {KAuthorizationPolicy} else {})"

lemma fresh_route_objects:
  "emits (fresh ({KVirtualService, KServiceEntry} \<union> (if netpols_on (pkgSpec pkg) then {KNetworkPolicy} else {}))) 
     (generateRoutes X pkg (Some rt) inbound)"
proof -
  let ?K = "{KVirtualService, KServiceEntry} \<union> (if netpols_on (pkgSpec pkg) then {KNetworkPolicy} else {})"
  have out: "emits (fresh ?K) (generate_outbound pkg p n raw)" for p n raw
    by (rule emits_mono [OF fresh_route_passes(2)]) (auto intro: fresh_mono)
  show ?thesis
    unfolding generateRoutes_def Let_def option.case netpols_on_def [symmetric]
    by (intro emits_seq emits_for_each emits_range_sorted fresh_route_passes(1) out) simp
qed

lemma authz_none: "generateDefaultAuthzPolicies pkg None np = []" "generateAuthzFromIngressShorthand pkg np None = Inr []"
  "generateAuthzFromRoutes pkg rts None inbound = []" "generateCustomAuthzPolicies X None = Inr []"
  by (auto simp: generateDefaultAuthzPolicies_def generateAuthzFromIngressShorthand_def generateAuthzFromRoutes_def
    generateCustomAuthzPolicies_def authzEnabled_def split: option.splits)

lemma passes_fresh: "emits (fresh (pass_kinds (pkgSpec pkg))) (generate_passes X inp pkg inbound)"
proof -
  let ?spec = "pkgSpec pkg"
  let ?P = "fresh (pass_kinds ?spec)"
  have on: "emits ?P r" if "emits (fresh K) r" "K \<subseteq> pass_kinds ?spec" for K r
    using emits_mono [OF that(1)] fresh_mono that(2) by blast
  have onl: "list_all ?P r" if "list_all (fresh K) r" "K \<subseteq> pass_kinds ?spec" for K r
    using that by (auto simp: list_all_iff intro: fresh_mono)
  have istio: "emits ?P (generateIstio X pkg i)" if "psIstio ?spec = Some i" "istEnabled i" for i
    by (rule on [OF fresh_istio]) (auto simp: that pass_kinds_def istio_on_def)
  have netpols: "emits ?P (generateNetworkPolicies X pkg np (psIstio ?spec) env)"
    if "psNetworkPolicies ?spec = Some np" "npEnabled np" for np env
    by (rule on [OF fresh_netpols]) (auto simp: that pass_kinds_def netpols_on_def)
  have routes: "emits ?P (generateRoutes X pkg (Some rt) inbound)" if "psRoutes ?spec = Some rt" for rt
    by (rule on [OF fresh_route_objects]) (auto simp: that pass_kinds_def)
  have authz: "list_all ?P (generateDefaultAuthzPolicies pkg (psIstio ?spec) np) \<and>
    emits ?P (generateAuthzFromIngressShorthand pkg np (psIstio ?spec)) \<and>
    list_all ?P (generateAuthzFromRoutes pkg rts (psIstio ?spec) inbound) \<and>
    emits ?P (generateCustomAuthzPolicies X (psIstio ?spec))" for np rts
  proof (cases "psIstio ?spec = None")
    case False
    then have "{KAuthorizationPolicy} \<subseteq> pass_kinds ?spec" by (simp add: pass_kinds_def)
    then show ?thesis
      by (simp add: on [OF fresh_shorthand_authz] on [OF fresh_custom_authz] onl [OF fresh_default_authz] onl [OF fresh_route_authz])
  qed (simp add: authz_none)
  show ?thesis
    unfolding generate_passes_def Let_def
    by (intro emits_seq) (auto simp: authz istio netpols routes split: option.splits)
qed


lemma Generate_InrD:
  assumes "Generate X inp = Inr objs"
  obtains pkg scheme inbound out where "inPackage inp = Some pkg" "inScheme inp = Some scheme"
    "resolveInboundRoutes X inp = Inr inbound" "generate_passes X inp pkg inbound = Inr out"
    "rmap (\<lambda>x. setGVK scheme (stampMetadata pkg x))
       (if hboneEnabled (psNetworkPolicies (pkgSpec pkg)) (psIstio (pkgSpec pkg)) then injectHBonePorts out else out) = Inr objs"
  using assms by (auto simp: Generate_def Let_def res_simps split: option.splits)

lemma setGVK_InrD: "setGVK scheme x = Inr y \<Longrightarrow> \<exists>g gs. scheme (kind_of x) = Inr (g # gs) \<and> y = set_gvk g x"
  by (cases "scheme (kind_of x)") (auto simp: setGVK_def split: list.split_asm)

lemma fresh_inject [simp]: "fresh K (inject_object x) = fresh K x"
  by (cases x) (simp_all add: fresh_def)

lemma rmap_in: "rmap f xs = Inr ys \<Longrightarrow> y \<in> set ys \<Longrightarrow> \<exists>x \<in> set xs. f x = Inr y"
  by (auto simp: rmap_Inr_iff list_all2_conv_all_nth in_set_conv_nth) fastforce

lemma Generate_object:
  assumes "Generate X inp = Inr objs" "y \<in> set objs"
  obtains pkg scheme x gs where "inPackage inp = Some pkg" "inScheme inp = Some scheme"
    "fresh (pass_kinds (pkgSpec pkg)) x" "scheme (kind_of x) = Inr (gvk_of y # gs)"
    "y = set_gvk (gvk_of y) (stampMetadata pkg x)"
  using assms(1)
proof (rule Generate_InrD)
  fix pkg scheme inbound out
  assume *: "inPackage inp = Some pkg" "inScheme inp = Some scheme"
    "generate_passes X inp pkg inbound = Inr out"
    "rmap (\<lambda>x. setGVK scheme (stampMetadata pkg x))
       (if hboneEnabled (psNetworkPolicies (pkgSpec pkg)) (psIstio (pkgSpec pkg)) then injectHBonePorts out else out) = Inr objs"
  let ?out = "if hboneEnabled (psNetworkPolicies (pkgSpec pkg)) (psIstio (pkgSpec pkg)) then injectHBonePorts out else out"
  have "\<exists>x \<in> set ?out. setGVK scheme (stampMetadata pkg x) = Inr y"
    using rmap_in [OF *(4) assms(2)] .
  then obtain x where x: "x \<in> set ?out" "setGVK scheme (stampMetadata pkg x) = Inr y" by blast
  have "fresh (pass_kinds (pkgSpec pkg)) x"
    using x(1) emitsD [OF passes_fresh *(3)] by (auto simp: injectHBonePorts_def split: if_splits)
  with x(2) * that show thesis by (auto dest!: setGVK_InrD)
qed


lemma Generate_stamped:
  assumes "Generate X inp = Inr objs" "inPackage inp = Some pkg" "inScheme inp = Some scheme" "y \<in> set objs"
  shows "glookup (labels_of y) LabelPackage = Some (pkgName pkg) \<and>
    glookup (labels_of y) LabelManagedBy \<noteq> None \<and>
    namespace_of y = pkgNamespace pkg \<and> omOwnerReferences (meta_of y) = [owner_of pkg] \<and>
    (\<exists>gs. scheme (kind_of y) = Inr (gvk_of y # gs))"
  using assms(1,4)
proof (rule Generate_object)
  fix pkg' scheme' x gs
  assume *: "inPackage inp = Some pkg'" "inScheme inp = Some scheme'" "fresh (pass_kinds (pkgSpec pkg')) x"
    "scheme' (kind_of x) = Inr (gvk_of y # gs)" "y = set_gvk (gvk_of y) (stampMetadata pkg' x)"
  then have pkg: "pkg' = pkg" "scheme' = scheme" using assms(2,3) by simp_all
  from *(5) have "meta_of y = meta_of (stampMetadata pkg x)" "kind_of y = kind_of x"
    unfolding pkg by (metis meta_of_set_gvk, metis kind_of_set(2) stampMetadata_rest(1))
  with *(3,4) pkg show ?thesis
    by (auto simp: meta_of_stampMetadata gomap_simps fresh_def split: option.splits)
qed

text \<open>C4: Every object that Generate returns carries the label of its package and a managed-by label, lives in the
  package's namespace, has the package as its one owner, and is typed with the first group, version and
  kind that the scheme registers for its Go type. Pruning and garbage collection rest on this.\<close>

theorem Generate_objects_stamped:
  assumes "Generate X inp = Inr objs" "inPackage inp = Some pkg" "inScheme inp = Some scheme" "y \<in> set objs"
  shows "glookup (labels_of y) LabelPackage = Some (pkgName pkg) \<and>
    glookup (labels_of y) LabelManagedBy \<noteq> None \<and>
    namespace_of y = pkgNamespace pkg \<and> omOwnerReferences (meta_of y) = [owner_of pkg] \<and>
    (\<exists>gs. scheme (kind_of y) = Inr (gvk_of y # gs))"
  using Generate_stamped [OF assms] .

theorem Generate_objects_stamped_witness:
  "\<exists>objs y. Generate gateway_ext sample_input = Inr objs \<and> y \<in> set objs \<and>
     glookup (labels_of y) LabelPackage = Some ''my-app'' \<and> namespace_of y = ''apps'' \<and>
     omOwnerReferences (meta_of y) = [owner_of route_package]"
proof -
  have "(case Generate gateway_ext sample_input of Inl _ \<Rightarrow> False | Inr objs \<Rightarrow> objs \<noteq> [])" by code_simp
  then obtain objs where objs: "Generate gateway_ext sample_input = Inr objs" "hd objs \<in> set objs" by (auto split: sum.splits)
  show ?thesis
    using Generate_objects_stamped [OF objs(1) _ _ objs(2), of route_package "\<lambda>k. Inr [\<lparr>gvkGroup = ''g'', gvkVersion = ''v1'', gvkKind = ''K''\<rparr>]"] objs
    by (auto simp: sample_input_def) (auto simp: route_package_def)
qed

text \<open>C34: The switches of the specification bound what is generated: NetworkPolicies only with networkPolicies enabled,
  PeerAuthentications and Sidecars only with istio enabled, VirtualServices only with routes, ServiceEntries only with
  one of the two, AuthorizationPolicies only with an istio section. The same switches hold for the companions of routes.\<close>

theorem Generate_gated:
  assumes "Generate X inp = Inr objs" "inPackage inp = Some pkg" "y \<in> set objs"
  shows "case kind_of y of
       KNetworkPolicy \<Rightarrow> netpols_on (pkgSpec pkg)
     | KPeerAuthentication \<Rightarrow> istio_on (pkgSpec pkg)
     | KSidecar \<Rightarrow> istio_on (pkgSpec pkg)
     | KServiceEntry \<Rightarrow> istio_on (pkgSpec pkg) \<or> psRoutes (pkgSpec pkg) \<noteq> None
     | KVirtualService \<Rightarrow> psRoutes (pkgSpec pkg) \<noteq> None
     | KAuthorizationPolicy \<Rightarrow> psIstio (pkgSpec pkg) \<noteq> None"
  using assms(1,3)
proof (rule Generate_object)
  fix pkg' scheme x gs
  assume *: "inPackage inp = Some pkg'" "fresh (pass_kinds (pkgSpec pkg')) x" "y = set_gvk (gvk_of y) (stampMetadata pkg' x)"
  have "kind_of y = kind_of x" using *(3) by (metis kind_of_set(2) stampMetadata_rest(1))
  with * assms(2) show ?thesis by (auto simp: fresh_def pass_kinds_def split: if_splits go_kind.splits)
qed

theorem Generate_gated_witness:
  "\<exists>objs y. Generate gateway_ext sample_input = Inr objs \<and> y \<in> set objs \<and> kind_of y \<noteq> KNetworkPolicy \<and> \<not> netpols_on (pkgSpec route_package)"
proof -
  have "(case Generate gateway_ext sample_input of Inl _ \<Rightarrow> False | Inr objs \<Rightarrow> objs \<noteq> [])" by code_simp
  then obtain objs where objs: "Generate gateway_ext sample_input = Inr objs" "hd objs \<in> set objs" by (auto split: sum.splits)
  moreover have "\<not> netpols_on (pkgSpec route_package)" by (simp add: netpols_on_def route_package_def)
  ultimately show ?thesis
    using Generate_gated [OF objs(1) _ objs(2), of route_package] by (auto simp: sample_input_def)
qed

end
