(* ===== verification/Api_Client.thy ===== *)
theory Api_Client
  imports Keyed_List Go_Fmt Generator_Guarantees
begin

text \<open>
  The Kubernetes API as the controller sees it (\<open>client.Client\<close>, \<open>client.Reader\<close>, \<open>record.EventRecorder\<close>,
  \<open>metav1.Now\<close>): third-party code, hence functions over an abstract world \<open>'w\<close> that every definition of the
  controller takes as an argument. A write returns the object as the server answered, which Go decodes
  back into the argument; \<open>clPatch\<close> is a server-side apply with forced ownership, for a field owner. The laws below are what the theorems on convergence rely on.
\<close>

text \<open>The typed lists the controller passes to \<open>List\<close>.\<close>

datatype object_list =
    NetworkPolicyList "netpol_spec k8s_object list"
  | PeerAuthenticationList "mtls_mode k8s_object list"
  | AuthorizationPolicyList "ap_spec k8s_object list"
  | VirtualServiceList "virtual_service k8s_object list"
  | ServiceEntryList "se_spec k8s_object list"
  | SidecarList "outbound_mode k8s_object list"

primrec list_kind :: "object_list \<Rightarrow> go_kind" where
  "list_kind (NetworkPolicyList xs) = KNetworkPolicy"
| "list_kind (PeerAuthenticationList xs) = KPeerAuthentication"
| "list_kind (AuthorizationPolicyList xs) = KAuthorizationPolicy"
| "list_kind (VirtualServiceList xs) = KVirtualService"
| "list_kind (ServiceEntryList xs) = KServiceEntry"
| "list_kind (SidecarList xs) = KSidecar"

record 'w api_client =
  clGetPackage :: "'w \<Rightarrow> string \<Rightarrow> string \<Rightarrow> package res"
  clGetConfigMap :: "'w \<Rightarrow> string \<Rightarrow> string \<Rightarrow> string gomap res"
  clGetService :: "'w \<Rightarrow> string \<Rightarrow> string \<Rightarrow> int_or_string list res"
  clListPackages :: "'w \<Rightarrow> package list res"
  clIsNotFound :: "gerror \<Rightarrow> bool"
  clPatch :: "'w \<Rightarrow> string \<Rightarrow> client_object \<Rightarrow> client_object res \<times> 'w"
  clList :: "'w \<Rightarrow> object_list \<Rightarrow> string \<Rightarrow> string gomap \<Rightarrow> object_list res"
  clDelete :: "'w \<Rightarrow> client_object \<Rightarrow> unit res \<times> 'w"
  clStatusUpdate :: "'w \<Rightarrow> package \<Rightarrow> package res \<times> 'w"
  clNow :: "'w \<Rightarrow> nat \<times> 'w"


section \<open>Laws of the object store\<close>

text \<open>
  What the API documents of an object store, stated over the contents \<open>V w\<close> of the store in the world \<open>w\<close>: server-side
  apply with forced ownership creates or replaces one object and sets every label that was applied; a delete that
  succeeds removes one object, and one that reports not found found none; a list returns the objects of a
  kind in a namespace that carry the labels, each with its type as the manager's client sets it. Lists are those
  of an up-to-date cache, and objects have no finalizers.
\<close>

type_synonym obj_key = "go_kind \<times> string \<times> string"

type_synonym obj_store = "obj_key \<Rightarrow> client_object option"

definition obj_key :: "client_object \<Rightarrow> obj_key" where
  "obj_key x = (kind_of x, namespace_of x, name_of x)"

definition patch_law :: "'w api_client \<Rightarrow> ('w \<Rightarrow> obj_store) \<Rightarrow> bool" where
  "patch_law C V \<longleftrightarrow>
     (\<forall>w fm x y w'. clPatch C w fm x = (Inr y, w') \<longrightarrow>
        obj_key y = obj_key x \<and> gvk_of y = gvk_of x \<and>
        (\<forall>l v. glookup (labels_of x) l = Some v \<longrightarrow> glookup (labels_of y) l = Some v) \<and>
        V w' = (V w)(obj_key x \<mapsto> y))"

definition delete_law :: "'w api_client \<Rightarrow> ('w \<Rightarrow> obj_store) \<Rightarrow> bool" where
  "delete_law C V \<longleftrightarrow>
     (\<forall>w x u w'. clDelete C w x = (Inr u, w') \<longrightarrow> V w' = (V w)(obj_key x := None)) \<and>
     (\<forall>w x e w'. clDelete C w x = (Inl e, w') \<longrightarrow> clIsNotFound C e \<longrightarrow> V w (obj_key x) = None \<and> V w' = V w)"

definition has_labels :: "string gomap \<Rightarrow> client_object \<Rightarrow> bool" where
  "has_labels ls x \<longleftrightarrow> list_all (\<lambda>(l, v). glookup (labels_of x) l = Some v) (entries ls)"

definition typed_by :: "(go_kind \<Rightarrow> gvk list res) \<Rightarrow> client_object \<Rightarrow> bool" where
  "typed_by scheme x \<longleftrightarrow> (\<exists>gs. scheme (kind_of x) = Inr (gvk_of x # gs))"

definition list_law :: "'w api_client \<Rightarrow> ('w \<Rightarrow> obj_store) \<Rightarrow> (object_list \<Rightarrow> client_object list res) \<Rightarrow> (go_kind \<Rightarrow> gvk list res) \<Rightarrow> bool" where
  "list_law C V items_of scheme \<longleftrightarrow>
     (\<forall>w l ns ls l' items. clList C w l ns ls = Inr l' \<longrightarrow> items_of l' = Inr items \<longrightarrow>
        (\<forall>x \<in> set items. typed_by scheme x) \<and>
        obj_key ` set items = {k. \<exists>x. V w k = Some x \<and> fst k = list_kind l \<and> fst (snd k) = ns \<and> has_labels ls x})"

text \<open>A scheme that registers every Go type, each under a type of its own.\<close>

definition scheme_ok :: "(gvk \<Rightarrow> string) \<Rightarrow> (go_kind \<Rightarrow> gvk list res) \<Rightarrow> bool" where
  "scheme_ok str scheme \<longleftrightarrow>
     (\<forall>k g gs. scheme k = Inr (g # gs) \<longrightarrow> CHR ''|'' \<notin> set (str g) \<and>
        (\<forall>k' gs'. \<forall>g'. scheme k' = Inr (g' # gs') \<longrightarrow> str g = str g' \<longrightarrow> k = k'))"

end
