(* ===== verification/Status.thy ===== *)
theory Status
  imports Api_Client "HOL-Library.Product_Lexorder" "HOL-Library.Multiset"
begin

text \<open>
  Status machinery (\<open>internal/controller/status.go\<close>): conditions kept one per type, the transitions to
  reconciling, failed and ready, and the summary of applied resources. The lemmas say that each
  transition leaves exactly the conditions of its phase, and that the summary is the one sorted listing of
  the objects.
\<close>

section \<open>Conditions\<close>

fun upsert_condition :: "status_condition \<Rightarrow> status_condition list \<Rightarrow> status_condition list" where
  "upsert_condition c [] = [c]"
| "upsert_condition c (existing # rest) =
     (if cType existing \<noteq> cType c then existing # upsert_condition c rest
      else (if cStatus existing = cStatus c then c\<lparr>cLastTransitionTime := cLastTransitionTime existing\<rparr> else c) # rest)"

fun drop_condition :: "string \<Rightarrow> status_condition list \<Rightarrow> status_condition list" where
  "drop_condition condType [] = []"
| "drop_condition condType (existing # rest) =
     (if cType existing = condType then rest else existing # drop_condition condType rest)"

definition set_status :: "(package_status \<Rightarrow> package_status) \<Rightarrow> package \<Rightarrow> package" where
  "set_status f pkg = pkg\<lparr>pkgStatus := f (pkgStatus pkg)\<rparr>"

definition setCondition :: "status_condition \<Rightarrow> package \<Rightarrow> package" where
  "setCondition c = set_status (\<lambda>s. s\<lparr>stConditions := upsert_condition c (stConditions s)\<rparr>)"

definition removeCondition :: "string \<Rightarrow> package \<Rightarrow> package" where
  "removeCondition condType = set_status (\<lambda>s. s\<lparr>stConditions := drop_condition condType (stConditions s)\<rparr>)"

section \<open>Summary\<close>

text \<open>\<open>schema.GroupVersion.String()\<close>.\<close>

definition group_version :: "gvk \<Rightarrow> string" where
  "group_version g = (if gvkGroup g \<noteq> [] then gvkGroup g @ ''/'' @ gvkVersion g else gvkVersion g)"

definition resource_of :: "client_object \<Rightarrow> applied_resource" where
  "resource_of x = \<lparr>arAPIVersion = group_version (gvk_of x), arKind = gvkKind (gvk_of x), arName = name_of x\<rparr>"

definition summarize :: "client_object list \<Rightarrow> applied_resource list" where
  "summarize objs = sort_key (\<lambda>r. (arKind r, arName r)) (map resource_of objs)"

section \<open>Transitions\<close>

definition reconciling_status :: "nat \<Rightarrow> package \<Rightarrow> package" where
  "reconciling_status t pkg =
     setCondition \<lparr>cType = ''Reconciling'', cStatus = ''True'', cReason = ''Progressing'',
       cMessage = Text (''reconciling generation '' @ itoa (pkgGeneration pkg)),
       cObservedGeneration = pkgGeneration pkg, cLastTransitionTime = t\<rparr> pkg"

definition markReconciling :: "'w api_client \<Rightarrow> package \<Rightarrow> 'w \<Rightarrow> package res \<times> 'w" where
  "markReconciling C pkg w =
     (let (t, w) = clNow C w;
          pkg = reconciling_status t pkg
      in clStatusUpdate C w pkg)"

definition failed_status :: "string \<Rightarrow> gerror \<Rightarrow> nat \<Rightarrow> nat \<Rightarrow> package \<Rightarrow> package" where
  "failed_status reason err t1 t2 pkg =
     (let gen = pkgGeneration pkg;
          pkg = setCondition \<lparr>cType = ''Ready'', cStatus = ''False'', cReason = reason, cMessage = ErrorText err,
            cObservedGeneration = gen, cLastTransitionTime = t1\<rparr> pkg;
          pkg = setCondition \<lparr>cType = ''Stalled'', cStatus = ''True'', cReason = reason, cMessage = ErrorText err,
            cObservedGeneration = gen, cLastTransitionTime = t2\<rparr> pkg;
          pkg = removeCondition ''Reconciling'' pkg
      in set_status (\<lambda>s. s\<lparr>stObservedGeneration := gen\<rparr>) pkg)"

definition markFailed :: "'w api_client \<Rightarrow> package \<Rightarrow> string \<Rightarrow> gerror \<Rightarrow> 'w \<Rightarrow> unit res \<times> package \<times> 'w" where
  "markFailed C pkg reason err w =
     (let (t1, w) = clNow C w; (t2, w) = clNow C w; pkg = failed_status reason err t1 t2 pkg
      in case clStatusUpdate C w pkg of
           (Inl statusErr, w) \<Rightarrow>
             (Inl (wrapf ''status update after %s: %v (original: %w)'' [reason, error_string statusErr] err), pkg, w)
         | (Inr pkg, w) \<Rightarrow> (Inl err, pkg, w))"

definition ready_status :: "client_object list \<Rightarrow> nat \<Rightarrow> package \<Rightarrow> package" where
  "ready_status desired t pkg =
     (let gen = pkgGeneration pkg;
          pkg = setCondition \<lparr>cType = ''Ready'', cStatus = ''True'', cReason = ''ResourcesApplied'',
            cMessage = Text ''bb-common resources reconciled'', cObservedGeneration = gen, cLastTransitionTime = t\<rparr> pkg;
          pkg = removeCondition ''Stalled'' pkg;
          pkg = removeCondition ''Reconciling'' pkg
      in set_status (\<lambda>s. s\<lparr>stObservedGeneration := gen, stAppliedResources := summarize desired\<rparr>) pkg)"

definition markReady :: "'w api_client \<Rightarrow> package \<Rightarrow> client_object list \<Rightarrow> 'w \<Rightarrow> unit res \<times> package \<times> 'w" where
  "markReady C pkg desired w =
     (let (t, w) = clNow C w; pkg = ready_status desired t pkg
      in case clStatusUpdate C w pkg of (Inl err, w) \<Rightarrow> (Inl err, pkg, w) | (Inr pkg, w) \<Rightarrow> (Inr (), pkg, w))"

section \<open>Conditions are a map\<close>

definition keep_transition :: "status_condition \<Rightarrow> status_condition \<Rightarrow> status_condition" where
  "keep_transition old c = (if cStatus old = cStatus c then c\<lparr>cLastTransitionTime := cLastTransitionTime old\<rparr> else c)"

interpretation conditions: keyed_list_remove cType keep_transition upsert_condition drop_condition
proof
  fix c :: status_condition and k xs
  show "map cType (upsert_condition c xs) = map cType xs @ (if cType c \<in> cType ` set xs then [] else [cType c])"
    by (induction xs) auto
  show "find_key cType k (upsert_condition c xs) =
      (if k = cType c then Some (case find_key cType k xs of None \<Rightarrow> c | Some e \<Rightarrow> keep_transition e c) else find_key cType k xs)"
    by (induction xs) (auto simp: keep_transition_def)
  show "distinct (map cType xs) \<Longrightarrow> set (drop_condition k xs) = {x \<in> set xs. cType x \<noteq> k}"
    by (induction xs) (auto simp: rev_image_eqI)
  have "set (drop_condition k xs) \<subseteq> set xs" for xs by (induction xs) auto
  then show "distinct (map cType xs) \<Longrightarrow> distinct (map cType (drop_condition k xs))"
    by (induction xs) auto
qed


definition condition :: "package \<Rightarrow> string \<Rightarrow> status_condition option" where
  "condition pkg k = find_key cType k (stConditions (pkgStatus pkg))"

definition conditions_wf :: "package \<Rightarrow> bool" where
  "conditions_wf pkg \<longleftrightarrow> distinct (map cType (stConditions (pkgStatus pkg)))"

named_theorems status_simps "conditions and status fields after an update"

lemma set_status_simps [simp]:
  "pkgStatus (set_status f pkg) = f (pkgStatus pkg)" "pkgGeneration (set_status f pkg) = pkgGeneration pkg"
  "pkgSpec (set_status f pkg) = pkgSpec pkg" "pkgName (set_status f pkg) = pkgName pkg"
  "pkgNamespace (set_status f pkg) = pkgNamespace pkg" "pkgUID (set_status f pkg) = pkgUID pkg"
  "pkgDeleting (set_status f pkg) = pkgDeleting pkg"
  by (simp_all add: set_status_def)

lemma condition_setCondition [status_simps]:
  "condition (setCondition c pkg) k =
     (if k = cType c then Some (case condition pkg k of None \<Rightarrow> c | Some e \<Rightarrow> keep_transition e c) else condition pkg k)"
  by (simp add: condition_def setCondition_def conditions.upsert_find)

lemma condition_removeCondition [status_simps]:
  "conditions_wf pkg \<Longrightarrow> condition (removeCondition k pkg) j = (if j = k then None else condition pkg j)"
  by (simp add: condition_def conditions_wf_def removeCondition_def conditions.remove_find)

lemma conditions_wf_set [status_simps]:
  "conditions_wf pkg \<Longrightarrow> conditions_wf (setCondition c pkg)" "conditions_wf pkg \<Longrightarrow> conditions_wf (removeCondition k pkg)"
  by (simp_all add: conditions_wf_def setCondition_def removeCondition_def conditions.upsert_distinct conditions.remove_distinct)

lemma condition_frame [status_simps]:
  "condition (set_status (\<lambda>s. s\<lparr>stObservedGeneration := g\<rparr>) pkg) k = condition pkg k"
  "condition (set_status (\<lambda>s. s\<lparr>stObservedGeneration := g, stAppliedResources := rs\<rparr>) pkg) k = condition pkg k"
  "conditions_wf (set_status (\<lambda>s. s\<lparr>stObservedGeneration := g\<rparr>) pkg) = conditions_wf pkg"
  "conditions_wf (set_status (\<lambda>s. s\<lparr>stObservedGeneration := g, stAppliedResources := rs\<rparr>) pkg) = conditions_wf pkg"
  by (simp_all add: condition_def conditions_wf_def)

lemma pkg_frame [simp]:
  "pkgGeneration (setCondition c pkg) = pkgGeneration pkg" "pkgGeneration (removeCondition k pkg) = pkgGeneration pkg"
  "stObservedGeneration (pkgStatus (setCondition c pkg)) = stObservedGeneration (pkgStatus pkg)"
  "stObservedGeneration (pkgStatus (removeCondition k pkg)) = stObservedGeneration (pkgStatus pkg)"
  by (simp_all add: setCondition_def removeCondition_def)

text \<open>
  The phase a client reads from a package under the kstatus conventions the code follows: a generation that was not
  observed or is being reconciled is in progress, a stalled one has failed, a ready one is current.
\<close>

datatype phase = InProgress | Failed | Current

definition holds :: "package \<Rightarrow> string \<Rightarrow> bool" where
  "holds pkg k \<longleftrightarrow> (case condition pkg k of None \<Rightarrow> False | Some c \<Rightarrow> cStatus c = ''True'')"

definition phase_of :: "package \<Rightarrow> phase" where
  "phase_of pkg =
     (if stObservedGeneration (pkgStatus pkg) \<noteq> pkgGeneration pkg \<or> holds pkg ''Reconciling'' then InProgress
      else if holds pkg ''Stalled'' then Failed
      else if holds pkg ''Ready'' then Current else InProgress)"

lemma keep_transition_simps [simp]: "cStatus (keep_transition e c) = cStatus c" "cType (keep_transition e c) = cType c"
  "cReason (keep_transition e c) = cReason c" "cMessage (keep_transition e c) = cMessage c"
  "cObservedGeneration (keep_transition e c) = cObservedGeneration c"
  by (simp_all add: keep_transition_def)

text \<open>C11: The three transitions of the status implement the three phases of the kstatus conventions: whatever conditions a
  package had, marking it reconciling puts it in progress, marking it failed makes it failed, marking it
  ready makes it current; no condition left from an earlier phase shows through, and types stay unique.\<close>

theorem status_phases:
  assumes "conditions_wf pkg"
  shows "phase_of (reconciling_status t pkg) = InProgress \<and> conditions_wf (reconciling_status t pkg) \<and>
    phase_of (failed_status reason err t t' pkg) = Failed \<and> conditions_wf (failed_status reason err t t' pkg) \<and>
    phase_of (ready_status desired t pkg) = Current \<and> conditions_wf (ready_status desired t pkg)"
  using assms
  by (auto simp: phase_of_def holds_def reconciling_status_def failed_status_def ready_status_def Let_def status_simps
      split: option.splits)

text \<open>A transition time is kept exactly as long as the status of its condition is: after a failure the Ready condition
  keeps the time of an earlier failure, and takes the new time when the package was ready or never
  processed. The conditions of other types, set by anyone else, are untouched.\<close>

theorem failed_transition_time:
  assumes "conditions_wf pkg"
  shows "(\<exists>c. condition (failed_status reason err t t' pkg) ''Ready'' = Some c \<and> cReason c = reason \<and> cMessage c = ErrorText err \<and>
      cObservedGeneration c = pkgGeneration pkg \<and>
      cLastTransitionTime c = (case condition pkg ''Ready'' of None \<Rightarrow> t
        | Some e \<Rightarrow> if cStatus e = ''False'' then cLastTransitionTime e else t)) \<and>
    (\<forall>k. k \<in> {''Ready'', ''Stalled'', ''Reconciling''} \<or>
      condition (failed_status reason err t t' pkg) k = condition pkg k \<and>
      condition (ready_status desired t pkg) k = condition pkg k)"
  using assms
  by (auto simp: failed_status_def ready_status_def Let_def status_simps keep_transition_def split: option.splits)

section \<open>The summary\<close>

lemma sort_key_unique:
  assumes "mset ys = mset xs" "sorted (map f ys)" "inj_on f (set xs)"
  shows "sort_key f xs = ys"
proof -
  have "mset (map f ys) = mset (map f (sort_key f xs))" using assms(1) by simp
  then have "sort (map f (sort_key f xs)) = map f ys" using assms(2) by (rule properties_for_sort)
  moreover have "sort (map f (sort_key f xs)) = map f (sort_key f xs)" by (simp add: sorted_sort_id)
  ultimately have "map f (sort_key f xs) = map f ys" by simp
  moreover have "inj_on f (set (sort_key f xs) \<union> set ys)" using assms mset_eq_setD [OF assms(1)] by simp
  ultimately show ?thesis by (simp add: inj_on_map_eq_map)
qed

text \<open>C38: The summary lists exactly the applied objects, sorted by kind and name. The Go sort is not stable, and need not be:
  when a kind has one API version, as in every output of Generate, there is only one sorted listing, and any
  sorting algorithm returns it.\<close>

theorem summarize_unique:
  assumes "\<forall>x \<in> set objs. \<forall>y \<in> set objs. gvkKind (gvk_of x) = gvkKind (gvk_of y) \<longrightarrow> gvk_of x = gvk_of y"
    and "mset ys = mset (map resource_of objs)" "sorted (map (\<lambda>r. (arKind r, arName r)) ys)"
  shows "ys = summarize objs \<and> length (summarize objs) = length objs"
proof -
  have "inj_on (\<lambda>r. (arKind r, arName r)) (set (map resource_of objs))"
  proof (rule inj_onI)
    fix r r' assume "r \<in> set (map resource_of objs)" "r' \<in> set (map resource_of objs)" and key: "(arKind r, arName r) = (arKind r', arName r')"
    then obtain x y where "x \<in> set objs" "y \<in> set objs" "r = resource_of x" "r' = resource_of y" by auto
    moreover from this key have "gvk_of x = gvk_of y" using assms(1) by (simp add: resource_of_def)
    ultimately show "r = r'" using key by (simp add: resource_of_def)
  qed
  from sort_key_unique [OF assms(2,3) this] have "ys = summarize objs" by (simp add: summarize_def)
  moreover have "length (summarize objs) = length objs" by (simp add: summarize_def)
  ultimately show ?thesis by blast
qed


definition sample_condition :: status_condition where
  "sample_condition = \<lparr>cType = ''Ready'', cStatus = ''False'', cReason = ''ApplyFailed'', cMessage = Text ''x'',
     cObservedGeneration = 1, cLastTransitionTime = 7\<rparr>"

definition failing_package :: package where
  "failing_package = route_package\<lparr>pkgStatus := \<lparr>stObservedGeneration = 1, stConditions = [sample_condition], stAppliedResources = []\<rparr>\<rparr>"

lemma failing_package_wf: "conditions_wf failing_package"
  by (simp add: conditions_wf_def failing_package_def)

theorem status_phases_witness:
  "phase_of (ready_status [] 9 failing_package) = Current \<and> phase_of (failed_status ''PruneFailed'' (LibError ''e'') 9 9 failing_package) = Failed"
  using status_phases [OF failing_package_wf] by blast

theorem failed_transition_time_witness:
  "\<exists>c. condition (failed_status ''PruneFailed'' (LibError ''e'') 9 9 failing_package) ''Ready'' = Some c \<and> cLastTransitionTime c = 7"
proof -
  have "condition failing_package ''Ready'' = Some sample_condition"
    by (simp add: condition_def failing_package_def sample_condition_def)
  with failed_transition_time [OF failing_package_wf, of "''PruneFailed''" "LibError ''e''" 9 9 "[]"] show ?thesis
    by (auto simp: sample_condition_def)
qed

definition two_policies :: "client_object list" where
  "two_policies = [Sidecar (new_object (new_meta ''b'' None None) REGISTRY_ONLY), Sidecar (new_object (new_meta ''a'' None None) REGISTRY_ONLY)]"

theorem summarize_unique_witness: "map arName (summarize two_policies) = [''a'', ''b'']"
proof -
  have "rev (map resource_of two_policies) = summarize two_policies \<and> length (summarize two_policies) = length two_policies"
    by (rule summarize_unique) (simp_all add: two_policies_def resource_of_def)
  then have "summarize two_policies = rev (map resource_of two_policies)" by simp
  then show ?thesis by (simp add: two_policies_def resource_of_def)
qed

end
