(* ===== verification/Prune.thy ===== *)
theory Prune
  imports Status
begin

text \<open>
  Pruning (\<open>internal/controller/prune.go\<close>): list every kind the generator can emit by the label of the package and
  delete what the latest pass does not want. The lemmas say that only listed, unwanted objects are
  ever passed to \<open>Delete\<close>, whatever the API server answers, and, with the laws of an
  object store, that exactly the stale objects are gone afterwards.
\<close>

section \<open>Operations\<close>

text \<open>\<open>schema.GroupVersionKind.String()\<close>.\<close>

definition gvk_string :: "gvk \<Rightarrow> string" where
  "gvk_string g = gvkGroup g @ ''/'' @ gvkVersion g @ '', Kind='' @ gvkKind g"

definition objectKey :: "client_object \<Rightarrow> string" where
  "objectKey x = gvk_string (gvk_of x) @ ''|'' @ namespace_of x @ ''|'' @ name_of x"

definition managedListKinds :: "object_list list" where
  "managedListKinds = [NetworkPolicyList [], PeerAuthenticationList [], AuthorizationPolicyList [],
     VirtualServiceList [], ServiceEntryList [], SidecarList []]"

primrec extractItems :: "object_list \<Rightarrow> client_object list res" where
  "extractItems (NetworkPolicyList xs) = Inr (map NetworkPolicy xs)"
| "extractItems (PeerAuthenticationList xs) = Inr (map PeerAuthentication xs)"
| "extractItems (AuthorizationPolicyList xs) = Inr (map AuthorizationPolicy xs)"
| "extractItems (VirtualServiceList xs) = Inr (map VirtualService xs)"
| "extractItems (ServiceEntryList xs) = Inr (map ServiceEntry xs)"
| "extractItems (SidecarList xs) = Inr (map Sidecar xs)"

fun delete_items :: "'w api_client \<Rightarrow> string list \<Rightarrow> client_object list \<Rightarrow> 'w \<Rightarrow> unit res \<times> 'w" where
  "delete_items C keep [] w = (Inr (), w)"
| "delete_items C keep (item # items) w =
     (if objectKey item \<in> set keep then delete_items C keep items w
      else case clDelete C w item of
             (Inl err, w) \<Rightarrow>
               if \<not> clIsNotFound C err then (Inl (wrapf ''delete %s/%s: %w'' [gvkKind (gvk_of item), name_of item] err), w)
               else delete_items C keep items w
           | (Inr _, w) \<Rightarrow> delete_items C keep items w)"

fun prune_kinds :: "'w api_client \<Rightarrow> package \<Rightarrow> string list \<Rightarrow> object_list list \<Rightarrow> 'w \<Rightarrow> unit res \<times> 'w" where
  "prune_kinds C pkg keep [] w = (Inr (), w)"
| "prune_kinds C pkg keep (l # rest) w =
     (case clList C w l (pkgNamespace pkg) (Some [(LabelPackage, pkgName pkg)]) of
        Inl err \<Rightarrow> (Inl (wrapf ''list for prune: %w'' [] err), w)
      | Inr l \<Rightarrow>
          (case extractItems l of
             Inl err \<Rightarrow> (Inl err, w)
           | Inr items \<Rightarrow>
               (case delete_items C keep items w of
                  (Inl err, w) \<Rightarrow> (Inl err, w)
                | (Inr _, w) \<Rightarrow> prune_kinds C pkg keep rest w)))"

definition pruneStale :: "'w api_client \<Rightarrow> package \<Rightarrow> client_object list \<Rightarrow> 'w \<Rightarrow> unit res \<times> 'w" where
  "pruneStale C pkg desired w = prune_kinds C pkg (map objectKey desired) managedListKinds w"

section \<open>Keys\<close>

definition key_wf :: "client_object \<Rightarrow> bool" where
  "key_wf x \<longleftrightarrow> CHR ''|'' \<notin> set (gvk_string (gvk_of x)) \<and> CHR ''|'' \<notin> set (namespace_of x) \<and>
     CHR ''/'' \<notin> set (gvkGroup (gvk_of x)) \<and> CHR '','' \<notin> set (gvkVersion (gvk_of x))"

lemma append_sep_inject: "c \<notin> set a \<Longrightarrow> c \<notin> set b \<Longrightarrow> a @ c # x = b @ c # y \<longleftrightarrow> a = b \<and> x = y"
  by (induction a arbitrary: b) (case_tac b; auto)+

lemma gvk_string_inject:
  assumes "CHR ''/'' \<notin> set (gvkGroup g)" "CHR '','' \<notin> set (gvkVersion g)" "CHR ''/'' \<notin> set (gvkGroup h)" "CHR '','' \<notin> set (gvkVersion h)"
  shows "gvk_string g = gvk_string h \<longleftrightarrow> g = h"
  using assms by (auto simp: gvk_string_def append_sep_inject intro: gvk.equality)

text \<open>The key pruning compares objects by identifies them: two objects have the same key exactly when they have the same
  type, namespace and name, for types and namespaces as Kubernetes admits them, which contain no bar; the group has
  no slash and the version no comma.\<close>

theorem objectKey_injective:
  assumes "key_wf x" "key_wf y"
  shows "objectKey x = objectKey y \<longleftrightarrow> gvk_of x = gvk_of y \<and> namespace_of x = namespace_of y \<and> name_of x = name_of y"
  using assms by (auto simp: objectKey_def key_wf_def append_sep_inject gvk_string_inject)


definition sidecar_object :: "string \<Rightarrow> client_object" where
  "sidecar_object n = Sidecar \<lparr>objGVK = \<lparr>gvkGroup = ''networking.istio.io'', gvkVersion = ''v1'', gvkKind = ''Sidecar''\<rparr>,
     objMeta = \<lparr>omName = n, omNamespace = ''apps'', omLabels = Some [(LabelPackage, ''my-app'')], omAnnotations = None,
       omOwnerReferences = []\<rparr>, objSpec = REGISTRY_ONLY\<rparr>"

lemma key_wf_sidecar: "key_wf (sidecar_object n)"
  by (simp add: key_wf_def sidecar_object_def gvk_string_def)

theorem objectKey_injective_witness: "objectKey (sidecar_object ''a'') \<noteq> objectKey (sidecar_object ''b'')"
  using objectKey_injective [OF key_wf_sidecar key_wf_sidecar, of "''a''" "''b''"] by (simp add: sidecar_object_def)

section \<open>Only stale objects are deleted\<close>

definition listed :: "'w api_client \<Rightarrow> package \<Rightarrow> 'w \<Rightarrow> client_object \<Rightarrow> bool" where
  "listed C pkg w item \<longleftrightarrow>
     (\<exists>l \<in> set managedListKinds. \<exists>l' items.
        clList C w l (pkgNamespace pkg) (Some [(LabelPackage, pkgName pkg)]) = Inr l' \<and> extractItems l' = Inr items \<and> item \<in> set items)"

text \<open>The worlds reached from \<open>w\<close> by deleting only objects that some world on the way listed for the package and that are not
  among the keys to keep.\<close>

inductive prunes :: "'w api_client \<Rightarrow> package \<Rightarrow> string list \<Rightarrow> 'w \<Rightarrow> 'w \<Rightarrow> bool" for C pkg keep w where
  prunes_none: "prunes C pkg keep w w"
| prunes_delete: "prunes C pkg keep w w1 \<Longrightarrow> prunes C pkg keep w w2 \<Longrightarrow> listed C pkg w1 item \<Longrightarrow> objectKey item \<notin> set keep \<Longrightarrow>
    prunes C pkg keep w (snd (clDelete C w2 item))"

lemma prunes_delete_items:
  assumes "prunes C pkg keep w w1" "prunes C pkg keep w w2" "\<forall>item \<in> set items. listed C pkg w1 item"
  shows "prunes C pkg keep w (snd (delete_items C keep items w2))"
  using assms(2,3)
proof (induction items arbitrary: w2)
  case (Cons item items)
  have "prunes C pkg keep w (snd (clDelete C w2 item))" if "objectKey item \<notin> set keep"
    using prunes_delete [OF assms(1) Cons.prems(1) _ that] Cons.prems(2) by simp
  with Cons show ?case by (auto split: prod.splits sum.splits)
qed simp

lemma prunes_prune_kinds:
  "prunes C pkg keep w w1 \<Longrightarrow> set ls \<subseteq> set managedListKinds \<Longrightarrow> prunes C pkg keep w (snd (prune_kinds C pkg keep ls w1))"
proof (induction ls arbitrary: w1)
  case (Cons l ls)
  have "prunes C pkg keep w (snd (delete_items C keep items w1))"
    if "clList C w1 l (pkgNamespace pkg) (Some [(LabelPackage, pkgName pkg)]) = Inr l'" "extractItems l' = Inr items" for l' items
    by (rule prunes_delete_items [OF Cons.prems(1) Cons.prems(1)]) (use that Cons.prems(2) in \<open>auto simp: listed_def\<close>)
  with Cons show ?case by (fastforce split: sum.splits prod.splits)
qed simp

text \<open>C12: Pruning never deletes a wanted object or one of another package: whatever the API server answers, and also when it
  fails half way, every object passed to Delete was listed in the package's namespace under the package's
  label, and its key is not that of a desired object.\<close>

theorem pruneStale_deletes_only_stale:
  "prunes C pkg (map objectKey desired) w (snd (pruneStale C pkg desired w))"
  unfolding pruneStale_def by (rule prunes_prune_kinds [OF prunes_none]) simp


section \<open>Exactly the stale objects are deleted\<close>

definition managed :: "package \<Rightarrow> obj_store \<Rightarrow> obj_key \<Rightarrow> bool" where
  "managed pkg st k \<longleftrightarrow> fst (snd k) = pkgNamespace pkg \<and>
     (case st k of None \<Rightarrow> False | Some x \<Rightarrow> glookup (labels_of x) LabelPackage = Some (pkgName pkg))"

lemma managed_iff:
  "managed pkg st k \<longleftrightarrow> (\<exists>x. st k = Some x \<and> fst (snd k) = pkgNamespace pkg \<and> has_labels (Some [(LabelPackage, pkgName pkg)]) x)"
  by (auto simp: managed_def has_labels_def split: option.splits)

lemma list_lawD:
  assumes "list_law C V items_of scheme" "clList C w l ns ls = Inr l'" "items_of l' = Inr items"
  shows "\<forall>x \<in> set items. typed_by scheme x"
    "obj_key ` set items = {k. fst k = list_kind l \<and> (\<exists>x. V w k = Some x \<and> fst (snd k) = ns \<and> has_labels ls x)}"
  using assms unfolding list_law_def by (blast, fast)

lemma objectKey_iff:
  assumes "scheme_ok gvk_string scheme" "typed_by scheme x" "typed_by scheme y" "namespace_of x = namespace_of y"
  shows "objectKey x = objectKey y \<longleftrightarrow> obj_key x = obj_key y"
proof -
  obtain gs hs where "scheme (kind_of x) = Inr (gvk_of x # gs)" "scheme (kind_of y) = Inr (gvk_of y # hs)"
    using assms(2,3) by (auto simp: typed_by_def)
  then have "CHR ''|'' \<notin> set (gvk_string (gvk_of x))" "CHR ''|'' \<notin> set (gvk_string (gvk_of y))"
    "gvk_string (gvk_of x) = gvk_string (gvk_of y) \<longleftrightarrow> kind_of x = kind_of y"
    using assms(1) unfolding scheme_ok_def by (blast, blast, metis Inr_inject list.inject)
  with assms(4) show ?thesis by (auto simp: objectKey_def obj_key_def append_sep_inject)
qed

lemma image_filter_diff: "f ` {x \<in> A. f x \<notin> B} = f ` A - B"
  by blast

lemma delete_items_store:
  assumes "delete_law C V" "delete_items C keep items w = (Inr u, w')"
  shows "V w' k = (if k \<in> obj_key ` {x \<in> set items. objectKey x \<notin> set keep} then None else V w k)"
  using assms(2)
proof (induction items arbitrary: w)
  case (Cons x items)
  show ?case
  proof (cases "objectKey x \<in> set keep")
    case True
    with Cons show ?thesis by auto
  next
    case False
    then obtain w1 where w1: "delete_items C keep items w1 = (Inr u, w')" "V w1 = (V w)(obj_key x := None)"
      using Cons.prems assms(1) by (fastforce simp: delete_law_def split: prod.splits sum.splits if_splits)
    show ?thesis using Cons.IH [OF w1(1)] False by (auto simp: w1(2))
  qed
qed simp

lemma prune_kinds_store:
  assumes "delete_law C V" "list_law C V extractItems scheme" "scheme_ok gvk_string scheme"
    and "\<forall>x \<in> set desired. typed_by scheme x \<and> namespace_of x = pkgNamespace pkg"
    and "prune_kinds C pkg (map objectKey desired) ls w = (Inr u, w')"
  shows "V w' k = (if fst k \<in> list_kind ` set ls \<and> managed pkg (V w) k \<and> k \<notin> obj_key ` set desired then None else V w k)"
  using assms(5)
proof (induction ls arbitrary: w)
  case (Cons l ls)
  then obtain l' items w1 where l: "clList C w l (pkgNamespace pkg) (Some [(LabelPackage, pkgName pkg)]) = Inr l'"
    "extractItems l' = Inr items" "delete_items C (map objectKey desired) items w = (Inr (), w1)"
    "prune_kinds C pkg (map objectKey desired) ls w1 = (Inr u, w')"
    by (auto split: sum.splits prod.splits)
  have items: "\<forall>x \<in> set items. typed_by scheme x" "obj_key ` set items = {k. fst k = list_kind l \<and> managed pkg (V w) k}"
    using list_lawD [OF assms(2) l(1,2)] unfolding managed_iff by (blast, simp add: has_labels_def conj_commute conj_left_commute)
  have "objectKey x \<in> objectKey ` set desired \<longleftrightarrow> obj_key x \<in> obj_key ` set desired" if "x \<in> set items" for x
  proof -
    have "obj_key x \<in> {k. fst k = list_kind l \<and> managed pkg (V w) k}" using that unfolding items(2) [symmetric] by blast
    then have "namespace_of x = pkgNamespace pkg" by (simp add: managed_def obj_key_def)
    then have "objectKey x = objectKey y \<longleftrightarrow> obj_key x = obj_key y" if "y \<in> set desired" for y
      using objectKey_iff [OF assms(3)] items(1) \<open>x \<in> set items\<close> assms(4) that by simp
    then show ?thesis by (auto simp: image_iff)
  qed
  then have "{x \<in> set items. objectKey x \<notin> set (map objectKey desired)} = {x \<in> set items. obj_key x \<notin> obj_key ` set desired}"
    by auto
  then have "obj_key ` {x \<in> set items. objectKey x \<notin> set (map objectKey desired)} = obj_key ` set items - obj_key ` set desired"
    by (simp only: image_filter_diff)
  with delete_items_store [OF assms(1) l(3)] items(2)
  have w1: "V w1 k = (if fst k = list_kind l \<and> managed pkg (V w) k \<and> k \<notin> obj_key ` set desired then None else V w k)" for k by auto
  from Cons.IH [OF l(4)] show ?case by (auto simp: w1 managed_def)
qed simp


lemma managed_kinds: "list_kind ` set managedListKinds = UNIV"
  by (auto simp: managedListKinds_def) (metis go_kind.exhaust)

text \<open>Pruning is exact: with a store that keeps its documented laws, a pass that succeeds removes every object of the package that is
  not desired, of every kind the generator can emit, and leaves everything else as it was: desired objects,
  objects without the package's label and objects of other namespaces.\<close>

lemma pruneStale_store:
  assumes "delete_law C V" "list_law C V extractItems scheme" "scheme_ok gvk_string scheme"
    and "\<forall>x \<in> set desired. typed_by scheme x \<and> namespace_of x = pkgNamespace pkg"
    and "pruneStale C pkg desired w = (Inr u, w')"
  shows "V w' k = (if managed pkg (V w) k \<and> k \<notin> obj_key ` set desired then None else V w k)"
  using prune_kinds_store [OF assms(1-4) assms(5) [unfolded pruneStale_def]] by (simp add: managed_kinds)

end
