(* ===== verification/Controller.thy ===== *)
theory Controller
  imports Prune
begin

text \<open>
  The reconciler (\<open>internal/controller/package_controller.go\<close>, \<open>metrics.go\<close>): one pass over a package, from reading it to
  applying, pruning and writing its status, with every early return; the shared configuration and the API server's
  ports it reads on the way; the metrics it records.
\<close>

section \<open>Metrics\<close>

text \<open>The three collectors, per label values; of the histogram only the number of observations.\<close>

record metrics =
  reconcileTotal :: "string \<times> string \<times> string \<Rightarrow> nat"
  reconcileDurationSeconds :: "string \<times> string \<Rightarrow> nat"
  appliedResources :: "string \<times> string \<Rightarrow> nat option"

definition outcomeSuccess :: string where
  "outcomeSuccess = ''success''"

definition outcomeGenerationFailed :: string where
  "outcomeGenerationFailed = ''generation_failed''"

definition outcomeApplyFailed :: string where
  "outcomeApplyFailed = ''apply_failed''"

definition outcomePruneFailed :: string where
  "outcomePruneFailed = ''prune_failed''"

definition count_outcome :: "package \<Rightarrow> string \<Rightarrow> metrics \<Rightarrow> metrics" where
  "count_outcome pkg outcome m =
     m\<lparr>reconcileTotal := (reconcileTotal m)((pkgNamespace pkg, pkgName pkg, outcome) :=
         reconcileTotal m (pkgNamespace pkg, pkgName pkg, outcome) + 1)\<rparr>"

definition gauge :: "package \<Rightarrow> nat \<Rightarrow> metrics \<Rightarrow> metrics" where
  "gauge pkg n m = m\<lparr>appliedResources := (appliedResources m)((pkgNamespace pkg, pkgName pkg) \<mapsto> n)\<rparr>"

definition observe :: "package \<Rightarrow> metrics \<Rightarrow> metrics" where
  "observe pkg m =
     m\<lparr>reconcileDurationSeconds := (reconcileDurationSeconds m)((pkgNamespace pkg, pkgName pkg) :=
         reconcileDurationSeconds m (pkgNamespace pkg, pkgName pkg) + 1)\<rparr>"

section \<open>The reconciler\<close>

record 'w reconciler =
  rcClient :: "'w api_client"
  rcScheme :: "(go_kind \<Rightarrow> gvk list res) option"
  rcAPIReader :: "('w \<Rightarrow> string \<Rightarrow> string \<Rightarrow> int_or_string list res) option"
  rcRecorder :: "('w \<Rightarrow> package \<Rightarrow> string \<Rightarrow> string \<Rightarrow> string \<Rightarrow> 'w) option"
  rcGlobalConfigNamespace :: string
  rcGlobalConfigName :: string

definition fieldManager :: string where
  "fieldManager = ''bigbang-operator''"

definition kubeAPIPorts :: "'w reconciler \<Rightarrow> package \<Rightarrow> 'w \<Rightarrow> int_or_string list" where
  "kubeAPIPorts r pkg w =
     (case psNetworkPolicies (pkgSpec pkg) of
        None \<Rightarrow> []
      | Some np \<Rightarrow>
          (case npEgress np of
             None \<Rightarrow> []
           | Some eg \<Rightarrow>
               if \<not> npEnabled np then []
               else if \<not> list_ex (\<lambda>(_, raw). contains (raw_text raw) (quote ''kubeAPI'')) (entries (neFrom eg)) then []
               else (let reader = (case rcAPIReader r of None \<Rightarrow> clGetService (rcClient r) | Some get \<Rightarrow> get)
                     in case reader w ''default'' ''kubernetes'' of Inl _ \<Rightarrow> [] | Inr ports \<Rightarrow> ports)))"

definition no_input :: input where
  "no_input = \<lparr>inPackage = None, inScheme = None, inKubeAPIPorts = [], inSharedEgressDefinitions = None,
     inSharedIngressDefinitions = None, inSharedDefinitionsError = None, inSharedIngressConfig = None,
     inSharedIngressConfigError = None\<rparr>"

definition config_value :: "string gomap \<Rightarrow> string \<Rightarrow> string" where
  "config_value data key = (case glookup data key of None \<Rightarrow> [] | Some v \<Rightarrow> v)"

definition sharedConfig :: "ext \<Rightarrow> 'w reconciler \<Rightarrow> 'w \<Rightarrow> input" where
  "sharedConfig X r w =
     (if rcGlobalConfigNamespace r = [] \<or> rcGlobalConfigName r = [] then no_input
      else case clGetConfigMap (rcClient r) w (rcGlobalConfigNamespace r) (rcGlobalConfigName r) of
        Inl err \<Rightarrow>
          if \<not> clIsNotFound (rcClient r) err
          then (let e = wrapf ''get global config %s/%s: %w'' [rcGlobalConfigNamespace r, rcGlobalConfigName r] err
                in no_input\<lparr>inSharedDefinitionsError := Some e, inSharedIngressConfigError := Some e\<rparr>)
          else no_input
      | Inr data \<Rightarrow>
          (let inp = (case ParseSharedEgressDefinitions X (config_value data GlobalConfigEgressKey) of
                 Inl e \<Rightarrow> no_input\<lparr>inSharedDefinitionsError := Some e\<rparr>
               | Inr defs \<Rightarrow>
                   (case ParseSharedIngressDefinitions X (config_value data GlobalConfigIngressKey) of
                      Inl e \<Rightarrow> no_input\<lparr>inSharedEgressDefinitions := defs, inSharedDefinitionsError := Some e\<rparr>
                    | Inr idefs \<Rightarrow> no_input\<lparr>inSharedEgressDefinitions := defs, inSharedIngressDefinitions := idefs\<rparr>))
           in case ParseIngressConfig X (config_value data GlobalConfigRoutesKey) (config_value data GlobalConfigGatewaysKey) of
                Inl e \<Rightarrow> inp\<lparr>inSharedIngressConfigError := Some e\<rparr>
              | Inr cfg \<Rightarrow> inp\<lparr>inSharedIngressConfig := Some cfg\<rparr>))"

fun applyAll :: "'w api_client \<Rightarrow> client_object list \<Rightarrow> 'w \<Rightarrow> client_object list res \<times> 'w" where
  "applyAll C [] w = (Inr [], w)"
| "applyAll C (obj # objs) w =
     (case clPatch C w fieldManager obj of
        (Inl err, w) \<Rightarrow> (Inl (wrapf ''apply %s/%s: %w'' [gvkKind (gvk_of obj), name_of obj] err), w)
      | (Inr obj, w) \<Rightarrow>
          (case applyAll C objs w of (Inl err, w) \<Rightarrow> (Inl err, w) | (Inr objs, w) \<Rightarrow> (Inr (obj # objs), w)))"

definition emit_warnings :: "'w reconciler \<Rightarrow> package \<Rightarrow> 'w \<Rightarrow> 'w" where
  "emit_warnings r pkg w =
     (case rcRecorder r of None \<Rightarrow> w
      | Some event \<Rightarrow> foldl (\<lambda>w msg. event w pkg ''Warning'' ''UnsupportedField'' msg) w (Warnings pkg))"

text \<open>From the generation to the status: the result, the package as it is then, the world and the metrics. A panic of the generator
  leaves the function.\<close>

definition reconcile_package :: "ext \<Rightarrow> 'w reconciler \<Rightarrow> package \<Rightarrow> 'w \<Rightarrow> metrics \<Rightarrow> unit res \<times> package \<times> 'w \<times> metrics" where
  "reconcile_package X r pkg w m =
     (let C = rcClient r;
          w = emit_warnings r pkg w;
          inp = (sharedConfig X r w)\<lparr>inPackage := Some pkg, inScheme := rcScheme r, inKubeAPIPorts := kubeAPIPorts r pkg w\<rparr>
      in case Generate X inp of
        Inl err \<Rightarrow>
          if \<not> is_go_error err then (Inl err, pkg, w, m)
          else (case markFailed C pkg ''GenerationFailed'' err w of (res, pkg', w) \<Rightarrow> (res, pkg', w, count_outcome pkg outcomeGenerationFailed m))
      | Inr desired \<Rightarrow>
          (case applyAll C desired w of
             (Inl err, w) \<Rightarrow>
               (case markFailed C pkg ''ApplyFailed'' err w of (res, pkg', w) \<Rightarrow> (res, pkg', w, count_outcome pkg outcomeApplyFailed m))
           | (Inr desired, w) \<Rightarrow>
               (case pruneStale C pkg desired w of
                  (Inl err, w) \<Rightarrow>
                    (case markFailed C pkg ''PruneFailed'' err w of (res, pkg', w) \<Rightarrow> (res, pkg', w, count_outcome pkg outcomePruneFailed m))
                | (Inr _, w) \<Rightarrow>
                    (case markReady C pkg desired w of (res, pkg', w) \<Rightarrow>
                       (res, pkg', w, gauge pkg (length desired) (count_outcome pkg outcomeSuccess m))))))"

definition Reconcile :: "ext \<Rightarrow> 'w reconciler \<Rightarrow> string \<Rightarrow> string \<Rightarrow> 'w \<times> metrics \<Rightarrow> unit res \<times> 'w \<times> metrics" where
  "Reconcile X r ns name st =
     (let C = rcClient r; (w, m) = st
      in case clGetPackage C w ns name of
        Inl err \<Rightarrow> (if clIsNotFound C err then Inr () else Inl err, w, m)
      | Inr pkg \<Rightarrow>
          if pkgDeleting pkg then (Inr (), w, m)
          else (case (if pkgGeneration pkg \<noteq> stObservedGeneration (pkgStatus pkg) then markReconciling C pkg w else (Inr pkg, w)) of
            (Inl err, w) \<Rightarrow> (Inl err, w, m)
          | (Inr pkg, w) \<Rightarrow>
              (case reconcile_package X r pkg w m of (res, pkg, w, m) \<Rightarrow> (res, w, observe pkg m))))"

definition packagesForGlobalConfig :: "'w reconciler \<Rightarrow> string \<Rightarrow> string \<Rightarrow> 'w \<Rightarrow> (string \<times> string) list" where
  "packagesForGlobalConfig r ns name w =
     (if ns \<noteq> rcGlobalConfigNamespace r \<or> name \<noteq> rcGlobalConfigName r then []
      else case clListPackages (rcClient r) w of
        Inl _ \<Rightarrow> []
      | Inr pkgs \<Rightarrow> map (\<lambda>p. (pkgNamespace p, pkgName p)) pkgs)"

text \<open>
  What \<open>SetupWithManager\<close> gives the controller builder: the reconciled kind, the kinds whose owner is enqueued on a change, the handler
  of ConfigMap changes when they are watched, and the controller's name.
\<close>

record 'w controller_builder =
  cbFor :: string
  cbOwns :: "go_kind list"
  cbWatches :: "(string \<Rightarrow> string \<Rightarrow> 'w \<Rightarrow> (string \<times> string) list) option"
  cbNamed :: string

definition SetupWithManager :: "'w reconciler \<Rightarrow> 'w controller_builder" where
  "SetupWithManager r =
     (let b = \<lparr>cbFor = ''Package'',
            cbOwns = [KNetworkPolicy, KPeerAuthentication, KAuthorizationPolicy, KVirtualService, KServiceEntry, KSidecar],
            cbWatches = None, cbNamed = []\<rparr>;
          b = (if rcGlobalConfigNamespace r \<noteq> [] \<and> rcGlobalConfigName r \<noteq> []
               then b\<lparr>cbWatches := Some (packagesForGlobalConfig r)\<rparr> else b)
      in b\<lparr>cbNamed := ''package''\<rparr>)"

lemma SetupWithManager_simps:
  "cbWatches (SetupWithManager r) =
     (if rcGlobalConfigNamespace r \<noteq> [] \<and> rcGlobalConfigName r \<noteq> [] then Some (packagesForGlobalConfig r) else None)"
  "cbOwns (SetupWithManager r) = [KNetworkPolicy, KPeerAuthentication, KAuthorizationPolicy, KVirtualService, KServiceEntry, KSidecar]"
  by (simp_all add: SetupWithManager_def Let_def)

text \<open>Every kind the generator emits is watched for changes by others, and is pruned.\<close>

lemma owned_kinds: "k \<in> set (cbOwns (SetupWithManager r))" "list_kind ` set managedListKinds = set (cbOwns (SetupWithManager r))"
proof -
  show u: "k \<in> set (cbOwns (SetupWithManager r))" for k by (cases k) (simp_all add: SetupWithManager_simps)
  show "list_kind ` set managedListKinds = set (cbOwns (SetupWithManager r))" using u managed_kinds by blast
qed

end
