(* ===== verification/Controller_Laws.thy ===== *)
theory Controller_Laws
  imports Controller
begin

text \<open>
  What a pass of the reconciler does to the cluster. The laws of the API are named hypotheses over the stored objects
  \<open>V\<close> and the stored packages \<open>P\<close> of a world; \<open>Memory_Server\<close> shows that they can be met.
\<close>

section \<open>Laws\<close>

text \<open>Events, the clock and status updates do not touch the objects.\<close>

definition object_laws :: "'w reconciler \<Rightarrow> ('w \<Rightarrow> obj_store) \<Rightarrow> (go_kind \<Rightarrow> gvk list res) \<Rightarrow> bool" where
  "object_laws r V scheme \<longleftrightarrow>
     patch_law (rcClient r) V \<and> delete_law (rcClient r) V \<and> list_law (rcClient r) V extractItems scheme \<and>
     (\<forall>w p. V (snd (clStatusUpdate (rcClient r) w p)) = V w) \<and> (\<forall>w. V (snd (clNow (rcClient r) w)) = V w) \<and>
     (\<forall>event w p a b c. rcRecorder r = Some event \<longrightarrow> V (event w p a b c) = V w)"

type_synonym pkg_store = "string \<times> string \<Rightarrow> package option"

definition pkg_key :: "package \<Rightarrow> string \<times> string" where
  "pkg_key p = (pkgNamespace p, pkgName p)"

text \<open>A read returns the stored package; a status update that succeeds had the current version and stores what it was sent; one that fails
  stores nothing. Nothing else touches the packages.\<close>

definition package_laws :: "'w reconciler \<Rightarrow> ('w \<Rightarrow> pkg_store) \<Rightarrow> bool" where
  "package_laws r P \<longleftrightarrow>
     (\<forall>w ns n p. clGetPackage (rcClient r) w ns n = Inr p \<longrightarrow> P w (ns, n) = Some p \<and> pkg_key p = (ns, n)) \<and>
     (\<forall>w p q w'. clStatusUpdate (rcClient r) w p = (Inr q, w') \<longrightarrow> q = p \<and> P w' = (P w)(pkg_key p \<mapsto> p)) \<and>
     (\<forall>w p e w'. clStatusUpdate (rcClient r) w p = (Inl e, w') \<longrightarrow> P w' = P w) \<and>
     (\<forall>w. P (snd (clNow (rcClient r) w)) = P w) \<and>
     (\<forall>w fm x. P (snd (clPatch (rcClient r) w fm x)) = P w) \<and> (\<forall>w x. P (snd (clDelete (rcClient r) w x)) = P w) \<and>
     (\<forall>event w p a b c. rcRecorder r = Some event \<longrightarrow> P (event w p a b c) = P w)"

section \<open>Frames\<close>

lemma emit_warnings_frame:
  assumes "\<And>event w p a b c. rcRecorder r = Some event \<Longrightarrow> F (event w p a b c) = F w"
  shows "F (emit_warnings r pkg w) = F w"
proof -
  have "F (foldl (\<lambda>w msg. event w pkg a b msg) w ms) = F w" if "rcRecorder r = Some event" for event a b ms w
    by (induction ms arbitrary: w) (simp_all add: assms that)
  then show ?thesis by (simp add: emit_warnings_def split: option.splits)
qed

lemma mark_frame:
  assumes "\<forall>w p. F (snd (clStatusUpdate C w p)) = F w" "\<forall>w. F (snd (clNow C w)) = F w"
  shows "F (snd (markReconciling C pkg w)) = F w" "F (snd (snd (markFailed C pkg reason err w))) = F w"
    "F (snd (snd (markReady C pkg desired w))) = F w"
proof -
  have now: "clNow C w = (t, w') \<Longrightarrow> F w' = F w" for w t w' using assms(2) by (metis snd_conv)
  have upd: "clStatusUpdate C w p = (q, w') \<Longrightarrow> F w' = F w" for w p q w' using assms(1) by (metis snd_conv)
  show "F (snd (markReconciling C pkg w)) = F w" "F (snd (snd (markFailed C pkg reason err w))) = F w"
    "F (snd (snd (markReady C pkg desired w))) = F w"
    by (auto simp: markReconciling_def markFailed_def markReady_def Let_def assms dest!: now upd split: prod.splits sum.splits)
qed

lemma applyAll_frame:
  assumes "\<And>w fm x. F (snd (clPatch C w fm x)) = F w"
  shows "F (snd (applyAll C objs w)) = F w"
proof (induction objs arbitrary: w)
  case (Cons x objs)
  then show ?case using assms [of w fieldManager x] by (auto split: prod.splits sum.splits) (metis snd_conv)+
qed simp

lemma prunes_frame:
  assumes "prunes C pkg keep w w'" "\<And>w x. F (snd (clDelete C w x)) = F w"
  shows "F w' = F w"
  using assms(1) by induction (simp_all add: assms(2))

lemma object_lawsD:
  assumes "object_laws r V scheme"
  shows "patch_law (rcClient r) V" "delete_law (rcClient r) V" "list_law (rcClient r) V extractItems scheme"
    "V (emit_warnings r pkg w) = V w" "V (snd (markReconciling (rcClient r) pkg w)) = V w"
    "V (snd (snd (markFailed (rcClient r) pkg reason err w))) = V w" "V (snd (snd (markReady (rcClient r) pkg desired w))) = V w"
  using assms unfolding object_laws_def by (simp_all add: mark_frame emit_warnings_frame)


definition applied_as :: "client_object \<Rightarrow> client_object \<Rightarrow> bool" where
  "applied_as x y \<longleftrightarrow> obj_key y = obj_key x \<and> gvk_of y = gvk_of x \<and>
     (\<forall>l v. glookup (labels_of x) l = Some v \<longrightarrow> glookup (labels_of y) l = Some v)"

lemma applyAll_store:
  assumes "patch_law C V" "applyAll C objs w = (Inr objs', w')"
  shows "list_all2 applied_as objs objs' \<and>
    (\<forall>k. if k \<in> obj_key ` set objs' then \<exists>y \<in> set objs'. V w' k = Some y \<and> obj_key y = k else V w' k = V w k)"
  using assms(2)
proof (induction objs arbitrary: w objs')
  case (Cons x objs)
  then obtain y w1 ys where *: "clPatch C w fieldManager x = (Inr y, w1)" "applyAll C objs w1 = (Inr ys, w')" "objs' = y # ys"
    by (auto split: prod.splits sum.splits)
  from assms(1) *(1) have y: "applied_as x y" "V w1 = (V w)(obj_key y \<mapsto> y)"
    unfolding patch_law_def applied_as_def by (metis, metis)
  from Cons.IH [OF *(2)] y(1) show ?case by (auto simp: *(3) y(2) split: if_splits)
qed simp

section \<open>Convergence\<close>

text \<open>The input of the generator in a pass over \<open>pkg\<close> from the world \<open>w\<close>.\<close>

definition pass_input :: "ext \<Rightarrow> 'w reconciler \<Rightarrow> package \<Rightarrow> 'w \<Rightarrow> input" where
  "pass_input X r pkg w =
     (sharedConfig X r (emit_warnings r pkg w))\<lparr>inPackage := Some pkg, inScheme := rcScheme r,
        inKubeAPIPorts := kubeAPIPorts r pkg (emit_warnings r pkg w)\<rparr>"

lemma pass_input_simps [simp]: "inPackage (pass_input X r pkg w) = Some pkg" "inScheme (pass_input X r pkg w) = rcScheme r"
  by (simp_all add: pass_input_def)

lemma reconcile_package_InrE:
  assumes "reconcile_package X r pkg w m = (Inr u, pkg', w', m')"
  obtains desired applied w1 w2 where "Generate X (pass_input X r pkg w) = Inr desired"
    "applyAll (rcClient r) desired (emit_warnings r pkg w) = (Inr applied, w1)"
    "pruneStale (rcClient r) pkg applied w1 = (Inr (), w2)" "markReady (rcClient r) pkg applied w2 = (Inr (), pkg', w')"
  using assms
  by (auto simp: reconcile_package_def pass_input_def Let_def markFailed_def split: sum.splits prod.splits if_splits)

lemma stamped:
  assumes "Generate X inp = Inr objs" "inPackage inp = Some pkg" "inScheme inp = Some scheme" "x \<in> set objs"
  shows "typed_by scheme x" "namespace_of x = pkgNamespace pkg" "glookup (labels_of x) LabelPackage = Some (pkgName pkg)"
  using Generate_stamped [OF assms] by (simp_all add: typed_by_def)

lemma list_all2_right: "list_all2 Q xs ys \<Longrightarrow> y \<in> set ys \<Longrightarrow> \<exists>x \<in> set xs. Q x y"
  by (induction rule: list_all2_induct) auto

lemma applied_stamped:
  assumes "list_all2 applied_as objs applied" "Generate X inp = Inr objs" "inPackage inp = Some pkg" "inScheme inp = Some scheme" "y \<in> set applied"
  shows "typed_by scheme y \<and> namespace_of y = pkgNamespace pkg \<and> glookup (labels_of y) LabelPackage = Some (pkgName pkg)"
proof -
  obtain x where x: "x \<in> set objs" "applied_as x y" using list_all2_right [OF assms(1,5)] by blast
  with stamped [OF assms(2-4) x(1)] show ?thesis by (simp add: applied_as_def typed_by_def obj_key_def)
qed

lemma applied_keys: "list_all2 applied_as objs applied \<Longrightarrow> obj_key ` set applied = obj_key ` set objs"
  by (induction rule: list_all2_induct) (simp_all add: applied_as_def)

lemma reconcile_package_store:
  assumes laws: "object_laws r V scheme" "scheme_ok gvk_string scheme" "rcScheme r = Some scheme"
    and pass: "reconcile_package X r pkg w m = (Inr u, pkg', w', m')"
  obtains desired where "Generate X (pass_input X r pkg w) = Inr desired"
    "\<And>k. k \<in> obj_key ` set desired \<Longrightarrow> managed pkg (V w') k"
    "\<And>k. k \<notin> obj_key ` set desired \<Longrightarrow> V w' k = (if managed pkg (V w) k then None else V w k)"
proof -
  from pass obtain desired applied w1 w2 where *: "Generate X (pass_input X r pkg w) = Inr desired"
    "applyAll (rcClient r) desired (emit_warnings r pkg w) = (Inr applied, w1)"
    "pruneStale (rcClient r) pkg applied w1 = (Inr (), w2)" "markReady (rcClient r) pkg applied w2 = (Inr (), pkg', w')"
    by (rule reconcile_package_InrE)
  note laws' = object_lawsD [OF laws(1)]
  have frame: "V w' = V w2" "V (emit_warnings r pkg w) = V w"
    using laws'(7) [of pkg applied w2] *(4) by (simp_all add: laws'(4))
  from applyAll_store [OF laws'(1) *(2)] have ap: "list_all2 applied_as desired applied"
    "\<And>k. if k \<in> obj_key ` set applied then \<exists>y \<in> set applied. V w1 k = Some y \<and> obj_key y = k else V w1 k = V w k"
    unfolding frame by (blast, blast)
  have st: "\<forall>y \<in> set applied. typed_by scheme y \<and> namespace_of y = pkgNamespace pkg \<and>
      glookup (labels_of y) LabelPackage = Some (pkgName pkg)"
    using applied_stamped [OF ap(1) *(1)] laws(3) by simp
  have prune: "V w' k = (if managed pkg (V w1) k \<and> k \<notin> obj_key ` set applied then None else V w1 k)" for k
    using pruneStale_store [OF laws'(2,3) laws(2) _ *(3)] st by (simp add: frame)
  show thesis
  proof (rule that [OF *(1)])
    fix k
    { assume "k \<in> obj_key ` set desired"
      then have "k \<in> obj_key ` set applied" by (simp add: applied_keys [OF ap(1)])
      with prune [of k] ap(2) [of k] obtain y where "y \<in> set applied" "V w' k = Some y" "obj_key y = k" by auto
      with st show "managed pkg (V w') k" by (auto simp: managed_def obj_key_def) }
    assume "k \<notin> obj_key ` set desired"
    with prune [of k] ap(2) [of k] show "V w' k = (if managed pkg (V w) k then None else V w k)"
      by (auto simp: applied_keys [OF ap(1)] managed_def)
  qed
qed


lemma applied_summary: "list_all2 applied_as objs applied \<Longrightarrow> map resource_of applied = map resource_of objs"
  by (induction rule: list_all2_induct) (simp_all add: applied_as_def resource_of_def obj_key_def)

section \<open>Statuses written\<close>

lemma package_lawsD:
  assumes "package_laws r P"
  shows "clGetPackage (rcClient r) w ns n = Inr p \<Longrightarrow> P w (ns, n) = Some p \<and> pkg_key p = (ns, n)"
    and "clStatusUpdate (rcClient r) w p = (Inr q, w') \<Longrightarrow> q = p \<and> P w' = (P w)(pkg_key p \<mapsto> p)"
    and "clStatusUpdate (rcClient r) w p = (Inl e, w') \<Longrightarrow> P w' = P w"
    and "clNow (rcClient r) w = (t, w') \<Longrightarrow> P w' = P w"
    and "P (emit_warnings r pkg w) = P w"
    and "P (snd (applyAll (rcClient r) objs w)) = P w"
    and "P (snd (pruneStale (rcClient r) pkg objs w)) = P w"
proof -
  note laws = assms [unfolded package_laws_def]
  show "clGetPackage (rcClient r) w ns n = Inr p \<Longrightarrow> P w (ns, n) = Some p \<and> pkg_key p = (ns, n)"
    "clStatusUpdate (rcClient r) w p = (Inr q, w') \<Longrightarrow> q = p \<and> P w' = (P w)(pkg_key p \<mapsto> p)"
    "clStatusUpdate (rcClient r) w p = (Inl e, w') \<Longrightarrow> P w' = P w"
    using laws by simp_all
  show "clNow (rcClient r) w = (t, w') \<Longrightarrow> P w' = P w" using laws by (metis snd_conv)
  show "P (emit_warnings r pkg w) = P w" using laws by (intro emit_warnings_frame) simp
  show "P (snd (applyAll (rcClient r) objs w)) = P w" using laws by (intro applyAll_frame) simp
  show "P (snd (pruneStale (rcClient r) pkg objs w)) = P w"
    unfolding pruneStale_def by (rule prunes_frame [OF prunes_prune_kinds [OF prunes_none]]) (use laws in simp_all)
qed

lemma pkg_key_status [simp]: "pkg_key (set_status f pkg) = pkg_key pkg" "pkg_key (setCondition c pkg) = pkg_key pkg"
  "pkg_key (removeCondition k pkg) = pkg_key pkg" "pkg_key (reconciling_status t pkg) = pkg_key pkg"
  "pkg_key (failed_status reason err t t' pkg) = pkg_key pkg" "pkg_key (ready_status desired t pkg) = pkg_key pkg"
  by (simp_all add: pkg_key_def setCondition_def removeCondition_def reconciling_status_def failed_status_def ready_status_def Let_def)

lemma status_update_cases:
  assumes "package_laws r P"
  obtains (stored) w' where "clStatusUpdate (rcClient r) w p = (Inr p, w')" "P w' = (P w)(pkg_key p \<mapsto> p)"
    | (failed) e w' where "clStatusUpdate (rcClient r) w p = (Inl e, w')" "P w' = P w"
  using package_lawsD(2,3) [OF assms] by (cases "clStatusUpdate (rcClient r) w p"; cases "fst (clStatusUpdate (rcClient r) w p)") auto

text \<open>Each transition stores its status, or nothing when the update fails.\<close>

lemma markReconciling_stores:
  assumes "package_laws r P" "markReconciling (rcClient r) pkg w = (res, w')"
  shows "\<exists>t. (\<exists>e. res = Inl e \<and> P w' = P w) \<or>
    res = Inr (reconciling_status t pkg) \<and> P w' = (P w)(pkg_key pkg \<mapsto> reconciling_status t pkg)"
proof -
  obtain t w1 where now: "clNow (rcClient r) w = (t, w1)" by fastforce
  from assms(1) show ?thesis
    by (cases rule: status_update_cases [where w = w1 and p = "reconciling_status t pkg"])
      (use assms(2) now package_lawsD(4) [OF assms(1) now] in \<open>auto simp: markReconciling_def\<close>)
qed

lemma markFailed_stores:
  assumes "package_laws r P" "markFailed (rcClient r) pkg reason err w = (res, pkg', w')"
  shows "\<exists>t t'. pkg' = failed_status reason err t t' pkg \<and>
    (res = Inl err \<and> P w' = (P w)(pkg_key pkg \<mapsto> pkg') \<or> (\<exists>args. res = Inl (wrapf ''status update after %s: %v (original: %w)'' args err)) \<and> P w' = P w)"
proof -
  obtain t w1 where now: "clNow (rcClient r) w = (t, w1)" by fastforce
  obtain t' w2 where now': "clNow (rcClient r) w1 = (t', w2)" by fastforce
  from assms(1) show ?thesis
    by (cases rule: status_update_cases [where w = w2 and p = "failed_status reason err t t' pkg"])
      (use assms(2) now now' package_lawsD(4) [OF assms(1) now] package_lawsD(4) [OF assms(1) now'] in \<open>auto simp: markFailed_def\<close>)
qed

lemma markReady_stores:
  assumes "package_laws r P" "markReady (rcClient r) pkg desired w = (res, pkg', w')"
  shows "\<exists>t. pkg' = ready_status desired t pkg \<and>
    (res = Inr () \<and> P w' = (P w)(pkg_key pkg \<mapsto> pkg') \<or> (\<exists>e. res = Inl e) \<and> P w' = P w)"
proof -
  obtain t w1 where now: "clNow (rcClient r) w = (t, w1)" by fastforce
  from assms(1) show ?thesis
    by (cases rule: status_update_cases [where w = w1 and p = "ready_status desired t pkg"])
      (use assms(2) now package_lawsD(4) [OF assms(1) now] in \<open>auto simp: markReady_def\<close>)
qed

lemma managed_frame: "pkgName q = pkgName p \<Longrightarrow> pkgNamespace q = pkgNamespace p \<Longrightarrow> managed q = managed p"
  by (intro ext) (simp add: managed_def split: option.splits)

lemma managed_Some: "managed pkg st k \<Longrightarrow> st k \<noteq> None"
  by (auto simp: managed_def split: option.splits)

text \<open>A successful pass, seen from outside: what it stored and what it left in the cluster.\<close>

lemma pass_stored:
  assumes laws: "object_laws r V scheme" "package_laws r P" "scheme_ok gvk_string scheme" "rcScheme r = Some scheme"
    and pass: "reconcile_package X r pkg w m = (Inr u, pkg', w', m')"
  obtains desired applied t where "Generate X (pass_input X r pkg w) = Inr desired" "summarize applied = summarize desired"
    "P w' = (P w)(pkg_key pkg \<mapsto> ready_status applied t pkg)"
    "\<And>k. managed pkg (V w') k \<longleftrightarrow> k \<in> obj_key ` set desired"
    "\<And>k. k \<notin> obj_key ` set desired \<Longrightarrow> V w' k = (if managed pkg (V w) k then None else V w k)"
proof -
  from pass obtain desired applied w1 w2 where *: "Generate X (pass_input X r pkg w) = Inr desired"
    "applyAll (rcClient r) desired (emit_warnings r pkg w) = (Inr applied, w1)"
    "pruneStale (rcClient r) pkg applied w1 = (Inr (), w2)" "markReady (rcClient r) pkg applied w2 = (Inr (), pkg', w')"
    by (rule reconcile_package_InrE)
  from laws(1,3,4) pass obtain d where d: "Generate X (pass_input X r pkg w) = Inr d"
    "\<And>k. k \<in> obj_key ` set d \<Longrightarrow> managed pkg (V w') k"
    "\<And>k. k \<notin> obj_key ` set d \<Longrightarrow> V w' k = (if managed pkg (V w) k then None else V w k)"
    by (rule reconcile_package_store) blast
  have [simp]: "d = desired" using d(1) *(1) by simp
  have "list_all2 applied_as desired applied" using applyAll_store [OF object_lawsD(1) [OF laws(1)] *(2)] by blast
  then have sum: "summarize applied = summarize desired" by (simp add: summarize_def applied_summary)
  have "P w2 = P w"
    using package_lawsD(5-7) [OF laws(2)] *(2,3) by (metis snd_conv)
  with markReady_stores [OF laws(2) *(4)] obtain t where "P w' = (P w)(pkg_key pkg \<mapsto> ready_status applied t pkg)" by auto
  moreover have "managed pkg (V w') k \<longleftrightarrow> k \<in> obj_key ` set desired" for k
    by (cases "k \<in> obj_key ` set desired") (use d(2,3) [of k] in \<open>auto simp: managed_def split: if_splits\<close>)
  ultimately show thesis using that *(1) sum d(3) by auto
qed

end
