(* ===== verification/Memory_Server.thy ===== *)
theory Memory_Server
  imports Controller_Laws
begin

text \<open>
  An API server in memory that meets the laws, on which the theorems about the controller are applied to concrete
  packages. It is not part of the operator.
\<close>

record mem =
  mObjects :: "client_object list"
  mPackages :: "package list"
  mClock :: nat

definition not_found :: gerror where
  "not_found = LibError ''not found''"

definition operator_gvk :: "go_kind \<Rightarrow> gvk" where
  "operator_gvk k = (case k of
       KNetworkPolicy \<Rightarrow> \<lparr>gvkGroup = ''networking.k8s.io'', gvkVersion = ''v1'', gvkKind = ''NetworkPolicy''\<rparr>
     | KPeerAuthentication \<Rightarrow> \<lparr>gvkGroup = ''security.istio.io'', gvkVersion = ''v1'', gvkKind = ''PeerAuthentication''\<rparr>
     | KAuthorizationPolicy \<Rightarrow> \<lparr>gvkGroup = ''security.istio.io'', gvkVersion = ''v1'', gvkKind = ''AuthorizationPolicy''\<rparr>
     | KVirtualService \<Rightarrow> \<lparr>gvkGroup = ''networking.istio.io'', gvkVersion = ''v1'', gvkKind = ''VirtualService''\<rparr>
     | KServiceEntry \<Rightarrow> \<lparr>gvkGroup = ''networking.istio.io'', gvkVersion = ''v1'', gvkKind = ''ServiceEntry''\<rparr>
     | KSidecar \<Rightarrow> \<lparr>gvkGroup = ''networking.istio.io'', gvkVersion = ''v1'', gvkKind = ''Sidecar''\<rparr>)"

definition operator_scheme :: "go_kind \<Rightarrow> gvk list res" where
  "operator_scheme k = Inr [operator_gvk k]"

definition mem_store :: "mem \<Rightarrow> obj_store" where
  "mem_store w k = find_key obj_key k (mObjects w)"

definition mem_packages :: "mem \<Rightarrow> pkg_store" where
  "mem_packages w k = find_key pkg_key k (mPackages w)"

definition mem_matches :: "mem \<Rightarrow> go_kind \<Rightarrow> string \<Rightarrow> string gomap \<Rightarrow> client_object list" where
  "mem_matches w kind ns ls =
     map (\<lambda>x. set_gvk (operator_gvk kind) x)
       (filter (\<lambda>x. kind_of x = kind \<and> namespace_of x = ns \<and> has_labels ls x \<and> mem_store w (obj_key x) = Some x) (mObjects w))"

definition list_of :: "go_kind \<Rightarrow> client_object list \<Rightarrow> object_list" where
  "list_of kind xs = (case kind of
       KNetworkPolicy \<Rightarrow> NetworkPolicyList (concat (map (\<lambda>x. case x of NetworkPolicy y \<Rightarrow> [y] | _ \<Rightarrow> []) xs))
     | KPeerAuthentication \<Rightarrow> PeerAuthenticationList (concat (map (\<lambda>x. case x of PeerAuthentication y \<Rightarrow> [y] | _ \<Rightarrow> []) xs))
     | KAuthorizationPolicy \<Rightarrow> AuthorizationPolicyList (concat (map (\<lambda>x. case x of AuthorizationPolicy y \<Rightarrow> [y] | _ \<Rightarrow> []) xs))
     | KVirtualService \<Rightarrow> VirtualServiceList (concat (map (\<lambda>x. case x of VirtualService y \<Rightarrow> [y] | _ \<Rightarrow> []) xs))
     | KServiceEntry \<Rightarrow> ServiceEntryList (concat (map (\<lambda>x. case x of ServiceEntry y \<Rightarrow> [y] | _ \<Rightarrow> []) xs))
     | KSidecar \<Rightarrow> SidecarList (concat (map (\<lambda>x. case x of Sidecar y \<Rightarrow> [y] | _ \<Rightarrow> []) xs)))"

definition mem_client :: "mem api_client" where
  "mem_client = \<lparr>
     clGetPackage = (\<lambda>w ns n. case mem_packages w (ns, n) of None \<Rightarrow> Inl not_found | Some p \<Rightarrow> Inr p),
     clGetConfigMap = (\<lambda>w ns n. Inl not_found),
     clGetService = (\<lambda>w ns n. Inr [IntVal 6443]),
     clListPackages = (\<lambda>w. Inr (mPackages w)),
     clIsNotFound = (\<lambda>e. e = not_found),
     clPatch = (\<lambda>w fm x. (Inr x, w\<lparr>mObjects := x # filter (\<lambda>y. obj_key y \<noteq> obj_key x) (mObjects w)\<rparr>)),
     clList = (\<lambda>w l ns ls. Inr (list_of (list_kind l) (mem_matches w (list_kind l) ns ls))),
     clDelete = (\<lambda>w x. if mem_store w (obj_key x) = None then (Inl not_found, w)
        else (Inr (), w\<lparr>mObjects := filter (\<lambda>y. obj_key y \<noteq> obj_key x) (mObjects w)\<rparr>)),
     clStatusUpdate = (\<lambda>w p. (Inr p, w\<lparr>mPackages := p # filter (\<lambda>q. pkg_key q \<noteq> pkg_key p) (mPackages w)\<rparr>)),
     clNow = (\<lambda>w. (mClock w, w\<lparr>mClock := mClock w + 1\<rparr>))\<rparr>"

definition mem_reconciler :: "mem reconciler" where
  "mem_reconciler = \<lparr>rcClient = mem_client, rcScheme = Some operator_scheme, rcAPIReader = None, rcRecorder = None,
     rcGlobalConfigNamespace = [], rcGlobalConfigName = []\<rparr>"

section \<open>The laws hold\<close>

lemma find_key_filter: "find_key key k (filter (\<lambda>y. key y \<noteq> j) xs) = (if k = j then None else find_key key k xs)"
  by (induction xs) auto

lemma mem_scheme_ok: "scheme_ok gvk_string operator_scheme"
  by (auto simp: scheme_ok_def operator_scheme_def operator_gvk_def gvk_string_def split: go_kind.splits)

lemma extract_list_of: "list_all (\<lambda>x. kind_of x = kind) xs \<Longrightarrow> extractItems (list_of kind xs) = Inr xs"
proof (induction xs)
  case Nil
  show ?case by (cases kind) (simp_all add: list_of_def)
next
  case (Cons x xs)
  then show ?case by (cases kind; cases x) (simp_all add: list_of_def)
qed

lemma obj_key_set_gvk [simp]: "obj_key (set_gvk g x) = obj_key x"
  by (simp add: obj_key_def)

lemma mem_patch_law: "patch_law mem_client mem_store"
  by (auto simp: patch_law_def mem_client_def mem_store_def find_key_filter fun_eq_iff)

lemma mem_delete_law: "delete_law mem_client mem_store"
  by (auto simp: delete_law_def mem_client_def mem_store_def find_key_filter fun_eq_iff split: if_splits)

lemma mem_list_law: "list_law mem_client mem_store extractItems operator_scheme"
proof (unfold list_law_def, intro allI impI)
  fix w l ns ls l' items
  assume l: "clList mem_client w l ns ls = Inr l'" and items: "extractItems l' = Inr items"
  from l have "l' = list_of (list_kind l) (mem_matches w (list_kind l) ns ls)" by (simp add: mem_client_def)
  then have eq: "items = mem_matches w (list_kind l) ns ls"
    using items extract_list_of [of "list_kind l" "mem_matches w (list_kind l) ns ls"] by (simp add: mem_matches_def list_all_iff)
  have "\<forall>x \<in> set items. typed_by operator_scheme x"
    by (auto simp: eq mem_matches_def typed_by_def operator_scheme_def)
  moreover have "obj_key ` set items = {k. \<exists>x. mem_store w k = Some x \<and> fst k = list_kind l \<and> fst (snd k) = ns \<and> has_labels ls x}"
  proof (intro set_eqI iffI)
    fix k assume "k \<in> {k. \<exists>x. mem_store w k = Some x \<and> fst k = list_kind l \<and> fst (snd k) = ns \<and> has_labels ls x}"
    then obtain x where x: "mem_store w k = Some x" "fst k = list_kind l" "fst (snd k) = ns" "has_labels ls x" by blast
    from x(1) have k: "x \<in> set (mObjects w)" "obj_key x = k" by (auto simp: mem_store_def dest: find_key_SomeD)
    with x have "set_gvk (operator_gvk (list_kind l)) x \<in> set items"
      by (auto simp: eq mem_matches_def obj_key_def)
    with k(2) show "k \<in> obj_key ` set items" by (metis image_eqI obj_key_set_gvk)
  qed (auto simp: eq mem_matches_def obj_key_def)
  ultimately show "(\<forall>x \<in> set items. typed_by operator_scheme x) \<and>
      obj_key ` set items = {k. \<exists>x. mem_store w k = Some x \<and> fst k = list_kind l \<and> fst (snd k) = ns \<and> has_labels ls x}" by blast
qed

lemma mem_object_laws: "object_laws mem_reconciler mem_store operator_scheme"
  unfolding object_laws_def mem_reconciler_def
  by (simp add: mem_patch_law mem_delete_law mem_list_law) (simp add: mem_client_def mem_store_def fun_eq_iff)

lemma mem_package_laws: "package_laws mem_reconciler mem_packages"
  by (auto simp: package_laws_def mem_reconciler_def mem_client_def mem_packages_def find_key_filter fun_eq_iff
      split: option.splits if_splits dest: find_key_SomeD)

end
