(* ===== verification/Controller_Guarantees.thy ===== *)
theory Controller_Guarantees
  imports Memory_Server
begin

text \<open>
  What one pass of \<open>Reconcile\<close> guarantees: it always returns; a pass that succeeds leaves exactly the generated objects of the
  package and a current status; one whose generation fails touches no object and reports the failure.
\<close>

lemma Reconcile_cases:
  assumes "package_laws r P" "clGetPackage (rcClient r) w ns n = Inr pkg" "\<not> pkgDeleting pkg" "Reconcile X r ns n (w, m) = (res, w', m')"
  obtains (unmarked) e where "res = Inl e" "P w' = P w" "m' = m" "markReconciling (rcClient r) pkg w = (Inl e, w')"
    | (pass) pkg1 w1 pkg' m1 where "pkg1 = pkg \<or> (\<exists>t. pkg1 = reconciling_status t pkg)" "pkg_key pkg1 = (ns, n)"
      "w1 = w \<or> w1 = snd (markReconciling (rcClient r) pkg w)"
      "P w1 = (P w)(pkg_key pkg1 \<mapsto> pkg1)" "reconcile_package X r pkg1 w1 m = (res, pkg', w', m1)" "m' = observe pkg' m1"
      "pkg1 = pkg \<or> pkgGeneration pkg \<noteq> stObservedGeneration (pkgStatus pkg)"
proof -
  have key: "P w (ns, n) = Some pkg" "pkg_key pkg = (ns, n)" using package_lawsD(1) [OF assms(1,2)] by auto
  show thesis
  proof (cases "pkgGeneration pkg = stObservedGeneration (pkgStatus pkg)")
    case True
    obtain res1 pkg' w2 m1 where rp: "reconcile_package X r pkg w m = (res1, pkg', w2, m1)" by (metis prod_cases4)
    show thesis
      by (rule pass [of pkg w pkg' m1]) (use True assms(2-4) rp key in \<open>auto simp: Reconcile_def fun_upd_idem\<close>)
  next
    case False
    obtain q w1 where mr: "markReconciling (rcClient r) pkg w = (q, w1)" by fastforce
    from markReconciling_stores [OF assms(1) mr] consider (a) e where "q = Inl e" "P w1 = P w"
      | (b) t where "q = Inr (reconciling_status t pkg)" "P w1 = (P w)(pkg_key pkg \<mapsto> reconciling_status t pkg)" by blast
    then show thesis
    proof cases
      case a
      show thesis by (rule unmarked) (use False a mr assms(2-4) in \<open>auto simp: Reconcile_def\<close>)
    next
      case b
      obtain res1 pkg' w2 m1 where rp: "reconcile_package X r (reconciling_status t pkg) w1 m = (res1, pkg', w2, m1)" by (metis prod_cases4)
      show thesis
        by (rule pass [of "reconciling_status t pkg" w1 pkg' m1]) (use False b mr assms(2-4) rp key in \<open>auto simp: Reconcile_def\<close>)
    qed
  qed
qed


lemma pass_package:
  assumes "pkg1 = pkg \<or> (\<exists>t. pkg1 = reconciling_status t pkg)"
  shows "pkgSpec pkg1 = pkgSpec pkg" "pkgName pkg1 = pkgName pkg" "pkgNamespace pkg1 = pkgNamespace pkg"
    "pkgGeneration pkg1 = pkgGeneration pkg" "conditions_wf pkg \<Longrightarrow> conditions_wf pkg1"
    "stObservedGeneration (pkgStatus pkg1) = stObservedGeneration (pkgStatus pkg)"
  using assms by (auto simp: reconciling_status_def setCondition_def) (auto simp: status_simps simp flip: setCondition_def)

lemma ready_current:
  assumes "conditions_wf pkg"
  shows "phase_of (ready_status desired t pkg) = Current" "stAppliedResources (pkgStatus (ready_status desired t pkg)) = summarize desired"
    "phase_of (failed_status reason err t t' pkg) = Failed"
  using assms by (auto simp: phase_of_def holds_def failed_status_def ready_status_def Let_def status_simps split: option.splits)

text \<open>C1: A pass that succeeds has converged: with an API that keeps its documented laws, the objects of the package in the cluster
  are exactly those Generate returned for it, no object outside the package changed, and the stored package
  is current, with the summary of those objects as its applied resources.\<close>

theorem Reconcile_converges:
  assumes laws: "object_laws r V scheme" "package_laws r P" "scheme_ok gvk_string scheme" "rcScheme r = Some scheme"
    and pkg: "clGetPackage (rcClient r) w ns n = Inr pkg" "\<not> pkgDeleting pkg" "conditions_wf pkg"
    and ok: "Reconcile X r ns n (w, m) = (Inr u, w', m')"
  shows "\<exists>pkg1 w1 desired q. pkgSpec pkg1 = pkgSpec pkg \<and> V w1 = V w \<and> Generate X (pass_input X r pkg1 w1) = Inr desired \<and>
    (\<forall>k. managed pkg (V w') k \<longleftrightarrow> k \<in> obj_key ` set desired) \<and>
    (\<forall>k. managed pkg (V w) k \<or> k \<in> obj_key ` set desired \<or> V w' k = V w k) \<and>
    P w' (ns, n) = Some q \<and> phase_of q = Current \<and> stAppliedResources (pkgStatus q) = summarize desired"
  using laws(2) pkg(1,2) ok
proof (cases rule: Reconcile_cases)
  case (pass pkg1 w1 pkg' m1)
  note same = pass_package [OF pass(1)]
  have V: "V w1 = V w" using pass(3) object_lawsD(5) [OF laws(1)] by auto
  have managed: "managed pkg1 = managed pkg" by (rule managed_frame [OF same(2,3)])
  from laws pass(5) obtain desired applied t where d: "Generate X (pass_input X r pkg1 w1) = Inr desired"
    "summarize applied = summarize desired" "P w' = (P w1)(pkg_key pkg1 \<mapsto> ready_status applied t pkg1)"
    "\<And>k. managed pkg1 (V w') k \<longleftrightarrow> k \<in> obj_key ` set desired"
    "\<And>k. k \<notin> obj_key ` set desired \<Longrightarrow> V w' k = (if managed pkg1 (V w1) k then None else V w1 k)"
    by (rule pass_stored) blast
  let ?q = "ready_status applied t pkg1"
  have "phase_of ?q = Current" "stAppliedResources (pkgStatus ?q) = summarize desired" "P w' (ns, n) = Some ?q"
    using ready_current(1,2) [OF same(5) [OF pkg(3)]] by (simp_all add: d(2,3) pass(2))
  then show ?thesis using same(1) V d(1) d(4,5) [unfolded managed V] by metis
qed simp


definition istio_package :: package where
  "istio_package = sample_package\<lparr>pkgSpec := \<lparr>psIstio = Some sample_istio, psNetworkPolicies = None, psRoutes = None\<rparr>\<rparr>"

definition mem_world :: mem where
  "mem_world = \<lparr>mObjects = [sidecar_object ''old''], mPackages = [istio_package], mClock = 0\<rparr>"

definition no_metrics :: metrics where
  "no_metrics = \<lparr>reconcileTotal = (\<lambda>_. 0), reconcileDurationSeconds = (\<lambda>_. 0), appliedResources = (\<lambda>_. None)\<rparr>"

lemma mem_scheme: "rcScheme mem_reconciler = Some operator_scheme"
  by (simp add: mem_reconciler_def)

lemma istio_package_wf: "\<not> pkgDeleting istio_package" "conditions_wf istio_package"
  by (simp_all add: istio_package_def sample_package_def conditions_wf_def)

theorem Reconcile_converges_witness:
  "\<exists>w' m' desired q. Reconcile sample_ext mem_reconciler ''apps'' ''my-app'' (mem_world, no_metrics) = (Inr (), w', m') \<and>
     (\<forall>k. managed istio_package (mem_store w') k \<longleftrightarrow> k \<in> obj_key ` set desired) \<and>
     mem_packages w' (''apps'', ''my-app'') = Some q \<and> phase_of q = Current \<and> stAppliedResources (pkgStatus q) = summarize desired"
proof -
  let ?R = "Reconcile sample_ext mem_reconciler ''apps'' ''my-app'' (mem_world, no_metrics)"
  have "fst ?R = Inr ()" by code_simp
  then obtain w' m' where R: "?R = (Inr (), w', m')" by (metis prod.collapse)
  have g: "clGetPackage (rcClient mem_reconciler) mem_world ''apps'' ''my-app'' = Inr istio_package"
    by (simp add: mem_reconciler_def mem_client_def mem_packages_def mem_world_def pkg_key_def istio_package_def sample_package_def)
  from Reconcile_converges [OF mem_object_laws mem_package_laws mem_scheme_ok mem_scheme g istio_package_wf R] R
  show ?thesis by blast
qed

section \<open>Failures\<close>

lemma failed_generation:
  assumes "object_laws r V scheme" "package_laws r P" "conditions_wf pkg"
    and "Generate X (pass_input X r pkg w) = Inl err" "is_go_error err"
    and "reconcile_package X r pkg w m = (res, pkg', w', m')"
  shows "V w' = V w \<and> (\<exists>e. res = Inl e) \<and> m' = count_outcome pkg outcomeGenerationFailed m \<and>
    (\<exists>t t'. pkg' = failed_status ''GenerationFailed'' err t t' pkg \<and> phase_of pkg' = Failed \<and>
      (res = Inl err \<and> P w' = (P w)(pkg_key pkg \<mapsto> pkg') \<or> P w' = P w))"
proof -
  let ?w = "emit_warnings r pkg w"
  obtain res1 p1 w1 where mf: "markFailed (rcClient r) pkg ''GenerationFailed'' err ?w = (res1, p1, w1)" by (metis prod_cases3)
  have eq: "res = res1" "pkg' = p1" "w' = w1" "m' = count_outcome pkg outcomeGenerationFailed m"
    using assms(4-6) mf by (simp_all add: reconcile_package_def pass_input_def Let_def)
  have "V w1 = V w"
    using object_lawsD(6) [OF assms(1), of pkg "''GenerationFailed''" err ?w] mf object_lawsD(4) [OF assms(1)] by simp
  moreover from markFailed_stores [OF assms(2) mf] obtain t t' where f: "p1 = failed_status ''GenerationFailed'' err t t' pkg"
    "res1 = Inl err \<and> P w1 = (P w)(pkg_key pkg \<mapsto> p1) \<or> (\<exists>e. res1 = Inl e) \<and> P w1 = P w"
    by (auto simp: package_lawsD(5) [OF assms(2)])
  moreover have "phase_of p1 = Failed" using ready_current(3) [OF assms(3)] by (simp add: f(1))
  ultimately show ?thesis unfolding eq by blast
qed


text \<open>C13: A pass whose generation fails is fail-static: no object is applied or deleted, the error is returned, and once the status is
  written the stored package has failed, with the reason and the text of the error.\<close>

theorem failed_generation_static:
  assumes "object_laws r V scheme" "package_laws r P" "conditions_wf pkg"
    and "Generate X (pass_input X r pkg w) = Inl err" "is_go_error err"
    and "reconcile_package X r pkg w m = (res, pkg', w', m')"
  shows "V w' = V w \<and> (\<exists>e. res = Inl e) \<and> m' = count_outcome pkg outcomeGenerationFailed m \<and>
    (\<exists>t t'. pkg' = failed_status ''GenerationFailed'' err t t' pkg \<and> phase_of pkg' = Failed \<and>
      (res = Inl err \<and> P w' = (P w)(pkg_key pkg \<mapsto> pkg') \<or> P w' = P w))"
  using failed_generation [OF assms] .

definition bad_package :: package where
  "bad_package = route_package\<lparr>pkgSpec := \<lparr>psIstio = None, psNetworkPolicies = None,
     psRoutes = Some (sample_routes\<lparr>rtInbound := Some [(''web'', Some (JBool True))]\<rparr>)\<rparr>\<rparr>"

theorem failed_generation_static_witness:
  "\<exists>err w'. Generate sample_ext (pass_input sample_ext mem_reconciler bad_package mem_world) = Inl err \<and>
     fst (snd (snd (reconcile_package sample_ext mem_reconciler bad_package mem_world no_metrics))) = w' \<and>
     mem_store w' = mem_store mem_world"
proof -
  have "(case Generate sample_ext (pass_input sample_ext mem_reconciler bad_package mem_world) of Inl e \<Rightarrow> is_go_error e | Inr _ \<Rightarrow> False)"
    by code_simp
  then obtain err where e: "Generate sample_ext (pass_input sample_ext mem_reconciler bad_package mem_world) = Inl err" "is_go_error err"
    by (auto split: sum.splits)
  have wf: "conditions_wf bad_package" by (simp add: bad_package_def route_package_def conditions_wf_def)
  obtain res pkg' w' m' where rp: "reconcile_package sample_ext mem_reconciler bad_package mem_world no_metrics = (res, pkg', w', m')"
    by (metis prod_cases4)
  from failed_generation_static [OF mem_object_laws mem_package_laws wf e rp] e(1) rp show ?thesis by simp
qed


section \<open>The shared configuration\<close>

text \<open>C36: When the global ConfigMap cannot be read, both kinds of shared configuration carry the error, so that nothing is resolved from
  an empty configuration; a ConfigMap that does not exist, or a reconciler without one, is an empty configuration without errors. An
  unparseable part of it sets the error of that part only.\<close>

theorem sharedConfig_errors:
  fixes r :: "'w reconciler"
  defines "off \<equiv> rcGlobalConfigNamespace r = [] \<or> rcGlobalConfigName r = []"
    and "get \<equiv> \<lambda>w. clGetConfigMap (rcClient r) w (rcGlobalConfigNamespace r) (rcGlobalConfigName r)"
  shows "(if off then sharedConfig X r w = no_input
     else case get w of
       Inl e \<Rightarrow> (if clIsNotFound (rcClient r) e then sharedConfig X r w = no_input
          else inSharedDefinitionsError (sharedConfig X r w) \<noteq> None \<and> inSharedIngressConfigError (sharedConfig X r w) \<noteq> None \<and>
            inSharedEgressDefinitions (sharedConfig X r w) = None \<and> inSharedIngressConfig (sharedConfig X r w) = None)
     | Inr data \<Rightarrow>
         (inSharedIngressConfigError (sharedConfig X r w) = None \<longleftrightarrow>
            (\<exists>cfg. ParseIngressConfig X (config_value data GlobalConfigRoutesKey) (config_value data GlobalConfigGatewaysKey) = Inr cfg \<and>
              inSharedIngressConfig (sharedConfig X r w) = Some cfg)) \<and>
         (inSharedDefinitionsError (sharedConfig X r w) = None \<longleftrightarrow>
            (\<exists>eg ing. ParseSharedEgressDefinitions X (config_value data GlobalConfigEgressKey) = Inr eg \<and>
              ParseSharedIngressDefinitions X (config_value data GlobalConfigIngressKey) = Inr ing \<and>
              inSharedEgressDefinitions (sharedConfig X r w) = eg \<and> inSharedIngressDefinitions (sharedConfig X r w) = ing)))"
  by (auto simp: sharedConfig_def off_def get_def no_input_def Let_def split: sum.splits)

text \<open>C19: A configuration outage does not take routes down: while the global ConfigMap cannot be read, a pass over a package with an
  enabled inbound route applies and deletes nothing, so the routes and policies of the last good pass stay in place.\<close>

theorem config_outage_static:
  assumes "object_laws r V scheme" "package_laws r P" "conditions_wf pkg" "rcScheme r \<noteq> None" "ext_returns X"
    and "rcGlobalConfigNamespace r \<noteq> []" "rcGlobalConfigName r \<noteq> []"
    and "\<forall>w. \<exists>e. clGetConfigMap (rcClient r) w (rcGlobalConfigNamespace r) (rcGlobalConfigName r) = Inl e \<and>
      \<not> clIsNotFound (rcClient r) e \<and> is_go_error e"
    and "psRoutes (pkgSpec pkg) = Some spec" "glookup (rtInbound spec) name = Some raw" "decodeInbound X raw = Inr route" "irEnabled route"
    and "reconcile_package X r pkg w m = (res, pkg', w', m')"
  shows "V w' = V w \<and> (\<exists>e. res = Inl e) \<and> phase_of pkg' = Failed"
proof -
  let ?inp = "pass_input X r pkg w"
  obtain e0 where e0: "clGetConfigMap (rcClient r) (emit_warnings r pkg w) (rcGlobalConfigNamespace r) (rcGlobalConfigName r) = Inl e0"
    "\<not> clIsNotFound (rcClient r) e0" "is_go_error e0" using assms(8) by blast
  define e where "e = wrapf ''get global config %s/%s: %w'' [rcGlobalConfigNamespace r, rcGlobalConfigName r] e0"
  have e: "inSharedIngressConfigError ?inp = Some e" "is_go_error e"
    using assms(6,7) e0 by (simp_all add: pass_input_def sharedConfig_def no_input_def Let_def e_def)
  obtain err where err: "resolveInboundRoutes X ?inp = Inl err"
    using inbound_unresolved [OF e(1) _ assms(9-12)] by auto
  have "safe (resolveInboundRoutes X ?inp)" by (rule safe_resolveInboundRoutes) (use assms(5) e in auto)
  with err assms(4) have "Generate X ?inp = Inl err" "is_go_error err" by (auto simp: Generate_def)
  from failed_generation [OF assms(1-3) this assms(13)] show ?thesis by blast
qed

definition outage_reconciler :: "mem reconciler" where
  "outage_reconciler = mem_reconciler\<lparr>rcClient := mem_client\<lparr>clGetConfigMap := (\<lambda>w ns n. Inl (LibError ''timeout''))\<rparr>,
     rcGlobalConfigNamespace := ''bigbang'', rcGlobalConfigName := ''global''\<rparr>"

lemma outage_laws: "object_laws outage_reconciler mem_store operator_scheme" "package_laws outage_reconciler mem_packages"
  using mem_object_laws mem_package_laws
  by (simp_all add: outage_reconciler_def object_laws_def package_laws_def patch_law_def delete_law_def list_law_def mem_reconciler_def)

theorem config_outage_static_witness:
  "mem_store (fst (snd (snd (reconcile_package sample_ext outage_reconciler route_package mem_world no_metrics)))) = mem_store mem_world"
proof -
  let ?raw = "Some (JObject [(''enabled'', JBool True), (''service'', JString ''web.apps.svc''),
       (''port'', JNumber ''8080''), (''hosts'', JArray [JString ''web.example.com''])])"
  have "(case decodeInbound sample_ext ?raw of Inl _ \<Rightarrow> False | Inr route \<Rightarrow> irEnabled route)" by code_simp
  then obtain route where route: "decodeInbound sample_ext ?raw = Inr route" "irEnabled route" by (auto split: sum.splits)
  obtain res pkg' w' m' where rp: "reconcile_package sample_ext outage_reconciler route_package mem_world no_metrics = (res, pkg', w', m')"
    by (metis prod_cases4)
  have "conditions_wf route_package" "rcScheme outage_reconciler \<noteq> None"
    by (simp_all add: route_package_def conditions_wf_def outage_reconciler_def mem_reconciler_def)
  from config_outage_static [OF outage_laws this sample_ext_returns _ _ _ _ _ route rp, of sample_routes "''web''"] rp
  show ?thesis
    by (simp add: outage_reconciler_def mem_client_def not_found_def route_package_def sample_routes_def)
qed

section \<open>The ports of the API server\<close>

lemma kubeAPI_text:
  assumes "json_within (JObject kvs) j" "(''kubeAPI'', v) \<in> set kvs"
  shows "contains (raw_text (Some j)) (quote ''kubeAPI'')"
  using sublist_order.order.trans [OF key_text [OF assms(2)] within_text [OF assms(1)]] by (simp add: raw_text_def)


definition kubeAPI_source :: json where
  "kubeAPI_source = JObject [(''to'', JObject [(''definition'', JObject [(''kubeAPI'', JBool True)])])]"

definition kubeAPI_egress :: netpol_egress where
  "kubeAPI_egress = \<lparr>neDefaults = None, neDefinitions = None, neExcludeCIDRs = None, neFrom = Some [(''web'', Some kubeAPI_source)]\<rparr>"

definition kubeAPI_package :: package where
  "kubeAPI_package = sample_package\<lparr>pkgSpec := \<lparr>psIstio = None,
     psNetworkPolicies = Some (sample_netpol\<lparr>npEgress := Some kubeAPI_egress\<rparr>), psRoutes = None\<rparr>\<rparr>"


section \<open>A pass always returns\<close>

text \<open>The API's errors are errors.\<close>

definition api_returns :: "'w reconciler \<Rightarrow> bool" where
  "api_returns r \<longleftrightarrow>
     (\<forall>w ns n. safe (clGetPackage (rcClient r) w ns n)) \<and> (\<forall>w ns n. safe (clGetConfigMap (rcClient r) w ns n)) \<and>
     (\<forall>w fm x. safe (fst (clPatch (rcClient r) w fm x))) \<and> (\<forall>w l ns ls. safe (clList (rcClient r) w l ns ls)) \<and>
     (\<forall>w x. safe (fst (clDelete (rcClient r) w x))) \<and> (\<forall>w p. safe (fst (clStatusUpdate (rcClient r) w p))) \<and>
     (\<forall>scheme k. rcScheme r = Some scheme \<longrightarrow> safe (scheme k))"

lemma safe_markFailed: "is_go_error err \<Longrightarrow> safe (fst (markFailed C pkg reason err w))"
  by (auto simp: markFailed_def Let_def split: prod.splits sum.splits)

lemma safe_fstE: "(\<And>w p. safe (fst (f w p))) \<Longrightarrow> f w p = (Inl e, w') \<Longrightarrow> is_go_error e"
  by (metis fst_conv safe_Inl)

lemma safe_applyAll:
  assumes "\<And>w fm x. safe (fst (clPatch C w fm x))"
  shows "safe (fst (applyAll C objs w))"
proof (induction objs arbitrary: w)
  case (Cons x objs)
  show ?case using assms [of w fieldManager x] Cons by (auto split: prod.splits sum.splits) (metis fst_conv safe_Inl)
qed simp

lemma safe_pruneStale:
  assumes "\<And>w l ns ls. safe (clList C w l ns ls)" "\<And>w x. safe (fst (clDelete C w x))"
  shows "safe (fst (pruneStale C pkg desired w))"
proof -
  have del: "safe (fst (delete_items C keep items w))" for keep items w
  proof (induction items arbitrary: w)
    case (Cons x items)
    show ?case using assms(2) [of w x] Cons by (auto split: prod.splits sum.splits)
  qed simp
  have "safe (fst (prune_kinds C pkg keep ls w))" for keep ls w
  proof (induction ls arbitrary: w)
    case (Cons l ls)
    have "safe (extractItems l')" for l' by (cases l') simp_all
    with assms(1) [of w l "pkgNamespace pkg" "Some [(LabelPackage, pkgName pkg)]"] Cons del show ?case
      by (auto split: prod.splits sum.splits) (metis fst_conv safe_Inl)+
  qed simp
  then show ?thesis by (simp add: pruneStale_def)
qed


lemma safe_ParseShared: "ext_returns X \<Longrightarrow> safe (ParseSharedEgressDefinitions X d)" "ext_returns X \<Longrightarrow> safe (ParseSharedIngressDefinitions X d)"
  "ext_returns X \<Longrightarrow> safe (ParseIngressConfig X a b)"
  by (auto simp: ParseSharedEgressDefinitions_def ParseSharedIngressDefinitions_def ParseIngressConfig_def Let_def ext_returnsD
      intro!: safe_rbind safe_range_sorted split: option.splits)

lemma sharedConfig_go_errors:
  assumes "ext_returns X" "\<And>w ns n. safe (clGetConfigMap (rcClient r) w ns n)"
  shows "inSharedDefinitionsError (sharedConfig X r w) = Some e \<Longrightarrow> is_go_error e"
    "inSharedIngressConfigError (sharedConfig X r w) = Some e \<Longrightarrow> is_go_error e"
proof -
  have go: "is_go_error err" if "f = Inl err" "safe f" for err and f :: "'a res" using that by simp
  note errs = safe_ParseShared [OF assms(1)] assms(2)
  show "inSharedDefinitionsError (sharedConfig X r w) = Some e \<Longrightarrow> is_go_error e"
    "inSharedIngressConfigError (sharedConfig X r w) = Some e \<Longrightarrow> is_go_error e"
    using errs(1) [of "config_value _ _"] errs
    by (auto simp: sharedConfig_def no_input_def Let_def split: if_splits sum.splits) (metis safe_Inl)+
qed

lemma input_ok_pass:
  assumes "ext_returns X" "api_returns r" "ingress_ports_bounded (psNetworkPolicies (pkgSpec pkg))"
  shows "input_ok X (pass_input X r pkg w)"
  using assms sharedConfig_go_errors [OF assms(1), of r]
  by (auto simp: input_ok_def api_returns_def pass_input_def)

lemma safe_reconcile_package:
  assumes "ext_returns X" "api_returns r" "ingress_ports_bounded (psNetworkPolicies (pkgSpec pkg))"
  shows "safe (fst (reconcile_package X r pkg w m))"
proof -
  note api = assms(2) [unfolded api_returns_def]
  have gen: "safe (Generate X (pass_input X r pkg w))" by (rule safe_Generate [OF input_ok_pass [OF assms]])
  have ap: "safe (fst (applyAll (rcClient r) objs v))" for objs v by (rule safe_applyAll) (use api in simp)
  have pr: "safe (fst (pruneStale (rcClient r) pkg objs v))" for objs v by (rule safe_pruneStale) (use api in simp_all)
  have rd: "safe (fst (markReady (rcClient r) pkg objs v))" for objs v
    using api by (auto simp: markReady_def Let_def split: prod.splits sum.splits) (metis fst_conv safe_Inl)
  have go: "is_go_error e" if "f = (Inl e, v)" "safe (fst f)" for f :: "'c res \<times> 'd" and e v using that by simp
  show ?thesis
    using gen unfolding reconcile_package_def Let_def pass_input_def
    by (auto split: sum.splits prod.splits) (metis fst_conv safe_markFailed safe_Inl gen ap pr rd)+
qed

lemma mem_ports_bounded:
  "clGetPackage (rcClient mem_reconciler) mem_world ''apps'' ''my-app'' = Inr pkg \<Longrightarrow> ingress_ports_bounded (psNetworkPolicies (pkgSpec pkg))"
  by (auto simp: mem_reconciler_def mem_client_def mem_packages_def mem_world_def istio_package_def sample_package_def
      pkg_key_def ingress_ports_bounded_None)

lemma mem_api_returns: "api_returns mem_reconciler"
  by (auto simp: api_returns_def mem_reconciler_def mem_client_def not_found_def operator_scheme_def split: option.splits)



text \<open>A package that does not exist, or is being deleted, is left to the garbage collector: the pass succeeds and changes nothing in the cluster
  or the metrics.\<close>

theorem Reconcile_absent:
  assumes "case clGetPackage (rcClient r) w ns n of Inl e \<Rightarrow> clIsNotFound (rcClient r) e | Inr pkg \<Rightarrow> pkgDeleting pkg"
  shows "Reconcile X r ns n (w, m) = (Inr (), w, m)"
  using assms by (auto simp: Reconcile_def Let_def split: sum.splits)

theorem Reconcile_absent_witness:
  "Reconcile sample_ext mem_reconciler ''apps'' ''gone'' (mem_world, no_metrics) = (Inr (), mem_world, no_metrics)"
  by (rule Reconcile_absent)
    (simp add: mem_reconciler_def mem_client_def mem_packages_def mem_world_def istio_package_def sample_package_def pkg_key_def)

end
