(* ===== verification/System.thy ===== *)
theory System
  imports Controller_Guarantees
begin

text \<open>
  The operator among the other clients of the API: a step relation in which users create, edit and delete packages while the operator
  reconciles in any order, and the invariant of the stored statuses, by rule induction.
\<close>

section \<open>What a pass stores\<close>

definition written :: "package \<Rightarrow> package \<Rightarrow> bool" where
  "written pkg q \<longleftrightarrow> (\<exists>reason err t t'. q = failed_status reason err t t' pkg) \<or> (\<exists>desired t. q = ready_status desired t pkg)"

definition stores :: "('w \<Rightarrow> pkg_store) \<Rightarrow> package \<Rightarrow> 'w \<Rightarrow> 'w \<Rightarrow> bool" where
  "stores P pkg w w' \<longleftrightarrow> P w' = P w \<or> (\<exists>q. written pkg q \<and> P w' = (P w)(pkg_key pkg \<mapsto> q))"

lemma reconcile_package_stores:
  assumes "package_laws r P" "reconcile_package X r pkg w m = (res, pkg', w', m')"
  shows "stores P pkg w w'"
proof -
  let ?C = "rcClient r"
  have fail: "stores P pkg w w2" if "markFailed ?C pkg reason err w1 = (x, y, w2)" "P w1 = P w" for reason err w1 x y w2
    using markFailed_stores [OF assms(1) that(1)] that(2) unfolding stores_def written_def by metis
  have ready: "stores P pkg w w2" if "markReady ?C pkg desired w1 = (x, y, w2)" "P w1 = P w" for desired w1 x y w2
    using markReady_stores [OF assms(1) that(1)] that(2) unfolding stores_def written_def by metis
  have patch: "applyAll ?C objs w1 = (x, w2) \<Longrightarrow> P w2 = P w1" for objs w1 x w2
    using package_lawsD(6) [OF assms(1), of objs w1] by simp
  have prune: "pruneStale ?C pkg objs w1 = (x, w2) \<Longrightarrow> P w2 = P w1" for objs w1 x w2
    using package_lawsD(7) [OF assms(1), of pkg objs w1] by simp
  have warn: "P (emit_warnings r p v) = P v" for p v by (rule package_lawsD(5) [OF assms(1)])
  show ?thesis
    using assms(2) unfolding reconcile_package_def Let_def
    by (auto simp: warn stores_def [of _ _ _ "emit_warnings r _ _"] intro: fail ready dest!: patch prune split: sum.splits prod.splits if_splits)
qed

section \<open>The invariant of a stored package\<close>

definition status_ok :: "package \<Rightarrow> bool" where
  "status_ok p \<longleftrightarrow> conditions_wf p \<and> 0 < pkgGeneration p \<and> stObservedGeneration (pkgStatus p) \<le> pkgGeneration p \<and>
     (holds p ''Reconciling'' \<longrightarrow> stObservedGeneration (pkgStatus p) < pkgGeneration p) \<and>
     (stObservedGeneration (pkgStatus p) = pkgGeneration p \<longrightarrow> phase_of p \<noteq> InProgress)"

lemma status_ok_reconciling:
  assumes "status_ok p" "pkgGeneration p \<noteq> stObservedGeneration (pkgStatus p)"
  shows "status_ok (reconciling_status t p)"
  using assms by (auto simp: status_ok_def reconciling_status_def status_simps)

lemma status_ok_written:
  assumes "conditions_wf p" "0 < pkgGeneration p"
  shows "status_ok (failed_status reason err t t' p)" "status_ok (ready_status desired t p)"
  using assms
  by (auto simp: status_ok_def phase_of_def holds_def failed_status_def ready_status_def Let_def status_simps split: option.splits)

lemma status_ok_edit:
  assumes "status_ok p" "pkgStatus q = pkgStatus p" "pkgGeneration p \<le> pkgGeneration q"
  shows "status_ok q"
  using assms by (auto simp: status_ok_def phase_of_def holds_def condition_def conditions_wf_def)

definition fresh_status :: "package \<Rightarrow> bool" where
  "fresh_status p \<longleftrightarrow> 0 < pkgGeneration p \<and> stObservedGeneration (pkgStatus p) = 0 \<and> stConditions (pkgStatus p) = []"

lemma status_ok_fresh: "fresh_status p \<Longrightarrow> status_ok p"
  by (simp add: fresh_status_def status_ok_def conditions_wf_def holds_def condition_def)

section \<open>The system\<close>

text \<open>
  Worlds the cluster can reach. The API server bumps the generation when a user edits the specification, creates packages with an
  empty status, and lets nobody but the operator write statuses.
\<close>

inductive reachable :: "ext \<Rightarrow> 'w reconciler \<Rightarrow> ('w \<Rightarrow> pkg_store) \<Rightarrow> 'w \<Rightarrow> bool" for X r P where
  init: "(\<And>k. P w k = None) \<Longrightarrow> reachable X r P w"
| create: "reachable X r P w \<Longrightarrow> fresh_status p \<Longrightarrow> P w (pkg_key p) = None \<Longrightarrow> P w' = (P w)(pkg_key p \<mapsto> p) \<Longrightarrow> reachable X r P w'"
| edit: "reachable X r P w \<Longrightarrow> P w k = Some p \<Longrightarrow> pkgStatus q = pkgStatus p \<Longrightarrow> pkgGeneration p \<le> pkgGeneration q \<Longrightarrow>
    P w' = (P w)(k \<mapsto> q) \<Longrightarrow> reachable X r P w'"
| delete: "reachable X r P w \<Longrightarrow> P w' = (P w)(k := None) \<Longrightarrow> reachable X r P w'"
| other: "reachable X r P w \<Longrightarrow> P w' = P w \<Longrightarrow> reachable X r P w'"
| reconcile: "reachable X r P w \<Longrightarrow> Reconcile X r ns n (w, m) = (res, w', m') \<Longrightarrow> reachable X r P w'"

lemma Reconcile_stores:
  assumes "package_laws r P" "\<And>k p. P w k = Some p \<Longrightarrow> status_ok p" "Reconcile X r ns n (w, m) = (res, w', m')" "P w' k = Some q"
  shows "status_ok q"
proof (cases "\<exists>pkg. clGetPackage (rcClient r) w ns n = Inr pkg \<and> \<not> pkgDeleting pkg")
  case False
  then have "w' = w" using assms(3) by (auto simp: Reconcile_def Let_def split: sum.splits)
  with assms(2,4) show ?thesis by blast
next
  case True
  then obtain pkg where pkg: "clGetPackage (rcClient r) w ns n = Inr pkg" "\<not> pkgDeleting pkg" by blast
  then have ok: "status_ok pkg" using package_lawsD(1) [OF assms(1)] assms(2) by blast
  from assms(1) pkg assms(3) show ?thesis
  proof (cases rule: Reconcile_cases)
    case unmarked
    with assms(2,4) show ?thesis by simp
  next
    case (pass pkg1 w1 pkg' m1)
    have wf: "conditions_wf pkg1" "0 < pkgGeneration pkg1"
      using pass_package [OF pass(1)] ok by (simp_all add: status_ok_def)
    have "status_ok pkg1" using pass(1,7) ok status_ok_reconciling by auto
    then have w1: "\<forall>j p. P w1 j = Some p \<longrightarrow> status_ok p" using assms(2) by (simp add: pass(4))
    have "written pkg1 p \<Longrightarrow> status_ok p" for p using status_ok_written [OF wf] by (auto simp: written_def)
    with reconcile_package_stores [OF assms(1) pass(5)] w1 assms(4) show ?thesis
      unfolding stores_def by (metis fun_upd_apply option.inject)
  qed
qed

text \<open>C10: In every reachable world, however users edit packages while the operator works and whichever of its status updates fail, a stored
  package has one condition per type, an observed generation that does not run ahead of its generation, is
  marked as reconciling only while its generation is not observed, and once its generation is observed it is either failed or current.\<close>

theorem reachable_status_ok:
  assumes "package_laws r P" "reachable X r P w" "P w k = Some p"
  shows "status_ok p"
  using assms(2,3)
proof (induction arbitrary: k p)
  case (reconcile w ns n m res w' m')
  with Reconcile_stores [OF assms(1)] show ?case by blast
qed (auto dest: status_ok_fresh status_ok_edit split: if_splits)

theorem reachable_status_ok_witness:
  "\<exists>w' m' q. Reconcile sample_ext mem_reconciler ''apps'' ''my-app'' (mem_world, no_metrics) = (Inr (), w', m') \<and>
     mem_packages w' (''apps'', ''my-app'') = Some q \<and> status_ok q"
proof -
  let ?R = "Reconcile sample_ext mem_reconciler ''apps'' ''my-app'' (mem_world, no_metrics)"
  have "(case ?R of (r, w', m') \<Rightarrow> r = Inr () \<and> mem_packages w' (''apps'', ''my-app'') \<noteq> None)" by code_simp
  then obtain w' m' q where R: "?R = (Inr (), w', m')" "mem_packages w' (''apps'', ''my-app'') = Some q" by (auto split: prod.splits)
  have "reachable sample_ext mem_reconciler mem_packages (mem_world\<lparr>mPackages := []\<rparr>)"
    by (rule init) (simp add: mem_packages_def)
  then have "reachable sample_ext mem_reconciler mem_packages mem_world"
    by (rule create [where p = istio_package])
      (simp_all add: mem_packages_def mem_world_def fresh_status_def istio_package_def sample_package_def fun_eq_iff)
  then have "reachable sample_ext mem_reconciler mem_packages w'" using R(1) by (rule reconcile)
  with R show ?thesis using reachable_status_ok [OF mem_package_laws] by (intro exI conjI)
qed

end
