(* ===== verification/Determinism.thy ===== *)
theory Determinism
  imports Generator_Guarantees
begin

text \<open>
  The output of \<open>Generate\<close> depends on what the maps of a package hold, not on the order Go iterates over them: a package
  may be replaced by its canonical form, in which every map is sorted and the status is empty. Each pass is shown to commute with it.
\<close>

section \<open>Canonical packages\<close>

definition canon_map :: "'v gomap \<Rightarrow> 'v gomap" where
  "canon_map m = map_option (\<lambda>kvs. map (\<lambda>k. (k, the (map_of kvs k))) (sortedKeys (Some kvs))) m"

definition canon_egress :: "netpol_egress \<Rightarrow> netpol_egress" where
  "canon_egress e = e\<lparr>neDefinitions := canon_map (neDefinitions e), neFrom := canon_map (neFrom e)\<rparr>"

definition canon_ingress :: "netpol_ingress \<Rightarrow> netpol_ingress" where
  "canon_ingress i = i\<lparr>niDefinitions := canon_map (niDefinitions i), niTo := canon_map (niTo i)\<rparr>"

definition canon_netpols :: "network_policies \<Rightarrow> network_policies" where
  "canon_netpols np = np\<lparr>npEgress := map_option canon_egress (npEgress np), npIngress := map_option canon_ingress (npIngress np)\<rparr>"

definition canon_authz :: "istio_authz \<Rightarrow> istio_authz" where
  "canon_authz a = a\<lparr>iaAdditionalPolicies := canon_map (iaAdditionalPolicies a)\<rparr>"

definition canon_istio :: "istio \<Rightarrow> istio" where
  "canon_istio i = i\<lparr>istAuthorizationPolicies := map_option canon_authz (istAuthorizationPolicies i)\<rparr>"

definition canon_routes :: "routes \<Rightarrow> routes" where
  "canon_routes r = r\<lparr>rtInbound := canon_map (rtInbound r), rtOutbound := canon_map (rtOutbound r)\<rparr>"

definition canon_package :: "package \<Rightarrow> package" where
  "canon_package p = p\<lparr>pkgSpec := \<lparr>psIstio = map_option canon_istio (psIstio (pkgSpec p)),
     psNetworkPolicies = map_option canon_netpols (psNetworkPolicies (pkgSpec p)), psRoutes = map_option canon_routes (psRoutes (pkgSpec p))\<rparr>,
     pkgGeneration := 0, pkgDeleting := False, pkgStatus := \<lparr>stObservedGeneration = 0, stConditions = [], stAppliedResources = []\<rparr>\<rparr>"

definition netpols_wf :: "network_policies \<Rightarrow> bool" where
  "netpols_wf np \<longleftrightarrow> (\<forall>e. npEgress np = Some e \<longrightarrow> gomap_wf (neDefinitions e) \<and> gomap_wf (neFrom e)) \<and>
     (\<forall>i. npIngress np = Some i \<longrightarrow> gomap_wf (niDefinitions i) \<and> gomap_wf (niTo i))"

definition maps_wf :: "package \<Rightarrow> bool" where
  "maps_wf p \<longleftrightarrow>
     (\<forall>np. psNetworkPolicies (pkgSpec p) = Some np \<longrightarrow> netpols_wf np) \<and>
     (\<forall>i a. psIstio (pkgSpec p) = Some i \<longrightarrow> istAuthorizationPolicies i = Some a \<longrightarrow> gomap_wf (iaAdditionalPolicies a)) \<and>
     (\<forall>r. psRoutes (pkgSpec p) = Some r \<longrightarrow> gomap_wf (rtInbound r) \<and> gomap_wf (rtOutbound r))"

lemma glookup_canon [simp]: "glookup (canon_map m) = glookup m"
proof (cases m)
  case (Some kvs)
  have "map_of (map (\<lambda>k. (k, f k)) ks) k = (if k \<in> set ks then Some (f k) else None)" for f :: "string \<Rightarrow> 'a" and ks k
    by (induction ks) auto
  then show ?thesis
    by (auto simp: Some canon_map_def fun_eq_iff set_sortedKeys domIff glookup_def split: option.splits)
qed (simp add: canon_map_def)

lemma gomap_wf_canon: "gomap_wf m \<Longrightarrow> gomap_wf (canon_map m)"
proof (cases m)
  case (Some kvs)
  assume "gomap_wf m"
  then show ?thesis using distinct_sortedKeys [of m] by (simp add: Some canon_map_def gomap_wf_def comp_def)
qed (simp add: canon_map_def)

lemma range_canon: "gomap_wf m \<Longrightarrow> range_sorted (canon_map m) body = range_sorted m body"
  by (rule range_sorted_deterministic) (simp_all add: gomap_wf_canon)

section \<open>The passes on canonical packages\<close>

lemma canon_fields [simp]:
  "pkgName (canon_package p) = pkgName p" "pkgNamespace (canon_package p) = pkgNamespace p" "pkgUID (canon_package p) = pkgUID p"
  "neDefaults (canon_egress e) = neDefaults e" "neExcludeCIDRs (canon_egress e) = neExcludeCIDRs e"
  "neFrom (canon_egress e) = canon_map (neFrom e)" "neDefinitions (canon_egress e) = canon_map (neDefinitions e)"
  "niDefaults (canon_ingress i) = niDefaults i" "niTo (canon_ingress i) = canon_map (niTo i)" "niDefinitions (canon_ingress i) = canon_map (niDefinitions i)"
  "npEgress (canon_netpols np) = map_option canon_egress (npEgress np)" "npIngress (canon_netpols np) = map_option canon_ingress (npIngress np)"
  "npEnabled (canon_netpols np) = npEnabled np" "npPrependReleaseName (canon_netpols np) = npPrependReleaseName np"
  "npAdditional (canon_netpols np) = npAdditional np" "npAdditionalPolicies (canon_netpols np) = npAdditionalPolicies np"
  "npHbonePortInjection (canon_netpols np) = npHbonePortInjection np"
  by (simp_all add: canon_package_def canon_egress_def canon_ingress_def canon_netpols_def)

lemma canon_istio_fields [simp]:
  "istAmbient (canon_istio i) = istAmbient i" "istEnabled (canon_istio i) = istEnabled i" "istMtls (canon_istio i) = istMtls i"
  "istPrependReleaseName (canon_istio i) = istPrependReleaseName i" "istServiceEntries (canon_istio i) = istServiceEntries i"
  "istSidecar (canon_istio i) = istSidecar i" "istAuthorizationPolicies (canon_istio i) = map_option canon_authz (istAuthorizationPolicies i)"
  "iaCustom (canon_authz a) = iaCustom a" "iaDefaults (canon_authz a) = iaDefaults a" "iaEnabled (canon_authz a) = iaEnabled a"
  "iaGenerateFromNetpol (canon_authz a) = iaGenerateFromNetpol a" "iaAdditionalPolicies (canon_authz a) = canon_map (iaAdditionalPolicies a)"
  "rtDefaults (canon_routes r) = rtDefaults r" "rtInbound (canon_routes r) = canon_map (rtInbound r)"
  "rtOutbound (canon_routes r) = canon_map (rtOutbound r)" "rtPrependReleaseName (canon_routes r) = rtPrependReleaseName r"
  by (simp_all add: canon_istio_def canon_authz_def canon_routes_def)

lemma canon_spec [simp]:
  "psIstio (pkgSpec (canon_package p)) = map_option canon_istio (psIstio (pkgSpec p))"
  "psNetworkPolicies (pkgSpec (canon_package p)) = map_option canon_netpols (psNetworkPolicies (pkgSpec p))"
  "psRoutes (pkgSpec (canon_package p)) = map_option canon_routes (psRoutes (pkgSpec p))"
  by (simp_all add: canon_package_def)

text \<open>The builders use a package for its name only.\<close>

lemma canon_builders [simp]:
  "buildShorthandEgressNetpol (canon_package p) = buildShorthandEgressNetpol p"
  "buildShorthandIngressNetpol (canon_package p) = buildShorthandIngressNetpol p"
  "buildIngressCIDRNetpol (canon_package p) = buildIngressCIDRNetpol p"
  "buildEgressDefinitionNetpol (canon_package p) = buildEgressDefinitionNetpol p"
  "buildIngressDefinitionNetpol (canon_package p) = buildIngressDefinitionNetpol p"
  "buildEgressLiteralNetpol X (canon_package p) = buildEgressLiteralNetpol X p"
  "buildIngressLiteralNetpol X (canon_package p) = buildIngressLiteralNetpol X p"
  "buildAuthzFromShorthand (canon_package p) = buildAuthzFromShorthand p"
  "buildAuthzFromCIDR (canon_package p) = buildAuthzFromCIDR p"
  "buildAuthzFromRoute (canon_package p) = buildAuthzFromRoute p"
  "buildVirtualService X (canon_package p) = buildVirtualService X p"
  "buildInboundServiceEntry (canon_package p) = buildInboundServiceEntry p"
  "buildInboundNetpols (canon_package p) = buildInboundNetpols p"
  "buildOutboundServiceEntry (canon_package p) = buildOutboundServiceEntry p"
  by (simp_all add: fun_eq_iff buildShorthandEgressNetpol_def buildShorthandIngressNetpol_def buildIngressCIDRNetpol_def
      buildEgressDefinitionNetpol_def buildIngressDefinitionNetpol_def buildEgressLiteralNetpol_def buildIngressLiteralNetpol_def
      buildAuthzFromShorthand_def buildAuthzFromCIDR_def buildAuthzFromRoute_def buildVirtualService_def buildInboundServiceEntry_def
      buildInboundNetpols_def inbound_netpol_def buildOutboundServiceEntry_def)

lemma canon_stamp [simp]: "stampMetadata (canon_package p) = stampMetadata p"
  by (rule ext) (simp only: stampMetadata_def stamp_labels_def owner_of_def canon_fields)

lemma canon_cidr [simp]: "buildEgressCIDRNetpol (canon_package p) (canon_netpols np) = buildEgressCIDRNetpol p np"
  by (simp add: fun_eq_iff buildEgressCIDRNetpol_def excludeCIDRsFor_def case_map_option comp_def cong: option.case_cong)

lemma canon_local [simp]: "egress_local (canon_netpols np) = egress_local np" "ingress_local (canon_netpols np) = ingress_local np"
  by (cases "npEgress np"; cases "npIngress np"; simp add: fun_eq_iff egress_local_def ingress_local_def)+

lemma canon_resolve [simp]:
  "resolveEgressDefinition (canon_netpols np) = resolveEgressDefinition np"
  "resolveIngressDefinition (canon_netpols np) = resolveIngressDefinition np"
  by (simp_all add: fun_eq_iff resolveEgressDefinition_def resolveIngressDefinition_def)

lemma canon_sides [simp]: "egressSideEnabled (canon_netpols np) = egressSideEnabled np" "ingressSideEnabled (canon_netpols np) = ingressSideEnabled np"
  "egress_toggle (canon_netpols np) = egress_toggle np" "ingress_toggle (canon_netpols np) = ingress_toggle np"
  by (cases "npEgress np"; cases "npIngress np";
      simp add: fun_eq_iff egressSideEnabled_def ingressSideEnabled_def egress_toggle_def ingress_toggle_def)+

lemma canon_gates [simp]: "egress_default (canon_netpols np) = egress_default np" "ingress_default (canon_netpols np) = ingress_default np"
  "default_netpol (canon_package p) (canon_netpols np) = default_netpol p np"
  unfolding fun_eq_iff egress_default_def ingress_default_def canon_sides default_netpol_def canon_fields by blast+

lemma canon_ambient [simp]: "istioAmbient (map_option canon_istio ist) = istioAmbient ist"
  by (cases ist) (simp_all add: istioAmbient_def)

lemmas gate_defs = egressDenyAll_def egressAllowInNS_def egressAllowKubeDNS_def egressAllowIstiod_def ingressDenyAll_def
  ingressAllowInNS_def ingressAllowPromToSidecar_def

lemma canon_defaults [simp]:
  "defaultEgressPolicies (canon_package p) (canon_netpols np) (map_option canon_istio ist) = defaultEgressPolicies p np ist"
  "defaultIngressPolicies (canon_package p) (canon_netpols np) (map_option canon_istio ist) = defaultIngressPolicies p np ist"
  by (simp_all add: defaultEgressPolicies_def defaultIngressPolicies_def gate_defs)

lemma canon_sources [simp]:
  "expand_egress_source X (canon_package p) (canon_netpols np) = expand_egress_source X p np"
  "expand_ingress_source X (canon_package p) (canon_netpols np) = expand_ingress_source X p np"
  "authz_from_source (canon_package p) = authz_from_source p"
  by (simp_all add: fun_eq_iff expand_egress_source_def expand_ingress_source_def authz_from_source_def Let_def cong: if_cong)

lemma canon_expand:
  assumes "netpols_wf np"
  shows "expandShorthandEgress X (canon_package p) (canon_netpols np) env = expandShorthandEgress X p np env"
    "expandShorthandIngress X (canon_package p) (canon_netpols np) env = expandShorthandIngress X p np env"
proof -
  show "expandShorthandEgress X (canon_package p) (canon_netpols np) env = expandShorthandEgress X p np env"
    unfolding expandShorthandEgress_def canon_sources
    using assms by (cases "npEgress np") (simp_all add: netpols_wf_def range_canon)
  show "expandShorthandIngress X (canon_package p) (canon_netpols np) env = expandShorthandIngress X p np env"
    unfolding expandShorthandIngress_def canon_sources
    using assms by (cases "npIngress np") (simp_all add: netpols_wf_def range_canon)
qed

lemma canon_additional [simp]: "buildAdditionalPolicy X (canon_package p) (canon_netpols np) = buildAdditionalPolicy X p np"
  by (simp add: fun_eq_iff buildAdditionalPolicy_def)

lemma canon_generateNetworkPolicies:
  "netpols_wf np \<Longrightarrow> generateNetworkPolicies X (canon_package p) (canon_netpols np) (map_option canon_istio ist) env =
     generateNetworkPolicies X p np ist env"
  by (simp add: generateNetworkPolicies_def canon_expand)

lemma canon_generateIstio: "generateIstio X (canon_package p) (canon_istio i) = generateIstio X p i"
  unfolding generateIstio_def sidecarResource_def generateCustomServiceEntries_def mTLSMode_def option.case canon_istio_fields canon_fields ..


lemma canon_generateRoutes:
  assumes "gomap_wf (rtOutbound rt)"
  shows "generateRoutes X (canon_package p) (Some (canon_routes rt)) inbound = generateRoutes X p (Some rt) inbound"
proof -
  have "generate_inbound X (canon_package p) = generate_inbound X p" "generate_outbound (canon_package p) = generate_outbound p"
    by (simp_all add: fun_eq_iff generate_inbound_def generate_outbound_def cong: if_cong)
  moreover have "(case psNetworkPolicies (pkgSpec (canon_package p)) of None \<Rightarrow> False | Some np \<Rightarrow> npEnabled np) =
      (case psNetworkPolicies (pkgSpec p) of None \<Rightarrow> False | Some np \<Rightarrow> npEnabled np)"
    by (cases "psNetworkPolicies (pkgSpec p)") simp_all
  ultimately show ?thesis using assms by (simp add: generateRoutes_def range_canon)
qed

lemma canon_authz_gates [simp]:
  "authzEnabled (map_option canon_istio ist) = authzEnabled ist" "generateFromNetpol (map_option canon_istio ist) = generateFromNetpol ist"
  "authz_defaults_of (map_option canon_istio ist) = authz_defaults_of ist"
  by (cases ist; cases "Option.bind ist istAuthorizationPolicies";
      simp add: authzEnabled_def generateFromNetpol_def authz_defaults_of_def split: option.splits)+


lemma canon_default_authz: "generateDefaultAuthzPolicies (canon_package p) (map_option canon_istio ist) (map_option canon_netpols np) =
    generateDefaultAuthzPolicies p ist np"
proof -
  have "authzDefaultsEnabled (map_option canon_istio ist) = authzDefaultsEnabled ist"
    "authzAllowNothing (map_option canon_istio ist) = authzAllowNothing ist" "authzAllowAllInNS (map_option canon_istio ist) = authzAllowAllInNS ist"
    unfolding authzAllowNothing_def authzAllowAllInNS_def authzDefaultsEnabled_def canon_authz_gates by blast+
  then show ?thesis
    using canon_authz_gates(1) [of ist]
    by (cases ist; cases np) (simp_all add: generateDefaultAuthzPolicies_def cong: if_cong)
qed

lemma canon_shorthand_authz:
  assumes "netpols_wf np"
  shows "generateAuthzFromIngressShorthand (canon_package p) (Some (canon_netpols np)) (map_option canon_istio ist) =
    generateAuthzFromIngressShorthand p (Some np) ist"
  using assms by (cases "npIngress np") (simp_all add: generateAuthzFromIngressShorthand_def netpols_wf_def range_canon cong: option.case_cong)

lemma canon_route_authz: "generateAuthzFromRoutes (canon_package p) (Some (canon_routes rt)) (map_option canon_istio ist) inbound =
    generateAuthzFromRoutes p (Some rt) ist inbound"
  by (simp add: generateAuthzFromRoutes_def)

lemma canon_custom_authz:
  assumes "\<forall>i a. ist = Some i \<longrightarrow> istAuthorizationPolicies i = Some a \<longrightarrow> gomap_wf (iaAdditionalPolicies a)"
  shows "generateCustomAuthzPolicies X (map_option canon_istio ist) = generateCustomAuthzPolicies X ist"
  using assms by (cases ist; cases "Option.bind ist istAuthorizationPolicies") (auto simp: generateCustomAuthzPolicies_def range_canon)

lemma canon_inbound:
  assumes "gomap_wf (rtInbound rt)" "psRoutes (pkgSpec p) = Some rt"
  shows "resolveInboundRoutes X (inp\<lparr>inPackage := Some (canon_package p)\<rparr>) = resolveInboundRoutes X (inp\<lparr>inPackage := Some p\<rparr>)"
proof -
  have "resolve_inbound X (inp\<lparr>inPackage := q\<rparr>) = resolve_inbound X inp" for q
    by (simp add: fun_eq_iff resolve_inbound_def cong: if_cong option.case_cong)
  moreover have fill: "fill_gateways (canon_routes rt) = fill_gateways rt" by (intro ext) (simp only: fill_gateways_def canon_istio_fields)
  have "resolve_inbound X inp (canon_routes rt) = resolve_inbound X inp rt" by (intro ext) (simp only: resolve_inbound_def fill)
  ultimately show ?thesis using assms by (simp add: resolveInboundRoutes_def range_canon)
qed


section \<open>Generation is deterministic\<close>

lemma canon_passes:
  assumes "maps_wf p"
  shows "generate_passes X (inp\<lparr>inPackage := Some (canon_package p)\<rparr>) (canon_package p) inbound = generate_passes X (inp\<lparr>inPackage := Some p\<rparr>) p inbound"
proof -
  let ?s = "pkgSpec p"
  have wf: "psNetworkPolicies ?s = Some np \<Longrightarrow> netpols_wf np" "psRoutes ?s = Some rt \<Longrightarrow> gomap_wf (rtOutbound rt)"
    "\<forall>i a. psIstio ?s = Some i \<longrightarrow> istAuthorizationPolicies i = Some a \<longrightarrow> gomap_wf (iaAdditionalPolicies a)" for np rt
    using assms by (auto simp: maps_wf_def)
  let ?i = "map_option canon_istio (psIstio ?s)" and ?n = "map_option canon_netpols (psNetworkPolicies ?s)"
    and ?r = "map_option canon_routes (psRoutes ?s)"
  have istio: "(case ?i of None \<Rightarrow> Inr [] | Some i \<Rightarrow> if istEnabled i then rwrap f [] (generateIstio X (canon_package p) i) else Inr []) =
      (case psIstio ?s of None \<Rightarrow> Inr [] | Some i \<Rightarrow> if istEnabled i then rwrap f [] (generateIstio X p i) else Inr [])" for f
    by (cases "psIstio ?s") (simp_all add: canon_generateIstio)
  have netpols: "(case ?n of None \<Rightarrow> Inr [] | Some np \<Rightarrow> if npEnabled np
        then rwrap f [] (generateNetworkPolicies X (canon_package p) np ?i env) else Inr []) =
      (case psNetworkPolicies ?s of None \<Rightarrow> Inr [] | Some np \<Rightarrow> if npEnabled np
        then rwrap f [] (generateNetworkPolicies X p np (psIstio ?s) env) else Inr [])" for f env
    by (cases "psNetworkPolicies ?s") (simp_all add: canon_generateNetworkPolicies wf)
  have rts: "(if ?r \<noteq> None then rwrap f [] (generateRoutes X (canon_package p) ?r inbound) else Inr []) =
      (if psRoutes ?s \<noteq> None then rwrap f [] (generateRoutes X p (psRoutes ?s) inbound) else Inr [])" for f
    by (cases "psRoutes ?s") (simp_all add: canon_generateRoutes wf)
  have aps: "(if ?n \<noteq> None then rwrap f [] (generateAuthzFromIngressShorthand (canon_package p) ?n ?i) else Inr []) =
      (if psNetworkPolicies ?s \<noteq> None then rwrap f [] (generateAuthzFromIngressShorthand p (psNetworkPolicies ?s) (psIstio ?s)) else Inr [])" for f
    by (cases "psNetworkPolicies ?s") (simp_all add: canon_shorthand_authz wf)
  have raps: "(if ?r \<noteq> None then generateAuthzFromRoutes (canon_package p) ?r ?i inbound else []) =
      (if psRoutes ?s \<noteq> None then generateAuthzFromRoutes p (psRoutes ?s) (psIstio ?s) inbound else [])"
    by (cases "psRoutes ?s") (simp_all add: canon_route_authz)
  have env: "inKubeAPIPorts (inp\<lparr>inPackage := q\<rparr>) = inKubeAPIPorts inp" "inSharedEgressDefinitions (inp\<lparr>inPackage := q\<rparr>) = inSharedEgressDefinitions inp"
    "inSharedIngressDefinitions (inp\<lparr>inPackage := q\<rparr>) = inSharedIngressDefinitions inp"
    "inSharedDefinitionsError (inp\<lparr>inPackage := q\<rparr>) = inSharedDefinitionsError inp" for q by simp_all
  show ?thesis
    unfolding generate_passes_def Let_def canon_spec env istio netpols rts aps raps canon_default_authz canon_custom_authz [OF wf(3)] ..
qed


lemma Generate_canon:
  assumes "maps_wf p"
  shows "Generate X (inp\<lparr>inPackage := Some (canon_package p)\<rparr>) = Generate X (inp\<lparr>inPackage := Some p\<rparr>)"
proof -
  have inbound: "resolveInboundRoutes X (inp\<lparr>inPackage := Some (canon_package p)\<rparr>) = resolveInboundRoutes X (inp\<lparr>inPackage := Some p\<rparr>)"
  proof (cases "psRoutes (pkgSpec p)")
    case (Some rt)
    with assms show ?thesis by (intro canon_inbound) (auto simp: maps_wf_def)
  qed (simp add: resolveInboundRoutes_def)
  have "hboneEnabled (map_option canon_netpols n) (map_option canon_istio i) = hboneEnabled n i" for n i
    by (cases n) (simp_all add: hboneEnabled_def)
  then show ?thesis unfolding Generate_def inbound by (simp add: canon_passes [OF assms] cong: option.case_cong)
qed

lemma Generate_status:
  assumes "maps_wf p" "pkgSpec q = pkgSpec p" "pkgName q = pkgName p" "pkgNamespace q = pkgNamespace p" "pkgUID q = pkgUID p"
  shows "Generate X (inp\<lparr>inPackage := Some q\<rparr>) = Generate X (inp\<lparr>inPackage := Some p\<rparr>)"
proof -
  have "canon_package q = canon_package p" using assms(2-5) by (simp add: canon_package_def)
  moreover have "maps_wf q" using assms(1,2) by (simp add: maps_wf_def)
  ultimately show ?thesis using Generate_canon [of q] Generate_canon [OF assms(1)] by metis
qed


definition two_routes :: "bool \<Rightarrow> package" where
  "two_routes swap = route_package\<lparr>pkgSpec := \<lparr>psIstio = None, psNetworkPolicies = None, psRoutes = Some (sample_routes\<lparr>
     rtInbound := Some ((if swap then rev else id) [(''a'', Some (JBool True)), (''b'', None)])\<rparr>)\<rparr>\<rparr>"


end
