(* ===== verification/Fixpoint.thy ===== *)
theory Fixpoint
  imports System Determinism
begin

text \<open>
  A second pass over a package that nobody changed: it writes the status it finds, deletes nothing and applies the same objects, so the
  operator does not keep itself busy.
\<close>

section \<open>A ready status is a fixpoint\<close>

lemma upsert_same: "find_key cType (cType c) xs = Some e \<Longrightarrow> keep_transition e c = e \<Longrightarrow> upsert_condition c xs = xs"
proof (induction xs)
  case (Cons x xs)
  have "upsert_condition c (x # xs) = (if cType x = cType c then keep_transition x c # xs else x # upsert_condition c xs)"
    by (simp add: keep_transition_def)
  with Cons show ?case by (simp del: upsert_condition.simps split: if_splits)
qed simp

lemma drop_absent: "find_key cType k xs = None \<Longrightarrow> drop_condition k xs = xs"
  by (induction xs) (auto split: if_splits)

lemma setCondition_same: "condition pkg (cType c) = Some e \<Longrightarrow> keep_transition e c = e \<Longrightarrow> setCondition c pkg = pkg"
  by (simp add: setCondition_def set_status_def condition_def upsert_same)

lemma removeCondition_absent: "condition pkg k = None \<Longrightarrow> removeCondition k pkg = pkg"
  by (simp add: removeCondition_def set_status_def condition_def drop_absent)

lemma ready_status_conditions:
  assumes "conditions_wf pkg"
  shows "condition (ready_status desired t pkg) ''Stalled'' = None" "condition (ready_status desired t pkg) ''Reconciling'' = None"
    "\<exists>t0. condition (ready_status desired t pkg) ''Ready'' = Some \<lparr>cType = ''Ready'', cStatus = ''True'', cReason = ''ResourcesApplied'',
       cMessage = Text ''bb-common resources reconciled'', cObservedGeneration = pkgGeneration pkg, cLastTransitionTime = t0\<rparr>"
  using assms by (auto simp: ready_status_def Let_def status_simps keep_transition_def split: option.splits)

lemma ready_status_again:
  assumes "conditions_wf pkg" "summarize desired' = summarize desired"
  shows "ready_status desired' t' (ready_status desired t pkg) = ready_status desired t pkg"
proof -
  let ?q = "ready_status desired t pkg"
  let ?c = "\<lparr>cType = ''Ready'', cStatus = ''True'', cReason = ''ResourcesApplied'',
    cMessage = Text ''bb-common resources reconciled'', cObservedGeneration = pkgGeneration ?q, cLastTransitionTime = t'\<rparr>"
  have gen: "pkgGeneration ?q = pkgGeneration pkg" "stObservedGeneration (pkgStatus ?q) = pkgGeneration pkg"
    "stAppliedResources (pkgStatus ?q) = summarize desired'"
    by (simp_all add: ready_status_def Let_def assms(2))
  have c: "setCondition ?c ?q = ?q"
    using ready_status_conditions(3) [OF assms(1), of desired t] by (auto intro!: setCondition_same simp: gen keep_transition_def)
  have r: "removeCondition ''Stalled'' ?q = ?q" "removeCondition ''Reconciling'' ?q = ?q"
    by (simp_all add: removeCondition_absent ready_status_conditions assms(1))
  have "ready_status desired' t' ?q = set_status (\<lambda>s. s\<lparr>stObservedGeneration := pkgGeneration ?q, stAppliedResources := summarize desired'\<rparr>) ?q"
    unfolding ready_status_def [of desired' t' ?q] Let_def c r ..
  also have "\<dots> = ?q" by (simp add: set_status_def gen flip: gen(3))
  finally show ?thesis .
qed

section \<open>Configuration\<close>

text \<open>What a pass reads beside the package, and the law that the writes of a pass leave it alone.\<close>

definition config_view :: "'w reconciler \<Rightarrow> 'w \<Rightarrow> (string \<Rightarrow> string \<Rightarrow> string gomap res) \<times> (string \<Rightarrow> string \<Rightarrow> int_or_string list res)" where
  "config_view r w = (clGetConfigMap (rcClient r) w, (case rcAPIReader r of None \<Rightarrow> clGetService (rcClient r) | Some get \<Rightarrow> get) w)"

definition config_laws :: "'w reconciler \<Rightarrow> bool" where
  "config_laws r \<longleftrightarrow>
     (\<forall>w fm x. config_view r (snd (clPatch (rcClient r) w fm x)) = config_view r w) \<and>
     (\<forall>w x. config_view r (snd (clDelete (rcClient r) w x)) = config_view r w) \<and>
     (\<forall>w p. config_view r (snd (clStatusUpdate (rcClient r) w p)) = config_view r w) \<and>
     (\<forall>w. config_view r (snd (clNow (rcClient r) w)) = config_view r w) \<and>
     (\<forall>event w p a b c. rcRecorder r = Some event \<longrightarrow> config_view r (event w p a b c) = config_view r w)"

lemma config_lawsD:
  assumes "config_laws r"
  shows "config_view r (emit_warnings r pkg w) = config_view r w"
    and "config_view r (snd (markReconciling (rcClient r) pkg w)) = config_view r w"
    and "config_view r (snd (snd (markReady (rcClient r) pkg desired w))) = config_view r w"
    and "config_view r (snd (applyAll (rcClient r) objs w)) = config_view r w"
    and "config_view r (snd (pruneStale (rcClient r) pkg objs w)) = config_view r w"
proof -
  note laws = assms [unfolded config_laws_def]
  show "config_view r (emit_warnings r pkg w) = config_view r w" using laws by (intro emit_warnings_frame) simp
  show "config_view r (snd (markReconciling (rcClient r) pkg w)) = config_view r w"
    "config_view r (snd (snd (markReady (rcClient r) pkg desired w))) = config_view r w"
    using laws by (simp_all add: mark_frame)
  show "config_view r (snd (applyAll (rcClient r) objs w)) = config_view r w" using laws by (intro applyAll_frame) simp
  show "config_view r (snd (pruneStale (rcClient r) pkg objs w)) = config_view r w"
    unfolding pruneStale_def by (rule prunes_frame [OF prunes_prune_kinds [OF prunes_none]]) (use laws in simp_all)
qed

lemma reads_view:
  assumes "config_view r w' = config_view r w"
  shows "sharedConfig X r w' = sharedConfig X r w" "kubeAPIPorts r pkg w' = kubeAPIPorts r pkg w"
proof -
  have "clGetConfigMap (rcClient r) w' = clGetConfigMap (rcClient r) w"
    and get: "(case rcAPIReader r of None \<Rightarrow> clGetService (rcClient r) | Some get \<Rightarrow> get) w' =
      (case rcAPIReader r of None \<Rightarrow> clGetService (rcClient r) | Some get \<Rightarrow> get) w"
    using assms by (simp_all add: config_view_def)
  then show "sharedConfig X r w' = sharedConfig X r w" by (simp only: sharedConfig_def)
  show "kubeAPIPorts r pkg w' = kubeAPIPorts r pkg w" by (simp only: kubeAPIPorts_def Let_def get)
qed

lemma pass_input_view:
  assumes "config_laws r" "config_view r w' = config_view r w" "pkgSpec q = pkgSpec p"
  shows "pass_input X r q w' = (pass_input X r p w)\<lparr>inPackage := Some q\<rparr>"
proof -
  have view: "config_view r (emit_warnings r q w') = config_view r (emit_warnings r p w)"
    by (simp add: config_lawsD(1) [OF assms(1)] assms(2))
  have "kubeAPIPorts r q v = kubeAPIPorts r p v" for v by (simp only: kubeAPIPorts_def assms(3))
  then show ?thesis by (simp add: pass_input_def reads_view [OF view])
qed

section \<open>The second pass\<close>

lemma reconcile_package_config:
  assumes "config_laws r" "reconcile_package X r pkg w m = (Inr u, pkg', w', m')"
  shows "config_view r w' = config_view r w"
proof -
  from assms(2) obtain desired applied w1 w2 where "applyAll (rcClient r) desired (emit_warnings r pkg w) = (Inr applied, w1)"
    "pruneStale (rcClient r) pkg applied w1 = (Inr (), w2)" "markReady (rcClient r) pkg applied w2 = (Inr (), pkg', w')"
    by (rule reconcile_package_InrE)
  then have "w1 = snd (applyAll (rcClient r) desired (emit_warnings r pkg w))" "w2 = snd (pruneStale (rcClient r) pkg applied w1)"
    "w' = snd (snd (markReady (rcClient r) pkg applied w2))" by simp_all
  then show ?thesis by (simp add: config_lawsD [OF assms(1)])
qed

lemma ready_frame: "pkgSpec (ready_status desired t pkg) = pkgSpec pkg" "pkgName (ready_status desired t pkg) = pkgName pkg"
  "pkgNamespace (ready_status desired t pkg) = pkgNamespace pkg" "pkgUID (ready_status desired t pkg) = pkgUID pkg"
  "pkgDeleting (ready_status desired t pkg) = pkgDeleting pkg"
  "stObservedGeneration (pkgStatus (ready_status desired t pkg)) = pkgGeneration (ready_status desired t pkg)"
  by (simp_all add: ready_status_def Let_def setCondition_def removeCondition_def)

lemma second_pass:
  assumes laws: "object_laws r V scheme" "package_laws r P" "scheme_ok gvk_string scheme" "rcScheme r = Some scheme" "config_laws r"
    and wf: "conditions_wf pkg" "maps_wf pkg"
    and first: "reconcile_package X r pkg w m = (Inr u, pkg1, w1, m1)" "P w1 (pkg_key pkg) = Some q"
    and second: "reconcile_package X r q w1 m' = (Inr u', pkg2, w2, m2)"
  shows "P w2 = P w1 \<and> (\<forall>k. V w2 k = None \<longleftrightarrow> V w1 k = None) \<and> (\<forall>k. managed pkg (V w1) k \<or> V w2 k = V w1 k)"
proof -
  from laws(1-4) first(1) obtain desired applied t where 1: "Generate X (pass_input X r pkg w) = Inr desired"
    "summarize applied = summarize desired" "P w1 = (P w)(pkg_key pkg \<mapsto> ready_status applied t pkg)"
    "\<And>k. managed pkg (V w1) k \<longleftrightarrow> k \<in> obj_key ` set desired"
    by (rule pass_stored) blast
  have q: "q = ready_status applied t pkg" using first(2) 1(3) by simp
  from laws(1-4) second obtain desired' applied' t' where 2: "Generate X (pass_input X r q w1) = Inr desired'"
    "summarize applied' = summarize desired'" "P w2 = (P w1)(pkg_key q \<mapsto> ready_status applied' t' q)"
    "\<And>k. managed q (V w2) k \<longleftrightarrow> k \<in> obj_key ` set desired'"
    "\<And>k. k \<notin> obj_key ` set desired' \<Longrightarrow> V w2 k = (if managed q (V w1) k then None else V w1 k)"
    by (rule pass_stored) blast
  have "pass_input X r q w1 = (pass_input X r pkg w)\<lparr>inPackage := Some q\<rparr>"
    by (rule pass_input_view [OF laws(5) reconcile_package_config [OF laws(5) first(1)]]) (simp add: q ready_frame)
  then have "Generate X (pass_input X r q w1) = Generate X ((pass_input X r pkg w)\<lparr>inPackage := Some pkg\<rparr>)"
    using Generate_status [OF wf(2), of q] by (simp add: q ready_frame)
  moreover have "(pass_input X r pkg w)\<lparr>inPackage := Some pkg\<rparr> = pass_input X r pkg w" by (simp add: pass_input_def)
  ultimately have [simp]: "desired' = desired" using 1(1) 2(1) by simp
  have m: "managed q = managed pkg" by (rule managed_frame) (simp_all add: q ready_frame)
  have "P w2 = P w1" using ready_status_again [OF wf(1)] 1(2) 2(2,3) first(2) by (simp add: q fun_upd_idem)
  moreover have "V w2 k = V w1 k" if "\<not> managed pkg (V w1) k" for k using that 1(4) 2(5) [of k] by (simp add: m)
  moreover have "V w2 k \<noteq> None \<and> V w1 k \<noteq> None" if "managed pkg (V w1) k" for k
    using managed_Some [OF that] managed_Some [of q "V w2" k] that 1(4) [of k] 2(4) [of k] by simp
  ultimately show ?thesis by metis
qed

text \<open>C2: Reconciling has a fixpoint: after a pass that succeeds, a further pass over the package that succeeds stores every package exactly as it
  was, the transition times of its conditions included, deletes and creates no object, and touches only objects of the package, by applying what
  the first pass applied.\<close>

theorem Reconcile_fixpoint:
  assumes laws: "object_laws r V scheme" "package_laws r P" "scheme_ok gvk_string scheme" "rcScheme r = Some scheme" "config_laws r"
    and pkg: "clGetPackage (rcClient r) w ns n = Inr pkg" "\<not> pkgDeleting pkg" "conditions_wf pkg" "maps_wf pkg"
    and first: "Reconcile X r ns n (w, m) = (Inr u, w1, m1)"
    and second: "Reconcile X r ns n (w1, m1) = (Inr u', w2, m2)"
  shows "P w2 = P w1 \<and> (\<forall>k. V w2 k = None \<longleftrightarrow> V w1 k = None) \<and> (\<forall>k. managed pkg (V w1) k \<or> V w2 k = V w1 k)"
  using laws(2) pkg(1,2) first
proof (cases rule: Reconcile_cases)
  case (pass pkg1 w0 pkg1' m0)
  note same = pass_package [OF pass(1)]
  have pkg1: "pkgUID pkg1 = pkgUID pkg" "pkgDeleting pkg1 = pkgDeleting pkg"
    using pass(1) by (auto simp: reconciling_status_def setCondition_def)
  from laws(1-4) pass(5) obtain applied t where st: "P w1 = (P w0)(pkg_key pkg1 \<mapsto> ready_status applied t pkg1)"
    by (rule pass_stored)
  let ?q = "ready_status applied t pkg1"
  have P: "P w1 (pkg_key pkg1) = Some ?q" by (simp add: st)
  show ?thesis
  proof (cases "clGetPackage (rcClient r) w1 ns n")
    case (Inl e)
    then have "w2 = w1" using second by (simp add: Reconcile_def split: if_splits)
    then show ?thesis by simp
  next
    case (Inr q)
    then have q: "q = ?q" using package_lawsD(1) [OF laws(2) Inr] P pass(2) by simp
    have "\<not> pkgDeleting q" using pkg(2) pkg1(2) by (simp add: q ready_frame)
    with Inr second obtain pkg2 m3 where "reconcile_package X r q w1 m1 = (Inr u', pkg2, w2, m3)"
      by (auto simp: Reconcile_def q ready_frame split: prod.splits)
    moreover have "maps_wf pkg1" using pkg(4) by (simp add: maps_wf_def same)
    ultimately show ?thesis
      using second_pass [OF laws same(5) [OF pkg(3)] _ pass(5) P, folded q] managed_frame [OF same(2,3)] by simp
  qed
qed simp

lemma mem_config_laws: "config_laws mem_reconciler"
  by (simp add: config_laws_def config_view_def mem_reconciler_def mem_client_def)

theorem Reconcile_fixpoint_witness:
  "\<exists>w1 m1 w2 m2. Reconcile sample_ext mem_reconciler ''apps'' ''my-app'' (mem_world, no_metrics) = (Inr (), w1, m1) \<and>
     Reconcile sample_ext mem_reconciler ''apps'' ''my-app'' (w1, m1) = (Inr (), w2, m2) \<and> mem_packages w2 = mem_packages w1"
proof -
  let ?R = "Reconcile sample_ext mem_reconciler ''apps'' ''my-app''"
  have "fst (?R (mem_world, no_metrics)) = Inr () \<and> fst (?R (snd (?R (mem_world, no_metrics)))) = Inr ()" by code_simp
  then obtain w1 m1 w2 m2 where R: "?R (mem_world, no_metrics) = (Inr (), w1, m1)" "?R (w1, m1) = (Inr (), w2, m2)"
    by (metis prod.collapse)
  have g: "clGetPackage (rcClient mem_reconciler) mem_world ''apps'' ''my-app'' = Inr istio_package"
    by (simp add: mem_reconciler_def mem_client_def mem_packages_def mem_world_def pkg_key_def istio_package_def sample_package_def)
  have "maps_wf istio_package" by (simp add: maps_wf_def istio_package_def sample_istio_def)
  from Reconcile_fixpoint [OF mem_object_laws mem_package_laws mem_scheme_ok mem_scheme mem_config_laws g istio_package_wf this R] R
  show ?thesis by blast
qed

end
