(* ===== verification/Go_Flag.thy ===== *)
theory Go_Flag
  imports Go_Strings
begin

text \<open>
  The package \<open>flag\<close>, as \<open>main\<close> uses it: registered variables by name and the parsing of the command line, one argument
  at a time. A variable of other code is known by whether it is boolean and by its \<open>Set\<close>.
\<close>

datatype 'o flag_var =
    StringVar "string \<Rightarrow> 'o \<Rightarrow> 'o"
  | BoolVar "bool \<Rightarrow> 'o \<Rightarrow> 'o"
  | OtherVar bool "string \<Rightarrow> unit res"

definition ParseBool :: "string \<Rightarrow> bool option" where
  "ParseBool s =
     (if s \<in> set [''1'', ''t'', ''T'', ''TRUE'', ''true'', ''True''] then Some True
      else if s \<in> set [''0'', ''f'', ''F'', ''FALSE'', ''false'', ''False''] then Some False
      else None)"

primrec isBoolFlag :: "'o flag_var \<Rightarrow> bool" where
  "isBoolFlag (StringVar f) = False"
| "isBoolFlag (BoolVar f) = True"
| "isBoolFlag (OtherVar b f) = b"

fun set_flag :: "'o flag_var \<Rightarrow> string \<Rightarrow> 'o \<Rightarrow> 'o res" where
  "set_flag (StringVar f) s vars = Inr (f s vars)"
| "set_flag (BoolVar f) s vars = (case ParseBool s of None \<Rightarrow> Inl (LibError ''parse error'') | Some b \<Rightarrow> Inr (f b vars))"
| "set_flag (OtherVar b f) s vars = rbind (f s) (\<lambda>_. Inr vars)"

text \<open>Where parsing one argument leads: to the rest, to the end of the flags, or to a failure.\<close>

datatype 'o parse_step = Next 'o "string list" | Stop "string list" | Help | Fail gerror

text \<open>The part of \<open>parseOne\<close> after the name and its optional value are known.\<close>

definition set_value :: "'o flag_var \<Rightarrow> string \<Rightarrow> string option \<Rightarrow> string list \<Rightarrow> 'o \<Rightarrow> 'o parse_step" where
  "set_value var name val args vars =
     (if isBoolFlag var then
        (case val of
           Some s \<Rightarrow>
             (case set_flag var s vars of Inl e \<Rightarrow> Fail (wrapf ''invalid boolean value %q for -%s: %w'' [s, name] e) | Inr vars \<Rightarrow> Next vars args)
         | None \<Rightarrow>
             (case set_flag var ''true'' vars of Inl e \<Rightarrow> Fail (wrapf ''invalid boolean flag %s: %w'' [name] e) | Inr vars \<Rightarrow> Next vars args))
      else
        (case (val, args) of
           (None, []) \<Rightarrow> Fail (Errorf ''flag needs an argument: -%s'' [name])
         | (None, s # args) \<Rightarrow>
             (case set_flag var s vars of Inl e \<Rightarrow> Fail (wrapf ''invalid value %q for flag -%s: %w'' [s, name] e) | Inr vars \<Rightarrow> Next vars args)
         | (Some s, args) \<Rightarrow>
             (case set_flag var s vars of Inl e \<Rightarrow> Fail (wrapf ''invalid value %q for flag -%s: %w'' [s, name] e) | Inr vars \<Rightarrow> Next vars args)))"

definition split_value :: "string \<Rightarrow> string \<times> string option" where
  "split_value s =
     (let name = take 1 s @ takeWhile (\<lambda>c. c \<noteq> CHR ''='') (drop 1 s); rest = dropWhile (\<lambda>c. c \<noteq> CHR ''='') (drop 1 s)
      in (name, if rest = [] then None else Some (tl rest)))"

definition parseOne :: "(string \<times> 'o flag_var) list \<Rightarrow> string list \<Rightarrow> 'o \<Rightarrow> 'o parse_step" where
  "parseOne formal args vars =
     (case args of
        [] \<Rightarrow> Stop []
      | s # rest \<Rightarrow>
          if length s < 2 \<or> s ! 0 \<noteq> CHR ''-'' then Stop args
          else if s = ''--'' then Stop rest
          else (let name = drop (if s ! 1 = CHR ''-'' then 2 else 1) s
                in if name = [] \<or> name ! 0 = CHR ''-'' \<or> name ! 0 = CHR ''='' then Fail (Errorf ''bad flag syntax: %s'' [s])
                   else (let (name, val) = split_value name
                         in case map_of formal name of
                              None \<Rightarrow>
                                if name = ''help'' \<or> name = ''h'' then Help
                                else Fail (Errorf ''flag provided but not defined: -%s'' [name])
                            | Some var \<Rightarrow> set_value var name val rest vars)))"

lemma parseOne_shorter: "parseOne formal args vars = Next vars' args' \<Longrightarrow> length args' < length args"
  by (auto simp: parseOne_def set_value_def Let_def split: list.splits if_splits option.splits sum.splits prod.splits)

text \<open>The flag set of the process exits on an error: code 0 after \<open>-help\<close>, code 2 otherwise.\<close>

datatype 'o parsed = Parsed 'o "string list" | Exited nat

function Parse :: "(string \<times> 'o flag_var) list \<Rightarrow> string list \<Rightarrow> 'o \<Rightarrow> 'o parsed" where
  "Parse formal args vars =
     (case parseOne formal args vars of
        Next vars args \<Rightarrow> Parse formal args vars
      | Stop args \<Rightarrow> Parsed vars args
      | Help \<Rightarrow> Exited 0
      | Fail e \<Rightarrow> Exited 2)"
  by auto
termination
  by (relation "measure (\<lambda>(formal, args, vars). length args)") (auto dest: parseOne_shorter)

declare Parse.simps [simp del]

lemma Parse_exit: "Parse formal args vars = Exited code \<Longrightarrow> code = 0 \<or> code = 2"
  by (induction formal args vars rule: Parse.induct) (subst (asm) Parse.simps, auto split: parse_step.splits)

section \<open>Arguments as printed\<close>

text \<open>An argument \<open>--name=value\<close> sets the variable of that name and nothing else.\<close>

lemma split_value_printed:
  assumes "n \<noteq> []" "CHR ''='' \<notin> set n"
  shows "split_value (n @ CHR ''='' # s) = (n, Some s)"
proof -
  obtain c cs where n: "n = c # cs" using assms(1) by (cases n) auto
  have "takeWhile (\<lambda>c. c \<noteq> CHR ''='') (cs @ CHR ''='' # s) = cs" "dropWhile (\<lambda>c. c \<noteq> CHR ''='') (cs @ CHR ''='' # s) = CHR ''='' # s"
    using assms(2) unfolding n by (induction cs) auto
  then show ?thesis by (simp add: split_value_def n)
qed

lemma Parse_printed:
  assumes "n \<noteq> []" "hd n \<noteq> CHR ''-''" "CHR ''='' \<notin> set n" "map_of formal n = Some var" "set_flag var s vars = Inr vars'"
  shows "Parse formal ((''--'' @ n @ CHR ''='' # s) # args) vars = Parse formal args vars'"
proof -
  obtain c cs where n: "n = c # cs" using assms(1) by (cases n) auto
  have "parseOne formal ((''--'' @ n @ CHR ''='' # s) # args) vars = Next vars' args"
    using assms(2,3) split_value_printed [OF assms(1,3), of s]
    by (auto simp: parseOne_def n set_value_def assms(4) [unfolded n] assms(5))
  then show ?thesis by (subst Parse.simps) simp
qed

lemma Parse_end: "Parse formal [] vars = Parsed vars []"
  by (subst Parse.simps) (simp add: parseOne_def)

end
