(* ===== verification/Manager.thy ===== *)
theory Manager
  imports Go_Flag Controller_Guarantees
begin

text \<open>
  The process (\<open>cmd/main.go\<close>): the command line, the options it turns into for the servers, the cache and the
  reconciler, and the calls that set up and start the manager, in order, each of which may end the process. The manager and the
  zap flags are code of other packages: what they answer is a parameter.
\<close>

section \<open>Flags\<close>

record options =
  metricsAddr :: string
  probeAddr :: string
  enableLeaderElection :: bool
  secureMetrics :: bool
  webhookCertPath :: string
  webhookCertName :: string
  webhookCertKey :: string
  metricsCertPath :: string
  metricsCertName :: string
  metricsCertKey :: string
  enableHTTP2 :: bool
  globalConfigName :: string
  globalConfigNamespace :: string

text \<open>The defaults, for the value of the environment variable \<open>POD_NAMESPACE\<close>.\<close>

definition flag_defaults :: "string \<Rightarrow> options" where
  "flag_defaults podNamespace = \<lparr>metricsAddr = ''0'', probeAddr = '':8081'', enableLeaderElection = False, secureMetrics = True,
     webhookCertPath = [], webhookCertName = ''tls.crt'', webhookCertKey = ''tls.key'',
     metricsCertPath = [], metricsCertName = ''tls.crt'', metricsCertKey = ''tls.key'', enableHTTP2 = False,
     globalConfigName = ''bigbang-operator-global'', globalConfigNamespace = podNamespace\<rparr>"

definition command_line :: "(string \<times> options flag_var) list" where
  "command_line = [
     (''metrics-bind-address'', StringVar (\<lambda>s vars. vars\<lparr>metricsAddr := s\<rparr>)),
     (''health-probe-bind-address'', StringVar (\<lambda>s vars. vars\<lparr>probeAddr := s\<rparr>)),
     (''leader-elect'', BoolVar (\<lambda>b vars. vars\<lparr>enableLeaderElection := b\<rparr>)),
     (''metrics-secure'', BoolVar (\<lambda>b vars. vars\<lparr>secureMetrics := b\<rparr>)),
     (''webhook-cert-path'', StringVar (\<lambda>s vars. vars\<lparr>webhookCertPath := s\<rparr>)),
     (''webhook-cert-name'', StringVar (\<lambda>s vars. vars\<lparr>webhookCertName := s\<rparr>)),
     (''webhook-cert-key'', StringVar (\<lambda>s vars. vars\<lparr>webhookCertKey := s\<rparr>)),
     (''metrics-cert-path'', StringVar (\<lambda>s vars. vars\<lparr>metricsCertPath := s\<rparr>)),
     (''metrics-cert-name'', StringVar (\<lambda>s vars. vars\<lparr>metricsCertName := s\<rparr>)),
     (''metrics-cert-key'', StringVar (\<lambda>s vars. vars\<lparr>metricsCertKey := s\<rparr>)),
     (''enable-http2'', BoolVar (\<lambda>b vars. vars\<lparr>enableHTTP2 := b\<rparr>)),
     (''global-config-name'', StringVar (\<lambda>s vars. vars\<lparr>globalConfigName := s\<rparr>)),
     (''global-config-namespace'', StringVar (\<lambda>s vars. vars\<lparr>globalConfigNamespace := s\<rparr>))]"

section \<open>Options of the manager\<close>

text \<open>Of a TLS configuration, what the program sets.\<close>

record tls_config =
  NextProtos :: "string list"

type_synonym tls_opts = "(tls_config \<Rightarrow> tls_config) list"

definition disableHTTP2 :: "tls_config \<Rightarrow> tls_config" where
  "disableHTTP2 c = c\<lparr>NextProtos := [''http/1.1'']\<rparr>"

definition tlsOpts :: "options \<Rightarrow> tls_opts" where
  "tlsOpts vars = (if \<not> enableHTTP2 vars then [disableHTTP2] else [])"

record webhook_options =
  whTLSOpts :: tls_opts
  whCertDir :: string
  whCertName :: string
  whKeyName :: string

definition webhookServerOptions :: "options \<Rightarrow> webhook_options" where
  "webhookServerOptions vars =
     (let opts = \<lparr>whTLSOpts = tlsOpts vars, whCertDir = [], whCertName = [], whKeyName = []\<rparr>
      in if length (webhookCertPath vars) > 0
         then opts\<lparr>whCertDir := webhookCertPath vars, whCertName := webhookCertName vars, whKeyName := webhookCertKey vars\<rparr>
         else opts)"

text \<open>\<open>msFilterProvider\<close> holds when the endpoint is put behind \<open>filters.WithAuthenticationAndAuthorization\<close>.\<close>

record metrics_options =
  msBindAddress :: string
  msSecureServing :: bool
  msTLSOpts :: tls_opts
  msFilterProvider :: bool
  msCertDir :: string
  msCertName :: string
  msKeyName :: string

definition metricsServerOptions :: "options \<Rightarrow> metrics_options" where
  "metricsServerOptions vars =
     (let opts = \<lparr>msBindAddress = metricsAddr vars, msSecureServing = secureMetrics vars, msTLSOpts = tlsOpts vars,
            msFilterProvider = False, msCertDir = [], msCertName = [], msKeyName = []\<rparr>;
          opts = (if secureMetrics vars then opts\<lparr>msFilterProvider := True\<rparr> else opts)
      in if length (metricsCertPath vars) > 0
         then opts\<lparr>msCertDir := metricsCertPath vars, msCertName := metricsCertName vars, msKeyName := metricsCertKey vars\<rparr>
         else opts)"

text \<open>What the cache holds of ConfigMaps: all of them, or per namespace the one of a name.\<close>

definition cacheOpts :: "options \<Rightarrow> (string \<times> string) list option" where
  "cacheOpts vars = (if globalConfigNamespace vars \<noteq> [] then Some [(globalConfigNamespace vars, globalConfigName vars)] else None)"

record manager_options =
  moCache :: "(string \<times> string) list option"
  moMetrics :: metrics_options
  moWebhook :: webhook_options
  moHealthProbeBindAddress :: string
  moLeaderElection :: bool
  moLeaderElectionID :: string

definition managerOptions :: "options \<Rightarrow> manager_options" where
  "managerOptions vars = \<lparr>moCache = cacheOpts vars, moMetrics = metricsServerOptions vars, moWebhook = webhookServerOptions vars,
     moHealthProbeBindAddress = probeAddr vars, moLeaderElection = enableLeaderElection vars, moLeaderElectionID = ''d512971f.bigbang.dev''\<rparr>"

section \<open>The process\<close>

text \<open>What \<open>main\<close> takes from the manager, and the reconciler it builds.\<close>

record 'w manager =
  GetClient :: "'w api_client"
  GetScheme :: "go_kind \<Rightarrow> gvk list res"
  GetAPIReader :: "'w \<Rightarrow> string \<Rightarrow> string \<Rightarrow> int_or_string list res"
  GetEventRecorderFor :: "string \<Rightarrow> 'w \<Rightarrow> package \<Rightarrow> string \<Rightarrow> string \<Rightarrow> string \<Rightarrow> 'w"

definition main_reconciler :: "'w manager \<Rightarrow> options \<Rightarrow> 'w reconciler" where
  "main_reconciler mgr vars = \<lparr>rcClient = GetClient mgr, rcScheme = Some (GetScheme mgr), rcAPIReader = Some (GetAPIReader mgr),
     rcRecorder = Some (GetEventRecorderFor mgr ''bigbang-operator''),
     rcGlobalConfigNamespace = globalConfigNamespace vars, rcGlobalConfigName = globalConfigName vars\<rparr>"

text \<open>The calls into the controller runtime. \<open>SetupController\<close> is \<open>Complete\<close> of the builder in \<open>SetupWithManager\<close>.\<close>

datatype 'w call =
    GetConfigOrDie
  | NewManager manager_options
  | SetupController "'w controller_builder"
  | AddHealthzCheck
  | AddReadyzCheck
  | Start

text \<open>Each call in turn; the first error ends the process with code 1.\<close>

fun call_all :: "('w call list \<Rightarrow> 'w call \<Rightarrow> gerror option) \<Rightarrow> 'w call list \<Rightarrow> 'w call list \<Rightarrow> nat \<times> 'w call list" where
  "call_all rt done [] = (0, done)"
| "call_all rt done (c # cs) =
     (case rt done c of Some err \<Rightarrow> (1, done @ [c]) | None \<Rightarrow> call_all rt (done @ [c]) cs)"

definition main_calls :: "'w manager \<Rightarrow> options \<Rightarrow> 'w call list" where
  "main_calls mgr vars =
     [GetConfigOrDie, NewManager (managerOptions vars),
      SetupController (SetupWithManager (main_reconciler mgr vars)),
      AddHealthzCheck, AddReadyzCheck, Start]"

text \<open>
  The exit code of the process and the calls it made, for its arguments, the environment and the answers \<open>rt\<close> of the runtime,
  which may depend on the calls before.
\<close>

definition main :: "(string \<times> options flag_var) list \<Rightarrow> ('w call list \<Rightarrow> 'w call \<Rightarrow> gerror option) \<Rightarrow> 'w manager \<Rightarrow> string \<Rightarrow> string list \<Rightarrow> nat \<times> 'w call list" where
  "main zapFlags rt mgr podNamespace args =
     (case Parse (command_line @ zapFlags) args (flag_defaults podNamespace) of
        Exited code \<Rightarrow> (code, [])
      | Parsed vars rest \<Rightarrow> call_all rt [] (main_calls mgr vars))"

text \<open>
  The init functions: the API package registers its two kinds with its scheme builder, and \<open>main\<close> adds the types of five packages to the
  scheme, where an error panics. The builder and the scheme are the controller runtime's.
\<close>

definition SchemeBuilder :: "(string \<Rightarrow> 'b) \<Rightarrow> (string list \<Rightarrow> 'b \<Rightarrow> 'b) \<Rightarrow> 'b" where
  "SchemeBuilder Builder Register = Register [''Package'', ''PackageList''] (Builder GroupVersion)"

definition init_scheme :: "(string \<Rightarrow> 's \<Rightarrow> 's res) \<Rightarrow> 's \<Rightarrow> 's res" where
  "init_scheme addToScheme scheme =
     foldl (\<lambda>acc p. rbind acc (\<lambda>s. case addToScheme p s of Inl e \<Rightarrow> Inl (Panic ''utilruntime.Must'') | Inr s \<Rightarrow> Inr s)) (Inr scheme)
       [''clientgoscheme'', ''bigbangv1alpha1'', ''networkingv1'', ''istiosecv1'', ''istionetv1'']"

section \<open>The command line\<close>

text \<open>The flags as a deployment writes them.\<close>

definition show_flag :: "string \<Rightarrow> string \<Rightarrow> string" where
  "show_flag name val = ''--'' @ name @ CHR ''='' # val"

definition show_bool :: "bool \<Rightarrow> string" where
  "show_bool b = (if b then ''true'' else ''false'')"

definition show_flags :: "options \<Rightarrow> string list" where
  "show_flags vars = [
     show_flag ''metrics-bind-address'' (metricsAddr vars), show_flag ''health-probe-bind-address'' (probeAddr vars),
     show_flag ''leader-elect'' (show_bool (enableLeaderElection vars)), show_flag ''metrics-secure'' (show_bool (secureMetrics vars)),
     show_flag ''webhook-cert-path'' (webhookCertPath vars), show_flag ''webhook-cert-name'' (webhookCertName vars),
     show_flag ''webhook-cert-key'' (webhookCertKey vars), show_flag ''metrics-cert-path'' (metricsCertPath vars),
     show_flag ''metrics-cert-name'' (metricsCertName vars), show_flag ''metrics-cert-key'' (metricsCertKey vars),
     show_flag ''enable-http2'' (show_bool (enableHTTP2 vars)), show_flag ''global-config-name'' (globalConfigName vars),
     show_flag ''global-config-namespace'' (globalConfigNamespace vars)]"

lemma ParseBool_show [simp]: "ParseBool (show_bool b) = Some b"
  by (simp add: ParseBool_def show_bool_def)

lemma Parse_string:
  assumes "n \<noteq> []" "hd n \<noteq> CHR ''-''" "CHR ''='' \<notin> set n" "map_of formal n = Some (StringVar f)"
  shows "Parse formal (show_flag n s # args) vars = Parse formal args (f s vars)"
  unfolding show_flag_def by (rule Parse_printed [OF assms]) simp

lemma Parse_bool:
  assumes "n \<noteq> []" "hd n \<noteq> CHR ''-''" "CHR ''='' \<notin> set n" "map_of formal n = Some (BoolVar f)"
  shows "Parse formal (show_flag n (show_bool b) # args) vars = Parse formal args (f b vars)"
  unfolding show_flag_def by (rule Parse_printed [OF assms]) simp

text \<open>C18: The command line is read back: the flags printed for any options parse to exactly these options, with nothing left over, whatever the
  environment says and whatever flags other packages register.\<close>

theorem flags_roundtrip: "Parse (command_line @ zapFlags) (show_flags vars) (flag_defaults podNamespace) = Parsed vars []"
  by (simp add: show_flags_def command_line_def Parse_string Parse_bool Parse_end flag_defaults_def)

section \<open>Starting\<close>

lemma call_all_outcome:
  assumes "call_all rt done cs = (code, calls)"
  shows "\<exists>made. calls = done @ made \<and> prefix made cs \<and>
    (if code = 0 then made = cs \<and> (\<forall>i < length cs. rt (done @ take i cs) (cs ! i) = None)
     else code = 1 \<and> made \<noteq> [] \<and> rt (done @ butlast made) (last made) \<noteq> None)"
  using assms
proof (induction cs arbitrary: "done")
  case (Cons c cs)
  show ?case
  proof (cases "rt done c")
    case None
    with Cons.prems have "call_all rt (done @ [c]) cs = (code, calls)" by simp
    from Cons.IH [OF this, unfolded append.assoc append_Cons append_Nil] obtain made where made: "calls = done @ c # made" "prefix made cs"
      "if code = 0 then made = cs \<and> (\<forall>i < length cs. rt (done @ c # take i cs) (cs ! i) = None)
       else code = 1 \<and> made \<noteq> [] \<and> rt (done @ c # butlast made) (last made) \<noteq> None" by blast
    show ?thesis by (rule exI [of _ "c # made"]) (use made None in \<open>auto simp: less_Suc_eq_0_disj split: if_splits\<close>)
  qed (use Cons.prems in auto)
qed simp


definition sample_manager :: "mem manager" where
  "sample_manager = \<lparr>GetClient = mem_client, GetScheme = operator_scheme, GetAPIReader = clGetService mem_client,
     GetEventRecorderFor = (\<lambda>_ w _ _ _ _. w)\<rparr>"

lemma Parse_leader_elect:
  "Parse (command_line @ []) [''--leader-elect''] vars = Parsed (vars\<lparr>enableLeaderElection := True\<rparr>) []"
  by (simp add: Parse.simps parseOne_def split_value_def set_value_def command_line_def ParseBool_def)


section \<open>The shared ConfigMap\<close>

definition configmap_cached :: "(string \<times> string) list option \<Rightarrow> string \<Rightarrow> string \<Rightarrow> bool" where
  "configmap_cached c ns name = (case c of None \<Rightarrow> True | Some l \<Rightarrow> (ns, name) \<in> set l)"

text \<open>C16: The cache, the watch and the reads of the shared configuration agree: when ConfigMaps are watched, the cache holds exactly one of them,
  its changes enqueue every package, it is the one a pass reads, and no other one enqueues anything; when they are not watched, a
  pass reads none.\<close>

theorem global_config_agreement:
  fixes mgr :: "'w manager" and vars :: options
  defines "r \<equiv> main_reconciler mgr vars"
  shows "case cbWatches (SetupWithManager r) of
      Some enqueue \<Rightarrow> (\<forall>ns name. configmap_cached (moCache (managerOptions vars)) ns name \<longleftrightarrow> (ns, name) = (rcGlobalConfigNamespace r, rcGlobalConfigName r)) \<and>
      (\<forall>ns name w. if configmap_cached (moCache (managerOptions vars)) ns name
         then \<forall>pkgs. clListPackages (GetClient mgr) w = Inr pkgs \<longrightarrow> enqueue ns name w = map (\<lambda>p. (pkgNamespace p, pkgName p)) pkgs
         else enqueue ns name w = []) \<and>
      (\<forall>X w w'. clGetConfigMap (GetClient mgr) w (globalConfigNamespace vars) (globalConfigName vars) =
         clGetConfigMap (GetClient mgr) w' (globalConfigNamespace vars) (globalConfigName vars) \<longrightarrow> sharedConfig X r w = sharedConfig X r w')
    | None \<Rightarrow> \<forall>X w. sharedConfig X r w = no_input"
  by (auto simp: r_def main_reconciler_def SetupWithManager_simps managerOptions_def cacheOpts_def configmap_cached_def
      packagesForGlobalConfig_def sharedConfig_def)

theorem global_config_agreement_witness:
  "let r = main_reconciler sample_manager (flag_defaults ''bigbang'')
   in case cbWatches (SetupWithManager r) of
        Some enqueue \<Rightarrow> enqueue ''bigbang'' ''other'' mem_world = [] \<and>
          enqueue ''bigbang'' ''bigbang-operator-global'' mem_world = [(''apps'', ''my-app'')]
      | None \<Rightarrow> False"
proof -
  let ?r = "main_reconciler sample_manager (flag_defaults ''bigbang'')"
  have r: "cbWatches (SetupWithManager ?r) = Some (packagesForGlobalConfig ?r)" "rcGlobalConfigNamespace ?r = ''bigbang''"
      "rcGlobalConfigName ?r = ''bigbang-operator-global''"
    by (simp_all add: SetupWithManager_simps main_reconciler_def flag_defaults_def)
  have l: "clListPackages (GetClient sample_manager) mem_world = Inr [istio_package]"
    by (simp add: sample_manager_def mem_client_def mem_world_def)
  note g = global_config_agreement [of sample_manager "flag_defaults ''bigbang''", unfolded r option.case]
  have "packagesForGlobalConfig ?r ''bigbang'' ''other'' mem_world = []" using g by simp
  moreover have "packagesForGlobalConfig ?r ''bigbang'' ''bigbang-operator-global'' mem_world = [(''apps'', ''my-app'')]"
    using g l by (simp add: istio_package_def sample_package_def)
  ultimately show ?thesis by (simp add: Let_def r(1))
qed

text \<open>Both servers speak HTTP/1.1 only unless HTTP/2 is enabled, and the metrics are served over HTTPS exactly when they are behind
  authentication.\<close>

lemma servers_hardened:
  "\<not> enableHTTP2 vars \<Longrightarrow> NextProtos (foldl (\<lambda>c f. f c) c (msTLSOpts (moMetrics (managerOptions vars)))) = [''http/1.1'']"
  "\<not> enableHTTP2 vars \<Longrightarrow> NextProtos (foldl (\<lambda>c f. f c) c (whTLSOpts (moWebhook (managerOptions vars)))) = [''http/1.1'']"
  "msFilterProvider (moMetrics (managerOptions vars)) \<longleftrightarrow> msSecureServing (moMetrics (managerOptions vars))"
  by (simp_all add: managerOptions_def metricsServerOptions_def webhookServerOptions_def tlsOpts_def disableHTTP2_def Let_def)

end
