(* ===== verification/Go_Memory.thy ===== *)
theory Go_Memory
  imports Prelude
begin

text \<open>
  Go's memory, as far as copying a value depends on it: pointers, slices and maps refer to cells of a heap, structs are
  values. A type says what a value may refer to, and \<open>view\<close> reads the whole value behind a reference. A slice is one
  that spans its array, as \<open>make\<close> and the JSON decoder return it. The contract of a deep copy is the locale
  \<open>deep_copier\<close>: the copy reads like the original and lives in new cells only.
\<close>

section \<open>Values and cells\<close>

type_synonym addr = nat

datatype base = BBool bool | BInt int | BString string

datatype gval =
    GBase base
  | GPtr "addr option"
  | GSlice "addr option"
  | GMap "addr option"
  | GStruct "(string \<times> gval) list"

datatype cell = Value gval | Array "gval list" | Table "(string \<times> gval) list"

type_synonym heap = "cell list"

definition load :: "heap \<Rightarrow> addr \<Rightarrow> cell option" where
  "load h a = (if a < length h then Some (h ! a) else None)"

datatype gtype =
    TBase
  | TPtr gtype
  | TSlice gtype
  | TMap gtype
  | TStruct "(string \<times> gtype) list"

fun flat :: "gtype \<Rightarrow> bool" where
  "flat TBase = True"
| "flat (TStruct Fs) = list_all (\<lambda>(n, T). flat T) Fs"
| "flat _ = False"

section \<open>Reading a value\<close>

datatype dval =
    DBase base
  | DPtr "dval option"
  | DSlice "dval list option"
  | DMap "(string \<times> dval) list option"
  | DStruct "(string \<times> dval) list"

fun view :: "gtype \<Rightarrow> heap \<Rightarrow> gval \<Rightarrow> dval option"
  and view_fields :: "(string \<times> gtype) list \<Rightarrow> heap \<Rightarrow> (string \<times> gval) list \<Rightarrow> (string \<times> dval) list option" where
  "view TBase h (GBase b) = Some (DBase b)"
| "view (TPtr T) h (GPtr None) = Some (DPtr None)"
| "view (TPtr T) h (GPtr (Some a)) =
     (case load h a of Some (Value v) \<Rightarrow> map_option (\<lambda>d. DPtr (Some d)) (view T h v) | _ \<Rightarrow> None)"
| "view (TSlice T) h (GSlice None) = Some (DSlice None)"
| "view (TSlice T) h (GSlice (Some a)) =
     (case load h a of Some (Array vs) \<Rightarrow> map_option (\<lambda>ds. DSlice (Some ds)) (those (map (view T h) vs)) | _ \<Rightarrow> None)"
| "view (TMap T) h (GMap None) = Some (DMap None)"
| "view (TMap T) h (GMap (Some a)) =
     (case load h a of
        Some (Table kvs) \<Rightarrow> map_option (\<lambda>ds. DMap (Some (zip (map fst kvs) ds))) (those (map (\<lambda>kv. view T h (snd kv)) kvs))
      | _ \<Rightarrow> None)"
| "view (TStruct Fs) h (GStruct fs) = map_option DStruct (view_fields Fs h fs)"
| "view _ h _ = None"
| "view_fields [] h [] = Some []"
| "view_fields ((n, T) # Fs) h ((m, v) # fs) =
     (if n = m then Option.bind (view T h v) (\<lambda>d. map_option ((#) (n, d)) (view_fields Fs h fs)) else None)"
| "view_fields _ h _ = None"


lemma load_append [simp]: "a < length h \<Longrightarrow> load (h @ ext) a = load h a" "load (h @ c # ext) (length h) = Some c"
  by (simp_all add: load_def nth_append)

lemma load_SomeD: "load h a = Some c \<Longrightarrow> a < length h"
  by (simp add: load_def split: if_splits)

lemma load_extend: "load h a = Some c \<Longrightarrow> load (h @ ext) a = Some c"
  using load_SomeD by simp

lemma those_map: "those (map f xs) = Some ys \<longleftrightarrow> list_all2 (\<lambda>x y. f x = Some y) xs ys"
  by (induction xs arbitrary: ys) (auto split: option.splits simp: list_all2_Cons1)

lemma view_fields_iff:
  "view_fields Fs h fs = Some ds \<longleftrightarrow> map fst fs = map fst Fs \<and> map fst ds = map fst Fs \<and>
     list_all2 (\<lambda>(T, v) d. view T h v = Some d) (zip (map snd Fs) (map snd fs)) (map snd ds)"
proof (induction Fs arbitrary: fs ds)
  case Nil
  then show ?case by (cases fs) auto
next
  case (Cons F Fs)
  obtain n T where [simp]: "F = (n, T)" by fastforce
  show ?case
  proof (cases fs)
    case (Cons f fs')
    obtain m v where [simp]: "f = (m, v)" by fastforce
    show ?thesis
      by (cases ds) (auto simp: Cons.IH Cons bind_eq_Some_conv)
  qed simp
qed

text \<open>The cases of \<open>view\<close> as rules: what a reference of each type refers to.\<close>

lemma view_iff:
  "view TBase h v = Some d \<longleftrightarrow> (\<exists>b. v = GBase b \<and> d = DBase b)"
  "view (TPtr T) h v = Some d \<longleftrightarrow> v = GPtr None \<and> d = DPtr None \<or>
     (\<exists>a x e. v = GPtr (Some a) \<and> load h a = Some (Value x) \<and> view T h x = Some e \<and> d = DPtr (Some e))"
  "view (TSlice T) h v = Some d \<longleftrightarrow> v = GSlice None \<and> d = DSlice None \<or>
     (\<exists>a xs es. v = GSlice (Some a) \<and> load h a = Some (Array xs) \<and> list_all2 (\<lambda>x e. view T h x = Some e) xs es \<and> d = DSlice (Some es))"
  "view (TMap T) h v = Some d \<longleftrightarrow> v = GMap None \<and> d = DMap None \<or>
     (\<exists>a kvs es. v = GMap (Some a) \<and> load h a = Some (Table kvs) \<and>
        list_all2 (\<lambda>x e. view T h x = Some e) (map snd kvs) es \<and> d = DMap (Some (zip (map fst kvs) es)))"
  "view (TStruct Fs) h v = Some d \<longleftrightarrow> (\<exists>fs ds. v = GStruct fs \<and> view_fields Fs h fs = Some ds \<and> d = DStruct ds)"
proof -
  show "view TBase h v = Some d \<longleftrightarrow> (\<exists>b. v = GBase b \<and> d = DBase b)" by (cases v) auto
  show "view (TPtr T) h v = Some d \<longleftrightarrow> v = GPtr None \<and> d = DPtr None \<or>
     (\<exists>a x e. v = GPtr (Some a) \<and> load h a = Some (Value x) \<and> view T h x = Some e \<and> d = DPtr (Some e))"
    by (cases "(TPtr T, h, v)" rule: view.cases) (auto split: option.splits cell.splits)
  show "view (TSlice T) h v = Some d \<longleftrightarrow> v = GSlice None \<and> d = DSlice None \<or>
     (\<exists>a xs es. v = GSlice (Some a) \<and> load h a = Some (Array xs) \<and> list_all2 (\<lambda>x e. view T h x = Some e) xs es \<and> d = DSlice (Some es))"
    by (cases "(TSlice T, h, v)" rule: view.cases) (auto simp: those_map split: option.splits cell.splits)
  show "view (TMap T) h v = Some d \<longleftrightarrow> v = GMap None \<and> d = DMap None \<or>
     (\<exists>a kvs es. v = GMap (Some a) \<and> load h a = Some (Table kvs) \<and>
        list_all2 (\<lambda>x e. view T h x = Some e) (map snd kvs) es \<and> d = DMap (Some (zip (map fst kvs) es)))"
    by (cases "(TMap T, h, v)" rule: view.cases) (auto simp: those_map list_all2_map1 split: option.splits cell.splits)
  show "view (TStruct Fs) h v = Some d \<longleftrightarrow> (\<exists>fs ds. v = GStruct fs \<and> view_fields Fs h fs = Some ds \<and> d = DStruct ds)"
    by (cases v) auto
qed

lemma view_struct:
  assumes "view (TStruct Fs) h v = Some d" "\<And>n T x e. (n, T) \<in> set Fs \<Longrightarrow> view T h x = Some e \<Longrightarrow> view T h' x = Some e"
  shows "view (TStruct Fs) h' v = Some d"
proof -
  have "view T h' x = Some e" if "(T, x) \<in> set (zip (map snd Fs) xs)" "view T h x = Some e" for T x e and xs :: "gval list"
    using assms(2) set_zip_leftD [OF that(1)] that(2) by auto
  then show ?thesis
    using assms(1) by (auto simp: view_iff view_fields_iff elim!: list.rel_mono_strong)
qed

lemma view_extend: "view T h v = Some d \<Longrightarrow> view T (h @ ext) v = Some d"
proof (induction T arbitrary: v d)
  case (TStruct Fs)
  show ?case by (rule view_struct [OF TStruct.prems]) (use TStruct.IH in fastforce)
next
  case (TSlice T)
  have "list_all2 (\<lambda>x e. view T h x = Some e) xs es \<Longrightarrow> list_all2 (\<lambda>x e. view T (h @ ext) x = Some e) xs es" for xs es
    by (erule list_all2_mono) (rule TSlice.IH)
  with TSlice.prems show ?case unfolding view_iff using load_extend by blast
next
  case (TMap T)
  have mono: "list_all2 (\<lambda>x e. view T h x = Some e) xs es \<Longrightarrow> list_all2 (\<lambda>x e. view T (h @ ext) x = Some e) xs es" for xs es
    by (erule list_all2_mono) (rule TMap.IH)
  from TMap.prems show ?case unfolding view_iff using load_extend mono by blast
qed (auto simp: view_iff load_extend)

text \<open>A value without references reads the same in every heap.\<close>

lemma view_flat: "flat T \<Longrightarrow> view T h v = Some d \<Longrightarrow> view T h' v = Some d"
proof (induction T arbitrary: v d)
  case (TStruct Fs)
  show ?case by (rule view_struct [OF TStruct.prems(2)]) (use TStruct in \<open>fastforce simp: list_all_iff\<close>)
qed (auto simp: view_iff)

section \<open>Copying\<close>

text \<open>
  A copier returns the value the destination holds at the end, and the heap; \<open>None\<close> is a dereference Go would panic
  at. \<open>new\<close> and \<open>make\<close> add a cell. The statements of the generated code:
  \<open>**out = **in\<close> and \<open>copy(*out, *in)\<close> are copies with \<open>copy_val\<close>.
\<close>

type_synonym copier = "gval \<Rightarrow> heap \<Rightarrow> (gval \<times> heap) option"

definition copy_val :: copier where
  "copy_val v h = Some (v, h)"

text \<open>\<open>out := new(T); (*in).DeepCopyInto(out)\<close>, for the value \<open>v\<close> of \<open>*in\<close>: the address of the copy.\<close>

definition new_copy :: "copier \<Rightarrow> gval \<Rightarrow> heap \<Rightarrow> (addr \<times> heap) option" where
  "new_copy c v h =
     (case c v (h @ [Value v]) of None \<Rightarrow> None | Some (v', h') \<Rightarrow> Some (length h, h'[length h := Value v']))"

text \<open>\<open>if in.F != nil { in, out := &in.F, &out.F; *out = new(T); (*in).DeepCopyInto(*out) }\<close>, and the method \<open>DeepCopy\<close> of a struct.\<close>

definition copy_ptr :: "copier \<Rightarrow> copier" where
  "copy_ptr c v h =
     (case v of
        GPtr None \<Rightarrow> Some (v, h)
      | GPtr (Some a) \<Rightarrow>
          (case load h a of Some (Value x) \<Rightarrow> map_option (\<lambda>(a', h'). (GPtr (Some a'), h')) (new_copy c x h) | _ \<Rightarrow> None)
      | _ \<Rightarrow> None)"

text \<open>\<open>*val.DeepCopy()\<close>, on the address of a variable.\<close>

definition copy_elem :: "copier \<Rightarrow> copier" where
  "copy_elem c v h =
     (case new_copy c v h of
        None \<Rightarrow> None
      | Some (a, h') \<Rightarrow> (case load h' a of Some (Value x) \<Rightarrow> Some (x, h') | _ \<Rightarrow> None))"

fun copy_list :: "copier \<Rightarrow> gval list \<Rightarrow> heap \<Rightarrow> (gval list \<times> heap) option" where
  "copy_list c [] h = Some ([], h)"
| "copy_list c (v # vs) h =
     (case c v h of
        None \<Rightarrow> None
      | Some (v', h') \<Rightarrow> (case copy_list c vs h' of None \<Rightarrow> None | Some (vs', h'') \<Rightarrow> Some (v' # vs', h'')))"

text \<open>\<open>if in.F != nil { *out = make([]T, len(*in)); for i := range *in { ... } }\<close>.\<close>

definition copy_slice :: "copier \<Rightarrow> copier" where
  "copy_slice c v h =
     (case v of
        GSlice None \<Rightarrow> Some (v, h)
      | GSlice (Some a) \<Rightarrow>
          (case load h a of
             Some (Array vs) \<Rightarrow>
               (case copy_list c vs (h @ [Array vs]) of
                  None \<Rightarrow> None
                | Some (vs', h') \<Rightarrow> Some (GSlice (Some (length h)), h'[length h := Array vs']))
           | _ \<Rightarrow> None)
      | _ \<Rightarrow> None)"

text \<open>\<open>*out = make(M, len(*in)); for key, val := range *in { (*out)[key] = ... }\<close>: of a nil map, an empty one.\<close>

definition make_map :: "copier \<Rightarrow> copier" where
  "make_map c v h =
     (case v of
        GMap None \<Rightarrow> Some (GMap (Some (length h)), h @ [Table []])
      | GMap (Some a) \<Rightarrow>
          (case load h a of
             Some (Table kvs) \<Rightarrow>
               (case copy_list c (map snd kvs) (h @ [Table kvs]) of
                  None \<Rightarrow> None
                | Some (vs', h') \<Rightarrow> Some (GMap (Some (length h)), h'[length h := Table (zip (map fst kvs) vs')]))
           | _ \<Rightarrow> None)
      | _ \<Rightarrow> None)"

text \<open>The same after \<open>if in.F != nil\<close>.\<close>

definition copy_map :: "copier \<Rightarrow> copier" where
  "copy_map c v h = (if v = GMap None then Some (v, h) else make_map c v h)"

text \<open>The method \<open>DeepCopy\<close> of a map type: \<open>out := new(M); in.DeepCopyInto(out); return *out\<close>.\<close>

definition copy_named_map :: "copier \<Rightarrow> copier" where
  "copy_named_map into v h = (if v = GMap None then Some (v, h) else copy_elem into v h)"

text \<open>\<open>*out = *in\<close>, and then the statements for single fields, in order.\<close>

fun copy_fields :: "(string \<times> copier) list \<Rightarrow> (string \<times> gval) list \<Rightarrow> (string \<times> gval) list \<Rightarrow> heap \<Rightarrow> ((string \<times> gval) list \<times> heap) option" where
  "copy_fields [] ins outs h = Some (outs, h)"
| "copy_fields ((n, c) # cs) ins outs h =
     (case map_of ins n of
        None \<Rightarrow> None
      | Some v \<Rightarrow> (case c v h of None \<Rightarrow> None | Some (v', h') \<Rightarrow> copy_fields cs ins (AList.update n v' outs) h'))"

definition copy_struct :: "(string \<times> copier) list \<Rightarrow> copier" where
  "copy_struct cs v h =
     (case v of
        GStruct fs \<Rightarrow> map_option (\<lambda>(fs', h'). (GStruct fs', h')) (copy_fields cs fs fs h)
      | _ \<Rightarrow> None)"


section \<open>The contract of a deep copy\<close>

text \<open>
  The outcome of a copy that reads \<open>d\<close>: the heap only grew, and whatever the old cells hold afterwards, the copy reads \<open>d\<close>.
\<close>

definition copied :: "gtype \<Rightarrow> dval \<Rightarrow> heap \<Rightarrow> (gval \<times> heap) option \<Rightarrow> bool" where
  "copied T d h r \<longleftrightarrow> (\<exists>v' ext. r = Some (v', h @ ext) \<and> (\<forall>g. length g = length h \<longrightarrow> view T (g @ ext) v' = Some d))"

lemma copiedE:
  assumes "copied T d h r"
  obtains v' ext where "r = Some (v', h @ ext)" "\<And>g. length g = length h \<Longrightarrow> view T (g @ ext) v' = Some d"
  using assms by (auto simp: copied_def)

lemma copiedI:
  assumes "r = Some (v', h @ ext)" "\<And>g. length g = length h \<Longrightarrow> view T (g @ ext) v' = Some d"
  shows "copied T d h r"
  using assms by (auto simp: copied_def)

text \<open>What needs no copy: values without references, and nil.\<close>

lemma copied_same:
  assumes "\<And>g. view T g v = Some d"
  shows "copied T d h (Some (v, h))"
  by (rule copiedI [where v' = v and ext = "[]"]) (simp_all add: assms)

lemma copied_nil:
  "view (TPtr T) h (GPtr None) = Some d \<Longrightarrow> copied (TPtr T) d h (Some (GPtr None, h))"
  "view (TSlice T) h (GSlice None) = Some d \<Longrightarrow> copied (TSlice T) d h (Some (GSlice None, h))"
  "view (TMap T) h (GMap None) = Some d \<Longrightarrow> copied (TMap T) d h (Some (GMap None, h))"
  by (rule copied_same, simp)+

text \<open>Allocation: the new cell is the first of the new ones and holds the copy.\<close>

lemma new_copyE:
  assumes "copied T d (h @ [Value v]) (c v (h @ [Value v]))"
  obtains v' ext where "new_copy c v h = Some (length h, h @ Value v' # ext)"
    "\<And>g. length g = length h \<Longrightarrow> view T (g @ Value v' # ext) v' = Some d"
proof -
  from assms obtain v' ext where v': "c v (h @ [Value v]) = Some (v', (h @ [Value v]) @ ext)"
    "\<And>g. length g = length (h @ [Value v]) \<Longrightarrow> view T (g @ ext) v' = Some d" by (rule copiedE) blast
  have "view T (g @ Value v' # ext) v' = Some d" if "length g = length h" for g
    using v'(2) [of "g @ [Value v']"] that by simp
  with that [of v' ext] v'(1) show thesis by (simp add: new_copy_def list_update_append)
qed

lemma copied_elem: "copied T d (h @ [Value v]) (c v (h @ [Value v])) \<Longrightarrow> copied T d h (copy_elem c v h)"
  by (erule new_copyE, rule copiedI) (simp_all add: copy_elem_def)

text \<open>A copier of a type copies every value of it that can be read.\<close>

locale deep_copier =
  fixes T :: gtype and copy :: copier
  assumes copies: "view T h v = Some d \<Longrightarrow> copied T d h (copy v h)"
begin

text \<open>No write to old cells shows in the copy, and no write to new cells shows in the original.\<close>

lemma separate:
  assumes "view T h v = Some d"
  obtains v' ext where "copy v h = Some (v', h @ ext)" "view T (h @ ext) v' = Some d"
    "\<And>g. length g = length h \<Longrightarrow> view T (g @ ext) v' = Some d" "\<And>ext'. view T (h @ ext') v = Some d"
  using copies [OF assms] view_extend [OF assms] by (auto simp: copied_def)

lemma copies_list:
  assumes "list_all2 (\<lambda>x d. view T h x = Some d) xs ds"
  shows "\<exists>ys ext. copy_list copy xs h = Some (ys, h @ ext) \<and>
    (\<forall>g. length g = length h \<longrightarrow> list_all2 (\<lambda>y d. view T (g @ ext) y = Some d) ys ds)"
  using assms
proof (induction xs arbitrary: ds h)
  case (Cons x xs)
  then obtain d ds' where ds: "ds = d # ds'" "view T h x = Some d" "list_all2 (\<lambda>x d. view T h x = Some d) xs ds'"
    by (auto simp: list_all2_Cons1)
  from copies [OF ds(2)] obtain y e1 where y: "copy x h = Some (y, h @ e1)" "\<And>g. length g = length h \<Longrightarrow> view T (g @ e1) y = Some d"
    by (rule copiedE) blast
  have "list_all2 (\<lambda>x d. view T (h @ e1) x = Some d) xs ds'" using ds(3) by (rule list_all2_mono) (rule view_extend)
  from Cons.IH [OF this] obtain ys e2 where ys: "copy_list copy xs (h @ e1) = Some (ys, h @ e1 @ e2)"
    "\<And>g. length g = length (h @ e1) \<Longrightarrow> list_all2 (\<lambda>y d. view T (g @ e2) y = Some d) ys ds'" by auto
  have "list_all2 (\<lambda>y d. view T (g @ e1 @ e2) y = Some d) (y # ys) ds" if "length g = length h" for g
    using view_extend [OF y(2) [OF that], of e2] ys(2) [of "g @ e1"] that by (simp add: ds(1))
  then show ?case by (auto simp: y(1) ys(1))
qed simp

text \<open>The same into a new cell \<open>C\<close> of the elements.\<close>

lemma copies_cells:
  assumes "list_all2 (\<lambda>x d. view T h x = Some d) xs ds"
  obtains ys ext where "copy_list copy xs (h @ [c]) = Some (ys, h @ c # ext)" "length ys = length xs"
    "\<And>g c'. length g = length h \<Longrightarrow> list_all2 (\<lambda>y d. view T (g @ c' # ext) y = Some d) ys ds"
proof -
  have "list_all2 (\<lambda>x d. view T (h @ [c]) x = Some d) xs ds" using assms by (rule list_all2_mono) (rule view_extend)
  from copies_list [OF this] obtain ys ext where ys: "copy_list copy xs (h @ [c]) = Some (ys, h @ c # ext)"
    "\<And>g. length g = Suc (length h) \<Longrightarrow> list_all2 (\<lambda>y d. view T (g @ ext) y = Some d) ys ds" by auto
  have "list_all2 (\<lambda>y d. view T (g @ c' # ext) y = Some d) ys ds" if "length g = length h" for g c'
    using ys(2) [of "g @ [c']"] that by simp
  moreover from this [of h c] have "length ys = length xs" using assms by (simp add: list_all2_lengthD)
  ultimately show thesis using that ys(1) by blast
qed

lemma copier_ptr: "deep_copier (TPtr T) (copy_ptr copy)"
proof
  fix h v d assume v: "view (TPtr T) h v = Some d"
  show "copied (TPtr T) d h (copy_ptr copy v h)"
  proof (cases "v = GPtr None")
    case False
    with v obtain a x e where v': "v = GPtr (Some a)" "load h a = Some (Value x)" "view T h x = Some e" "d = DPtr (Some e)"
      by (auto simp: view_iff)
    from copies [OF view_extend [OF v'(3)]] obtain x' ext where x: "new_copy copy x h = Some (length h, h @ Value x' # ext)"
      "\<And>g. length g = length h \<Longrightarrow> view T (g @ Value x' # ext) x' = Some e" by (rule new_copyE) blast
    show ?thesis
    proof (rule copiedI)
      show "view (TPtr T) (g @ Value x' # ext) (GPtr (Some (length h))) = Some d" if "length g = length h" for g
        using x(2) [OF that] load_append(2) [of g "Value x'" ext] that by (simp add: v'(4))
    qed (simp add: copy_ptr_def v' x(1))
  qed (use v copied_nil(1) in \<open>simp add: copy_ptr_def\<close>)
qed

lemma copier_elem: "deep_copier T (copy_elem copy)"
  by unfold_locales (intro copied_elem copies view_extend)

lemma copier_slice: "deep_copier (TSlice T) (copy_slice copy)"
proof
  fix h v d assume v: "view (TSlice T) h v = Some d"
  show "copied (TSlice T) d h (copy_slice copy v h)"
  proof (cases "v = GSlice None")
    case False
    with v obtain a xs es where v': "v = GSlice (Some a)" "load h a = Some (Array xs)" "list_all2 (\<lambda>x e. view T h x = Some e) xs es"
      "d = DSlice (Some es)" by (auto simp: view_iff)
    from v'(3) obtain ys ext where ys: "copy_list copy xs (h @ [Array xs]) = Some (ys, h @ Array xs # ext)" "length ys = length xs"
      "\<And>g c'. length g = length h \<Longrightarrow> list_all2 (\<lambda>y e. view T (g @ c' # ext) y = Some e) ys es" by (rule copies_cells) blast
    show ?thesis
    proof (rule copiedI)
      show "view (TSlice T) (g @ Array ys # ext) (GSlice (Some (length h))) = Some d" if "length g = length h" for g
        using ys(3) [OF that] load_append(2) [of g "Array ys" ext] that by (simp add: v'(4) those_map)
    qed (simp add: copy_slice_def v' ys(1) list_update_append)
  qed (use v copied_nil(2) in \<open>simp add: copy_slice_def\<close>)
qed

lemma copies_map:
  assumes "view (TMap T) h v = Some d" "v \<noteq> GMap None"
  shows "copied (TMap T) d h (make_map copy v h)"
proof -
  from assms obtain a kvs es where v: "v = GMap (Some a)" "load h a = Some (Table kvs)"
    "list_all2 (\<lambda>x e. view T h x = Some e) (map snd kvs) es" "d = DMap (Some (zip (map fst kvs) es))"
    by (auto simp: view_iff)
  from v(3) obtain ys ext where ys: "copy_list copy (map snd kvs) (h @ [Table kvs]) = Some (ys, h @ Table kvs # ext)"
    "length ys = length (map snd kvs)" "\<And>g c'. length g = length h \<Longrightarrow> list_all2 (\<lambda>y e. view T (g @ c' # ext) y = Some e) ys es"
    by (rule copies_cells) blast
  let ?t = "Table (zip (map fst kvs) ys)"
  show ?thesis
  proof (rule copiedI)
    show "view (TMap T) (g @ ?t # ext) (GMap (Some (length h))) = Some d" if "length g = length h" for g
      using ys(2) ys(3) [of g] load_append(2) [of g ?t ext] that unfolding view_iff(4) v(4) by auto
  qed (simp add: make_map_def v ys(1) list_update_append)
qed

lemma copier_map: "deep_copier (TMap T) (copy_map copy)"
  using copied_nil(3) copies_map by unfold_locales (auto simp: copy_map_def)

lemma copier_named_map: "deep_copier (TMap T) (copy_named_map (make_map copy))"
  using copied_nil(3) copied_elem copies_map view_extend by unfold_locales (auto simp: copy_named_map_def)

end

lemma copier_val: "flat T \<Longrightarrow> deep_copier T copy_val"
  by unfold_locales (auto simp: copy_val_def intro: copied_same view_flat)


section \<open>Structs\<close>

text \<open>Fields by name.\<close>

lemma view_fields_map_of:
  assumes "distinct (map fst Fs)"
  shows "view_fields Fs h fs = Some ds \<longleftrightarrow> map fst fs = map fst Fs \<and> map fst ds = map fst Fs \<and>
    (\<forall>n T. map_of Fs n = Some T \<longrightarrow> (\<exists>v d. map_of fs n = Some v \<and> map_of ds n = Some d \<and> view T h v = Some d))"
  using assms
proof (induction Fs arbitrary: fs ds)
  case Nil
  then show ?case by (cases fs) auto
next
  case (Cons F Fs)
  obtain n T where [simp]: "F = (n, T)" by fastforce
  have n: "map_of Fs n = None" using Cons.prems by (simp add: map_of_eq_None_iff)
  show ?case
  proof (cases "\<exists>v fs' d ds'. fs = (n, v) # fs' \<and> ds = (n, d) # ds'")
    case True
    then obtain v fs' d ds' where [simp]: "fs = (n, v) # fs'" "ds = (n, d) # ds'" by blast
    show ?thesis using Cons.IH [of fs' ds'] Cons.prems n by (auto simp: bind_eq_Some_conv)
  next
    case False
    then show ?thesis by (cases fs; cases ds) (auto simp: bind_eq_Some_conv split: if_splits)
  qed
qed

definition field_copied :: "(string \<times> gtype) list \<Rightarrow> (string \<times> dval) list \<Rightarrow> heap \<Rightarrow> heap \<Rightarrow> (string \<times> gval) list \<Rightarrow> string \<Rightarrow> bool" where
  "field_copied Fs ds h ext outs n \<longleftrightarrow> (\<forall>T. map_of Fs n = Some T \<longrightarrow>
     (\<exists>v d. map_of outs n = Some v \<and> map_of ds n = Some d \<and> (\<forall>g. length g = length h \<longrightarrow> view T (g @ ext) v = Some d)))"

lemma field_copied_extend: "field_copied Fs ds h e outs n \<Longrightarrow> field_copied Fs ds h (e @ e') outs n"
  unfolding field_copied_def by (metis append.assoc view_extend)

lemma copies_fields:
  assumes ins: "\<And>n T. map_of Fs n = Some T \<Longrightarrow> \<exists>v d. map_of ins n = Some v \<and> map_of ds n = Some d \<and> view T h v = Some d"
    and cs: "\<And>n c. (n, c) \<in> set cs \<Longrightarrow> \<exists>T. map_of Fs n = Some T \<and> deep_copier T c"
    and outs: "map fst outs = map fst Fs" "\<And>n. n \<notin> fst ` set cs \<Longrightarrow> field_copied Fs ds h e outs n"
  shows "\<exists>outs' e'. copy_fields cs ins outs (h @ e) = Some (outs', h @ e @ e') \<and> map fst outs' = map fst Fs \<and>
    (\<forall>n. field_copied Fs ds h (e @ e') outs' n)"
  using cs outs
proof (induction cs arbitrary: outs e)
  case Nil
  then show ?case by auto
next
  case (Cons nc cs)
  obtain n c where nc: "nc = (n, c)" by fastforce
  with Cons.prems(1) [of n c] obtain T where T: "map_of Fs n = Some T" "deep_copier T c" by auto
  from ins [OF T(1)] obtain v d where v: "map_of ins n = Some v" "map_of ds n = Some d" "view T h v = Some d" by blast
  from deep_copier.copies [OF T(2) view_extend [OF v(3), of e]] obtain v' e1 where v': "c v (h @ e) = Some (v', (h @ e) @ e1)"
    "\<And>g. length g = length (h @ e) \<Longrightarrow> view T (g @ e1) v' = Some d" by (rule copiedE) blast
  let ?outs = "AList.update n v' outs"
  have keys: "map fst ?outs = map fst Fs"
    using Cons.prems(2) T(1) by (simp add: update_keys map_of_eq_None_iff weak_map_of_SomeI) (metis image_set map_of_SomeD fst_conv image_eqI)
  have "field_copied Fs ds h (e @ e1) ?outs m" if "m \<notin> fst ` set cs" for m
  proof (cases "m = n")
    case True
    have "view T (g @ e @ e1) v' = Some d" if "length g = length h" for g using v'(2) [of "g @ e"] that by simp
    with True v(2) T(1) show ?thesis by (simp add: field_copied_def update_conv)
  next
    case False
    then have "field_copied Fs ds h (e @ e1) outs m" using Cons.prems(3) that by (intro field_copied_extend) (simp add: nc)
    then show ?thesis using False by (simp add: field_copied_def update_conv')
  qed
  from Cons.IH [OF _ keys this] Cons.prems(1) show ?case by (auto simp: nc v(1) v'(1))
qed

lemma copier_struct:
  assumes "distinct (map fst Fs)" "list_all (\<lambda>(n, T). flat T \<or> n \<in> fst ` set cs) Fs"
    and "list_all (\<lambda>(n, c). case map_of Fs n of None \<Rightarrow> False | Some T \<Rightarrow> deep_copier T c) cs"
  shows "deep_copier (TStruct Fs) (copy_struct cs)"
proof
  fix h v d assume "view (TStruct Fs) h v = Some d"
  then obtain fs ds where v: "v = GStruct fs" "d = DStruct ds" "view_fields Fs h fs = Some ds" by (auto simp: view_iff)
  note fields = v(3) [unfolded view_fields_map_of [OF assms(1)]]
  have "field_copied Fs ds h [] fs n" if "n \<notin> fst ` set cs" for n
  proof -
    have "map_of Fs n = Some T \<Longrightarrow> flat T" for T using assms(2) that map_of_SomeD by (fastforce simp: list_all_iff)
    with fields show ?thesis unfolding field_copied_def by (metis append_Nil2 view_flat)
  qed
  moreover have "\<exists>T. map_of Fs n = Some T \<and> deep_copier T c" if "(n, c) \<in> set cs" for n c
    using assms(3) that by (auto simp: list_all_iff split: option.splits)
  ultimately obtain fs' ext where fs': "copy_fields cs fs fs h = Some (fs', h @ ext)" "map fst fs' = map fst Fs"
    "\<And>n. field_copied Fs ds h ext fs' n"
    using copies_fields [of Fs fs ds h cs fs "[]"] fields by auto
  show "copied (TStruct Fs) d h (copy_struct cs v h)"
  proof (rule copiedI)
    show "view (TStruct Fs) (g @ ext) (GStruct fs') = Some d" if "length g = length h" for g
      using fs'(2,3) fields that by (simp add: v(2) view_fields_map_of [OF assms(1)] field_copied_def) blast
  qed (simp add: copy_struct_def v(1) fs'(1))
qed

section \<open>Writes\<close>

definition writes :: "(addr \<times> cell) list \<Rightarrow> heap \<Rightarrow> heap" where
  "writes ws h = foldl (\<lambda>h (a, c). h[a := c]) h ws"

lemma length_writes [simp]: "length (writes ws h) = length h"
  by (induction ws arbitrary: h) (auto simp: writes_def)

lemma writes_Cons [simp]: "writes ((a, c) # ws) h = writes ws (h[a := c])" "writes [] h = h"
  by (simp_all add: writes_def)

lemma writes_old: "list_all (\<lambda>(a, c). a < length h) ws \<Longrightarrow> writes ws (h @ ext) = writes ws h @ ext"
  by (induction ws arbitrary: h) (auto simp: list_update_append)

lemma writes_new: "list_all (\<lambda>(a, c). length h \<le> a) ws \<Longrightarrow> \<exists>ext'. writes ws (h @ ext) = h @ ext'"
  by (induction ws arbitrary: ext) (auto simp: list_update_append)

context deep_copier
begin

text \<open>The contract in terms of writes: the original and the copy are changed apart.\<close>

lemma writes_apart:
  assumes "view T h v = Some d"
  obtains v' ext where "copy v h = Some (v', h @ ext)" "view T (h @ ext) v' = Some d"
    "\<And>ws. list_all (\<lambda>(a, c). a < length h) ws \<Longrightarrow> view T (writes ws (h @ ext)) v' = Some d"
    "\<And>ws. list_all (\<lambda>(a, c). length h \<le> a) ws \<Longrightarrow> view T (writes ws (h @ ext)) v = Some d"
proof -
  from assms obtain v' ext where v': "copy v h = Some (v', h @ ext)" "view T (h @ ext) v' = Some d"
    "\<And>g. length g = length h \<Longrightarrow> view T (g @ ext) v' = Some d" "\<And>ext'. view T (h @ ext') v = Some d" by (rule separate) blast
  moreover have "view T (writes ws (h @ ext)) v' = Some d" if "list_all (\<lambda>(a, c). a < length h) ws" for ws
    using v'(3) [of "writes ws h"] by (simp add: writes_old [OF that])
  moreover have "view T (writes ws (h @ ext)) v = Some d" if "list_all (\<lambda>(a, c). length h \<le> a) ws" for ws
    using writes_new [OF that, of ext] v'(4) by auto
  ultimately show thesis using that by blast
qed

end

end
