(* ===== verification/Api_Shapes.thy ===== *)
theory Api_Shapes
  imports Go_Memory
begin

text \<open>
  The structs and map types of \<open>api/v1alpha1\<close> as shapes in memory: every field in order, with what it may refer to. The
  records of \<open>Api_Types\<close> are what is read through them. Types of other packages are parameters, with their
  \<open>DeepCopyInto\<close>.
\<close>

record third_party =
  tyJSON :: gtype
  dcJSON :: copier
  tyIntOrString :: gtype
  tyTypeMeta :: gtype
  tyObjectMeta :: gtype
  dcObjectMeta :: copier
  tyListMeta :: gtype
  dcListMeta :: copier
  tyCondition :: gtype
  dcCondition :: copier

text \<open>What the generated code relies on: the types it copies by assignment hold no references, and the others copy deeply.\<close>

definition third_party_ok :: "third_party \<Rightarrow> bool" where
  "third_party_ok E \<longleftrightarrow> flat (tyIntOrString E) \<and> flat (tyTypeMeta E) \<and> deep_copier (tyJSON E) (dcJSON E) \<and>
     deep_copier (tyObjectMeta E) (dcObjectMeta E) \<and> deep_copier (tyListMeta E) (dcListMeta E) \<and> deep_copier (tyCondition E) (dcCondition E)"

section \<open>The types\<close>

definition ty_AdditionalPolicyAnnotations :: "gtype" where
  "ty_AdditionalPolicyAnnotations = TMap TBase"

definition ty_AdditionalPolicyLabels :: "gtype" where
  "ty_AdditionalPolicyLabels = TMap TBase"

definition ty_AdditionalPolicySpec :: "third_party \<Rightarrow> gtype" where
  "ty_AdditionalPolicySpec E = TMap (tyJSON E)"

definition ty_AdditionalPolicy :: "third_party \<Rightarrow> gtype" where
  "ty_AdditionalPolicy E = TStruct [(''Annotations'', ty_AdditionalPolicyAnnotations), (''Labels'', ty_AdditionalPolicyLabels),
     (''Name'', TBase), (''Spec'', ty_AdditionalPolicySpec E)]"

definition ty_IstioAmbient :: "gtype" where
  "ty_IstioAmbient = TStruct [(''Enabled'', TBase)]"

definition ty_IstioAuthorizationPoliciesAdditionalPoliciesValueAnnotations :: "gtype" where
  "ty_IstioAuthorizationPoliciesAdditionalPoliciesValueAnnotations = TMap TBase"

definition ty_IstioAuthorizationPoliciesAdditionalPoliciesValueLabels :: "gtype" where
  "ty_IstioAuthorizationPoliciesAdditionalPoliciesValueLabels = TMap TBase"

definition ty_IstioAuthorizationPoliciesAdditionalPoliciesValueSpecRulesElem :: "third_party \<Rightarrow> gtype" where
  "ty_IstioAuthorizationPoliciesAdditionalPoliciesValueSpecRulesElem E = TMap (tyJSON E)"

definition ty_IstioAuthorizationPoliciesAdditionalPoliciesValueSpecSelector :: "third_party \<Rightarrow> gtype" where
  "ty_IstioAuthorizationPoliciesAdditionalPoliciesValueSpecSelector E = TMap (tyJSON E)"

definition ty_IstioAuthorizationPoliciesAdditionalPoliciesValueSpec :: "third_party \<Rightarrow> gtype" where
  "ty_IstioAuthorizationPoliciesAdditionalPoliciesValueSpec E = TStruct [(''Action'', TPtr TBase),
     (''Rules'', TSlice (ty_IstioAuthorizationPoliciesAdditionalPoliciesValueSpecRulesElem E)),
     (''Selector'', ty_IstioAuthorizationPoliciesAdditionalPoliciesValueSpecSelector E)]"

definition ty_IstioAuthorizationPoliciesAdditionalPoliciesValue :: "third_party \<Rightarrow> gtype" where
  "ty_IstioAuthorizationPoliciesAdditionalPoliciesValue E = TStruct [(''Annotations'', ty_IstioAuthorizationPoliciesAdditionalPoliciesValueAnnotations),
     (''Enabled'', TBase), (''Labels'', ty_IstioAuthorizationPoliciesAdditionalPoliciesValueLabels), (''Name'', TPtr TBase),
     (''Namespace'', TPtr TBase), (''Spec'', ty_IstioAuthorizationPoliciesAdditionalPoliciesValueSpec E)]"

definition ty_IstioAuthorizationPoliciesAdditionalPolicies :: "third_party \<Rightarrow> gtype" where
  "ty_IstioAuthorizationPoliciesAdditionalPolicies E = TMap (ty_IstioAuthorizationPoliciesAdditionalPoliciesValue E)"

definition ty_IstioAuthorizationPoliciesCustomElemAnnotations :: "gtype" where
  "ty_IstioAuthorizationPoliciesCustomElemAnnotations = TMap TBase"

definition ty_IstioAuthorizationPoliciesCustomElemLabels :: "gtype" where
  "ty_IstioAuthorizationPoliciesCustomElemLabels = TMap TBase"

definition ty_IstioAuthorizationPoliciesCustomElemSpec :: "third_party \<Rightarrow> gtype" where
  "ty_IstioAuthorizationPoliciesCustomElemSpec E = TMap (tyJSON E)"

definition ty_IstioAuthorizationPoliciesCustomElem :: "third_party \<Rightarrow> gtype" where
  "ty_IstioAuthorizationPoliciesCustomElem E = TStruct [(''Annotations'', ty_IstioAuthorizationPoliciesCustomElemAnnotations),
     (''Labels'', ty_IstioAuthorizationPoliciesCustomElemLabels), (''Name'', TBase),
     (''Spec'', ty_IstioAuthorizationPoliciesCustomElemSpec E)]"

definition ty_IstioAuthorizationPoliciesDefaultsAllowInNamespace :: "gtype" where
  "ty_IstioAuthorizationPoliciesDefaultsAllowInNamespace = TStruct [(''Enabled'', TPtr TBase)]"

definition ty_IstioAuthorizationPoliciesDefaultsDenyAll :: "gtype" where
  "ty_IstioAuthorizationPoliciesDefaultsDenyAll = TStruct [(''Enabled'', TPtr TBase)]"

definition ty_IstioAuthorizationPoliciesDefaults :: "gtype" where
  "ty_IstioAuthorizationPoliciesDefaults = TStruct [(''AllowInNamespace'', TPtr ty_IstioAuthorizationPoliciesDefaultsAllowInNamespace),
     (''DenyAll'', TPtr ty_IstioAuthorizationPoliciesDefaultsDenyAll), (''Enabled'', TPtr TBase)]"

definition ty_IstioAuthorizationPolicies :: "third_party \<Rightarrow> gtype" where
  "ty_IstioAuthorizationPolicies E = TStruct [(''AdditionalPolicies'', ty_IstioAuthorizationPoliciesAdditionalPolicies E),
     (''Custom'', TSlice (ty_IstioAuthorizationPoliciesCustomElem E)), (''Defaults'', TPtr ty_IstioAuthorizationPoliciesDefaults),
     (''Enabled'', TBase), (''GenerateFromNetpol'', TPtr TBase)]"

definition ty_IstioMtls :: "gtype" where
  "ty_IstioMtls = TStruct [(''Mode'', TBase)]"

definition ty_IstioServiceEntriesCustomElemAnnotations :: "gtype" where
  "ty_IstioServiceEntriesCustomElemAnnotations = TMap TBase"

definition ty_IstioServiceEntriesCustomElemLabels :: "gtype" where
  "ty_IstioServiceEntriesCustomElemLabels = TMap TBase"

definition ty_IstioServiceEntriesCustomElemSpec :: "third_party \<Rightarrow> gtype" where
  "ty_IstioServiceEntriesCustomElemSpec E = TMap (tyJSON E)"

definition ty_IstioServiceEntriesCustomElem :: "third_party \<Rightarrow> gtype" where
  "ty_IstioServiceEntriesCustomElem E = TStruct [(''Annotations'', ty_IstioServiceEntriesCustomElemAnnotations),
     (''Labels'', ty_IstioServiceEntriesCustomElemLabels), (''Name'', TBase), (''Spec'', ty_IstioServiceEntriesCustomElemSpec E)]"

definition ty_IstioServiceEntries :: "third_party \<Rightarrow> gtype" where
  "ty_IstioServiceEntries E = TStruct [(''Custom'', TSlice (ty_IstioServiceEntriesCustomElem E))]"

definition ty_IstioSidecar :: "gtype" where
  "ty_IstioSidecar = TStruct [(''Enabled'', TBase), (''OutboundTrafficPolicyMode'', TBase)]"

definition ty_Istio :: "third_party \<Rightarrow> gtype" where
  "ty_Istio E = TStruct [(''Ambient'', TPtr ty_IstioAmbient), (''AuthorizationPolicies'', TPtr (ty_IstioAuthorizationPolicies E)),
     (''Enabled'', TBase), (''Mtls'', TPtr ty_IstioMtls), (''PrependReleaseName'', TBase),
     (''ServiceEntries'', TPtr (ty_IstioServiceEntries E)), (''Sidecar'', TPtr ty_IstioSidecar)]"

definition ty_NetworkPoliciesDefaultsAsHooks :: "gtype" where
  "ty_NetworkPoliciesDefaultsAsHooks = TStruct [(''DeletePolicies'', TSlice TBase), (''Enabled'', TPtr TBase), (''Hooks'', TSlice TBase),
     (''Weight'', TBase)]"

definition ty_NetworkPoliciesEgressDefaultsAllowInNamespace :: "gtype" where
  "ty_NetworkPoliciesEgressDefaultsAllowInNamespace = TStruct [(''Enabled'', TPtr TBase)]"

definition ty_NetworkPoliciesEgressDefaultsAllowIstiod :: "gtype" where
  "ty_NetworkPoliciesEgressDefaultsAllowIstiod = TStruct [(''Enabled'', TPtr TBase)]"

definition ty_NetworkPoliciesEgressDefaultsAllowKubeDNS :: "gtype" where
  "ty_NetworkPoliciesEgressDefaultsAllowKubeDNS = TStruct [(''Enabled'', TPtr TBase)]"

definition ty_NetworkPoliciesEgressDefaultsDenyAll :: "gtype" where
  "ty_NetworkPoliciesEgressDefaultsDenyAll = TStruct [(''Enabled'', TPtr TBase)]"

definition ty_NetworkPoliciesEgressDefaults :: "gtype" where
  "ty_NetworkPoliciesEgressDefaults = TStruct [(''AllowInNamespace'', TPtr ty_NetworkPoliciesEgressDefaultsAllowInNamespace),
     (''AllowIstiod'', TPtr ty_NetworkPoliciesEgressDefaultsAllowIstiod),
     (''AllowKubeDNS'', TPtr ty_NetworkPoliciesEgressDefaultsAllowKubeDNS), (''DenyAll'', TPtr ty_NetworkPoliciesEgressDefaultsDenyAll),
     (''Enabled'', TPtr TBase)]"

definition ty_NetworkPoliciesEgressDefinitionsValuePortsElem :: "third_party \<Rightarrow> gtype" where
  "ty_NetworkPoliciesEgressDefinitionsValuePortsElem E = TStruct [(''EndPort'', TPtr TBase), (''Port'', TPtr (tyIntOrString E)),
     (''Protocol'', TPtr TBase)]"

definition ty_NetworkPoliciesEgressDefinitionsValueToElemIPBlock :: "gtype" where
  "ty_NetworkPoliciesEgressDefinitionsValueToElemIPBlock = TStruct [(''CIDR'', TPtr TBase), (''Except'', TSlice TBase)]"

definition ty_NetworkPoliciesEgressDefinitionsValueToElemNamespaceSelector :: "third_party \<Rightarrow> gtype" where
  "ty_NetworkPoliciesEgressDefinitionsValueToElemNamespaceSelector E = TMap (tyJSON E)"

definition ty_NetworkPoliciesEgressDefinitionsValueToElemPodSelector :: "third_party \<Rightarrow> gtype" where
  "ty_NetworkPoliciesEgressDefinitionsValueToElemPodSelector E = TMap (tyJSON E)"

definition ty_NetworkPoliciesEgressDefinitionsValueToElem :: "third_party \<Rightarrow> gtype" where
  "ty_NetworkPoliciesEgressDefinitionsValueToElem E = TStruct [(''IPBlock'', TPtr ty_NetworkPoliciesEgressDefinitionsValueToElemIPBlock),
     (''NamespaceSelector'', ty_NetworkPoliciesEgressDefinitionsValueToElemNamespaceSelector E),
     (''PodSelector'', ty_NetworkPoliciesEgressDefinitionsValueToElemPodSelector E)]"

definition ty_NetworkPoliciesEgressDefinitionsValue :: "third_party \<Rightarrow> gtype" where
  "ty_NetworkPoliciesEgressDefinitionsValue E = TStruct [(''Ports'', TSlice (ty_NetworkPoliciesEgressDefinitionsValuePortsElem E)),
     (''To'', TSlice (ty_NetworkPoliciesEgressDefinitionsValueToElem E))]"

definition ty_NetworkPoliciesEgressDefinitions :: "third_party \<Rightarrow> gtype" where
  "ty_NetworkPoliciesEgressDefinitions E = TMap (ty_NetworkPoliciesEgressDefinitionsValue E)"

definition ty_NetworkPoliciesEgressFrom :: "third_party \<Rightarrow> gtype" where
  "ty_NetworkPoliciesEgressFrom E = TMap (tyJSON E)"

definition ty_NetworkPoliciesEgress :: "third_party \<Rightarrow> gtype" where
  "ty_NetworkPoliciesEgress E = TStruct [(''Defaults'', TPtr ty_NetworkPoliciesEgressDefaults),
     (''Definitions'', ty_NetworkPoliciesEgressDefinitions E), (''ExcludeCIDRs'', TSlice TBase),
     (''From'', ty_NetworkPoliciesEgressFrom E)]"

definition ty_NetworkPoliciesHbonePortInjection :: "gtype" where
  "ty_NetworkPoliciesHbonePortInjection = TStruct [(''Enabled'', TBase)]"

definition ty_NetworkPoliciesIngressDefaultsAllowInNamespace :: "gtype" where
  "ty_NetworkPoliciesIngressDefaultsAllowInNamespace = TStruct [(''Enabled'', TPtr TBase)]"

definition ty_NetworkPoliciesIngressDefaultsAllowPrometheusToIstioSidecar :: "gtype" where
  "ty_NetworkPoliciesIngressDefaultsAllowPrometheusToIstioSidecar = TStruct [(''Enabled'', TPtr TBase)]"

definition ty_NetworkPoliciesIngressDefaultsDenyAll :: "gtype" where
  "ty_NetworkPoliciesIngressDefaultsDenyAll = TStruct [(''Enabled'', TPtr TBase)]"

definition ty_NetworkPoliciesIngressDefaults :: "gtype" where
  "ty_NetworkPoliciesIngressDefaults = TStruct [(''AllowInNamespace'', TPtr ty_NetworkPoliciesIngressDefaultsAllowInNamespace),
     (''AllowPrometheusToIstioSidecar'', TPtr ty_NetworkPoliciesIngressDefaultsAllowPrometheusToIstioSidecar),
     (''DenyAll'', TPtr ty_NetworkPoliciesIngressDefaultsDenyAll), (''Enabled'', TPtr TBase)]"

definition ty_NetworkPoliciesIngressDefinitionsValueFromElemIPBlock :: "gtype" where
  "ty_NetworkPoliciesIngressDefinitionsValueFromElemIPBlock = TStruct [(''CIDR'', TPtr TBase), (''Except'', TSlice TBase)]"

definition ty_NetworkPoliciesIngressDefinitionsValueFromElemNamespaceSelector :: "third_party \<Rightarrow> gtype" where
  "ty_NetworkPoliciesIngressDefinitionsValueFromElemNamespaceSelector E = TMap (tyJSON E)"

definition ty_NetworkPoliciesIngressDefinitionsValueFromElemPodSelector :: "third_party \<Rightarrow> gtype" where
  "ty_NetworkPoliciesIngressDefinitionsValueFromElemPodSelector E = TMap (tyJSON E)"

definition ty_NetworkPoliciesIngressDefinitionsValueFromElem :: "third_party \<Rightarrow> gtype" where
  "ty_NetworkPoliciesIngressDefinitionsValueFromElem E = TStruct [(''IPBlock'', TPtr ty_NetworkPoliciesIngressDefinitionsValueFromElemIPBlock),
     (''NamespaceSelector'', ty_NetworkPoliciesIngressDefinitionsValueFromElemNamespaceSelector E),
     (''PodSelector'', ty_NetworkPoliciesIngressDefinitionsValueFromElemPodSelector E)]"

definition ty_NetworkPoliciesIngressDefinitionsValuePortsElem :: "third_party \<Rightarrow> gtype" where
  "ty_NetworkPoliciesIngressDefinitionsValuePortsElem E = TStruct [(''EndPort'', TPtr TBase), (''Port'', TPtr (tyIntOrString E)),
     (''Protocol'', TPtr TBase)]"

definition ty_NetworkPoliciesIngressDefinitionsValue :: "third_party \<Rightarrow> gtype" where
  "ty_NetworkPoliciesIngressDefinitionsValue E = TStruct [(''From'', TSlice (ty_NetworkPoliciesIngressDefinitionsValueFromElem E)),
     (''Ports'', TSlice (ty_NetworkPoliciesIngressDefinitionsValuePortsElem E))]"

definition ty_NetworkPoliciesIngressDefinitions :: "third_party \<Rightarrow> gtype" where
  "ty_NetworkPoliciesIngressDefinitions E = TMap (ty_NetworkPoliciesIngressDefinitionsValue E)"

definition ty_NetworkPoliciesIngressTo :: "third_party \<Rightarrow> gtype" where
  "ty_NetworkPoliciesIngressTo E = TMap (tyJSON E)"

definition ty_NetworkPoliciesIngress :: "third_party \<Rightarrow> gtype" where
  "ty_NetworkPoliciesIngress E = TStruct [(''Defaults'', TPtr ty_NetworkPoliciesIngressDefaults),
     (''Definitions'', ty_NetworkPoliciesIngressDefinitions E), (''To'', ty_NetworkPoliciesIngressTo E)]"

definition ty_NetworkPolicies :: "third_party \<Rightarrow> gtype" where
  "ty_NetworkPolicies E = TStruct [(''Additional'', TSlice (ty_AdditionalPolicy E)),
     (''AdditionalPolicies'', TSlice (ty_AdditionalPolicy E)), (''DefaultsAsHooks'', TPtr ty_NetworkPoliciesDefaultsAsHooks),
     (''Egress'', TPtr (ty_NetworkPoliciesEgress E)), (''Enabled'', TBase),
     (''HbonePortInjection'', TPtr ty_NetworkPoliciesHbonePortInjection), (''Ingress'', TPtr (ty_NetworkPoliciesIngress E)),
     (''PrependReleaseName'', TBase)]"

definition ty_RoutesInbound :: "third_party \<Rightarrow> gtype" where
  "ty_RoutesInbound E = TMap (tyJSON E)"

definition ty_RoutesOutbound :: "third_party \<Rightarrow> gtype" where
  "ty_RoutesOutbound E = TMap (tyJSON E)"

definition ty_InboundRouteDefaults :: "gtype" where
  "ty_InboundRouteDefaults = TStruct [(''Gateways'', TSlice TBase)]"

definition ty_RouteDefaults :: "gtype" where
  "ty_RouteDefaults = TStruct [(''Inbound'', TPtr ty_InboundRouteDefaults)]"

definition ty_Routes :: "third_party \<Rightarrow> gtype" where
  "ty_Routes E = TStruct [(''Defaults'', TPtr ty_RouteDefaults), (''Inbound'', ty_RoutesInbound E), (''Outbound'', ty_RoutesOutbound E),
     (''PrependReleaseName'', TBase)]"

definition ty_RoutePassthrough :: "gtype" where
  "ty_RoutePassthrough = TStruct [(''Enabled'', TBase), (''GatewayPort'', TPtr TBase)]"

definition ty_InboundRoute :: "third_party \<Rightarrow> gtype" where
  "ty_InboundRoute E = TStruct [(''Enabled'', TBase), (''Gateways'', TSlice TBase), (''Hosts'', TSlice TBase), (''Service'', TBase),
     (''Port'', TPtr (tyIntOrString E)), (''ContainerPort'', TPtr (tyIntOrString E)), (''Selector'', TMap TBase),
     (''Http'', TSlice (tyJSON E)), (''Passthrough'', TPtr ty_RoutePassthrough), (''Resolution'', TBase), (''Labels'', TMap TBase),
     (''Annotations'', TMap TBase)]"

definition ty_OutboundRoutePort :: "gtype" where
  "ty_OutboundRoutePort = TStruct [(''Number'', TBase), (''Name'', TBase), (''Protocol'', TBase)]"

definition ty_RouteMetadata :: "gtype" where
  "ty_RouteMetadata = TStruct [(''Labels'', TMap TBase), (''Annotations'', TMap TBase)]"

definition ty_OutboundRoute :: "gtype" where
  "ty_OutboundRoute = TStruct [(''Enabled'', TBase), (''Hosts'', TSlice TBase), (''Location'', TBase), (''Resolution'', TBase),
     (''Ports'', TSlice ty_OutboundRoutePort), (''Metadata'', TPtr ty_RouteMetadata)]"

definition ty_PackageSpec :: "third_party \<Rightarrow> gtype" where
  "ty_PackageSpec E = TStruct [(''Istio'', TPtr (ty_Istio E)), (''NetworkPolicies'', TPtr (ty_NetworkPolicies E)),
     (''Routes'', TPtr (ty_Routes E))]"

definition ty_AppliedResource :: "gtype" where
  "ty_AppliedResource = TStruct [(''APIVersion'', TBase), (''Kind'', TBase), (''Name'', TBase)]"

definition ty_PackageStatus :: "third_party \<Rightarrow> gtype" where
  "ty_PackageStatus E = TStruct [(''ObservedGeneration'', TBase), (''Conditions'', TSlice (tyCondition E)),
     (''AppliedResources'', TSlice ty_AppliedResource)]"

definition ty_Package :: "third_party \<Rightarrow> gtype" where
  "ty_Package E = TStruct [(''TypeMeta'', tyTypeMeta E), (''ObjectMeta'', tyObjectMeta E), (''Spec'', ty_PackageSpec E),
     (''Status'', ty_PackageStatus E)]"

definition ty_PackageList :: "third_party \<Rightarrow> gtype" where
  "ty_PackageList E = TStruct [(''TypeMeta'', tyTypeMeta E), (''ListMeta'', tyListMeta E), (''Items'', TSlice (ty_Package E))]"

text \<open>The map types are used under their names and as maps.\<close>

lemmas map_shapes =
  ty_AdditionalPolicyAnnotations_def ty_AdditionalPolicyLabels_def ty_AdditionalPolicySpec_def
  ty_IstioAuthorizationPoliciesAdditionalPoliciesValueAnnotations_def
  ty_IstioAuthorizationPoliciesAdditionalPoliciesValueLabels_def
  ty_IstioAuthorizationPoliciesAdditionalPoliciesValueSpecRulesElem_def
  ty_IstioAuthorizationPoliciesAdditionalPoliciesValueSpecSelector_def ty_IstioAuthorizationPoliciesAdditionalPolicies_def
  ty_IstioAuthorizationPoliciesCustomElemAnnotations_def ty_IstioAuthorizationPoliciesCustomElemLabels_def
  ty_IstioAuthorizationPoliciesCustomElemSpec_def ty_IstioServiceEntriesCustomElemAnnotations_def
  ty_IstioServiceEntriesCustomElemLabels_def ty_IstioServiceEntriesCustomElemSpec_def
  ty_NetworkPoliciesEgressDefinitionsValueToElemNamespaceSelector_def
  ty_NetworkPoliciesEgressDefinitionsValueToElemPodSelector_def ty_NetworkPoliciesEgressDefinitions_def
  ty_NetworkPoliciesEgressFrom_def ty_NetworkPoliciesIngressDefinitionsValueFromElemNamespaceSelector_def
  ty_NetworkPoliciesIngressDefinitionsValueFromElemPodSelector_def ty_NetworkPoliciesIngressDefinitions_def
  ty_NetworkPoliciesIngressTo_def ty_RoutesInbound_def ty_RoutesOutbound_def

text \<open>The structs that are copied by assignment.\<close>

lemma flat_shapes [simp]:
  "flat ty_IstioAmbient" "flat ty_IstioMtls" "flat ty_IstioSidecar" "flat ty_NetworkPoliciesHbonePortInjection" "flat ty_OutboundRoutePort" "flat ty_AppliedResource"
  by (simp_all add: ty_IstioAmbient_def ty_IstioMtls_def ty_IstioSidecar_def ty_NetworkPoliciesHbonePortInjection_def ty_OutboundRoutePort_def ty_AppliedResource_def)

end
