(* ===== verification/Deep_Copy.thy ===== *)
theory Deep_Copy
  imports Api_Shapes
begin

text \<open>
  The generated deep copies (\<open>api/v1alpha1/zz_generated.deepcopy.go\<close>), type by type. The informer cache hands out copies of the
  packages it holds, and the generator writes labels into maps of the package it was given: that the cache does not change
  rests on these functions.
\<close>

definition AdditionalPolicyAnnotations_DeepCopyInto :: "copier" where
  "AdditionalPolicyAnnotations_DeepCopyInto = make_map copy_val"

definition AdditionalPolicyAnnotations_DeepCopy :: "copier" where
  "AdditionalPolicyAnnotations_DeepCopy = copy_named_map AdditionalPolicyAnnotations_DeepCopyInto"

definition AdditionalPolicyLabels_DeepCopyInto :: "copier" where
  "AdditionalPolicyLabels_DeepCopyInto = make_map copy_val"

definition AdditionalPolicyLabels_DeepCopy :: "copier" where
  "AdditionalPolicyLabels_DeepCopy = copy_named_map AdditionalPolicyLabels_DeepCopyInto"

definition AdditionalPolicySpec_DeepCopyInto :: "third_party \<Rightarrow> copier" where
  "AdditionalPolicySpec_DeepCopyInto E = make_map (copy_elem (dcJSON E))"

definition AdditionalPolicySpec_DeepCopy :: "third_party \<Rightarrow> copier" where
  "AdditionalPolicySpec_DeepCopy E = copy_named_map (AdditionalPolicySpec_DeepCopyInto E)"

definition AdditionalPolicy_DeepCopyInto :: "third_party \<Rightarrow> copier" where
  "AdditionalPolicy_DeepCopyInto E = copy_struct [(''Annotations'', copy_map copy_val), (''Labels'', copy_map copy_val),
     (''Spec'', copy_map (copy_elem (dcJSON E)))]"

definition AdditionalPolicy_DeepCopy :: "third_party \<Rightarrow> copier" where
  "AdditionalPolicy_DeepCopy E = copy_ptr (AdditionalPolicy_DeepCopyInto E)"

definition IstioAmbient_DeepCopyInto :: "copier" where
  "IstioAmbient_DeepCopyInto = copy_struct []"

definition IstioAmbient_DeepCopy :: "copier" where
  "IstioAmbient_DeepCopy = copy_ptr IstioAmbient_DeepCopyInto"

definition IstioAuthorizationPoliciesAdditionalPoliciesValueAnnotations_DeepCopyInto :: "copier" where
  "IstioAuthorizationPoliciesAdditionalPoliciesValueAnnotations_DeepCopyInto = make_map copy_val"

definition IstioAuthorizationPoliciesAdditionalPoliciesValueAnnotations_DeepCopy :: "copier" where
  "IstioAuthorizationPoliciesAdditionalPoliciesValueAnnotations_DeepCopy = copy_named_map IstioAuthorizationPoliciesAdditionalPoliciesValueAnnotations_DeepCopyInto"

definition IstioAuthorizationPoliciesAdditionalPoliciesValueLabels_DeepCopyInto :: "copier" where
  "IstioAuthorizationPoliciesAdditionalPoliciesValueLabels_DeepCopyInto = make_map copy_val"

definition IstioAuthorizationPoliciesAdditionalPoliciesValueLabels_DeepCopy :: "copier" where
  "IstioAuthorizationPoliciesAdditionalPoliciesValueLabels_DeepCopy = copy_named_map IstioAuthorizationPoliciesAdditionalPoliciesValueLabels_DeepCopyInto"

definition IstioAuthorizationPoliciesAdditionalPoliciesValueSpecRulesElem_DeepCopyInto :: "third_party \<Rightarrow> copier" where
  "IstioAuthorizationPoliciesAdditionalPoliciesValueSpecRulesElem_DeepCopyInto E = make_map (copy_elem (dcJSON E))"

definition IstioAuthorizationPoliciesAdditionalPoliciesValueSpecRulesElem_DeepCopy :: "third_party \<Rightarrow> copier" where
  "IstioAuthorizationPoliciesAdditionalPoliciesValueSpecRulesElem_DeepCopy E = copy_named_map (IstioAuthorizationPoliciesAdditionalPoliciesValueSpecRulesElem_DeepCopyInto E)"

definition IstioAuthorizationPoliciesAdditionalPoliciesValueSpecSelector_DeepCopyInto :: "third_party \<Rightarrow> copier" where
  "IstioAuthorizationPoliciesAdditionalPoliciesValueSpecSelector_DeepCopyInto E = make_map (copy_elem (dcJSON E))"

definition IstioAuthorizationPoliciesAdditionalPoliciesValueSpecSelector_DeepCopy :: "third_party \<Rightarrow> copier" where
  "IstioAuthorizationPoliciesAdditionalPoliciesValueSpecSelector_DeepCopy E = copy_named_map (IstioAuthorizationPoliciesAdditionalPoliciesValueSpecSelector_DeepCopyInto E)"

definition IstioAuthorizationPoliciesAdditionalPoliciesValueSpec_DeepCopyInto :: "third_party \<Rightarrow> copier" where
  "IstioAuthorizationPoliciesAdditionalPoliciesValueSpec_DeepCopyInto E = copy_struct [(''Action'', copy_ptr copy_val),
     (''Rules'', copy_slice (copy_map (copy_elem (dcJSON E)))), (''Selector'', copy_map (copy_elem (dcJSON E)))]"

definition IstioAuthorizationPoliciesAdditionalPoliciesValueSpec_DeepCopy :: "third_party \<Rightarrow> copier" where
  "IstioAuthorizationPoliciesAdditionalPoliciesValueSpec_DeepCopy E = copy_ptr (IstioAuthorizationPoliciesAdditionalPoliciesValueSpec_DeepCopyInto E)"

definition IstioAuthorizationPoliciesAdditionalPoliciesValue_DeepCopyInto :: "third_party \<Rightarrow> copier" where
  "IstioAuthorizationPoliciesAdditionalPoliciesValue_DeepCopyInto E = copy_struct [(''Annotations'', copy_map copy_val),
     (''Labels'', copy_map copy_val), (''Name'', copy_ptr copy_val), (''Namespace'', copy_ptr copy_val),
     (''Spec'', IstioAuthorizationPoliciesAdditionalPoliciesValueSpec_DeepCopyInto E)]"

definition IstioAuthorizationPoliciesAdditionalPoliciesValue_DeepCopy :: "third_party \<Rightarrow> copier" where
  "IstioAuthorizationPoliciesAdditionalPoliciesValue_DeepCopy E = copy_ptr (IstioAuthorizationPoliciesAdditionalPoliciesValue_DeepCopyInto E)"

definition IstioAuthorizationPoliciesAdditionalPolicies_DeepCopyInto :: "third_party \<Rightarrow> copier" where
  "IstioAuthorizationPoliciesAdditionalPolicies_DeepCopyInto E = make_map (copy_elem (IstioAuthorizationPoliciesAdditionalPoliciesValue_DeepCopyInto E))"

definition IstioAuthorizationPoliciesAdditionalPolicies_DeepCopy :: "third_party \<Rightarrow> copier" where
  "IstioAuthorizationPoliciesAdditionalPolicies_DeepCopy E = copy_named_map (IstioAuthorizationPoliciesAdditionalPolicies_DeepCopyInto E)"

definition IstioAuthorizationPoliciesCustomElemAnnotations_DeepCopyInto :: "copier" where
  "IstioAuthorizationPoliciesCustomElemAnnotations_DeepCopyInto = make_map copy_val"

definition IstioAuthorizationPoliciesCustomElemAnnotations_DeepCopy :: "copier" where
  "IstioAuthorizationPoliciesCustomElemAnnotations_DeepCopy = copy_named_map IstioAuthorizationPoliciesCustomElemAnnotations_DeepCopyInto"

definition IstioAuthorizationPoliciesCustomElemLabels_DeepCopyInto :: "copier" where
  "IstioAuthorizationPoliciesCustomElemLabels_DeepCopyInto = make_map copy_val"

definition IstioAuthorizationPoliciesCustomElemLabels_DeepCopy :: "copier" where
  "IstioAuthorizationPoliciesCustomElemLabels_DeepCopy = copy_named_map IstioAuthorizationPoliciesCustomElemLabels_DeepCopyInto"

definition IstioAuthorizationPoliciesCustomElemSpec_DeepCopyInto :: "third_party \<Rightarrow> copier" where
  "IstioAuthorizationPoliciesCustomElemSpec_DeepCopyInto E = make_map (copy_elem (dcJSON E))"

definition IstioAuthorizationPoliciesCustomElemSpec_DeepCopy :: "third_party \<Rightarrow> copier" where
  "IstioAuthorizationPoliciesCustomElemSpec_DeepCopy E = copy_named_map (IstioAuthorizationPoliciesCustomElemSpec_DeepCopyInto E)"

definition IstioAuthorizationPoliciesCustomElem_DeepCopyInto :: "third_party \<Rightarrow> copier" where
  "IstioAuthorizationPoliciesCustomElem_DeepCopyInto E = copy_struct [(''Annotations'', copy_map copy_val), (''Labels'', copy_map copy_val),
     (''Spec'', copy_map (copy_elem (dcJSON E)))]"

definition IstioAuthorizationPoliciesCustomElem_DeepCopy :: "third_party \<Rightarrow> copier" where
  "IstioAuthorizationPoliciesCustomElem_DeepCopy E = copy_ptr (IstioAuthorizationPoliciesCustomElem_DeepCopyInto E)"

definition IstioAuthorizationPoliciesDefaultsAllowInNamespace_DeepCopyInto :: "copier" where
  "IstioAuthorizationPoliciesDefaultsAllowInNamespace_DeepCopyInto = copy_struct [(''Enabled'', copy_ptr copy_val)]"

definition IstioAuthorizationPoliciesDefaultsAllowInNamespace_DeepCopy :: "copier" where
  "IstioAuthorizationPoliciesDefaultsAllowInNamespace_DeepCopy = copy_ptr IstioAuthorizationPoliciesDefaultsAllowInNamespace_DeepCopyInto"

definition IstioAuthorizationPoliciesDefaultsDenyAll_DeepCopyInto :: "copier" where
  "IstioAuthorizationPoliciesDefaultsDenyAll_DeepCopyInto = copy_struct [(''Enabled'', copy_ptr copy_val)]"

definition IstioAuthorizationPoliciesDefaultsDenyAll_DeepCopy :: "copier" where
  "IstioAuthorizationPoliciesDefaultsDenyAll_DeepCopy = copy_ptr IstioAuthorizationPoliciesDefaultsDenyAll_DeepCopyInto"

definition IstioAuthorizationPoliciesDefaults_DeepCopyInto :: "copier" where
  "IstioAuthorizationPoliciesDefaults_DeepCopyInto = copy_struct [(''AllowInNamespace'', copy_ptr IstioAuthorizationPoliciesDefaultsAllowInNamespace_DeepCopyInto),
     (''DenyAll'', copy_ptr IstioAuthorizationPoliciesDefaultsDenyAll_DeepCopyInto), (''Enabled'', copy_ptr copy_val)]"

definition IstioAuthorizationPoliciesDefaults_DeepCopy :: "copier" where
  "IstioAuthorizationPoliciesDefaults_DeepCopy = copy_ptr IstioAuthorizationPoliciesDefaults_DeepCopyInto"

definition IstioAuthorizationPolicies_DeepCopyInto :: "third_party \<Rightarrow> copier" where
  "IstioAuthorizationPolicies_DeepCopyInto E = copy_struct [(''AdditionalPolicies'', copy_map (copy_elem (IstioAuthorizationPoliciesAdditionalPoliciesValue_DeepCopyInto E))),
     (''Custom'', copy_slice (IstioAuthorizationPoliciesCustomElem_DeepCopyInto E)),
     (''Defaults'', copy_ptr IstioAuthorizationPoliciesDefaults_DeepCopyInto), (''GenerateFromNetpol'', copy_ptr copy_val)]"

definition IstioAuthorizationPolicies_DeepCopy :: "third_party \<Rightarrow> copier" where
  "IstioAuthorizationPolicies_DeepCopy E = copy_ptr (IstioAuthorizationPolicies_DeepCopyInto E)"

definition IstioMtls_DeepCopyInto :: "copier" where
  "IstioMtls_DeepCopyInto = copy_struct []"

definition IstioMtls_DeepCopy :: "copier" where
  "IstioMtls_DeepCopy = copy_ptr IstioMtls_DeepCopyInto"

definition IstioServiceEntriesCustomElemAnnotations_DeepCopyInto :: "copier" where
  "IstioServiceEntriesCustomElemAnnotations_DeepCopyInto = make_map copy_val"

definition IstioServiceEntriesCustomElemAnnotations_DeepCopy :: "copier" where
  "IstioServiceEntriesCustomElemAnnotations_DeepCopy = copy_named_map IstioServiceEntriesCustomElemAnnotations_DeepCopyInto"

definition IstioServiceEntriesCustomElemLabels_DeepCopyInto :: "copier" where
  "IstioServiceEntriesCustomElemLabels_DeepCopyInto = make_map copy_val"

definition IstioServiceEntriesCustomElemLabels_DeepCopy :: "copier" where
  "IstioServiceEntriesCustomElemLabels_DeepCopy = copy_named_map IstioServiceEntriesCustomElemLabels_DeepCopyInto"

definition IstioServiceEntriesCustomElemSpec_DeepCopyInto :: "third_party \<Rightarrow> copier" where
  "IstioServiceEntriesCustomElemSpec_DeepCopyInto E = make_map (copy_elem (dcJSON E))"

definition IstioServiceEntriesCustomElemSpec_DeepCopy :: "third_party \<Rightarrow> copier" where
  "IstioServiceEntriesCustomElemSpec_DeepCopy E = copy_named_map (IstioServiceEntriesCustomElemSpec_DeepCopyInto E)"

definition IstioServiceEntriesCustomElem_DeepCopyInto :: "third_party \<Rightarrow> copier" where
  "IstioServiceEntriesCustomElem_DeepCopyInto E = copy_struct [(''Annotations'', copy_map copy_val), (''Labels'', copy_map copy_val),
     (''Spec'', copy_map (copy_elem (dcJSON E)))]"

definition IstioServiceEntriesCustomElem_DeepCopy :: "third_party \<Rightarrow> copier" where
  "IstioServiceEntriesCustomElem_DeepCopy E = copy_ptr (IstioServiceEntriesCustomElem_DeepCopyInto E)"

definition IstioServiceEntries_DeepCopyInto :: "third_party \<Rightarrow> copier" where
  "IstioServiceEntries_DeepCopyInto E = copy_struct [(''Custom'', copy_slice (IstioServiceEntriesCustomElem_DeepCopyInto E))]"

definition IstioServiceEntries_DeepCopy :: "third_party \<Rightarrow> copier" where
  "IstioServiceEntries_DeepCopy E = copy_ptr (IstioServiceEntries_DeepCopyInto E)"

definition IstioSidecar_DeepCopyInto :: "copier" where
  "IstioSidecar_DeepCopyInto = copy_struct []"

definition IstioSidecar_DeepCopy :: "copier" where
  "IstioSidecar_DeepCopy = copy_ptr IstioSidecar_DeepCopyInto"

definition Istio_DeepCopyInto :: "third_party \<Rightarrow> copier" where
  "Istio_DeepCopyInto E = copy_struct [(''Ambient'', copy_ptr copy_val),
     (''AuthorizationPolicies'', copy_ptr (IstioAuthorizationPolicies_DeepCopyInto E)), (''Mtls'', copy_ptr copy_val),
     (''ServiceEntries'', copy_ptr (IstioServiceEntries_DeepCopyInto E)), (''Sidecar'', copy_ptr copy_val)]"

definition Istio_DeepCopy :: "third_party \<Rightarrow> copier" where
  "Istio_DeepCopy E = copy_ptr (Istio_DeepCopyInto E)"

definition NetworkPoliciesDefaultsAsHooks_DeepCopyInto :: "copier" where
  "NetworkPoliciesDefaultsAsHooks_DeepCopyInto = copy_struct [(''DeletePolicies'', copy_slice copy_val), (''Enabled'', copy_ptr copy_val),
     (''Hooks'', copy_slice copy_val)]"

definition NetworkPoliciesDefaultsAsHooks_DeepCopy :: "copier" where
  "NetworkPoliciesDefaultsAsHooks_DeepCopy = copy_ptr NetworkPoliciesDefaultsAsHooks_DeepCopyInto"

definition NetworkPoliciesEgressDefaultsAllowInNamespace_DeepCopyInto :: "copier" where
  "NetworkPoliciesEgressDefaultsAllowInNamespace_DeepCopyInto = copy_struct [(''Enabled'', copy_ptr copy_val)]"

definition NetworkPoliciesEgressDefaultsAllowInNamespace_DeepCopy :: "copier" where
  "NetworkPoliciesEgressDefaultsAllowInNamespace_DeepCopy = copy_ptr NetworkPoliciesEgressDefaultsAllowInNamespace_DeepCopyInto"

definition NetworkPoliciesEgressDefaultsAllowIstiod_DeepCopyInto :: "copier" where
  "NetworkPoliciesEgressDefaultsAllowIstiod_DeepCopyInto = copy_struct [(''Enabled'', copy_ptr copy_val)]"

definition NetworkPoliciesEgressDefaultsAllowIstiod_DeepCopy :: "copier" where
  "NetworkPoliciesEgressDefaultsAllowIstiod_DeepCopy = copy_ptr NetworkPoliciesEgressDefaultsAllowIstiod_DeepCopyInto"

definition NetworkPoliciesEgressDefaultsAllowKubeDNS_DeepCopyInto :: "copier" where
  "NetworkPoliciesEgressDefaultsAllowKubeDNS_DeepCopyInto = copy_struct [(''Enabled'', copy_ptr copy_val)]"

definition NetworkPoliciesEgressDefaultsAllowKubeDNS_DeepCopy :: "copier" where
  "NetworkPoliciesEgressDefaultsAllowKubeDNS_DeepCopy = copy_ptr NetworkPoliciesEgressDefaultsAllowKubeDNS_DeepCopyInto"

definition NetworkPoliciesEgressDefaultsDenyAll_DeepCopyInto :: "copier" where
  "NetworkPoliciesEgressDefaultsDenyAll_DeepCopyInto = copy_struct [(''Enabled'', copy_ptr copy_val)]"

definition NetworkPoliciesEgressDefaultsDenyAll_DeepCopy :: "copier" where
  "NetworkPoliciesEgressDefaultsDenyAll_DeepCopy = copy_ptr NetworkPoliciesEgressDefaultsDenyAll_DeepCopyInto"

definition NetworkPoliciesEgressDefaults_DeepCopyInto :: "copier" where
  "NetworkPoliciesEgressDefaults_DeepCopyInto = copy_struct [(''AllowInNamespace'', copy_ptr NetworkPoliciesEgressDefaultsAllowInNamespace_DeepCopyInto),
     (''AllowIstiod'', copy_ptr NetworkPoliciesEgressDefaultsAllowIstiod_DeepCopyInto),
     (''AllowKubeDNS'', copy_ptr NetworkPoliciesEgressDefaultsAllowKubeDNS_DeepCopyInto),
     (''DenyAll'', copy_ptr NetworkPoliciesEgressDefaultsDenyAll_DeepCopyInto), (''Enabled'', copy_ptr copy_val)]"

definition NetworkPoliciesEgressDefaults_DeepCopy :: "copier" where
  "NetworkPoliciesEgressDefaults_DeepCopy = copy_ptr NetworkPoliciesEgressDefaults_DeepCopyInto"

definition NetworkPoliciesEgressDefinitionsValuePortsElem_DeepCopyInto :: "third_party \<Rightarrow> copier" where
  "NetworkPoliciesEgressDefinitionsValuePortsElem_DeepCopyInto E = copy_struct [(''EndPort'', copy_ptr copy_val),
     (''Port'', copy_ptr copy_val), (''Protocol'', copy_ptr copy_val)]"

definition NetworkPoliciesEgressDefinitionsValuePortsElem_DeepCopy :: "third_party \<Rightarrow> copier" where
  "NetworkPoliciesEgressDefinitionsValuePortsElem_DeepCopy E = copy_ptr (NetworkPoliciesEgressDefinitionsValuePortsElem_DeepCopyInto E)"

definition NetworkPoliciesEgressDefinitionsValueToElemIPBlock_DeepCopyInto :: "copier" where
  "NetworkPoliciesEgressDefinitionsValueToElemIPBlock_DeepCopyInto = copy_struct [(''CIDR'', copy_ptr copy_val),
     (''Except'', copy_slice copy_val)]"

definition NetworkPoliciesEgressDefinitionsValueToElemIPBlock_DeepCopy :: "copier" where
  "NetworkPoliciesEgressDefinitionsValueToElemIPBlock_DeepCopy = copy_ptr NetworkPoliciesEgressDefinitionsValueToElemIPBlock_DeepCopyInto"

definition NetworkPoliciesEgressDefinitionsValueToElemNamespaceSelector_DeepCopyInto :: "third_party \<Rightarrow> copier" where
  "NetworkPoliciesEgressDefinitionsValueToElemNamespaceSelector_DeepCopyInto E = make_map (copy_elem (dcJSON E))"

definition NetworkPoliciesEgressDefinitionsValueToElemNamespaceSelector_DeepCopy :: "third_party \<Rightarrow> copier" where
  "NetworkPoliciesEgressDefinitionsValueToElemNamespaceSelector_DeepCopy E = copy_named_map (NetworkPoliciesEgressDefinitionsValueToElemNamespaceSelector_DeepCopyInto E)"

definition NetworkPoliciesEgressDefinitionsValueToElemPodSelector_DeepCopyInto :: "third_party \<Rightarrow> copier" where
  "NetworkPoliciesEgressDefinitionsValueToElemPodSelector_DeepCopyInto E = make_map (copy_elem (dcJSON E))"

definition NetworkPoliciesEgressDefinitionsValueToElemPodSelector_DeepCopy :: "third_party \<Rightarrow> copier" where
  "NetworkPoliciesEgressDefinitionsValueToElemPodSelector_DeepCopy E = copy_named_map (NetworkPoliciesEgressDefinitionsValueToElemPodSelector_DeepCopyInto E)"

definition NetworkPoliciesEgressDefinitionsValueToElem_DeepCopyInto :: "third_party \<Rightarrow> copier" where
  "NetworkPoliciesEgressDefinitionsValueToElem_DeepCopyInto E = copy_struct [(''IPBlock'', copy_ptr NetworkPoliciesEgressDefinitionsValueToElemIPBlock_DeepCopyInto),
     (''NamespaceSelector'', copy_map (copy_elem (dcJSON E))), (''PodSelector'', copy_map (copy_elem (dcJSON E)))]"

definition NetworkPoliciesEgressDefinitionsValueToElem_DeepCopy :: "third_party \<Rightarrow> copier" where
  "NetworkPoliciesEgressDefinitionsValueToElem_DeepCopy E = copy_ptr (NetworkPoliciesEgressDefinitionsValueToElem_DeepCopyInto E)"

definition NetworkPoliciesEgressDefinitionsValue_DeepCopyInto :: "third_party \<Rightarrow> copier" where
  "NetworkPoliciesEgressDefinitionsValue_DeepCopyInto E = copy_struct [(''Ports'', copy_slice (NetworkPoliciesEgressDefinitionsValuePortsElem_DeepCopyInto E)),
     (''To'', copy_slice (NetworkPoliciesEgressDefinitionsValueToElem_DeepCopyInto E))]"

definition NetworkPoliciesEgressDefinitionsValue_DeepCopy :: "third_party \<Rightarrow> copier" where
  "NetworkPoliciesEgressDefinitionsValue_DeepCopy E = copy_ptr (NetworkPoliciesEgressDefinitionsValue_DeepCopyInto E)"

definition NetworkPoliciesEgressDefinitions_DeepCopyInto :: "third_party \<Rightarrow> copier" where
  "NetworkPoliciesEgressDefinitions_DeepCopyInto E = make_map (copy_elem (NetworkPoliciesEgressDefinitionsValue_DeepCopyInto E))"

definition NetworkPoliciesEgressDefinitions_DeepCopy :: "third_party \<Rightarrow> copier" where
  "NetworkPoliciesEgressDefinitions_DeepCopy E = copy_named_map (NetworkPoliciesEgressDefinitions_DeepCopyInto E)"

definition NetworkPoliciesEgressFrom_DeepCopyInto :: "third_party \<Rightarrow> copier" where
  "NetworkPoliciesEgressFrom_DeepCopyInto E = make_map (copy_elem (dcJSON E))"

definition NetworkPoliciesEgressFrom_DeepCopy :: "third_party \<Rightarrow> copier" where
  "NetworkPoliciesEgressFrom_DeepCopy E = copy_named_map (NetworkPoliciesEgressFrom_DeepCopyInto E)"

definition NetworkPoliciesEgress_DeepCopyInto :: "third_party \<Rightarrow> copier" where
  "NetworkPoliciesEgress_DeepCopyInto E = copy_struct [(''Defaults'', copy_ptr NetworkPoliciesEgressDefaults_DeepCopyInto),
     (''Definitions'', copy_map (copy_elem (NetworkPoliciesEgressDefinitionsValue_DeepCopyInto E))),
     (''ExcludeCIDRs'', copy_slice copy_val), (''From'', copy_map (copy_elem (dcJSON E)))]"

definition NetworkPoliciesEgress_DeepCopy :: "third_party \<Rightarrow> copier" where
  "NetworkPoliciesEgress_DeepCopy E = copy_ptr (NetworkPoliciesEgress_DeepCopyInto E)"

definition NetworkPoliciesHbonePortInjection_DeepCopyInto :: "copier" where
  "NetworkPoliciesHbonePortInjection_DeepCopyInto = copy_struct []"

definition NetworkPoliciesHbonePortInjection_DeepCopy :: "copier" where
  "NetworkPoliciesHbonePortInjection_DeepCopy = copy_ptr NetworkPoliciesHbonePortInjection_DeepCopyInto"

definition NetworkPoliciesIngressDefaultsAllowInNamespace_DeepCopyInto :: "copier" where
  "NetworkPoliciesIngressDefaultsAllowInNamespace_DeepCopyInto = copy_struct [(''Enabled'', copy_ptr copy_val)]"

definition NetworkPoliciesIngressDefaultsAllowInNamespace_DeepCopy :: "copier" where
  "NetworkPoliciesIngressDefaultsAllowInNamespace_DeepCopy = copy_ptr NetworkPoliciesIngressDefaultsAllowInNamespace_DeepCopyInto"

definition NetworkPoliciesIngressDefaultsAllowPrometheusToIstioSidecar_DeepCopyInto :: "copier" where
  "NetworkPoliciesIngressDefaultsAllowPrometheusToIstioSidecar_DeepCopyInto = copy_struct [(''Enabled'', copy_ptr copy_val)]"

definition NetworkPoliciesIngressDefaultsAllowPrometheusToIstioSidecar_DeepCopy :: "copier" where
  "NetworkPoliciesIngressDefaultsAllowPrometheusToIstioSidecar_DeepCopy = copy_ptr NetworkPoliciesIngressDefaultsAllowPrometheusToIstioSidecar_DeepCopyInto"

definition NetworkPoliciesIngressDefaultsDenyAll_DeepCopyInto :: "copier" where
  "NetworkPoliciesIngressDefaultsDenyAll_DeepCopyInto = copy_struct [(''Enabled'', copy_ptr copy_val)]"

definition NetworkPoliciesIngressDefaultsDenyAll_DeepCopy :: "copier" where
  "NetworkPoliciesIngressDefaultsDenyAll_DeepCopy = copy_ptr NetworkPoliciesIngressDefaultsDenyAll_DeepCopyInto"

definition NetworkPoliciesIngressDefaults_DeepCopyInto :: "copier" where
  "NetworkPoliciesIngressDefaults_DeepCopyInto = copy_struct [(''AllowInNamespace'', copy_ptr NetworkPoliciesIngressDefaultsAllowInNamespace_DeepCopyInto),
     (''AllowPrometheusToIstioSidecar'', copy_ptr NetworkPoliciesIngressDefaultsAllowPrometheusToIstioSidecar_DeepCopyInto),
     (''DenyAll'', copy_ptr NetworkPoliciesIngressDefaultsDenyAll_DeepCopyInto), (''Enabled'', copy_ptr copy_val)]"

definition NetworkPoliciesIngressDefaults_DeepCopy :: "copier" where
  "NetworkPoliciesIngressDefaults_DeepCopy = copy_ptr NetworkPoliciesIngressDefaults_DeepCopyInto"

definition NetworkPoliciesIngressDefinitionsValueFromElemIPBlock_DeepCopyInto :: "copier" where
  "NetworkPoliciesIngressDefinitionsValueFromElemIPBlock_DeepCopyInto = copy_struct [(''CIDR'', copy_ptr copy_val),
     (''Except'', copy_slice copy_val)]"

definition NetworkPoliciesIngressDefinitionsValueFromElemIPBlock_DeepCopy :: "copier" where
  "NetworkPoliciesIngressDefinitionsValueFromElemIPBlock_DeepCopy = copy_ptr NetworkPoliciesIngressDefinitionsValueFromElemIPBlock_DeepCopyInto"

definition NetworkPoliciesIngressDefinitionsValueFromElemNamespaceSelector_DeepCopyInto :: "third_party \<Rightarrow> copier" where
  "NetworkPoliciesIngressDefinitionsValueFromElemNamespaceSelector_DeepCopyInto E = make_map (copy_elem (dcJSON E))"

definition NetworkPoliciesIngressDefinitionsValueFromElemNamespaceSelector_DeepCopy :: "third_party \<Rightarrow> copier" where
  "NetworkPoliciesIngressDefinitionsValueFromElemNamespaceSelector_DeepCopy E = copy_named_map (NetworkPoliciesIngressDefinitionsValueFromElemNamespaceSelector_DeepCopyInto E)"

definition NetworkPoliciesIngressDefinitionsValueFromElemPodSelector_DeepCopyInto :: "third_party \<Rightarrow> copier" where
  "NetworkPoliciesIngressDefinitionsValueFromElemPodSelector_DeepCopyInto E = make_map (copy_elem (dcJSON E))"

definition NetworkPoliciesIngressDefinitionsValueFromElemPodSelector_DeepCopy :: "third_party \<Rightarrow> copier" where
  "NetworkPoliciesIngressDefinitionsValueFromElemPodSelector_DeepCopy E = copy_named_map (NetworkPoliciesIngressDefinitionsValueFromElemPodSelector_DeepCopyInto E)"

definition NetworkPoliciesIngressDefinitionsValueFromElem_DeepCopyInto :: "third_party \<Rightarrow> copier" where
  "NetworkPoliciesIngressDefinitionsValueFromElem_DeepCopyInto E = copy_struct [(''IPBlock'', copy_ptr NetworkPoliciesIngressDefinitionsValueFromElemIPBlock_DeepCopyInto),
     (''NamespaceSelector'', copy_map (copy_elem (dcJSON E))), (''PodSelector'', copy_map (copy_elem (dcJSON E)))]"

definition NetworkPoliciesIngressDefinitionsValueFromElem_DeepCopy :: "third_party \<Rightarrow> copier" where
  "NetworkPoliciesIngressDefinitionsValueFromElem_DeepCopy E = copy_ptr (NetworkPoliciesIngressDefinitionsValueFromElem_DeepCopyInto E)"

definition NetworkPoliciesIngressDefinitionsValuePortsElem_DeepCopyInto :: "third_party \<Rightarrow> copier" where
  "NetworkPoliciesIngressDefinitionsValuePortsElem_DeepCopyInto E = copy_struct [(''EndPort'', copy_ptr copy_val),
     (''Port'', copy_ptr copy_val), (''Protocol'', copy_ptr copy_val)]"

definition NetworkPoliciesIngressDefinitionsValuePortsElem_DeepCopy :: "third_party \<Rightarrow> copier" where
  "NetworkPoliciesIngressDefinitionsValuePortsElem_DeepCopy E = copy_ptr (NetworkPoliciesIngressDefinitionsValuePortsElem_DeepCopyInto E)"

definition NetworkPoliciesIngressDefinitionsValue_DeepCopyInto :: "third_party \<Rightarrow> copier" where
  "NetworkPoliciesIngressDefinitionsValue_DeepCopyInto E = copy_struct [(''From'', copy_slice (NetworkPoliciesIngressDefinitionsValueFromElem_DeepCopyInto E)),
     (''Ports'', copy_slice (NetworkPoliciesIngressDefinitionsValuePortsElem_DeepCopyInto E))]"

definition NetworkPoliciesIngressDefinitionsValue_DeepCopy :: "third_party \<Rightarrow> copier" where
  "NetworkPoliciesIngressDefinitionsValue_DeepCopy E = copy_ptr (NetworkPoliciesIngressDefinitionsValue_DeepCopyInto E)"

definition NetworkPoliciesIngressDefinitions_DeepCopyInto :: "third_party \<Rightarrow> copier" where
  "NetworkPoliciesIngressDefinitions_DeepCopyInto E = make_map (copy_elem (NetworkPoliciesIngressDefinitionsValue_DeepCopyInto E))"

definition NetworkPoliciesIngressDefinitions_DeepCopy :: "third_party \<Rightarrow> copier" where
  "NetworkPoliciesIngressDefinitions_DeepCopy E = copy_named_map (NetworkPoliciesIngressDefinitions_DeepCopyInto E)"

definition NetworkPoliciesIngressTo_DeepCopyInto :: "third_party \<Rightarrow> copier" where
  "NetworkPoliciesIngressTo_DeepCopyInto E = make_map (copy_elem (dcJSON E))"

definition NetworkPoliciesIngressTo_DeepCopy :: "third_party \<Rightarrow> copier" where
  "NetworkPoliciesIngressTo_DeepCopy E = copy_named_map (NetworkPoliciesIngressTo_DeepCopyInto E)"

definition NetworkPoliciesIngress_DeepCopyInto :: "third_party \<Rightarrow> copier" where
  "NetworkPoliciesIngress_DeepCopyInto E = copy_struct [(''Defaults'', copy_ptr NetworkPoliciesIngressDefaults_DeepCopyInto),
     (''Definitions'', copy_map (copy_elem (NetworkPoliciesIngressDefinitionsValue_DeepCopyInto E))),
     (''To'', copy_map (copy_elem (dcJSON E)))]"

definition NetworkPoliciesIngress_DeepCopy :: "third_party \<Rightarrow> copier" where
  "NetworkPoliciesIngress_DeepCopy E = copy_ptr (NetworkPoliciesIngress_DeepCopyInto E)"

definition NetworkPolicies_DeepCopyInto :: "third_party \<Rightarrow> copier" where
  "NetworkPolicies_DeepCopyInto E = copy_struct [(''Additional'', copy_slice (AdditionalPolicy_DeepCopyInto E)),
     (''AdditionalPolicies'', copy_slice (AdditionalPolicy_DeepCopyInto E)),
     (''DefaultsAsHooks'', copy_ptr NetworkPoliciesDefaultsAsHooks_DeepCopyInto),
     (''Egress'', copy_ptr (NetworkPoliciesEgress_DeepCopyInto E)), (''HbonePortInjection'', copy_ptr copy_val),
     (''Ingress'', copy_ptr (NetworkPoliciesIngress_DeepCopyInto E))]"

definition NetworkPolicies_DeepCopy :: "third_party \<Rightarrow> copier" where
  "NetworkPolicies_DeepCopy E = copy_ptr (NetworkPolicies_DeepCopyInto E)"

definition RoutesInbound_DeepCopyInto :: "third_party \<Rightarrow> copier" where
  "RoutesInbound_DeepCopyInto E = make_map (copy_elem (dcJSON E))"

definition RoutesInbound_DeepCopy :: "third_party \<Rightarrow> copier" where
  "RoutesInbound_DeepCopy E = copy_named_map (RoutesInbound_DeepCopyInto E)"

definition RoutesOutbound_DeepCopyInto :: "third_party \<Rightarrow> copier" where
  "RoutesOutbound_DeepCopyInto E = make_map (copy_elem (dcJSON E))"

definition RoutesOutbound_DeepCopy :: "third_party \<Rightarrow> copier" where
  "RoutesOutbound_DeepCopy E = copy_named_map (RoutesOutbound_DeepCopyInto E)"

definition InboundRouteDefaults_DeepCopyInto :: "copier" where
  "InboundRouteDefaults_DeepCopyInto = copy_struct [(''Gateways'', copy_slice copy_val)]"

definition InboundRouteDefaults_DeepCopy :: "copier" where
  "InboundRouteDefaults_DeepCopy = copy_ptr InboundRouteDefaults_DeepCopyInto"

definition RouteDefaults_DeepCopyInto :: "copier" where
  "RouteDefaults_DeepCopyInto = copy_struct [(''Inbound'', copy_ptr InboundRouteDefaults_DeepCopyInto)]"

definition RouteDefaults_DeepCopy :: "copier" where
  "RouteDefaults_DeepCopy = copy_ptr RouteDefaults_DeepCopyInto"

definition Routes_DeepCopyInto :: "third_party \<Rightarrow> copier" where
  "Routes_DeepCopyInto E = copy_struct [(''Defaults'', copy_ptr RouteDefaults_DeepCopyInto), (''Inbound'', copy_map (copy_elem (dcJSON E))),
     (''Outbound'', copy_map (copy_elem (dcJSON E)))]"

definition Routes_DeepCopy :: "third_party \<Rightarrow> copier" where
  "Routes_DeepCopy E = copy_ptr (Routes_DeepCopyInto E)"

definition RoutePassthrough_DeepCopyInto :: "copier" where
  "RoutePassthrough_DeepCopyInto = copy_struct [(''GatewayPort'', copy_ptr copy_val)]"

definition RoutePassthrough_DeepCopy :: "copier" where
  "RoutePassthrough_DeepCopy = copy_ptr RoutePassthrough_DeepCopyInto"

definition InboundRoute_DeepCopyInto :: "third_party \<Rightarrow> copier" where
  "InboundRoute_DeepCopyInto E = copy_struct [(''Gateways'', copy_slice copy_val), (''Hosts'', copy_slice copy_val),
     (''Port'', copy_ptr copy_val), (''ContainerPort'', copy_ptr copy_val), (''Selector'', copy_map copy_val),
     (''Http'', copy_slice (dcJSON E)), (''Passthrough'', copy_ptr RoutePassthrough_DeepCopyInto), (''Labels'', copy_map copy_val),
     (''Annotations'', copy_map copy_val)]"

definition InboundRoute_DeepCopy :: "third_party \<Rightarrow> copier" where
  "InboundRoute_DeepCopy E = copy_ptr (InboundRoute_DeepCopyInto E)"

definition OutboundRoutePort_DeepCopyInto :: "copier" where
  "OutboundRoutePort_DeepCopyInto = copy_struct []"

definition OutboundRoutePort_DeepCopy :: "copier" where
  "OutboundRoutePort_DeepCopy = copy_ptr OutboundRoutePort_DeepCopyInto"

definition RouteMetadata_DeepCopyInto :: "copier" where
  "RouteMetadata_DeepCopyInto = copy_struct [(''Labels'', copy_map copy_val), (''Annotations'', copy_map copy_val)]"

definition RouteMetadata_DeepCopy :: "copier" where
  "RouteMetadata_DeepCopy = copy_ptr RouteMetadata_DeepCopyInto"

definition OutboundRoute_DeepCopyInto :: "copier" where
  "OutboundRoute_DeepCopyInto = copy_struct [(''Hosts'', copy_slice copy_val), (''Ports'', copy_slice copy_val),
     (''Metadata'', copy_ptr RouteMetadata_DeepCopyInto)]"

definition OutboundRoute_DeepCopy :: "copier" where
  "OutboundRoute_DeepCopy = copy_ptr OutboundRoute_DeepCopyInto"

definition PackageSpec_DeepCopyInto :: "third_party \<Rightarrow> copier" where
  "PackageSpec_DeepCopyInto E = copy_struct [(''Istio'', copy_ptr (Istio_DeepCopyInto E)),
     (''NetworkPolicies'', copy_ptr (NetworkPolicies_DeepCopyInto E)), (''Routes'', copy_ptr (Routes_DeepCopyInto E))]"

definition PackageSpec_DeepCopy :: "third_party \<Rightarrow> copier" where
  "PackageSpec_DeepCopy E = copy_ptr (PackageSpec_DeepCopyInto E)"

definition AppliedResource_DeepCopyInto :: "copier" where
  "AppliedResource_DeepCopyInto = copy_struct []"

definition AppliedResource_DeepCopy :: "copier" where
  "AppliedResource_DeepCopy = copy_ptr AppliedResource_DeepCopyInto"

definition PackageStatus_DeepCopyInto :: "third_party \<Rightarrow> copier" where
  "PackageStatus_DeepCopyInto E = copy_struct [(''Conditions'', copy_slice (dcCondition E)), (''AppliedResources'', copy_slice copy_val)]"

definition PackageStatus_DeepCopy :: "third_party \<Rightarrow> copier" where
  "PackageStatus_DeepCopy E = copy_ptr (PackageStatus_DeepCopyInto E)"

definition Package_DeepCopyInto :: "third_party \<Rightarrow> copier" where
  "Package_DeepCopyInto E = copy_struct [(''TypeMeta'', copy_val), (''ObjectMeta'', dcObjectMeta E), (''Spec'', PackageSpec_DeepCopyInto E),
     (''Status'', PackageStatus_DeepCopyInto E)]"

definition Package_DeepCopy :: "third_party \<Rightarrow> copier" where
  "Package_DeepCopy E = copy_ptr (Package_DeepCopyInto E)"

definition Package_DeepCopyObject :: "third_party \<Rightarrow> copier" where
  "Package_DeepCopyObject E v h =
     (case Package_DeepCopy E v h of None \<Rightarrow> None | Some (c, h') \<Rightarrow> Some (if c \<noteq> GPtr None then c else GPtr None, h'))"

definition PackageList_DeepCopyInto :: "third_party \<Rightarrow> copier" where
  "PackageList_DeepCopyInto E = copy_struct [(''TypeMeta'', copy_val), (''ListMeta'', dcListMeta E),
     (''Items'', copy_slice (Package_DeepCopyInto E))]"

definition PackageList_DeepCopy :: "third_party \<Rightarrow> copier" where
  "PackageList_DeepCopy E = copy_ptr (PackageList_DeepCopyInto E)"

definition PackageList_DeepCopyObject :: "third_party \<Rightarrow> copier" where
  "PackageList_DeepCopyObject E v h =
     (case PackageList_DeepCopy E v h of None \<Rightarrow> None | Some (c, h') \<Rightarrow> Some (if c \<noteq> GPtr None then c else GPtr None, h'))"

section \<open>Every type is copied deeply\<close>

named_theorems copier_laws "which copier copies which type"

declare copier_val [copier_laws] copier_struct [copier_laws] deep_copier.copier_ptr [copier_laws] deep_copier.copier_elem [copier_laws]
  deep_copier.copier_slice [copier_laws] deep_copier.copier_map [copier_laws] deep_copier.copier_named_map [copier_laws]

lemma third_party_copier [copier_laws]:
  assumes "third_party_ok E"
  shows "flat (tyIntOrString E)" "flat (tyTypeMeta E)" "deep_copier (tyJSON E) (dcJSON E)" "deep_copier (tyObjectMeta E) (dcObjectMeta E)"
    "deep_copier (tyListMeta E) (dcListMeta E)" "deep_copier (tyCondition E) (dcCondition E)"
  using assms by (simp_all add: third_party_ok_def)

lemma copier_AdditionalPolicyAnnotations [copier_laws]: "deep_copier ty_AdditionalPolicyAnnotations AdditionalPolicyAnnotations_DeepCopy"
  by (simp add: ty_AdditionalPolicyAnnotations_def AdditionalPolicyAnnotations_DeepCopyInto_def AdditionalPolicyAnnotations_DeepCopy_def map_shapes copier_laws)

lemma copier_AdditionalPolicyLabels [copier_laws]: "deep_copier ty_AdditionalPolicyLabels AdditionalPolicyLabels_DeepCopy"
  by (simp add: ty_AdditionalPolicyLabels_def AdditionalPolicyLabels_DeepCopyInto_def AdditionalPolicyLabels_DeepCopy_def map_shapes copier_laws)

lemma copier_AdditionalPolicySpec [copier_laws]: "third_party_ok E \<Longrightarrow> deep_copier (ty_AdditionalPolicySpec E) (AdditionalPolicySpec_DeepCopy E)"
  by (simp add: ty_AdditionalPolicySpec_def AdditionalPolicySpec_DeepCopyInto_def AdditionalPolicySpec_DeepCopy_def map_shapes copier_laws)

lemma copier_AdditionalPolicy [copier_laws]: "third_party_ok E \<Longrightarrow> deep_copier (ty_AdditionalPolicy E) (AdditionalPolicy_DeepCopyInto E)"
  by (simp add: ty_AdditionalPolicy_def AdditionalPolicy_DeepCopyInto_def map_shapes copier_laws)

lemma copier_IstioAmbient [copier_laws]: "deep_copier ty_IstioAmbient IstioAmbient_DeepCopyInto"
  by (simp add: ty_IstioAmbient_def IstioAmbient_DeepCopyInto_def map_shapes copier_laws)

lemma copier_IstioAuthorizationPoliciesAdditionalPoliciesValueAnnotations [copier_laws]: "deep_copier ty_IstioAuthorizationPoliciesAdditionalPoliciesValueAnnotations IstioAuthorizationPoliciesAdditionalPoliciesValueAnnotations_DeepCopy"
  by (simp add: ty_IstioAuthorizationPoliciesAdditionalPoliciesValueAnnotations_def IstioAuthorizationPoliciesAdditionalPoliciesValueAnnotations_DeepCopyInto_def IstioAuthorizationPoliciesAdditionalPoliciesValueAnnotations_DeepCopy_def map_shapes copier_laws)

lemma copier_IstioAuthorizationPoliciesAdditionalPoliciesValueLabels [copier_laws]: "deep_copier ty_IstioAuthorizationPoliciesAdditionalPoliciesValueLabels IstioAuthorizationPoliciesAdditionalPoliciesValueLabels_DeepCopy"
  by (simp add: ty_IstioAuthorizationPoliciesAdditionalPoliciesValueLabels_def IstioAuthorizationPoliciesAdditionalPoliciesValueLabels_DeepCopyInto_def IstioAuthorizationPoliciesAdditionalPoliciesValueLabels_DeepCopy_def map_shapes copier_laws)

lemma copier_IstioAuthorizationPoliciesAdditionalPoliciesValueSpecRulesElem [copier_laws]: "third_party_ok E \<Longrightarrow> deep_copier (ty_IstioAuthorizationPoliciesAdditionalPoliciesValueSpecRulesElem E) (IstioAuthorizationPoliciesAdditionalPoliciesValueSpecRulesElem_DeepCopy E)"
  by (simp add: ty_IstioAuthorizationPoliciesAdditionalPoliciesValueSpecRulesElem_def IstioAuthorizationPoliciesAdditionalPoliciesValueSpecRulesElem_DeepCopyInto_def IstioAuthorizationPoliciesAdditionalPoliciesValueSpecRulesElem_DeepCopy_def map_shapes copier_laws)

lemma copier_IstioAuthorizationPoliciesAdditionalPoliciesValueSpecSelector [copier_laws]: "third_party_ok E \<Longrightarrow> deep_copier (ty_IstioAuthorizationPoliciesAdditionalPoliciesValueSpecSelector E) (IstioAuthorizationPoliciesAdditionalPoliciesValueSpecSelector_DeepCopy E)"
  by (simp add: ty_IstioAuthorizationPoliciesAdditionalPoliciesValueSpecSelector_def IstioAuthorizationPoliciesAdditionalPoliciesValueSpecSelector_DeepCopyInto_def IstioAuthorizationPoliciesAdditionalPoliciesValueSpecSelector_DeepCopy_def map_shapes copier_laws)

lemma copier_IstioAuthorizationPoliciesAdditionalPoliciesValueSpec [copier_laws]: "third_party_ok E \<Longrightarrow> deep_copier (ty_IstioAuthorizationPoliciesAdditionalPoliciesValueSpec E) (IstioAuthorizationPoliciesAdditionalPoliciesValueSpec_DeepCopyInto E)"
  by (simp add: ty_IstioAuthorizationPoliciesAdditionalPoliciesValueSpec_def IstioAuthorizationPoliciesAdditionalPoliciesValueSpec_DeepCopyInto_def map_shapes copier_laws)

lemma copier_IstioAuthorizationPoliciesAdditionalPoliciesValue [copier_laws]: "third_party_ok E \<Longrightarrow> deep_copier (ty_IstioAuthorizationPoliciesAdditionalPoliciesValue E) (IstioAuthorizationPoliciesAdditionalPoliciesValue_DeepCopyInto E)"
  by (simp add: ty_IstioAuthorizationPoliciesAdditionalPoliciesValue_def IstioAuthorizationPoliciesAdditionalPoliciesValue_DeepCopyInto_def map_shapes copier_laws)

lemma copier_IstioAuthorizationPoliciesAdditionalPolicies [copier_laws]: "third_party_ok E \<Longrightarrow> deep_copier (ty_IstioAuthorizationPoliciesAdditionalPolicies E) (IstioAuthorizationPoliciesAdditionalPolicies_DeepCopy E)"
  by (simp add: ty_IstioAuthorizationPoliciesAdditionalPolicies_def IstioAuthorizationPoliciesAdditionalPolicies_DeepCopyInto_def IstioAuthorizationPoliciesAdditionalPolicies_DeepCopy_def map_shapes copier_laws)

lemma copier_IstioAuthorizationPoliciesCustomElemAnnotations [copier_laws]: "deep_copier ty_IstioAuthorizationPoliciesCustomElemAnnotations IstioAuthorizationPoliciesCustomElemAnnotations_DeepCopy"
  by (simp add: ty_IstioAuthorizationPoliciesCustomElemAnnotations_def IstioAuthorizationPoliciesCustomElemAnnotations_DeepCopyInto_def IstioAuthorizationPoliciesCustomElemAnnotations_DeepCopy_def map_shapes copier_laws)

lemma copier_IstioAuthorizationPoliciesCustomElemLabels [copier_laws]: "deep_copier ty_IstioAuthorizationPoliciesCustomElemLabels IstioAuthorizationPoliciesCustomElemLabels_DeepCopy"
  by (simp add: ty_IstioAuthorizationPoliciesCustomElemLabels_def IstioAuthorizationPoliciesCustomElemLabels_DeepCopyInto_def IstioAuthorizationPoliciesCustomElemLabels_DeepCopy_def map_shapes copier_laws)

lemma copier_IstioAuthorizationPoliciesCustomElemSpec [copier_laws]: "third_party_ok E \<Longrightarrow> deep_copier (ty_IstioAuthorizationPoliciesCustomElemSpec E) (IstioAuthorizationPoliciesCustomElemSpec_DeepCopy E)"
  by (simp add: ty_IstioAuthorizationPoliciesCustomElemSpec_def IstioAuthorizationPoliciesCustomElemSpec_DeepCopyInto_def IstioAuthorizationPoliciesCustomElemSpec_DeepCopy_def map_shapes copier_laws)

lemma copier_IstioAuthorizationPoliciesCustomElem [copier_laws]: "third_party_ok E \<Longrightarrow> deep_copier (ty_IstioAuthorizationPoliciesCustomElem E) (IstioAuthorizationPoliciesCustomElem_DeepCopyInto E)"
  by (simp add: ty_IstioAuthorizationPoliciesCustomElem_def IstioAuthorizationPoliciesCustomElem_DeepCopyInto_def map_shapes copier_laws)

lemma copier_IstioAuthorizationPoliciesDefaultsAllowInNamespace [copier_laws]: "deep_copier ty_IstioAuthorizationPoliciesDefaultsAllowInNamespace IstioAuthorizationPoliciesDefaultsAllowInNamespace_DeepCopyInto"
  by (simp add: ty_IstioAuthorizationPoliciesDefaultsAllowInNamespace_def IstioAuthorizationPoliciesDefaultsAllowInNamespace_DeepCopyInto_def map_shapes copier_laws)

lemma copier_IstioAuthorizationPoliciesDefaultsDenyAll [copier_laws]: "deep_copier ty_IstioAuthorizationPoliciesDefaultsDenyAll IstioAuthorizationPoliciesDefaultsDenyAll_DeepCopyInto"
  by (simp add: ty_IstioAuthorizationPoliciesDefaultsDenyAll_def IstioAuthorizationPoliciesDefaultsDenyAll_DeepCopyInto_def map_shapes copier_laws)

lemma copier_IstioAuthorizationPoliciesDefaults [copier_laws]: "deep_copier ty_IstioAuthorizationPoliciesDefaults IstioAuthorizationPoliciesDefaults_DeepCopyInto"
  by (simp add: ty_IstioAuthorizationPoliciesDefaults_def IstioAuthorizationPoliciesDefaults_DeepCopyInto_def map_shapes copier_laws)

lemma copier_IstioAuthorizationPolicies [copier_laws]: "third_party_ok E \<Longrightarrow> deep_copier (ty_IstioAuthorizationPolicies E) (IstioAuthorizationPolicies_DeepCopyInto E)"
  by (simp add: ty_IstioAuthorizationPolicies_def IstioAuthorizationPolicies_DeepCopyInto_def map_shapes copier_laws)

lemma copier_IstioMtls [copier_laws]: "deep_copier ty_IstioMtls IstioMtls_DeepCopyInto"
  by (simp add: ty_IstioMtls_def IstioMtls_DeepCopyInto_def map_shapes copier_laws)

lemma copier_IstioServiceEntriesCustomElemAnnotations [copier_laws]: "deep_copier ty_IstioServiceEntriesCustomElemAnnotations IstioServiceEntriesCustomElemAnnotations_DeepCopy"
  by (simp add: ty_IstioServiceEntriesCustomElemAnnotations_def IstioServiceEntriesCustomElemAnnotations_DeepCopyInto_def IstioServiceEntriesCustomElemAnnotations_DeepCopy_def map_shapes copier_laws)

lemma copier_IstioServiceEntriesCustomElemLabels [copier_laws]: "deep_copier ty_IstioServiceEntriesCustomElemLabels IstioServiceEntriesCustomElemLabels_DeepCopy"
  by (simp add: ty_IstioServiceEntriesCustomElemLabels_def IstioServiceEntriesCustomElemLabels_DeepCopyInto_def IstioServiceEntriesCustomElemLabels_DeepCopy_def map_shapes copier_laws)

lemma copier_IstioServiceEntriesCustomElemSpec [copier_laws]: "third_party_ok E \<Longrightarrow> deep_copier (ty_IstioServiceEntriesCustomElemSpec E) (IstioServiceEntriesCustomElemSpec_DeepCopy E)"
  by (simp add: ty_IstioServiceEntriesCustomElemSpec_def IstioServiceEntriesCustomElemSpec_DeepCopyInto_def IstioServiceEntriesCustomElemSpec_DeepCopy_def map_shapes copier_laws)

lemma copier_IstioServiceEntriesCustomElem [copier_laws]: "third_party_ok E \<Longrightarrow> deep_copier (ty_IstioServiceEntriesCustomElem E) (IstioServiceEntriesCustomElem_DeepCopyInto E)"
  by (simp add: ty_IstioServiceEntriesCustomElem_def IstioServiceEntriesCustomElem_DeepCopyInto_def map_shapes copier_laws)

lemma copier_IstioServiceEntries [copier_laws]: "third_party_ok E \<Longrightarrow> deep_copier (ty_IstioServiceEntries E) (IstioServiceEntries_DeepCopyInto E)"
  by (simp add: ty_IstioServiceEntries_def IstioServiceEntries_DeepCopyInto_def map_shapes copier_laws)

lemma copier_IstioSidecar [copier_laws]: "deep_copier ty_IstioSidecar IstioSidecar_DeepCopyInto"
  by (simp add: ty_IstioSidecar_def IstioSidecar_DeepCopyInto_def map_shapes copier_laws)

lemma copier_Istio [copier_laws]: "third_party_ok E \<Longrightarrow> deep_copier (ty_Istio E) (Istio_DeepCopyInto E)"
  by (simp add: ty_Istio_def Istio_DeepCopyInto_def map_shapes copier_laws)

lemma copier_NetworkPoliciesDefaultsAsHooks [copier_laws]: "deep_copier ty_NetworkPoliciesDefaultsAsHooks NetworkPoliciesDefaultsAsHooks_DeepCopyInto"
  by (simp add: ty_NetworkPoliciesDefaultsAsHooks_def NetworkPoliciesDefaultsAsHooks_DeepCopyInto_def map_shapes copier_laws)

lemma copier_NetworkPoliciesEgressDefaultsAllowInNamespace [copier_laws]: "deep_copier ty_NetworkPoliciesEgressDefaultsAllowInNamespace NetworkPoliciesEgressDefaultsAllowInNamespace_DeepCopyInto"
  by (simp add: ty_NetworkPoliciesEgressDefaultsAllowInNamespace_def NetworkPoliciesEgressDefaultsAllowInNamespace_DeepCopyInto_def map_shapes copier_laws)

lemma copier_NetworkPoliciesEgressDefaultsAllowIstiod [copier_laws]: "deep_copier ty_NetworkPoliciesEgressDefaultsAllowIstiod NetworkPoliciesEgressDefaultsAllowIstiod_DeepCopyInto"
  by (simp add: ty_NetworkPoliciesEgressDefaultsAllowIstiod_def NetworkPoliciesEgressDefaultsAllowIstiod_DeepCopyInto_def map_shapes copier_laws)

lemma copier_NetworkPoliciesEgressDefaultsAllowKubeDNS [copier_laws]: "deep_copier ty_NetworkPoliciesEgressDefaultsAllowKubeDNS NetworkPoliciesEgressDefaultsAllowKubeDNS_DeepCopyInto"
  by (simp add: ty_NetworkPoliciesEgressDefaultsAllowKubeDNS_def NetworkPoliciesEgressDefaultsAllowKubeDNS_DeepCopyInto_def map_shapes copier_laws)

lemma copier_NetworkPoliciesEgressDefaultsDenyAll [copier_laws]: "deep_copier ty_NetworkPoliciesEgressDefaultsDenyAll NetworkPoliciesEgressDefaultsDenyAll_DeepCopyInto"
  by (simp add: ty_NetworkPoliciesEgressDefaultsDenyAll_def NetworkPoliciesEgressDefaultsDenyAll_DeepCopyInto_def map_shapes copier_laws)

lemma copier_NetworkPoliciesEgressDefaults [copier_laws]: "deep_copier ty_NetworkPoliciesEgressDefaults NetworkPoliciesEgressDefaults_DeepCopyInto"
  by (simp add: ty_NetworkPoliciesEgressDefaults_def NetworkPoliciesEgressDefaults_DeepCopyInto_def map_shapes copier_laws)

lemma copier_NetworkPoliciesEgressDefinitionsValuePortsElem [copier_laws]: "third_party_ok E \<Longrightarrow> deep_copier (ty_NetworkPoliciesEgressDefinitionsValuePortsElem E) (NetworkPoliciesEgressDefinitionsValuePortsElem_DeepCopyInto E)"
  by (simp add: ty_NetworkPoliciesEgressDefinitionsValuePortsElem_def NetworkPoliciesEgressDefinitionsValuePortsElem_DeepCopyInto_def map_shapes copier_laws)

lemma copier_NetworkPoliciesEgressDefinitionsValueToElemIPBlock [copier_laws]: "deep_copier ty_NetworkPoliciesEgressDefinitionsValueToElemIPBlock NetworkPoliciesEgressDefinitionsValueToElemIPBlock_DeepCopyInto"
  by (simp add: ty_NetworkPoliciesEgressDefinitionsValueToElemIPBlock_def NetworkPoliciesEgressDefinitionsValueToElemIPBlock_DeepCopyInto_def map_shapes copier_laws)

lemma copier_NetworkPoliciesEgressDefinitionsValueToElemNamespaceSelector [copier_laws]: "third_party_ok E \<Longrightarrow> deep_copier (ty_NetworkPoliciesEgressDefinitionsValueToElemNamespaceSelector E) (NetworkPoliciesEgressDefinitionsValueToElemNamespaceSelector_DeepCopy E)"
  by (simp add: ty_NetworkPoliciesEgressDefinitionsValueToElemNamespaceSelector_def NetworkPoliciesEgressDefinitionsValueToElemNamespaceSelector_DeepCopyInto_def NetworkPoliciesEgressDefinitionsValueToElemNamespaceSelector_DeepCopy_def map_shapes copier_laws)

lemma copier_NetworkPoliciesEgressDefinitionsValueToElemPodSelector [copier_laws]: "third_party_ok E \<Longrightarrow> deep_copier (ty_NetworkPoliciesEgressDefinitionsValueToElemPodSelector E) (NetworkPoliciesEgressDefinitionsValueToElemPodSelector_DeepCopy E)"
  by (simp add: ty_NetworkPoliciesEgressDefinitionsValueToElemPodSelector_def NetworkPoliciesEgressDefinitionsValueToElemPodSelector_DeepCopyInto_def NetworkPoliciesEgressDefinitionsValueToElemPodSelector_DeepCopy_def map_shapes copier_laws)

lemma copier_NetworkPoliciesEgressDefinitionsValueToElem [copier_laws]: "third_party_ok E \<Longrightarrow> deep_copier (ty_NetworkPoliciesEgressDefinitionsValueToElem E) (NetworkPoliciesEgressDefinitionsValueToElem_DeepCopyInto E)"
  by (simp add: ty_NetworkPoliciesEgressDefinitionsValueToElem_def NetworkPoliciesEgressDefinitionsValueToElem_DeepCopyInto_def map_shapes copier_laws)

lemma copier_NetworkPoliciesEgressDefinitionsValue [copier_laws]: "third_party_ok E \<Longrightarrow> deep_copier (ty_NetworkPoliciesEgressDefinitionsValue E) (NetworkPoliciesEgressDefinitionsValue_DeepCopyInto E)"
  by (simp add: ty_NetworkPoliciesEgressDefinitionsValue_def NetworkPoliciesEgressDefinitionsValue_DeepCopyInto_def map_shapes copier_laws)

lemma copier_NetworkPoliciesEgressDefinitions [copier_laws]: "third_party_ok E \<Longrightarrow> deep_copier (ty_NetworkPoliciesEgressDefinitions E) (NetworkPoliciesEgressDefinitions_DeepCopy E)"
  by (simp add: ty_NetworkPoliciesEgressDefinitions_def NetworkPoliciesEgressDefinitions_DeepCopyInto_def NetworkPoliciesEgressDefinitions_DeepCopy_def map_shapes copier_laws)

lemma copier_NetworkPoliciesEgressFrom [copier_laws]: "third_party_ok E \<Longrightarrow> deep_copier (ty_NetworkPoliciesEgressFrom E) (NetworkPoliciesEgressFrom_DeepCopy E)"
  by (simp add: ty_NetworkPoliciesEgressFrom_def NetworkPoliciesEgressFrom_DeepCopyInto_def NetworkPoliciesEgressFrom_DeepCopy_def map_shapes copier_laws)

lemma copier_NetworkPoliciesEgress [copier_laws]: "third_party_ok E \<Longrightarrow> deep_copier (ty_NetworkPoliciesEgress E) (NetworkPoliciesEgress_DeepCopyInto E)"
  by (simp add: ty_NetworkPoliciesEgress_def NetworkPoliciesEgress_DeepCopyInto_def map_shapes copier_laws)

lemma copier_NetworkPoliciesHbonePortInjection [copier_laws]: "deep_copier ty_NetworkPoliciesHbonePortInjection NetworkPoliciesHbonePortInjection_DeepCopyInto"
  by (simp add: ty_NetworkPoliciesHbonePortInjection_def NetworkPoliciesHbonePortInjection_DeepCopyInto_def map_shapes copier_laws)

lemma copier_NetworkPoliciesIngressDefaultsAllowInNamespace [copier_laws]: "deep_copier ty_NetworkPoliciesIngressDefaultsAllowInNamespace NetworkPoliciesIngressDefaultsAllowInNamespace_DeepCopyInto"
  by (simp add: ty_NetworkPoliciesIngressDefaultsAllowInNamespace_def NetworkPoliciesIngressDefaultsAllowInNamespace_DeepCopyInto_def map_shapes copier_laws)

lemma copier_NetworkPoliciesIngressDefaultsAllowPrometheusToIstioSidecar [copier_laws]: "deep_copier ty_NetworkPoliciesIngressDefaultsAllowPrometheusToIstioSidecar NetworkPoliciesIngressDefaultsAllowPrometheusToIstioSidecar_DeepCopyInto"
  by (simp add: ty_NetworkPoliciesIngressDefaultsAllowPrometheusToIstioSidecar_def NetworkPoliciesIngressDefaultsAllowPrometheusToIstioSidecar_DeepCopyInto_def map_shapes copier_laws)

lemma copier_NetworkPoliciesIngressDefaultsDenyAll [copier_laws]: "deep_copier ty_NetworkPoliciesIngressDefaultsDenyAll NetworkPoliciesIngressDefaultsDenyAll_DeepCopyInto"
  by (simp add: ty_NetworkPoliciesIngressDefaultsDenyAll_def NetworkPoliciesIngressDefaultsDenyAll_DeepCopyInto_def map_shapes copier_laws)

lemma copier_NetworkPoliciesIngressDefaults [copier_laws]: "deep_copier ty_NetworkPoliciesIngressDefaults NetworkPoliciesIngressDefaults_DeepCopyInto"
  by (simp add: ty_NetworkPoliciesIngressDefaults_def NetworkPoliciesIngressDefaults_DeepCopyInto_def map_shapes copier_laws)

lemma copier_NetworkPoliciesIngressDefinitionsValueFromElemIPBlock [copier_laws]: "deep_copier ty_NetworkPoliciesIngressDefinitionsValueFromElemIPBlock NetworkPoliciesIngressDefinitionsValueFromElemIPBlock_DeepCopyInto"
  by (simp add: ty_NetworkPoliciesIngressDefinitionsValueFromElemIPBlock_def NetworkPoliciesIngressDefinitionsValueFromElemIPBlock_DeepCopyInto_def map_shapes copier_laws)

lemma copier_NetworkPoliciesIngressDefinitionsValueFromElemNamespaceSelector [copier_laws]: "third_party_ok E \<Longrightarrow> deep_copier (ty_NetworkPoliciesIngressDefinitionsValueFromElemNamespaceSelector E) (NetworkPoliciesIngressDefinitionsValueFromElemNamespaceSelector_DeepCopy E)"
  by (simp add: ty_NetworkPoliciesIngressDefinitionsValueFromElemNamespaceSelector_def NetworkPoliciesIngressDefinitionsValueFromElemNamespaceSelector_DeepCopyInto_def NetworkPoliciesIngressDefinitionsValueFromElemNamespaceSelector_DeepCopy_def map_shapes copier_laws)

lemma copier_NetworkPoliciesIngressDefinitionsValueFromElemPodSelector [copier_laws]: "third_party_ok E \<Longrightarrow> deep_copier (ty_NetworkPoliciesIngressDefinitionsValueFromElemPodSelector E) (NetworkPoliciesIngressDefinitionsValueFromElemPodSelector_DeepCopy E)"
  by (simp add: ty_NetworkPoliciesIngressDefinitionsValueFromElemPodSelector_def NetworkPoliciesIngressDefinitionsValueFromElemPodSelector_DeepCopyInto_def NetworkPoliciesIngressDefinitionsValueFromElemPodSelector_DeepCopy_def map_shapes copier_laws)

lemma copier_NetworkPoliciesIngressDefinitionsValueFromElem [copier_laws]: "third_party_ok E \<Longrightarrow> deep_copier (ty_NetworkPoliciesIngressDefinitionsValueFromElem E) (NetworkPoliciesIngressDefinitionsValueFromElem_DeepCopyInto E)"
  by (simp add: ty_NetworkPoliciesIngressDefinitionsValueFromElem_def NetworkPoliciesIngressDefinitionsValueFromElem_DeepCopyInto_def map_shapes copier_laws)

lemma copier_NetworkPoliciesIngressDefinitionsValuePortsElem [copier_laws]: "third_party_ok E \<Longrightarrow> deep_copier (ty_NetworkPoliciesIngressDefinitionsValuePortsElem E) (NetworkPoliciesIngressDefinitionsValuePortsElem_DeepCopyInto E)"
  by (simp add: ty_NetworkPoliciesIngressDefinitionsValuePortsElem_def NetworkPoliciesIngressDefinitionsValuePortsElem_DeepCopyInto_def map_shapes copier_laws)

lemma copier_NetworkPoliciesIngressDefinitionsValue [copier_laws]: "third_party_ok E \<Longrightarrow> deep_copier (ty_NetworkPoliciesIngressDefinitionsValue E) (NetworkPoliciesIngressDefinitionsValue_DeepCopyInto E)"
  by (simp add: ty_NetworkPoliciesIngressDefinitionsValue_def NetworkPoliciesIngressDefinitionsValue_DeepCopyInto_def map_shapes copier_laws)

lemma copier_NetworkPoliciesIngressDefinitions [copier_laws]: "third_party_ok E \<Longrightarrow> deep_copier (ty_NetworkPoliciesIngressDefinitions E) (NetworkPoliciesIngressDefinitions_DeepCopy E)"
  by (simp add: ty_NetworkPoliciesIngressDefinitions_def NetworkPoliciesIngressDefinitions_DeepCopyInto_def NetworkPoliciesIngressDefinitions_DeepCopy_def map_shapes copier_laws)

lemma copier_NetworkPoliciesIngressTo [copier_laws]: "third_party_ok E \<Longrightarrow> deep_copier (ty_NetworkPoliciesIngressTo E) (NetworkPoliciesIngressTo_DeepCopy E)"
  by (simp add: ty_NetworkPoliciesIngressTo_def NetworkPoliciesIngressTo_DeepCopyInto_def NetworkPoliciesIngressTo_DeepCopy_def map_shapes copier_laws)

lemma copier_NetworkPoliciesIngress [copier_laws]: "third_party_ok E \<Longrightarrow> deep_copier (ty_NetworkPoliciesIngress E) (NetworkPoliciesIngress_DeepCopyInto E)"
  by (simp add: ty_NetworkPoliciesIngress_def NetworkPoliciesIngress_DeepCopyInto_def map_shapes copier_laws)

lemma copier_NetworkPolicies [copier_laws]: "third_party_ok E \<Longrightarrow> deep_copier (ty_NetworkPolicies E) (NetworkPolicies_DeepCopyInto E)"
  by (simp add: ty_NetworkPolicies_def NetworkPolicies_DeepCopyInto_def map_shapes copier_laws)

lemma copier_RoutesInbound [copier_laws]: "third_party_ok E \<Longrightarrow> deep_copier (ty_RoutesInbound E) (RoutesInbound_DeepCopy E)"
  by (simp add: ty_RoutesInbound_def RoutesInbound_DeepCopyInto_def RoutesInbound_DeepCopy_def map_shapes copier_laws)

lemma copier_RoutesOutbound [copier_laws]: "third_party_ok E \<Longrightarrow> deep_copier (ty_RoutesOutbound E) (RoutesOutbound_DeepCopy E)"
  by (simp add: ty_RoutesOutbound_def RoutesOutbound_DeepCopyInto_def RoutesOutbound_DeepCopy_def map_shapes copier_laws)

lemma copier_InboundRouteDefaults [copier_laws]: "deep_copier ty_InboundRouteDefaults InboundRouteDefaults_DeepCopyInto"
  by (simp add: ty_InboundRouteDefaults_def InboundRouteDefaults_DeepCopyInto_def map_shapes copier_laws)

lemma copier_RouteDefaults [copier_laws]: "deep_copier ty_RouteDefaults RouteDefaults_DeepCopyInto"
  by (simp add: ty_RouteDefaults_def RouteDefaults_DeepCopyInto_def map_shapes copier_laws)

lemma copier_Routes [copier_laws]: "third_party_ok E \<Longrightarrow> deep_copier (ty_Routes E) (Routes_DeepCopyInto E)"
  by (simp add: ty_Routes_def Routes_DeepCopyInto_def map_shapes copier_laws)

lemma copier_RoutePassthrough [copier_laws]: "deep_copier ty_RoutePassthrough RoutePassthrough_DeepCopyInto"
  by (simp add: ty_RoutePassthrough_def RoutePassthrough_DeepCopyInto_def map_shapes copier_laws)

lemma copier_InboundRoute [copier_laws]: "third_party_ok E \<Longrightarrow> deep_copier (ty_InboundRoute E) (InboundRoute_DeepCopyInto E)"
  by (simp add: ty_InboundRoute_def InboundRoute_DeepCopyInto_def map_shapes copier_laws)

lemma copier_OutboundRoutePort [copier_laws]: "deep_copier ty_OutboundRoutePort OutboundRoutePort_DeepCopyInto"
  by (simp add: ty_OutboundRoutePort_def OutboundRoutePort_DeepCopyInto_def map_shapes copier_laws)

lemma copier_RouteMetadata [copier_laws]: "deep_copier ty_RouteMetadata RouteMetadata_DeepCopyInto"
  by (simp add: ty_RouteMetadata_def RouteMetadata_DeepCopyInto_def map_shapes copier_laws)

lemma copier_OutboundRoute [copier_laws]: "deep_copier ty_OutboundRoute OutboundRoute_DeepCopyInto"
  by (simp add: ty_OutboundRoute_def OutboundRoute_DeepCopyInto_def map_shapes copier_laws)

lemma copier_PackageSpec [copier_laws]: "third_party_ok E \<Longrightarrow> deep_copier (ty_PackageSpec E) (PackageSpec_DeepCopyInto E)"
  by (simp add: ty_PackageSpec_def PackageSpec_DeepCopyInto_def map_shapes copier_laws)

lemma copier_AppliedResource [copier_laws]: "deep_copier ty_AppliedResource AppliedResource_DeepCopyInto"
  by (simp add: ty_AppliedResource_def AppliedResource_DeepCopyInto_def map_shapes copier_laws)

lemma copier_PackageStatus [copier_laws]: "third_party_ok E \<Longrightarrow> deep_copier (ty_PackageStatus E) (PackageStatus_DeepCopyInto E)"
  by (simp add: ty_PackageStatus_def PackageStatus_DeepCopyInto_def map_shapes copier_laws)

lemma copier_Package [copier_laws]: "third_party_ok E \<Longrightarrow> deep_copier (ty_Package E) (Package_DeepCopyInto E)"
  by (simp add: ty_Package_def Package_DeepCopyInto_def map_shapes copier_laws)

lemma copier_PackageList [copier_laws]: "third_party_ok E \<Longrightarrow> deep_copier (ty_PackageList E) (PackageList_DeepCopyInto E)"
  by (simp add: ty_PackageList_def PackageList_DeepCopyInto_def map_shapes copier_laws)

section \<open>Packages\<close>

lemma copier_DeepCopyObject:
  "third_party_ok E \<Longrightarrow> deep_copier (TPtr (ty_Package E)) (Package_DeepCopyObject E)"
  "third_party_ok E \<Longrightarrow> deep_copier (TPtr (ty_PackageList E)) (PackageList_DeepCopyObject E)"
proof -
  have "Package_DeepCopyObject E = Package_DeepCopy E" "PackageList_DeepCopyObject E = PackageList_DeepCopy E"
    by (auto simp: fun_eq_iff Package_DeepCopyObject_def PackageList_DeepCopyObject_def split: option.splits)
  then show "third_party_ok E \<Longrightarrow> deep_copier (TPtr (ty_Package E)) (Package_DeepCopyObject E)"
    "third_party_ok E \<Longrightarrow> deep_copier (TPtr (ty_PackageList E)) (PackageList_DeepCopyObject E)"
    by (simp_all add: Package_DeepCopy_def PackageList_DeepCopy_def copier_laws)
qed

interpretation passthrough_copy: deep_copier ty_RoutePassthrough RoutePassthrough_DeepCopyInto
  by (rule copier_RoutePassthrough)

interpretation outbound_copy: deep_copier ty_OutboundRoute OutboundRoute_DeepCopyInto
  by (rule copier_OutboundRoute)

text \<open>C14: Copying a package never fails and shares nothing: the copy reads like the package, no sequence of writes to memory that existed before
  shows in the copy, and no sequence of writes to the memory of the copy shows in the package.\<close>

theorem DeepCopyObject_separate:
  assumes "third_party_ok E" "view (TPtr (ty_Package E)) h p = Some d"
  shows "\<exists>p' ext. Package_DeepCopyObject E p h = Some (p', h @ ext) \<and> view (TPtr (ty_Package E)) (h @ ext) p' = Some d \<and>
    (\<forall>ws. list_all (\<lambda>(a, c). a < length h) ws \<longrightarrow> view (TPtr (ty_Package E)) (writes ws (h @ ext)) p' = Some d) \<and>
    (\<forall>ws. list_all (\<lambda>(a, c). length h \<le> a) ws \<longrightarrow> view (TPtr (ty_Package E)) (writes ws (h @ ext)) p = Some d)"
  using deep_copier.writes_apart [OF copier_DeepCopyObject(1) [OF assms(1)] assms(2)] by metis

text \<open>Types of other packages, with the fields the operator reads, and a package in memory whose custom ServiceEntry has labels.\<close>

definition sample_third_party :: third_party where
  "sample_third_party = \<lparr>
     tyJSON = TStruct [(''Raw'', TSlice TBase)], dcJSON = copy_struct [(''Raw'', copy_slice copy_val)],
     tyIntOrString = TStruct [(''Type'', TBase), (''IntVal'', TBase), (''StrVal'', TBase)],
     tyTypeMeta = TStruct [(''Kind'', TBase), (''APIVersion'', TBase)],
     tyObjectMeta = TStruct [(''Name'', TBase), (''Labels'', TMap TBase)], dcObjectMeta = copy_struct [(''Labels'', copy_map copy_val)],
     tyListMeta = TStruct [(''ResourceVersion'', TBase)], dcListMeta = copy_struct [],
     tyCondition = TStruct [(''Type'', TBase), (''Status'', TBase)], dcCondition = copy_struct []\<rparr>"

lemma sample_third_party_ok: "third_party_ok sample_third_party"
  by (simp add: third_party_ok_def sample_third_party_def copier_laws)

definition sample_memory :: heap where
  "sample_memory = [
     Table [(''team'', GBase (BString ''a''))],
     Array [GStruct [(''Annotations'', GMap None), (''Labels'', GMap (Some 0)), (''Name'', GBase (BString ''ext'')), (''Spec'', GMap None)]],
     Value (GStruct [(''Custom'', GSlice (Some 1))]),
     Value (GStruct [(''Ambient'', GPtr None), (''AuthorizationPolicies'', GPtr None), (''Enabled'', GBase (BBool True)), (''Mtls'', GPtr None),
       (''PrependReleaseName'', GBase (BBool False)), (''ServiceEntries'', GPtr (Some 2)), (''Sidecar'', GPtr None)]),
     Value (GStruct [
       (''TypeMeta'', GStruct [(''Kind'', GBase (BString ''Package'')), (''APIVersion'', GBase (BString ''bigbang.dev/v1alpha1''))]),
       (''ObjectMeta'', GStruct [(''Name'', GBase (BString ''my-app'')), (''Labels'', GMap None)]),
       (''Spec'', GStruct [(''Istio'', GPtr (Some 3)), (''NetworkPolicies'', GPtr None), (''Routes'', GPtr None)]),
       (''Status'', GStruct [(''ObservedGeneration'', GBase (BInt 1)), (''Conditions'', GSlice None), (''AppliedResources'', GSlice None)])])]"

theorem DeepCopyObject_separate_witness:
  "\<exists>d p' ext. view (TPtr (ty_Package sample_third_party)) sample_memory (GPtr (Some 4)) = Some d \<and>
     Package_DeepCopyObject sample_third_party (GPtr (Some 4)) sample_memory = Some (p', sample_memory @ ext) \<and>
     view (TPtr (ty_Package sample_third_party)) (writes [(0, Table [])] (sample_memory @ ext)) p' = Some d"
proof -
  have "view (TPtr (ty_Package sample_third_party)) sample_memory (GPtr (Some 4)) \<noteq> None \<and> 0 < length sample_memory" by code_simp
  then obtain d where d: "view (TPtr (ty_Package sample_third_party)) sample_memory (GPtr (Some 4)) = Some d" "0 < length sample_memory" by blast
  have "list_all (\<lambda>(a, c). a < length sample_memory) [(0, Table [])]" using d(2) by simp
  with DeepCopyObject_separate [OF sample_third_party_ok d(1)] d(1) show ?thesis by metis
qed

end
