(* ===== verification/Label_Sharing.thy ===== *)
theory Label_Sharing
  imports Go_Memory Generator
begin

text \<open>
  \<open>stampMetadata\<close> with the label maps in memory: it writes into the map an object has, which a custom object shares with the package it was
  made from, and which two objects may share. The theorem is that the objects read as if every one had a map of its own, which
  is how the other theories treat them.
\<close>

text \<open>A \<open>map[string]string\<close> as a cell.\<close>

definition string_table :: "(string \<times> string) list \<Rightarrow> cell" where
  "string_table kvs = Table (map (\<lambda>(k, v). (k, GBase (BString v))) kvs)"

definition has_label :: "heap \<Rightarrow> addr \<Rightarrow> string \<Rightarrow> bool" where
  "has_label h a k = (case load h a of Some (Table kvs) \<Rightarrow> map_of kvs k \<noteq> None | _ \<Rightarrow> False)"

definition put_label :: "addr \<Rightarrow> string \<Rightarrow> string \<Rightarrow> heap \<Rightarrow> heap" where
  "put_label a k v h = (case load h a of Some (Table kvs) \<Rightarrow> h[a := Table (AList.update k (GBase (BString v)) kvs)] | _ \<Rightarrow> h)"

text \<open>The label map of one object, nil or an address: where it is afterwards.\<close>

definition stamp_in_place :: "package \<Rightarrow> addr option \<Rightarrow> heap \<Rightarrow> addr \<times> heap" where
  "stamp_in_place pkg labels h =
     (let (a, h) = (case labels of None \<Rightarrow> (length h, h @ [Table []]) | Some a \<Rightarrow> (a, h));
          h = (if \<not> has_label h a LabelManagedBy then put_label a LabelManagedBy FieldManager h else h)
      in (a, put_label a LabelPackage (pkgName pkg) h))"

text \<open>\<open>for _, obj := range out { stampMetadata(pkg, obj) }\<close>.\<close>

fun stamp_all :: "package \<Rightarrow> addr option list \<Rightarrow> heap \<Rightarrow> addr list \<times> heap" where
  "stamp_all pkg [] h = ([], h)"
| "stamp_all pkg (r # rs) h =
     (let (a, h) = stamp_in_place pkg r h; (as, h) = stamp_all pkg rs h in (a # as, h))"

definition labels_at :: "heap \<Rightarrow> addr option \<Rightarrow> string gomap \<Rightarrow> bool" where
  "labels_at h r m = (case (r, m) of
       (None, None) \<Rightarrow> True
     | (Some a, Some kvs) \<Rightarrow> load h a = Some (string_table kvs)
     | _ \<Rightarrow> False)"

section \<open>One object\<close>

lemma string_table_simps:
  "map_of (map (\<lambda>(k, v). (k, GBase (BString v))) kvs) k = map_option (\<lambda>v. GBase (BString v)) (map_of kvs k)"
  "AList.update k (GBase (BString v)) (map (\<lambda>(k, v). (k, GBase (BString v))) kvs) = map (\<lambda>(k, v). (k, GBase (BString v))) (AList.update k v kvs)"
  by (induction kvs) auto

lemma load_update: "load (h[a := c]) b = (if a = b \<and> b < length h then Some c else load h b)"
  by (simp add: load_def)

lemma put_label_table:
  assumes "load h a = Some (string_table kvs)"
  shows "load (put_label a k v h) b = (if a = b then Some (string_table (AList.update k v kvs)) else load h b)"
  using assms load_SomeD [OF assms] by (auto simp: put_label_def string_table_def string_table_simps load_update)

lemma has_label_table: "load h a = Some (string_table kvs) \<Longrightarrow> has_label h a k \<longleftrightarrow> map_of kvs k \<noteq> None"
  by (simp add: has_label_def string_table_def string_table_simps)

definition stamp_table :: "package \<Rightarrow> (string \<times> string) list \<Rightarrow> (string \<times> string) list" where
  "stamp_table pkg kvs = the (stamp_labels pkg (Some kvs))"

lemma stamp_labels_table: "stamp_labels pkg m = Some (stamp_table pkg (entries m))"
  by (cases m) (simp_all add: stamp_table_def stamp_labels_def Let_def)

lemma stamp_table_idem [simp]: "stamp_table pkg (stamp_table pkg kvs) = stamp_table pkg kvs"
  using stamp_labels_idem [of pkg "Some kvs"] by (simp add: stamp_labels_table)

text \<open>How a pass of the loop changes memory: every label map stays as it is or is stamped.\<close>

definition stamps :: "package \<Rightarrow> heap \<Rightarrow> heap \<Rightarrow> bool" where
  "stamps pkg h h' \<longleftrightarrow> (\<forall>a kvs. load h a = Some (string_table kvs) \<longrightarrow>
     load h' a = Some (string_table kvs) \<or> load h' a = Some (string_table (stamp_table pkg kvs)))"

lemma stamps_trans: "stamps pkg h h' \<Longrightarrow> stamps pkg h' h'' \<Longrightarrow> stamps pkg h h''"
  unfolding stamps_def by (metis stamp_table_idem)

lemma string_table_inject [simp]: "string_table kvs = string_table kvs' \<longleftrightarrow> kvs = kvs'"
  by (auto simp: string_table_def inj_map_eq_map inj_on_def)

lemma stamp_in_place_table:
  assumes "load h a = Some (string_table kvs)" "stamp_in_place pkg (Some a) h = (a', h')"
  shows "a' = a" "load h' b = (if b = a then Some (string_table (stamp_table pkg kvs)) else load h b)"
proof -
  show "a' = a" using assms(2) by (simp add: stamp_in_place_def Let_def)
  let ?h = "if \<not> has_label h a LabelManagedBy then put_label a LabelManagedBy FieldManager h else h"
  let ?kvs = "if map_of kvs LabelManagedBy = None then AList.update LabelManagedBy FieldManager kvs else kvs"
  have "load ?h b = (if b = a then Some (string_table ?kvs) else load h b)" for b
    using assms(1) by (auto simp: has_label_table [OF assms(1)] put_label_table [OF assms(1)])
  moreover have "h' = put_label a LabelPackage (pkgName pkg) ?h" using assms(2) by (auto simp: stamp_in_place_def Let_def)
  moreover have "stamp_table pkg kvs = AList.update LabelPackage (pkgName pkg) ?kvs"
    by (simp add: stamp_table_def stamp_labels_def gput_def glookup_def Let_def)
  ultimately show "load h' b = (if b = a then Some (string_table (stamp_table pkg kvs)) else load h b)"
    using put_label_table [of ?h a ?kvs] by auto
qed

lemma stamp_in_place_spec:
  assumes "labels_at h r m" "stamp_in_place pkg r h = (a, h')"
  shows "stamps pkg h h'" "load h' a = Some (string_table (stamp_table pkg (entries m)))"
proof -
  have "stamps pkg h h' \<and> load h' a = Some (string_table (stamp_table pkg (entries m)))"
  proof (cases r)
    case None
    let ?h = "h @ [string_table []]"
    have m: "m = None" using assms(1) by (auto simp: None labels_at_def split: option.splits)
    have st: "stamp_in_place pkg (Some (length h)) ?h = (a, h')" using assms(2) by (auto simp: None stamp_in_place_def string_table_def)
    have l: "load ?h (length h) = Some (string_table [])" by simp
    note s = stamp_in_place_table [OF l st]
    have "load h b = Some c \<Longrightarrow> load h' b = Some c" for b c
      using s(2) [of b] load_SomeD [of h b c] load_extend [of h b c] by auto
    with s(1) s(2) [of "length h"] m show ?thesis by (simp add: stamps_def)
  next
    case (Some b)
    then obtain kvs where m: "m = Some kvs" and l: "load h b = Some (string_table kvs)" using assms(1) by (auto simp: labels_at_def split: option.splits)
    from stamp_in_place_table [OF l assms(2) [unfolded Some]] l m show ?thesis by (auto simp: stamps_def)
  qed
  then show "stamps pkg h h'" "load h' a = Some (string_table (stamp_table pkg (entries m)))" by blast+
qed

section \<open>All objects\<close>

text \<open>The maps of the objects still to come may have been stamped already.\<close>

definition stamped_or :: "package \<Rightarrow> heap \<Rightarrow> addr option \<Rightarrow> string gomap \<Rightarrow> bool" where
  "stamped_or pkg h r m \<longleftrightarrow> labels_at h r m \<or> m \<noteq> None \<and> labels_at h r (stamp_labels pkg m)"

lemma stamped_or_stamps: "stamped_or pkg h r m \<Longrightarrow> stamps pkg h h' \<Longrightarrow> stamped_or pkg h' r m"
proof (cases r)
  case (Some a)
  assume "stamped_or pkg h r m" and st: "stamps pkg h h'"
  then obtain kvs where m: "m = Some kvs" and
    l: "load h a = Some (string_table kvs) \<or> load h a = Some (string_table (stamp_table pkg kvs))"
    by (auto simp: stamped_or_def labels_at_def stamp_labels_table Some split: option.splits)
  from l st have "load h' a = Some (string_table kvs) \<or> load h' a = Some (string_table (stamp_table pkg kvs))"
    unfolding stamps_def using stamp_table_idem by metis
  then show ?thesis by (simp add: stamped_or_def labels_at_def stamp_labels_table Some m)
qed (auto simp: stamped_or_def labels_at_def stamp_labels_table split: option.splits)

lemma stamp_all_stamps:
  "list_all2 (stamped_or pkg h) rs ms \<Longrightarrow> stamp_all pkg rs h = (as, h') \<Longrightarrow>
     stamps pkg h h' \<and> list_all2 (\<lambda>a m. labels_at h' (Some a) (stamp_labels pkg m)) as ms"
proof (induction rs arbitrary: ms h as)
  case (Cons r rs)
  then obtain m ms' where ms: "ms = m # ms'" "stamped_or pkg h r m" "list_all2 (stamped_or pkg h) rs ms'" by (auto simp: list_all2_Cons1)
  obtain a h1 where a: "stamp_in_place pkg r h = (a, h1)" by fastforce
  obtain as' where as: "stamp_all pkg rs h1 = (as', h')" "as = a # as'" using Cons.prems(2) a by (auto split: prod.splits)
  from ms(2) obtain m' where m': "labels_at h r m'" "stamp_labels pkg m' = stamp_labels pkg m" unfolding stamped_or_def by fastforce
  note s = stamp_in_place_spec [OF m'(1) a]
  have "list_all2 (stamped_or pkg h1) rs ms'" using ms(3) by (rule list_all2_mono) (rule stamped_or_stamps [OF _ s(1)])
  from Cons.IH [OF this as(1)] have ih: "stamps pkg h1 h'" "list_all2 (\<lambda>a m. labels_at h' (Some a) (stamp_labels pkg m)) as' ms'" by blast+
  have "load h' a = Some (string_table (stamp_table pkg (entries m')))" using ih(1) s(2) unfolding stamps_def by fastforce
  then have "labels_at h' (Some a) (stamp_labels pkg m)" using m'(2) by (simp add: labels_at_def stamp_labels_table)
  with ih stamps_trans [OF s(1) ih(1)] show ?case by (simp add: ms(1) as(2))
qed (auto simp: stamps_def)

text \<open>C15: Sharing label maps is not observable: however the objects of a package share their maps with each other and with the package, stamping
  them one after the other in place leaves each with the labels that stamping a map of its own would give.\<close>

theorem stamping_shared_maps:
  assumes "list_all2 (labels_at h) rs ms" "stamp_all pkg rs h = (as, h')"
  shows "list_all2 (\<lambda>a m. labels_at h' (Some a) (stamp_labels pkg m)) as ms"
proof -
  have "list_all2 (stamped_or pkg h) rs ms" using assms(1) by (rule list_all2_mono) (simp add: stamped_or_def)
  from stamp_all_stamps [OF this assms(2)] show ?thesis by blast
qed

text \<open>Two objects that share a map with the package, and one without labels.\<close>

theorem stamping_shared_maps_witness:
  "\<exists>h'. stamp_all sample_package [Some 0, None, Some 0] [string_table [(''team'', ''a'')]] = ([0, 1, 0], h') \<and>
     labels_at h' (Some 0) (stamp_labels sample_package (Some [(''team'', ''a'')])) \<and> labels_at h' (Some 1) (stamp_labels sample_package None)"
proof -
  let ?h = "[string_table [(''team'', ''a'')]]" and ?ms = "[Some [(''team'', ''a'')], None, Some [(''team'', ''a'')]]"
  have "fst (stamp_all sample_package [Some 0, None, Some 0] ?h) = [0, 1, 0]" by code_simp
  then obtain h' where s: "stamp_all sample_package [Some 0, None, Some 0] ?h = ([0, 1, 0], h')" by (metis prod.collapse)
  have "list_all2 (labels_at ?h) [Some 0, None, Some 0] ?ms" by (simp add: labels_at_def load_def)
  from stamping_shared_maps [OF this s] s show ?thesis by simp
qed

end
