(* ===== verification/Metrics.thy ===== *)
theory Metrics
  imports Complex_Main System
begin

text \<open>
  The metrics of the operator (\<open>internal/controller/metrics.go\<close>): the collectors and their registration, and the
  accounting that holds between them over the life of the process.
\<close>

section \<open>Collectors\<close>

text \<open>Name, help text, the bounds of the buckets, and the names of the labels.\<close>

datatype collector =
    CounterVec string string "string list"
  | HistogramVec string string "rat list" "string list"
  | GaugeVec string string "string list"

definition reconcileTotal_vec :: collector where
  "reconcileTotal_vec = CounterVec ''bigbang_operator_reconcile_total''
     ''Total Package reconciliations completed, partitioned by outcome.'' [''namespace'', ''name'', ''outcome'']"

definition reconcileDurationSeconds_vec :: "(rat \<Rightarrow> rat \<Rightarrow> nat \<Rightarrow> rat list) \<Rightarrow> collector" where
  "reconcileDurationSeconds_vec ExponentialBuckets =
     HistogramVec ''bigbang_operator_reconcile_duration_seconds''
       ''Wall-clock time spent in Reconcile, including apply + prune + status update.'' (ExponentialBuckets (1 / 100) 2 12) [''namespace'', ''name'']"

definition appliedResources_vec :: collector where
  "appliedResources_vec = GaugeVec ''bigbang_operator_applied_resources''
     ''Number of child objects emitted on the last successful reconcile.'' [''namespace'', ''name'']"

text \<open>The init function; \<open>MustRegister\<close> and \<open>ExponentialBuckets\<close> are the metrics library's.\<close>

definition init_metrics :: "(rat \<Rightarrow> rat \<Rightarrow> nat \<Rightarrow> rat list) \<Rightarrow> (collector list \<Rightarrow> 'g \<Rightarrow> 'g res) \<Rightarrow> 'g \<Rightarrow> 'g res" where
  "init_metrics ExponentialBuckets MustRegister registry =
     MustRegister [reconcileTotal_vec, reconcileDurationSeconds_vec ExponentialBuckets, appliedResources_vec] registry"

text \<open>As the library documents them, the buckets end at 20.48 seconds.\<close>

lemma duration_buckets_end:
  assumes "\<And>start factor count. ExponentialBuckets start factor count = map (\<lambda>i. start * factor ^ i) [0..<count]"
  shows "\<exists>name help bs labels. reconcileDurationSeconds_vec ExponentialBuckets = HistogramVec name help bs labels \<and>
    length bs = 12 \<and> hd bs = 1 / 100 \<and> last bs = 512 / 25 \<and> sorted bs"
proof -
  have "[0..<12] = [0, 1, 2, 3, 4, 5, 6, 7, 8, 9, 10, 11 :: nat]" by code_simp
  then show ?thesis by (simp add: reconcileDurationSeconds_vec_def assms)
qed

section \<open>Accounting\<close>

text \<open>The outcome labels of \<open>reconcileTotal\<close>.\<close>

definition outcomes :: "string list" where
  "outcomes = [outcomeSuccess, outcomeGenerationFailed, outcomeApplyFailed, outcomePruneFailed]"

lemma outcome_labels: "distinct outcomes" "outcomeSuccess \<in> set outcomes"
  by (simp_all add: outcomes_def outcomeSuccess_def outcomeGenerationFailed_def outcomeApplyFailed_def outcomePruneFailed_def)

definition accounted_at :: "metrics \<Rightarrow> string \<Rightarrow> string \<Rightarrow> bool" where
  "accounted_at m ns n \<longleftrightarrow>
     reconcileDurationSeconds m (ns, n) = (\<Sum>oc\<leftarrow>outcomes. reconcileTotal m (ns, n, oc)) \<and>
     (\<forall>oc. oc \<notin> set outcomes \<longrightarrow> reconcileTotal m (ns, n, oc) = 0) \<and>
     (appliedResources m (ns, n) = None \<longleftrightarrow> reconcileTotal m (ns, n, outcomeSuccess) = 0)"

definition accounted :: "metrics \<Rightarrow> bool" where
  "accounted m \<longleftrightarrow> (\<forall>ns n. accounted_at m ns n)"

text \<open>One pass, seen from the metrics: one outcome, and with the success outcome a value for the gauge.\<close>

definition counted :: "package \<Rightarrow> string \<Rightarrow> metrics \<Rightarrow> metrics \<Rightarrow> bool" where
  "counted pkg oc m m' \<longleftrightarrow> oc \<in> set outcomes \<and>
     (if oc = outcomeSuccess then \<exists>k. m' = gauge pkg k (count_outcome pkg oc m) else m' = count_outcome pkg oc m)"

lemma sum_list_Suc_at:
  fixes f :: "'a \<Rightarrow> nat"
  assumes "distinct xs" "x \<in> set xs"
  shows "sum_list (map (f(x := Suc (f x))) xs) = Suc (sum_list (map f xs))"
  using assms by (induction xs) auto

lemma counted_simps:
  assumes "counted pkg oc m m1"
  shows "reconcileTotal (observe p m1) = (reconcileTotal m)((pkgNamespace pkg, pkgName pkg, oc) := Suc (reconcileTotal m (pkgNamespace pkg, pkgName pkg, oc)))"
    "reconcileDurationSeconds (observe p m1) = (reconcileDurationSeconds m)(pkg_key p := Suc (reconcileDurationSeconds m (pkg_key p)))"
    "appliedResources (observe p m1) k = None \<longleftrightarrow> appliedResources m k = None \<and> (oc \<noteq> outcomeSuccess \<or> k \<noteq> pkg_key pkg)"
  using assms by (auto simp: counted_def observe_def count_outcome_def gauge_def pkg_key_def split: if_splits)

lemma accounted_counted:
  assumes "accounted m" "counted pkg oc m m1" "pkg_key p = pkg_key pkg"
  shows "accounted (observe p m1)"
  unfolding accounted_def
proof (intro allI)
  fix ns n
  have oc: "oc \<in> set outcomes" using assms(2) by (simp add: counted_def)
  note at = assms(1) [unfolded accounted_def, rule_format, of ns n, unfolded accounted_at_def]
  have key: "pkg_key p = (pkgNamespace pkg, pkgName pkg)" "pkg_key pkg = (pkgNamespace pkg, pkgName pkg)"
    using assms(3) by (simp_all add: pkg_key_def)
  show "accounted_at (observe p m1) ns n"
  proof (cases "(ns, n) = pkg_key p")
    case True
    then have ns: "ns = pkgNamespace pkg" "n = pkgName pkg" by (simp_all add: key)
    have "(\<lambda>y. reconcileTotal (observe p m1) (ns, n, y)) =
        (\<lambda>y. reconcileTotal m (ns, n, y))(oc := Suc (reconcileTotal m (ns, n, oc)))"
      by (auto simp: counted_simps [OF assms(2)] ns)
    with sum_list_Suc_at [OF outcome_labels(1) oc, of "\<lambda>y. reconcileTotal m (ns, n, y)"] at oc show ?thesis
      unfolding accounted_at_def counted_simps [OF assms(2)] by (auto simp: key ns)
  qed (use at in \<open>auto simp: accounted_at_def counted_simps [OF assms(2)] key\<close>)
qed

section \<open>Runs\<close>

lemma reconcile_package_counted:
  assumes "package_laws r P" "reconcile_package X r pkg w m = (res, pkg', w', m')" "safe res"
  shows "pkg_key pkg' = pkg_key pkg" "\<exists>oc. counted pkg oc m m' \<and> (res = Inr () \<longrightarrow> oc = outcomeSuccess)"
proof -
  have f: "markFailed (rcClient r) pkg reason err v = (x, q, v') \<Longrightarrow> pkg_key q = pkg_key pkg \<and> x \<noteq> Inr ()" for reason err v x q v'
    using markFailed_stores [OF assms(1)] by fastforce
  have d: "markReady (rcClient r) pkg objs v = (x, q, v') \<Longrightarrow> pkg_key q = pkg_key pkg" for objs v x q v'
    using markReady_stores [OF assms(1)] by fastforce
  have o: "counted pkg outcomeGenerationFailed m (count_outcome pkg outcomeGenerationFailed m)"
    "counted pkg outcomeApplyFailed m (count_outcome pkg outcomeApplyFailed m)"
    "counted pkg outcomePruneFailed m (count_outcome pkg outcomePruneFailed m)"
    "counted pkg outcomeSuccess m (gauge pkg k (count_outcome pkg outcomeSuccess m))" for k
    by (auto simp: counted_def outcomes_def outcomeSuccess_def outcomeGenerationFailed_def outcomeApplyFailed_def outcomePruneFailed_def)
  show "pkg_key pkg' = pkg_key pkg" "\<exists>oc. counted pkg oc m m' \<and> (res = Inr () \<longrightarrow> oc = outcomeSuccess)"
    using assms(2,3) unfolding reconcile_package_def Let_def
    by (auto dest!: f d intro: o split: sum.splits prod.splits if_splits)
qed

text \<open>
  The life of the process: it starts with empty metrics, others change the cluster at any moment, and it reconciles in any order. Its own
  passes are the only writers of the metrics.
\<close>

inductive runs :: "ext \<Rightarrow> 'w reconciler \<Rightarrow> 'w \<Rightarrow> metrics \<Rightarrow> bool" for X r where
  start: "runs X r w no_metrics"
| other: "runs X r w m \<Longrightarrow> runs X r w' m"
| pass: "runs X r w m \<Longrightarrow> (\<And>pkg. clGetPackage (rcClient r) w ns n = Inr pkg \<Longrightarrow> ingress_ports_bounded (psNetworkPolicies (pkgSpec pkg))) \<Longrightarrow>
    Reconcile X r ns n (w, m) = (res, w', m') \<Longrightarrow> runs X r w' m'"

lemma Reconcile_counted:
  assumes "ext_returns X" "api_returns r" "package_laws r P"
    and "\<And>pkg. clGetPackage (rcClient r) w ns n = Inr pkg \<Longrightarrow> ingress_ports_bounded (psNetworkPolicies (pkgSpec pkg))"
    and R: "Reconcile X r ns n (w, m) = (res, w', m')"
  shows "m' = m \<or> (\<exists>pkg p oc m1. pkg_key pkg = (ns, n) \<and> pkg_key p = (ns, n) \<and> counted pkg oc m m1 \<and>
    (res = Inr () \<longrightarrow> oc = outcomeSuccess) \<and> m' = observe p m1)"
proof (cases "\<exists>pkg. clGetPackage (rcClient r) w ns n = Inr pkg \<and> \<not> pkgDeleting pkg")
  case False
  then show ?thesis using R by (auto simp: Reconcile_def Let_def split: sum.splits)
next
  case True
  then obtain pkg where pkg: "clGetPackage (rcClient r) w ns n = Inr pkg" "\<not> pkgDeleting pkg" by blast
  from assms(3) pkg R show ?thesis
  proof (cases rule: Reconcile_cases)
    case (pass pkg1 w1 pkg' m1)
    have "safe res"
      using safe_reconcile_package [OF assms(1,2), of pkg1 w1 m] pass_package(1) [OF pass(1)] assms(4) pkg(1) pass(5) by simp
    from reconcile_package_counted [OF assms(3) pass(5) this] pass(2,6) show ?thesis by metis
  qed simp
qed

lemma accounted_start: "accounted no_metrics"
  by (simp add: accounted_def accounted_at_def no_metrics_def sum_list_0)

text \<open>C21: At every moment of the process's life, whatever others do to the cluster and whichever calls fail, the metrics account for
  the passes: per package, the histogram has observed as many passes as the four outcomes have been counted, no other outcome label exists,
  and the gauge has a value exactly when a success was counted.\<close>

theorem metrics_accounted:
  assumes "ext_returns X" "api_returns r" "package_laws r P" "runs X r w m"
  shows "accounted m"
  using assms(4)
proof induction
  case (pass w m ns n res w' m')
  from Reconcile_counted [OF assms(1-3) pass.hyps(2,3)] pass.IH show ?case
    using accounted_counted by metis
qed (simp_all add: accounted_start)

theorem metrics_accounted_witness:
  "\<exists>w' m'. Reconcile sample_ext mem_reconciler ''apps'' ''my-app'' (mem_world, no_metrics) = (Inr (), w', m') \<and> accounted m' \<and>
     reconcileTotal m' (''apps'', ''my-app'', outcomeSuccess) = 1"
proof -
  let ?R = "Reconcile sample_ext mem_reconciler ''apps'' ''my-app'' (mem_world, no_metrics)"
  have "(case ?R of (r, w', m') \<Rightarrow> r = Inr () \<and> reconcileTotal m' (''apps'', ''my-app'', outcomeSuccess) = 1)" by code_simp
  then obtain w' m' where R: "?R = (Inr (), w', m')" "reconcileTotal m' (''apps'', ''my-app'', outcomeSuccess) = 1" by (auto split: prod.splits)
  have "runs sample_ext mem_reconciler w' m'" by (rule pass [OF start mem_ports_bounded R(1)])
  with R show ?thesis using metrics_accounted [OF sample_ext_returns mem_api_returns mem_package_laws] by blast
qed

end
