(* ===== verification/Test_Utils.thy ===== *)
theory Test_Utils
  imports Go_Fmt
begin

text \<open>
  The helpers of the end-to-end tests (\<open>test/utils/utils.go\<close>). The operating system, the programs it runs and the test log are the
  world; what they answer is a parameter.
\<close>

section \<open>The operating system\<close>

record exec_cmd =
  cmdArgs :: "string list"
  cmdDir :: string
  cmdEnv :: "string list"

record 'w os =
  Getwd :: "'w \<Rightarrow> string \<times> gerror option"
  Chdir :: "string \<Rightarrow> 'w \<Rightarrow> gerror option \<times> 'w"
  Environ :: "'w \<Rightarrow> string list"
  LookupEnv :: "string \<Rightarrow> 'w \<Rightarrow> string option"
  CombinedOutput :: "exec_cmd \<Rightarrow> 'w \<Rightarrow> (string \<times> gerror option) \<times> 'w"
  ReadFile :: "string \<Rightarrow> 'w \<Rightarrow> string res"
  WriteFile :: "string \<Rightarrow> string \<Rightarrow> 'w \<Rightarrow> gerror option \<times> 'w"
  GinkgoWriter :: "string \<Rightarrow> 'w \<Rightarrow> 'w"

text \<open>\<open>exec.Command\<close>.\<close>

definition Command :: "string \<Rightarrow> string list \<Rightarrow> exec_cmd" where
  "Command name args = \<lparr>cmdArgs = name # args, cmdDir = [], cmdEnv = []\<rparr>"

definition newline :: string where
  "newline = [CHR 0x0A]"

section \<open>Text\<close>

text \<open>\<open>strings.ReplaceAll\<close> for a needle that is not empty; the counter skips the rest of an occurrence.\<close>

fun replace_from :: "string \<Rightarrow> string \<Rightarrow> nat \<Rightarrow> string \<Rightarrow> string" where
  "replace_from old new k [] = []"
| "replace_from old new (Suc k) (c # s) = replace_from old new k s"
| "replace_from old new 0 (c # s) =
     (if prefix old (c # s) then new @ replace_from old new (length old - 1) s else c # replace_from old new 0 s)"

definition GetNonEmptyLines :: "string \<Rightarrow> string list" where
  "GetNonEmptyLines output = filter (\<lambda>element. element \<noteq> []) (split_on (CHR 0x0A) output)"

text \<open>
  \<open>bufio.Scanner\<close> over a string with \<open>ScanLines\<close>: the lines without their line breaks and without one carriage return at
  the end; an empty last line is none; a line that does not fit the buffer of 64 KiB ends the scan.
\<close>

definition drop_cr :: "string \<Rightarrow> string" where
  "drop_cr line = (if line \<noteq> [] \<and> last line = CHR 0x0D then butlast line else line)"

fun scan_from :: "string list \<Rightarrow> string list" where
  "scan_from [] = []"
| "scan_from [line] = (if line = [] \<or> length line \<ge> 65536 then [] else [drop_cr line])"
| "scan_from (line # rest) = (if length line \<ge> 65536 then [] else drop_cr line # scan_from rest)"

definition ScanLines :: "string \<Rightarrow> string list" where
  "ScanLines s = scan_from (split_on (CHR 0x0A) s)"

section \<open>Running programs\<close>

definition warnError :: "'w os \<Rightarrow> gerror \<Rightarrow> 'w \<Rightarrow> 'w" where
  "warnError sys err w = GinkgoWriter sys (''warning: '' @ error_string err @ newline) w"

definition GetProjectDir :: "'w os \<Rightarrow> 'w \<Rightarrow> string \<times> gerror option" where
  "GetProjectDir sys w =
     (case Getwd sys w of
        (wd, Some err) \<Rightarrow> (wd, Some (wrapf ''failed to get current working directory: %w'' [] err))
      | (wd, None) \<Rightarrow> (replace_from ''/test/e2e'' [] 0 wd, None))"

definition Run :: "'w os \<Rightarrow> exec_cmd \<Rightarrow> 'w \<Rightarrow> (string \<times> gerror option) \<times> 'w" where
  "Run sys cmd w =
     (let dir = fst (GetProjectDir sys w);
          cmd = cmd\<lparr>cmdDir := dir\<rparr>;
          w = (case Chdir sys (cmdDir cmd) w of
                 (Some err, w) \<Rightarrow> GinkgoWriter sys (''chdir dir: '' @ quote (error_string err) @ newline) w
               | (None, w) \<Rightarrow> w);
          cmd = cmd\<lparr>cmdEnv := Environ sys w @ [''GO111MODULE=on'']\<rparr>;
          command = join '' '' (cmdArgs cmd);
          w = GinkgoWriter sys (''running: '' @ quote command @ newline) w
      in case CombinedOutput sys cmd w of
           ((output, Some err), w) \<Rightarrow> ((output, Some (wrapf ''%q failed with error %q: %w'' [command, output] err)), w)
         | ((output, None), w) \<Rightarrow> ((output, None), w))"

definition certmanagerVersion :: string where
  "certmanagerVersion = ''v1.19.1''"

definition certmanagerURLTmpl :: string where
  "certmanagerURLTmpl = ''https://github.com/cert-manager/cert-manager/releases/download/%s/cert-manager.yaml''"

definition run_or_warn :: "'w os \<Rightarrow> exec_cmd \<Rightarrow> 'w \<Rightarrow> 'w" where
  "run_or_warn sys cmd w = (case Run sys cmd w of ((_, Some err), w) \<Rightarrow> warnError sys err w | ((_, None), w) \<Rightarrow> w)"

definition UninstallCertManager :: "'w os \<Rightarrow> 'w \<Rightarrow> 'w" where
  "UninstallCertManager sys w =
     (let url = sprintf certmanagerURLTmpl [certmanagerVersion];
          w = run_or_warn sys (Command ''kubectl'' [''delete'', ''-f'', url]) w
      in foldl (\<lambda>w lease. run_or_warn sys (Command ''kubectl'' [''delete'', ''lease'', lease,
             ''-n'', ''kube-system'', ''--ignore-not-found'', ''--force'', ''--grace-period=0'']) w) w
           [''cert-manager-cainjector-leader-election'', ''cert-manager-controller''])"

definition InstallCertManager :: "'w os \<Rightarrow> 'w \<Rightarrow> gerror option \<times> 'w" where
  "InstallCertManager sys w =
     (let url = sprintf certmanagerURLTmpl [certmanagerVersion]
      in case Run sys (Command ''kubectl'' [''apply'', ''-f'', url]) w of
           ((_, Some err), w) \<Rightarrow> (Some err, w)
         | ((_, None), w) \<Rightarrow>
             (case Run sys (Command ''kubectl'' [''wait'', ''deployment.apps/cert-manager-webhook'', ''--for'', ''condition=Available'',
                  ''--namespace'', ''cert-manager'', ''--timeout'', ''5m'']) w of
                ((_, err), w) \<Rightarrow> (err, w)))"

definition certManagerCRDs :: "string list" where
  "certManagerCRDs = [''certificates.cert-manager.io'', ''issuers.cert-manager.io'', ''clusterissuers.cert-manager.io'',
     ''certificaterequests.cert-manager.io'', ''orders.acme.cert-manager.io'', ''challenges.acme.cert-manager.io'']"

definition IsCertManagerCRDsInstalled :: "'w os \<Rightarrow> 'w \<Rightarrow> bool \<times> 'w" where
  "IsCertManagerCRDsInstalled sys w =
     (case Run sys (Command ''kubectl'' [''get'', ''crds'']) w of
        ((_, Some err), w) \<Rightarrow> (False, w)
      | ((output, None), w) \<Rightarrow>
          (let crdList = GetNonEmptyLines output
           in (list_ex (\<lambda>crd. list_ex (\<lambda>line. contains line crd) crdList) certManagerCRDs, w)))"

definition LoadImageToKindClusterWithName :: "'w os \<Rightarrow> string \<Rightarrow> 'w \<Rightarrow> gerror option \<times> 'w" where
  "LoadImageToKindClusterWithName sys name w =
     (let cluster = (case LookupEnv sys ''KIND_CLUSTER'' w of Some v \<Rightarrow> v | None \<Rightarrow> ''kind'');
          kindOptions = [''load'', ''docker-image'', name, ''--name'', cluster];
          kindBinary = (case LookupEnv sys ''KIND'' w of Some v \<Rightarrow> v | None \<Rightarrow> ''kind'')
      in case Run sys (Command kindBinary kindOptions) w of ((_, err), w) \<Rightarrow> (err, w))"

definition UncommentCode :: "'w os \<Rightarrow> string \<Rightarrow> string \<Rightarrow> string \<Rightarrow> 'w \<Rightarrow> gerror option \<times> 'w" where
  "UncommentCode sys filename target prefx w =
     (case ReadFile sys filename w of
        Inl err \<Rightarrow> (Some (wrapf ''failed to read file %q: %w'' [filename] err), w)
      | Inr content \<Rightarrow>
          (case str_index content target of
             None \<Rightarrow> (Some (Errorf ''unable to find the code %q to be uncomment'' [target]), w)
           | Some idx \<Rightarrow>
               (case ScanLines target of
                  [] \<Rightarrow> (None, w)
                | lines \<Rightarrow>
                    (let out = take idx content @ join newline (map (trim_prefix prefx) lines) @ drop (idx + length target) content
                     in case WriteFile sys filename out w of
                          (Some err, w) \<Rightarrow> (Some (wrapf ''failed to write file %q: %w'' [filename] err), w)
                        | (None, w) \<Rightarrow> (None, w)))))"

section \<open>Laws\<close>

lemma split_on_sublist:
  assumes "x \<notin> set sub" "sub \<noteq> []"
  shows "sublist sub s \<longleftrightarrow> (\<exists>t \<in> set (split_on x s). sublist sub t)"
proof
  assume "sublist sub s"
  then obtain ps ss where s: "s = ps @ sub @ ss" by (auto simp: sublist_def)
  show "\<exists>t \<in> set (split_on x s). sublist sub t"
    unfolding s
  proof (induction ps)
    case Nil
    have "\<exists>t ts. split_on x (sub @ ss) = (sub @ t) # ts" using assms(1)
    proof (induction sub)
      case Nil
      show ?case by (cases "split_on x ss") auto
    qed auto
    then show ?case by auto
  next
    case (Cons c ps)
    then show ?case by (auto split: list.splits simp: sublist_Cons_right)
  qed
next
  assume "\<exists>t \<in> set (split_on x s). sublist sub t"
  then obtain t where "t \<in> set (split_on x s)" "sublist sub t" by blast
  then show "sublist sub s" using sublist_join [of t "split_on x s" "[x]"] by (simp add: join_split_on)
qed

text \<open>The CRDs are found exactly when a name occurs anywhere in the output: no name spans two lines.\<close>

lemma crds_found:
  assumes "Run sys (Command ''kubectl'' [''get'', ''crds'']) w = ((output, None), w')"
  shows "IsCertManagerCRDsInstalled sys w = (list_ex (contains output) certManagerCRDs, w')"
proof -
  have crd: "(\<exists>line \<in> set (GetNonEmptyLines output). sublist crd line) \<longleftrightarrow> sublist crd output" if "crd \<in> set certManagerCRDs" for crd
  proof -
    have "CHR 0x0A \<notin> set crd" "crd \<noteq> []" using that by (auto simp: certManagerCRDs_def)
    with split_on_sublist [of "CHR 0x0A" crd "output"] show ?thesis by (auto simp: GetNonEmptyLines_def)
  qed
  show ?thesis by (simp add: IsCertManagerCRDsInstalled_def assms list_ex_iff crd cong: bex_cong)
qed

lemma replace_from_skip: "replace_from old new (length a) (a @ s) = replace_from old new 0 s"
  by (induction a) auto

lemma replace_from_last:
  assumes "old \<noteq> []" "\<not> sublist old (a @ butlast old)"
  shows "replace_from old [] 0 (a @ old) = a"
  using assms(2)
proof (induction a)
  case Nil
  then show ?case using replace_from_skip [of old "[]" "tl old" "[]"] assms(1) by (cases old) auto
next
  case (Cons c a)
  have "c # a @ old = (c # a @ butlast old) @ [last old]" using assms(1) by simp
  then have "prefix old (c # a @ old) \<longleftrightarrow> old = c # a @ old \<or> prefix old (c # a @ butlast old)"
    by (metis prefix_snoc)
  moreover have "old \<noteq> c # a @ old" by (auto dest: arg_cong [of _ _ length])
  ultimately have "\<not> prefix old (c # a @ old)" using Cons.prems by (auto simp: sublist_Cons_right)
  with Cons show ?case by (auto simp: sublist_Cons_right)
qed

text \<open>From the directory of the end-to-end tests the project's directory is found, for a path without another occurrence of its name.\<close>

lemma project_dir:
  assumes "Getwd sys w = (root @ ''/test/e2e'', None)" "\<not> sublist ''/test/e2e'' (root @ ''/test/e2'')"
  shows "GetProjectDir sys w = (root, None)"
  using assms(1) replace_from_last [of "''/test/e2e''" root] assms(2) by (simp add: GetProjectDir_def)

lemma scan_lines_join:
  assumes "ls \<noteq> []" "\<And>l. l \<in> set ls \<Longrightarrow> CHR 0x0A \<notin> set l \<and> l \<noteq> [] \<and> last l \<noteq> CHR 0x0D \<and> length l < 65536"
  shows "ScanLines (join newline ls) = ls"
proof -
  have "scan_from ls = ls" using assms
  proof (induction ls rule: scan_from.induct)
    case (3 line l rest)
    from "3.prems"(2) [of line] have "length line < 65536" "last line \<noteq> CHR 0x0D" by simp_all
    then have "\<not> 65536 \<le> length line" "drop_cr line = line" by (simp_all add: drop_cr_def)
    with 3 show ?case by simp
  qed (simp_all add: drop_cr_def not_le)
  then show ?thesis using split_on_join [OF assms(1), of "CHR 0x0A"] assms(2) by (simp add: ScanLines_def newline_def)
qed

text \<open>Uncommenting a block that was commented line by line restores the block and leaves the rest of the file as it was.\<close>

lemma UncommentCode_restores:
  assumes "p \<noteq> []" "ls \<noteq> []"
    and lines: "\<And>l. l \<in> set ls \<Longrightarrow> CHR 0x0A \<notin> set (p @ l) \<and> last (p @ l) \<noteq> CHR 0x0D \<and> length (p @ l) < 65536"
    and target: "target = join newline (map (\<lambda>l. p @ l) ls)"
    and content: "ReadFile sys f w = Inr (pre @ target @ post)" "str_index (pre @ target @ post) target = Some (length pre)"
  shows "UncommentCode sys f target p w =
    (case WriteFile sys f (pre @ join newline ls @ post) w of
       (Some err, w) \<Rightarrow> (Some (wrapf ''failed to write file %q: %w'' [f] err), w) | (None, w) \<Rightarrow> (None, w))"
proof -
  have "ScanLines target = map (\<lambda>l. p @ l) ls"
    unfolding target by (rule scan_lines_join) (use assms(1,2) lines in auto)
  moreover have "map (trim_prefix p) (map (\<lambda>l. p @ l) ls) = ls" by (simp add: o_def trim_prefix_def)
  ultimately show ?thesis using assms(2) content by (cases ls) (auto simp: UncommentCode_def)
qed

text \<open>A target that ends with a line break loses it: the line after the target is joined to its last line.\<close>

lemma UncommentCode_joins_lines:
  "ReadFile sys f w = Inr (''# a'' @ newline @ ''b'') \<Longrightarrow> WriteFile sys f ''ab'' w = (None, w') \<Longrightarrow>
   UncommentCode sys f (''# a'' @ newline) ''# '' w = (None, w')"
  by (simp add: UncommentCode_def newline_def ScanLines_def drop_cr_def trim_prefix_def)

end
