(* ===== verification/Spec2Isabelle.thy ===== *)
theory Spec2Isabelle
  imports Fixpoint Manager Deep_Copy Label_Sharing Metrics Test_Utils
begin

text \<open>
  Big Bang operator: a model of its Go code and of what it guarantees.

  \<^bold>\<open>The program.\<close> A Kubernetes operator for one custom resource, \<open>Package\<close>. A reconcile pass reads a package, computes the objects
  the package stands for (NetworkPolicies, Istio PeerAuthentications, Sidecars, AuthorizationPolicies, VirtualServices and
  ServiceEntries), applies each of them with server-side apply, deletes the objects of the package that are no longer wanted and
  writes the outcome into the status. Everything that decides what is emitted is the pure package \<open>pkg/generator\<close>; everything that
  talks to the API server is \<open>internal/controller\<close>. The two meet in \<open>generator.Generate\<close>, which the controller calls with the package,
  the scheme, the ports of the API server's Service and the definitions, routes and gateways read from a shared ConfigMap.

  \<^bold>\<open>Foundations.\<close> \<open>Prelude\<close>: results with Go errors (\<open>gerror\<close>, \<open>rbind\<close>, \<open>rwrap\<close>), loops with early return, Go maps with the nil map
  kept apart from the empty one, sorted iteration. A panic and an endless loop are error values of their own, so that their absence is a
  theorem (\<open>safe\<close>). \<open>Go_Strings\<close>, \<open>Regexp\<close>, \<open>Net_Cidr\<close>, \<open>Json\<close>, \<open>Go_Fmt\<close>: the parts of the standard library the code calls, with the
  laws used later; \<open>Regexp\<close> matches by derivatives and is proved against the language of a pattern. \<open>Keyed_List\<close>: slices used as
  maps, an interface that owner references and status conditions both implement. \<open>K8s_Objects\<close>: the emitted objects as data, with the
  fields the operator writes. \<open>Api_Types\<close>: \<open>api/v1alpha1\<close>, one record per struct. \<open>Externals\<close>: third-party functions (name and
  selector validators, unmarshallers of Kubernetes and Istio types, YAML) as a record \<open>ext\<close> that every definition using them takes as
  an argument.

  \<^bold>\<open>The generator\<close>, one theory per source file of \<open>pkg/generator\<close> and in its order of use.
  \<^item> \<open>Names\<close> (\<open>names.go\<close>, \<open>util.go\<close>) and \<open>Metadata\<close> (\<open>metadata.go\<close>): resource names, \<open>stampMetadata\<close>, \<open>mergeMaps\<close>.
  \<^item> \<open>Shorthand\<close> and \<open>Shorthand_Values\<close> (\<open>shorthand.go\<close>): the five key parsers, each proved to accept exactly the printed forms of its
    grammar and to recover the parts (interface \<open>key_grammar\<close>); the decoding of the values under the keys.
  \<^item> \<open>Netpol_Core\<close> (\<open>networkpolicies.go\<close>), \<open>Definitions\<close> (\<open>definitions.go\<close>, \<open>globalconfig.go\<close>), \<open>Netpol_Defaults\<close>
    (\<open>networkpolicies_defaults.go\<close>), \<open>Netpol_Shorthand\<close> (\<open>networkpolicies_shorthand.go\<close>), \<open>Hbone\<close> (\<open>hbone.go\<close>): NetworkPolicies.
    \<open>definition_layers\<close> is the contract of a name looked up in package, shared pool and built-in definitions.
  \<^item> \<open>Netpol_Semantics\<close>: what a NetworkPolicy allows, after the Kubernetes API documentation, as a specification of its own; the policies
    made from a key allow exactly what the key says, default-deny isolates, exclusions block, HBONE injection opens one port.
  \<^item> \<open>Istio_Gen\<close> (\<open>istio.go\<close>), \<open>Ingress_Config\<close> (\<open>ingressconfig.go\<close> and the decoding of inbound routes), \<open>Routes\<close> (\<open>routes.go\<close>),
    \<open>Authz\<close> (\<open>authorizationpolicies.go\<close>).
  \<^item> \<open>Generator\<close> (\<open>generator.go\<close>): \<open>Generate\<close> always returns. \<open>Generator_Guarantees\<close>: metadata and kinds of what it returns.
    \<open>Determinism\<close>: its result does not depend on the iteration order of the maps in a package.

  \<^bold>\<open>The controller.\<close> \<open>Api_Client\<close>: the Kubernetes client as functions over an abstract world, and the laws of its object store. \<open>Status\<close>
  (\<open>status.go\<close>): conditions and the transitions between the phases a kstatus reader sees. \<open>Prune\<close> (\<open>prune.go\<close>). \<open>Controller\<close>
  (\<open>package_controller.go\<close>, \<open>metrics.go\<close>): \<open>sharedConfig\<close>, \<open>kubeAPIPorts\<close>, \<open>applyAll\<close>, \<open>packagesForGlobalConfig\<close>, \<open>Reconcile\<close> with the metrics it
  records. \<open>Controller_Laws\<close>: what a pass does to the stored objects and packages. \<open>Memory_Server\<close>: an API server in memory that
  meets the laws, used to apply the theorems. \<open>Controller_Guarantees\<close>: convergence, failing without touching the cluster, return.
  \<open>System\<close>: users and the operator as a step relation, with the invariant of every stored status by rule induction. \<open>Fixpoint\<close>: a
  second pass over a package changes no stored package and creates or deletes no object. \<open>Metrics\<close> (\<open>metrics.go\<close>): the collectors, and that over
  the life of the process they account for every pass.

  \<^bold>\<open>The process.\<close> \<open>Go_Flag\<close>: the package \<open>flag\<close>. \<open>Manager\<close> (\<open>cmd/main.go\<close>): the command line, the options of the servers and of the
  cache, the reconciler \<open>main\<close> builds and the calls it makes; the flags are read back as printed, the exit code says which call failed,
  and cache, watch and reads of the shared ConfigMap agree. \<open>Test_Utils\<close> (\<open>test/utils/utils.go\<close>): the helpers of the end-to-end tests,
  over the operating system as a parameter.

  \<^bold>\<open>Memory.\<close> Elsewhere values are values. \<open>Go_Memory\<close> models pointers, slices and maps as cells of a heap, and the contract of a deep copy as
  the locale \<open>deep_copier\<close>; \<open>Api_Shapes\<close> gives the types of \<open>api/v1alpha1\<close> as shapes in that memory, and \<open>Deep_Copy\<close> every
  function of \<open>zz_generated.deepcopy.go\<close>, each proved to meet the contract. A copied package can be written to without a
  change to the one in the cache, which is what the other theories rely on when they treat the package of a pass as a value of its own.
  \<open>Label_Sharing\<close>: a custom object shares its label map with the package it comes from, and stamping writes into that map; the
  objects read as if each had a map of its own.

  \<^bold>\<open>Correspondence.\<close> Definitions have the names of the Go functions; a loop body or a branch that is a definition of its own has a
  lower-case name with underscores. A struct is a record with a prefix per type, a pointer or an optional field an \<open>option\<close>, a Go map a list
  of entries in iteration order or \<open>None\<close> for nil, a raw JSON field its document. Errors are kept as format and arguments and printed
  by \<open>error_string\<close> where the status needs the text. \<open>int\<close> is 64 bits wide, with the wrap-around written out in the one loop where
  it matters; the numbers of ports in objects are words of 32 bits.

  \<^bold>\<open>Loops.\<close> Every loop but two is a recursion over a list. The parser of the command line takes one or two arguments at a time and has
  a termination proof. The loop that expands a port range counts up and is
  \<open>partial_function (option)\<close>: it ends for every range below the largest integer and is proved not to end for a range that
  reaches it. No fuel is used anywhere.

  \<^bold>\<open>Hypotheses.\<close> \<open>ext_returns\<close>: third-party functions return a value or an error. \<open>third_party_ok\<close>: types of other packages are
  copied deeply, or hold no references. \<open>object_laws\<close> and \<open>package_laws\<close>: the documented
  behaviour of patch, delete, list, get and status update; lists are those of an up-to-date cache whose items carry their type, and
  objects have no finalizers. \<open>config_laws\<close>: these writes do not change the ConfigMap and the Service a
  pass reads. \<open>scheme_ok\<close>: a type belongs to one kind only. That only stale objects are
  deleted and that a pass returns needs none of the store laws. Every theorem with a hypothesis is applied to a concrete input.

  \<^bold>\<open>Not modelled.\<close> The durations the histogram observes; the work queue and the retries of the controller runtime, of which only the
  returned error is seen; log output; the capacity of slices. What the registry, the scheme builder and the controller builder do with what
  they are given is code of other packages.
\<close>



end
